(* ===== verification/Gdriver_Prelude.thy ===== *)
theory Gdriver_Prelude
  imports Main "HOL-Library.State_Monad"
begin

text \<open>
  Shared vocabulary of the development: results (\<^verbatim>\<open>anyhow::Result\<close>), the \<^verbatim>\<open>?\<close> operator over the
  state monad, relational reasoning about state-monad programs, list lemmas for table-shaped data
  (rows selected and updated by a predicate), and string splitting.
\<close>

section \<open>Results\<close>

text \<open>An \<^verbatim>\<open>anyhow::Result<T>\<close>: the left summand is the rendered error.\<close>

type_synonym 'a result = "string + 'a"

definition is_ok :: "'a result \<Rightarrow> bool" where
  "is_ok r = (case r of Inl _ \<Rightarrow> False | Inr _ \<Rightarrow> True)"

lemma is_ok_simps [simp]: "is_ok (Inr x)" "\<not> is_ok (Inl e)"
  by (simp_all add: is_ok_def)

lemma is_ok_iff: "is_ok r \<longleftrightarrow> (\<exists>x. r = Inr x)"
  by (cases r) simp_all

text \<open>The \<^verbatim>\<open>?\<close> operator: continue with the value, return the error to the caller.\<close>

definition tryE :: "('s, 'a result) state \<Rightarrow> ('a \<Rightarrow> ('s, 'b result) state) \<Rightarrow> ('s, 'b result) state" where
  "tryE m k = State_Monad.bind m
     (\<lambda>r. case r of Inl e \<Rightarrow> State_Monad.return (Inl e) | Inr x \<Rightarrow> k x)"

lemma run_tryE [simp]:
  "run_state (tryE m k) s =
     (case run_state m s of (Inl e, s') \<Rightarrow> (Inl e, s') | (Inr x, s') \<Rightarrow> run_state (k x) s')"
  by (simp add: tryE_def split: prod.splits sum.splits)

text \<open>Apply an action to every element of a list in order, ignoring nothing but the results.\<close>

fun for_each :: "'a list \<Rightarrow> ('a \<Rightarrow> ('s, unit) state) \<Rightarrow> ('s, unit) state" where
  "for_each [] f = State_Monad.return ()"
| "for_each (x # xs) f = State_Monad.bind (f x) (\<lambda>_. for_each xs f)"

text \<open>The same loop with a \<^verbatim>\<open>?\<close> in its body: the first error leaves the loop.\<close>

fun try_each :: "'a list \<Rightarrow> ('a \<Rightarrow> ('s, unit result) state) \<Rightarrow> ('s, unit result) state" where
  "try_each [] f = State_Monad.return (Inr ())"
| "try_each (x # xs) f = tryE (f x) (\<lambda>_. try_each xs f)"

section \<open>Relational reasoning about programs\<close>

text \<open>
  \<^const>\<open>state_io_rel\<close> of the library states that a program relates every initial state to its final
  state. For a preorder the statement composes along the monad; \<open>io_preorder\<close> is the interface
  that the component theories extend with the closure of \<open>R\<close> under their primitive steps.
\<close>

named_theorems io_rel "composition rules for state_io_rel"

locale io_preorder =
  fixes R :: "'s \<Rightarrow> 's \<Rightarrow> bool"
  assumes R_refl: "R s s"
    and R_trans: "R s t \<Longrightarrow> R t u \<Longrightarrow> R s u"
begin

lemma io_return [io_rel]: "state_io_rel R (State_Monad.return x)"
  by (simp add: state_io_rel_def R_refl)

lemma io_get [io_rel]: "state_io_rel R State_Monad.get"
  by (simp add: state_io_rel_def R_refl)

lemma io_bind [io_rel]:
  assumes "state_io_rel R m" and "\<And>x. state_io_rel R (f x)"
  shows "state_io_rel R (State_Monad.bind m f)"
  using assms by (auto simp: state_io_rel_def split: prod.splits) (metis R_trans snd_conv)

lemma io_try [io_rel]:
  assumes "state_io_rel R m" and "\<And>x. state_io_rel R (k x)"
  shows "state_io_rel R (tryE m k)"
  unfolding tryE_def
  by (intro io_bind assms) (simp add: io_return assms split: sum.splits)

lemma io_if [io_rel]:
  "(b \<Longrightarrow> state_io_rel R m) \<Longrightarrow> (\<not> b \<Longrightarrow> state_io_rel R n) \<Longrightarrow> state_io_rel R (if b then m else n)"
  by simp

lemma io_case_option [io_rel]:
  "(x = None \<Longrightarrow> state_io_rel R m) \<Longrightarrow> (\<And>y. x = Some y \<Longrightarrow> state_io_rel R (f y)) \<Longrightarrow>
   state_io_rel R (case x of None \<Rightarrow> m | Some y \<Rightarrow> f y)"
  by (cases x) simp_all

lemma io_case_sum [io_rel]:
  "(\<And>e. x = Inl e \<Longrightarrow> state_io_rel R (m e)) \<Longrightarrow> (\<And>y. x = Inr y \<Longrightarrow> state_io_rel R (f y)) \<Longrightarrow>
   state_io_rel R (case x of Inl e \<Rightarrow> m e | Inr y \<Rightarrow> f y)"
  by (cases x) simp_all

lemma io_case_list [io_rel]:
  "(xs = [] \<Longrightarrow> state_io_rel R m) \<Longrightarrow> (\<And>y ys. xs = y # ys \<Longrightarrow> state_io_rel R (f y ys)) \<Longrightarrow>
   state_io_rel R (case xs of [] \<Rightarrow> m | y # ys \<Rightarrow> f y ys)"
  by (cases xs) simp_all

lemma io_case_prod [io_rel]:
  "(\<And>a b. x = (a, b) \<Longrightarrow> state_io_rel R (f a b)) \<Longrightarrow> state_io_rel R (case x of (a, b) \<Rightarrow> f a b)"
  by (cases x) simp

lemma io_let [io_rel]: "(\<And>y. y = x \<Longrightarrow> state_io_rel R (f y)) \<Longrightarrow> state_io_rel R (let y = x in f y)"
  by (simp add: Let_def)

lemma io_for_each [io_rel]: "(\<And>x. state_io_rel R (f x)) \<Longrightarrow> state_io_rel R (for_each xs f)"
  by (induction xs) (simp_all add: io_return io_bind)

lemma io_try_each [io_rel]: "(\<And>x. state_io_rel R (f x)) \<Longrightarrow> state_io_rel R (try_each xs f)"
  by (induction xs) (simp_all add: io_return io_try)

lemma io_run: "state_io_rel R m \<Longrightarrow> R s (snd (run_state m s))"
  by (simp add: state_io_rel_def)

end

section \<open>Rows of a table\<close>

text \<open>\<^verbatim>\<open>UPDATE t SET .. WHERE p\<close>: rewrite the rows that satisfy \<open>p\<close>, in place.\<close>

definition update_where :: "('r \<Rightarrow> bool) \<Rightarrow> ('r \<Rightarrow> 'r) \<Rightarrow> 'r list \<Rightarrow> 'r list" where
  "update_where p f rs = map (\<lambda>r. if p r then f r else r) rs"

lemma update_where_simps [simp]:
  "update_where p f [] = []"
  "update_where p f (r # rs) = (if p r then f r else r) # update_where p f rs"
  by (simp_all add: update_where_def)

lemma length_update_where [simp]: "length (update_where p f rs) = length rs"
  by (simp add: update_where_def)

lemma update_where_append [simp]:
  "update_where p f (rs @ ss) = update_where p f rs @ update_where p f ss"
  by (simp add: update_where_def)

lemma update_where_id: "(\<And>r. r \<in> set rs \<Longrightarrow> \<not> p r) \<Longrightarrow> update_where p f rs = rs"
  by (induction rs) auto

lemma filter_update_where:
  "(\<And>r. u r \<Longrightarrow> \<not> p (f r)) \<Longrightarrow> filter p (update_where u f rs) = filter (\<lambda>r. \<not> u r) (filter p rs)"
  by (induction rs) auto

lemma map_update_where:
  "(\<And>r. p r \<Longrightarrow> key (f r) = key r) \<Longrightarrow> map key (update_where p f rs) = map key rs"
  by (auto simp: update_where_def)

lemma ball_map_eq:
  assumes "map key rs = map key ss"
  shows "(\<forall>r \<in> set rs. P (key r)) \<longleftrightarrow> (\<forall>s \<in> set ss. P (key s))"
proof -
  have "key ` set rs = key ` set ss"
    using arg_cong [OF assms, of set] by simp
  then have "(\<forall>x \<in> key ` set rs. P x) \<longleftrightarrow> (\<forall>x \<in> key ` set ss. P x)" by simp
  then show ?thesis by simp
qed

lemma set_update_where: "set (update_where p f rs) = {if p r then f r else r | r. r \<in> set rs}"
  by (auto simp: update_where_def)

lemma find_update_where:
  "(\<And>r. p r \<Longrightarrow> q (f r) = q r) \<Longrightarrow>
   find q (update_where p f rs) = map_option (\<lambda>r. if p r then f r else r) (find q rs)"
  by (induction rs) auto

lemma find_SomeD: "find p rs = Some r \<Longrightarrow> p r \<and> r \<in> set rs"
  by (induction rs) (auto split: if_splits)

lemma find_list_ex: "find p rs = None \<longleftrightarrow> \<not> list_ex p rs"
  by (induction rs) auto

lemma find_append: "find p (rs @ ss) = (case find p rs of None \<Rightarrow> find p ss | Some r \<Rightarrow> Some r)"
  by (induction rs) auto

lemma fold_max_ge_start: "(a :: int) \<le> fold max xs a"
proof (induction xs arbitrary: a)
  case (Cons x xs)
  show ?case using Cons [of "max x a"] by simp
qed simp

lemma fold_max_ge: "(x :: int) \<in> set xs \<Longrightarrow> x \<le> fold max xs a"
proof (induction xs arbitrary: a)
  case (Cons y ys)
  then show ?case using fold_max_ge_start [of "max y a" ys] by auto
qed simp

text \<open>The first row by an integer sort key: a stable \<^verbatim>\<open>ORDER BY key LIMIT 1\<close>.\<close>

fun first_min :: "('r \<Rightarrow> 'k::linorder) \<Rightarrow> 'r list \<Rightarrow> 'r option" where
  "first_min key [] = None"
| "first_min key (r # rs) =
     (case first_min key rs of
        None \<Rightarrow> Some r
      | Some s \<Rightarrow> if key r \<le> key s then Some r else Some s)"

lemma first_min_None [simp]: "first_min key rs = None \<longleftrightarrow> rs = []"
  by (cases rs) (auto split: option.splits)

lemma first_min_SomeD:
  assumes "first_min key rs = Some m"
  shows "m \<in> set rs \<and> (\<forall>r \<in> set rs. key m \<le> key r)"
  using assms
proof (induction rs arbitrary: m)
  case (Cons r rs)
  then show ?case
    by (cases "first_min key rs") (fastforce split: if_splits)+
qed simp

lemma first_min_sort_key: "first_min key rs = (case sort_key key rs of [] \<Rightarrow> None | r # _ \<Rightarrow> Some r)"
proof (induction rs)
  case (Cons r rs)
  then show ?case
    by (cases "sort_key key rs") (auto simp: insort_key.simps)
qed simp

section \<open>Strings\<close>

text \<open>\<^verbatim>\<open>str::split(c)\<close> for a single-character pattern: always at least one piece.\<close>

fun split_on :: "char \<Rightarrow> string \<Rightarrow> string list" where
  "split_on c [] = [[]]"
| "split_on c (x # xs) =
     (if x = c then [] # split_on c xs
      else (case split_on c xs of [] \<Rightarrow> [[x]] | y # ys \<Rightarrow> (x # y) # ys))"

text \<open>\<^verbatim>\<open>[String]::join(sep)\<close>.\<close>

fun join_with :: "string \<Rightarrow> string list \<Rightarrow> string" where
  "join_with sep [] = []"
| "join_with sep [x] = x"
| "join_with sep (x # y # ys) = x @ sep @ join_with sep (y # ys)"

lemma split_on_nonempty [simp]: "split_on c s \<noteq> []"
  by (induction s) (auto split: list.splits)

lemma join_split_on: "join_with [c] (split_on c s) = s"
proof (induction s)
  case (Cons x xs)
  then show ?case
    by (cases "split_on c xs"; cases "tl (split_on c xs)") (auto simp: neq_Nil_conv)
qed simp

lemma split_on_pieces: "p \<in> set (split_on c s) \<Longrightarrow> c \<notin> set p"
proof (induction s arbitrary: p)
  case (Cons x xs)
  then show ?case
    by (cases "split_on c xs") (auto split: if_splits)
qed simp

lemma split_on_free: "c \<notin> set s \<Longrightarrow> split_on c s = [s]"
  by (induction s) auto

lemma split_on_app: "c \<notin> set s \<Longrightarrow> split_on c (s @ c # t) = s # split_on c t"
  by (induction s) auto

lemma split_join_with:
  assumes "ps \<noteq> []" and "\<And>p. p \<in> set ps \<Longrightarrow> c \<notin> set p"
  shows "split_on c (join_with [c] ps) = ps"
  using assms
proof (induction "[c]" ps rule: join_with.induct)
  case (3 x y ys)
  then show ?case by (simp add: split_on_app)
qed (simp_all add: split_on_free)

lemma split_on_snoc: "split_on c (s @ [c]) = split_on c s @ [[]]"
  by (induction s) (auto split: list.splits)

lemma split_on_append:
  "c \<notin> set x \<Longrightarrow> split_on c (s @ x) = butlast (split_on c s) @ [last (split_on c s) @ x]"
proof (induction s)
  case Nil
  then show ?case by (simp add: split_on_free)
next
  case (Cons y s)
  obtain z zs where "split_on c s = z # zs" by (cases "split_on c s") auto
  then show ?case using Cons by (cases zs) auto
qed

lemma last_split_on_append: "c \<notin> set x \<Longrightarrow> last (split_on c (s @ x)) = last (split_on c s) @ x"
  by (simp add: split_on_append)

text \<open>\<^verbatim>\<open>str::trim_end_matches(c)\<close>.\<close>

definition trim_end :: "char \<Rightarrow> string \<Rightarrow> string" where
  "trim_end c s = rev (dropWhile (\<lambda>x. x = c) (rev s))"

text \<open>\<^verbatim>\<open>str::starts_with\<close> and \<^verbatim>\<open>strip_prefix\<close>.\<close>

fun strip_prefix :: "string \<Rightarrow> string \<Rightarrow> string option" where
  "strip_prefix [] s = Some s"
| "strip_prefix (p # ps) [] = None"
| "strip_prefix (p # ps) (x # xs) = (if p = x then strip_prefix ps xs else None)"

definition starts_with :: "string \<Rightarrow> string \<Rightarrow> bool" where
  "starts_with p s = (strip_prefix p s \<noteq> None)"

lemma strip_prefix_Some_iff: "strip_prefix p s = Some t \<longleftrightarrow> s = p @ t"
  by (induction p s rule: strip_prefix.induct) auto

lemma starts_with_iff: "starts_with p s \<longleftrightarrow> (\<exists>t. s = p @ t)"
  unfolding starts_with_def using strip_prefix_Some_iff [of p s] by auto

lemma last_trim_end: "trim_end c s \<noteq> [] \<Longrightarrow> last (trim_end c s) \<noteq> c"
  using hd_dropWhile [of "\<lambda>x. x = c" "rev s"] by (auto simp: trim_end_def last_rev)

text \<open>\<^verbatim>\<open>str::trim\<close> and \<^verbatim>\<open>str::split_whitespace\<close> on the ASCII white space, and the first of \<^verbatim>\<open>str::lines\<close>.\<close>

definition is_white :: "char \<Rightarrow> bool" where
  "is_white c \<longleftrightarrow> c \<in> {CHR '' '', CHR 0x09, CHR 0x0A, CHR 0x0B, CHR 0x0C, CHR 0x0D}"

definition trim :: "string \<Rightarrow> string" where
  "trim s = rev (dropWhile is_white (rev (dropWhile is_white s)))"

definition split_whitespace :: "string \<Rightarrow> string list" where
  "split_whitespace s = filter (\<lambda>p. p \<noteq> []) (split_on (CHR '' '') (map (\<lambda>c. if is_white c then CHR '' '' else c) s))"

definition first_line :: "string \<Rightarrow> string option" where
  "first_line s = (if s = [] then None
     else let l = takeWhile (\<lambda>c. c \<noteq> CHR 0x0A) s
          in Some (if CHR 0x0A \<in> set s \<and> l \<noteq> [] \<and> last l = CHR 0x0D then butlast l else l))"

lemma join_with_snoc: "join_with sep (xs @ [x]) = (if xs = [] then x else join_with sep xs @ sep @ x)"
  by (induction sep xs rule: join_with.induct) simp_all

end
