(* ===== verification/Paths.thy ===== *)
theory Paths
  imports Gdriver_Prelude
begin

text \<open>
  The part of \<^verbatim>\<open>std::path\<close> (Unix) the sources use: components, file name, stem, extension,
  parent and join. A path is its byte string; \<^verbatim>\<open>to_string_lossy\<close> and \<^verbatim>\<open>display\<close> are the identity on
  it, since every path of the daemon is built from valid UTF-8 strings. Repeated separators and
  \<open>.\<close> components are dropped, as \<^verbatim>\<open>Path::components\<close> does.
\<close>

definition path_comps :: "string \<Rightarrow> string list" where
  "path_comps p = filter (\<lambda>c. c \<noteq> [] \<and> c \<noteq> ''.'') (split_on (CHR ''/'') p)"

definition path_is_abs :: "string \<Rightarrow> bool" where
  "path_is_abs p = (case p of [] \<Rightarrow> False | c # _ \<Rightarrow> c = CHR ''/'')"

definition path_render :: "bool \<Rightarrow> string list \<Rightarrow> string" where
  "path_render rooted cs = (if rooted then ''/'' else []) @ join_with ''/'' cs"

definition path_file_name :: "string \<Rightarrow> string option" where
  "path_file_name p = (case rev (path_comps p) of [] \<Rightarrow> None | c # _ \<Rightarrow> if c = ''..'' then None else Some c)"

definition path_parent :: "string \<Rightarrow> string option" where
  "path_parent p =
     (if path_comps p = [] then (if path_is_abs p \<or> p = [] then None else Some [])
      else Some (path_render (path_is_abs p) (butlast (path_comps p))))"

text \<open>\<^verbatim>\<open>Path::join\<close> with a relative, non-empty name.\<close>

definition path_join :: "string \<Rightarrow> string \<Rightarrow> string" where
  "path_join d n = (if path_is_abs n then n else if d = [] then n
     else if last d = CHR ''/'' then d @ n else d @ ''/'' @ n)"

text \<open>Split a file name at its last dot; a leading dot belongs to the stem.\<close>

definition split_last_dot :: "string \<Rightarrow> string \<times> string option" where
  "split_last_dot f =
     (let after = takeWhile (\<lambda>c. c \<noteq> CHR ''.'') (rev f);
          rest = dropWhile (\<lambda>c. c \<noteq> CHR ''.'') (rev f)
      in case rest of
           [] \<Rightarrow> (f, None)
         | _ # before \<Rightarrow> if before = [] then (f, None) else (rev before, Some (rev after)))"

definition path_file_stem :: "string \<Rightarrow> string option" where
  "path_file_stem p = map_option (fst \<circ> split_last_dot) (path_file_name p)"

definition path_extension :: "string \<Rightarrow> string option" where
  "path_extension p = Option.bind (path_file_name p) (snd \<circ> split_last_dot)"

text \<open>Every directory that \<^verbatim>\<open>create_dir_all\<close> makes for \<open>p\<close>: the non-empty component prefixes.\<close>

definition path_prefixes :: "string \<Rightarrow> string list" where
  "path_prefixes p = map (\<lambda>n. path_render (path_is_abs p) (take (Suc n) (path_comps p))) [0..<length (path_comps p)]"

text \<open>\<^verbatim>\<open>Path::starts_with\<close>: component-wise prefix.\<close>

definition path_starts_with :: "string \<Rightarrow> string \<Rightarrow> bool" where
  "path_starts_with p root =
     (path_is_abs p = path_is_abs root \<and> take (length (path_comps root)) (path_comps p) = path_comps root)"

section \<open>Facts about paths\<close>

lemma split_last_dot_append:
  "split_last_dot f = (s, e) \<Longrightarrow> s @ (case e of None \<Rightarrow> [] | Some x \<Rightarrow> ''.'' @ x) = f"
proof -
  assume eq: "split_last_dot f = (s, e)"
  let ?P = "\<lambda>c. c \<noteq> CHR ''.''"
  have rv: "rev (takeWhile ?P (rev f) @ dropWhile ?P (rev f)) = f" by simp
  show ?thesis
  proof (cases "dropWhile ?P (rev f)")
    case Nil
    with eq show ?thesis by (simp add: split_last_dot_def)
  next
    case (Cons d before)
    then have d: "d = CHR ''.''" using hd_dropWhile [of ?P "rev f"] by simp
    have "f = rev before @ [d] @ rev (takeWhile ?P (rev f))"
      using rv Cons by simp
    with eq Cons d show ?thesis by (auto simp: split_last_dot_def split: if_splits)
  qed
qed

lemma path_comps_no_slash: "c \<in> set (path_comps p) \<Longrightarrow> CHR ''/'' \<notin> set c"
  by (auto simp: path_comps_def dest: split_on_pieces)

lemma path_file_name_no_slash: "path_file_name p = Some n \<Longrightarrow> CHR ''/'' \<notin> set n"
  using path_comps_no_slash [of n p]
  by (auto simp: path_file_name_def split: list.splits if_splits)

lemma path_file_name_some_comps:
  "path_file_name p = Some n \<Longrightarrow> path_comps p \<noteq> [] \<and> last (path_comps p) = n"
  by (auto simp: path_file_name_def split: list.splits if_splits)

lemma path_comps_render:
  assumes "\<And>c. c \<in> set cs \<Longrightarrow> CHR ''/'' \<notin> set c \<and> c \<noteq> [] \<and> c \<noteq> ''.''"
  shows "path_comps (path_render rooted cs) = cs"
proof (cases "cs = []")
  case True
  then show ?thesis by (simp add: path_comps_def path_render_def)
next
  case False
  have "split_on (CHR ''/'') (join_with ''/'' cs) = cs"
    using False assms by (intro split_join_with) auto
  moreover have "filter (\<lambda>c. c \<noteq> [] \<and> c \<noteq> ''.'') cs = cs"
    using assms by (simp add: filter_id_conv)
  ultimately show ?thesis by (simp add: path_comps_def path_render_def)
qed

lemma last_piece_join: "CHR ''/'' \<notin> set n \<Longrightarrow> last (split_on (CHR ''/'') (path_join d n)) = n"
proof (cases "d = []")
  case False
  assume n: "CHR ''/'' \<notin> set n"
  have l: "last (split_on (CHR ''/'') (s @ ''/'' @ n)) = n" for s
    using last_split_on_append [OF n, of "s @ ''/''"] by (simp add: split_on_snoc)
  have "path_join d n = butlast d @ ''/'' @ n \<or> path_join d n = d @ ''/'' @ n"
  proof (cases "last d = CHR ''/''")
    case True
    then have "d = butlast d @ ''/''" using append_butlast_last_id [OF False] by simp
    then have "d @ n = butlast d @ ''/'' @ n" using append.assoc [of "butlast d" "''/''" n] by simp
    then show ?thesis using n False True by (auto simp: path_join_def path_is_abs_def split: list.splits)
  qed (use n False in \<open>auto simp: path_join_def path_is_abs_def split: list.splits\<close>)
  then show ?thesis using l by auto
qed (auto simp: path_join_def split_on_free)

lemma last_piece_file_name:
  assumes "path_file_name p = Some fn"
  shows "last (split_on (CHR ''/'') p) = fn \<or> last (split_on (CHR ''/'') p) = [] \<or> last (split_on (CHR ''/'') p) = ''.''"
proof -
  let ?cs = "split_on (CHR ''/'') p"
  have "path_comps p = filter (\<lambda>c. c \<noteq> [] \<and> c \<noteq> ''.'') (butlast ?cs @ [last ?cs])"
    by (simp add: path_comps_def)
  then show ?thesis using path_file_name_some_comps [OF assms]
    by (auto simp del: append_butlast_last_id split: if_splits)
qed

end
