(* ===== verification/Sync_Core.thy ===== *)
theory Sync_Core
  imports Paths "HOL-Library.Word"
begin

text \<open>
  The I/O-free library crate \<^verbatim>\<open>gdriver-sync\<close>: engine states and commands (\<^verbatim>\<open>engine.rs\<close>), tasks and
  their priority order (\<^verbatim>\<open>queue.rs\<close>), conflict detection and naming (\<^verbatim>\<open>conflict.rs\<close>), upload chunk
  arithmetic on \<^verbatim>\<open>u64\<close> (\<^verbatim>\<open>uploader.rs\<close>) and export formats (\<^verbatim>\<open>downloader.rs\<close>).
\<close>

section \<open>Engine states\<close>

datatype SyncStatus = UpToDate | StatusSyncing | StatusPaused | StatusError | StatusOffline

datatype SyncMode = Stream | Mirror

datatype SyncEngineState = Idle | Scanning | Syncing | Paused

fun to_sync_status :: "SyncEngineState \<Rightarrow> SyncStatus" where
  "to_sync_status Idle = UpToDate"
| "to_sync_status Scanning = StatusSyncing"
| "to_sync_status Syncing = StatusSyncing"
| "to_sync_status Paused = StatusPaused"

datatype SyncCommand = Pause | Resume | SwitchMode SyncMode

fun can_transition :: "SyncEngineState \<Rightarrow> SyncEngineState \<Rightarrow> bool" where
  "can_transition Idle _ = True"
| "can_transition Scanning Syncing = True"
| "can_transition Scanning Idle = True"
| "can_transition Syncing Idle = True"
| "can_transition Syncing Paused = True"
| "can_transition Syncing Scanning = True"
| "can_transition Paused Idle = True"
| "can_transition _ _ = False"

section \<open>Tasks\<close>

record sync_task =
  t_id :: "int option"
  t_account_id :: string
  t_file_id :: "string option"
  t_operation :: string
  t_local_path :: "string option"
  t_priority :: int
  t_status :: string
  t_retry_count :: int
  t_error_msg :: "string option"
  t_created_at :: int
  t_updated_at :: int

text \<open>\<^verbatim>\<open>SyncTask::new\<close>; the clock reading is the argument \<open>now\<close>.\<close>

definition task_new :: "int \<Rightarrow> string \<Rightarrow> string \<Rightarrow> sync_task" where
  "task_new now account_id operation =
     \<lparr>t_id = None, t_account_id = account_id, t_file_id = None, t_operation = operation,
      t_local_path = None, t_priority = 5, t_status = ''pending'', t_retry_count = 0,
      t_error_msg = None, t_created_at = now, t_updated_at = now\<rparr>"

definition with_file_id :: "string \<Rightarrow> sync_task \<Rightarrow> sync_task" where
  "with_file_id f t = t\<lparr>t_file_id := Some f\<rparr>"

definition with_local_path :: "string \<Rightarrow> sync_task \<Rightarrow> sync_task" where
  "with_local_path p t = t\<lparr>t_local_path := Some p\<rparr>"

definition clamp :: "int \<Rightarrow> int \<Rightarrow> int \<Rightarrow> int" where
  "clamp lo hi x = (if x < lo then lo else if hi < x then hi else x)"

definition with_priority :: "int \<Rightarrow> sync_task \<Rightarrow> sync_task" where
  "with_priority p t = t\<lparr>t_priority := clamp 1 10 p\<rparr>"

definition should_give_up :: "sync_task \<Rightarrow> int \<Rightarrow> bool" where
  "should_give_up t max_retries = (t_retry_count t \<ge> max_retries)"

definition is_terminal :: "sync_task \<Rightarrow> bool" where
  "is_terminal t = (t_status t = ''completed'' \<or> t_status t = ''failed'')"

definition is_retryable :: "sync_task \<Rightarrow> int \<Rightarrow> bool" where
  "is_retryable t max_retries = (t_status t = ''failed'' \<and> \<not> should_give_up t max_retries)"

datatype ordering = Less | Equal | Greater

definition cmp_int :: "int \<Rightarrow> int \<Rightarrow> ordering" where
  "cmp_int a b = (if a < b then Less else if a = b then Equal else Greater)"

fun ordering_then :: "ordering \<Rightarrow> ordering \<Rightarrow> ordering" where
  "ordering_then Equal o2 = o2"
| "ordering_then o1 o2 = o1"

definition compare_priority :: "sync_task \<Rightarrow> sync_task \<Rightarrow> ordering" where
  "compare_priority a b =
     ordering_then (cmp_int (t_priority a) (t_priority b)) (cmp_int (t_created_at a) (t_created_at b))"

section \<open>Conflict detection and naming\<close>

definition detect_conflict :: "int \<Rightarrow> int option \<Rightarrow> string option \<Rightarrow> string \<Rightarrow> bool" where
  "detect_conflict current_local_mtime cached_local_mtime cached_remote_etag current_remote_etag =
     ((case cached_local_mtime of None \<Rightarrow> False | Some stored \<Rightarrow> current_local_mtime > stored) \<and>
      (case cached_remote_etag of None \<Rightarrow> False | Some stored \<Rightarrow> stored \<noteq> current_remote_etag))"

definition conflict_copy_name :: "string \<Rightarrow> string \<Rightarrow> string" where
  "conflict_copy_name p ts =
     (case path_file_stem p of None \<Rightarrow> ''Untitled'' | Some s \<Rightarrow> s)
     @ '' (conflict copy '' @ ts @ '')''
     @ (case path_extension p of None \<Rightarrow> [] | Some e \<Rightarrow> ''.'' @ e)"

text \<open>The extension table shared, literally, by every \<^verbatim>\<open>guess_mime\<close> of the repository.\<close>

definition mime_of_ext :: "string option \<Rightarrow> string" where
  "mime_of_ext ext =
     (if ext = Some ''txt'' then ''text/plain''
      else if ext = Some ''html'' \<or> ext = Some ''htm'' then ''text/html''
      else if ext = Some ''css'' then ''text/css''
      else if ext = Some ''js'' then ''text/javascript''
      else if ext = Some ''json'' then ''application/json''
      else if ext = Some ''xml'' then ''application/xml''
      else if ext = Some ''pdf'' then ''application/pdf''
      else if ext = Some ''png'' then ''image/png''
      else if ext = Some ''jpg'' \<or> ext = Some ''jpeg'' then ''image/jpeg''
      else if ext = Some ''gif'' then ''image/gif''
      else if ext = Some ''svg'' then ''image/svg+xml''
      else if ext = Some ''mp3'' then ''audio/mpeg''
      else if ext = Some ''mp4'' then ''video/mp4''
      else if ext = Some ''zip'' then ''application/zip''
      else if ext = Some ''gz'' \<or> ext = Some ''tar'' then ''application/gzip''
      else if ext = Some ''doc'' then ''application/msword''
      else if ext = Some ''docx'' then ''application/vnd.openxmlformats-officedocument.wordprocessingml.document''
      else if ext = Some ''xls'' then ''application/vnd.ms-excel''
      else if ext = Some ''xlsx'' then ''application/vnd.openxmlformats-officedocument.spreadsheetml.sheet''
      else ''application/octet-stream'')"

definition guess_mime :: "string \<Rightarrow> string" where
  "guess_mime p = mime_of_ext (path_extension p)"

section \<open>Upload chunks\<close>

type_synonym u64 = "64 word"

definition RESUMABLE_THRESHOLD :: u64 where "RESUMABLE_THRESHOLD = 5 * 1024 * 1024"
definition CHUNK_SIZE :: u64 where "CHUNK_SIZE = 5 * 1024 * 1024"
definition MIN_CHUNK_SIZE :: u64 where "MIN_CHUNK_SIZE = 256 * 1024"
definition MAX_RETRIES :: int where "MAX_RETRIES = 3"

definition is_valid_chunk_size :: "u64 \<Rightarrow> bool" where
  "is_valid_chunk_size sz = (sz > 0 \<and> sz mod MIN_CHUNK_SIZE = 0)"

definition recommended_chunk_size :: "u64 \<Rightarrow> u64" where
  "recommended_chunk_size file_len = (if file_len \<le> MIN_CHUNK_SIZE then file_len else CHUNK_SIZE)"

text \<open>\<^verbatim>\<open>u64::div_ceil\<close>: quotient, plus one when there is a remainder.\<close>

definition div_ceil :: "u64 \<Rightarrow> u64 \<Rightarrow> u64" where
  "div_ceil a b = (if a mod b > 0 then a div b + 1 else a div b)"

text \<open>\<open>None\<close> is the panic of a division by zero.\<close>

definition chunk_count :: "u64 \<Rightarrow> u64 \<Rightarrow> u64 option" where
  "chunk_count file_len chunk_size =
     (if file_len = 0 then Some 0
      else if chunk_size = 0 then None else Some (div_ceil file_len chunk_size))"

text \<open>Release-build arithmetic: \<open>*\<close>, \<open>+\<close> and \<open>-\<close> wrap around.\<close>

definition chunk_range :: "u64 \<Rightarrow> u64 \<Rightarrow> u64 \<Rightarrow> (u64 \<times> u64) option" where
  "chunk_range n file_len chunk_size =
     (if file_len = 0 then None
      else let start = n * chunk_size
           in if start \<ge> file_len then None
              else Some (start, min (start + chunk_size) file_len - 1))"

section \<open>Download formats\<close>

definition WORKSPACE_EXPORT_FORMATS :: "(string \<times> string) list" where
  "WORKSPACE_EXPORT_FORMATS =
     [(''application/vnd.google-apps.document'',
       ''application/vnd.openxmlformats-officedocument.wordprocessingml.document''),
      (''application/vnd.google-apps.spreadsheet'',
       ''application/vnd.openxmlformats-officedocument.spreadsheetml.sheet''),
      (''application/vnd.google-apps.presentation'',
       ''application/vnd.openxmlformats-officedocument.presentationml.presentation''),
      (''application/vnd.google-apps.drawing'', ''image/png'')]"

definition workspace_export_mime :: "string \<Rightarrow> string option" where
  "workspace_export_mime m = map_option snd (find (\<lambda>(from, _). from = m) WORKSPACE_EXPORT_FORMATS)"

definition is_workspace_document :: "string \<Rightarrow> bool" where
  "is_workspace_document m = (workspace_export_mime m \<noteq> None)"

definition temp_download_path :: "string \<Rightarrow> string" where
  "temp_download_path target = target @ ''.gdriver-tmp''"

definition extension_for_export_mime :: "string \<Rightarrow> string" where
  "extension_for_export_mime m =
     (if m = ''application/vnd.openxmlformats-officedocument.wordprocessingml.document'' then ''.docx''
      else if m = ''application/vnd.openxmlformats-officedocument.spreadsheetml.sheet'' then ''.xlsx''
      else if m = ''application/vnd.openxmlformats-officedocument.presentationml.presentation'' then ''.pptx''
      else if m = ''image/png'' then ''.png''
      else if m = ''text/plain'' then ''.txt''
      else if m = ''application/pdf'' then ''.pdf''
      else [])"

section \<open>Facts about chunks\<close>

lemma u64_bound: "unat (a :: u64) < 2 ^ 64"
  using unsigned_less [of a, where ?'a = nat] by simp

lemma chunk_constants: "CHUNK_SIZE = 5242880" "MIN_CHUNK_SIZE = 262144" "RESUMABLE_THRESHOLD = 5242880"
  by (simp_all add: CHUNK_SIZE_def MIN_CHUNK_SIZE_def RESUMABLE_THRESHOLD_def)

lemma unat_div_ceil:
  assumes "b \<noteq> 0"
  shows "unat (div_ceil a b) = (unat a + unat b - 1) div unat b"
proof -
  let ?a = "unat a" and ?b = "unat b"
  have b: "0 < ?b" using assms by (simp add: unat_gt_0)
  have dm: "?a = ?a div ?b * ?b + ?a mod ?b" by simp
  show ?thesis
  proof (cases "?a mod ?b = 0")
    case True
    then have "a mod b = 0" by (metis unat_eq_zero unat_mod)
    then have l: "unat (div_ceil a b) = ?a div ?b" by (simp add: div_ceil_def unat_div)
    from True obtain q where q: "?a = ?b * q" by (auto simp: mod_eq_0_iff_dvd elim: dvdE)
    have "(?b * q + (?b - 1)) div ?b = q"
      using b by (intro div_nat_eqI) (simp_all add: algebra_simps)
    moreover have "?b * q + (?b - 1) = ?b * q + ?b - 1" using b by simp
    ultimately show ?thesis using l q b by simp
  next
    case False
    then have nz: "a mod b > 0" by (metis unat_mod unat_gt_0 neq0_conv word_neq_0_conv)
    have q: "?a div ?b < ?a" if "?b > 1"
      using that False by (cases "?a = 0") auto
    have "?b \<noteq> 1" using False by auto
    with b q have lt: "?a div ?b < ?a" by simp
    have "?a < 2 ^ 64" by (rule u64_bound)
    with lt have "?a div ?b + 1 < 2 ^ 64" by linarith
    then have l: "unat (div_ceil a b) = ?a div ?b + 1"
      using nz by (simp add: div_ceil_def unat_word_ariths unat_div)
    have r: "1 \<le> ?a mod ?b" "?a mod ?b < ?b" using False b by simp_all
    have "(?a + ?b - 1) div ?b = ?a div ?b + 1"
    proof (rule div_nat_eqI)
      show "?b * (?a div ?b + 1) \<le> ?a + ?b - 1"
        using dm r by (simp only: distrib_left mult_1_right mult.commute [of ?b])
      show "?a + ?b - 1 < ?b * Suc (?a div ?b + 1)"
        using dm r by (simp only: mult_Suc_right distrib_left mult_1_right mult.commute [of ?b])
    qed
    then show ?thesis using l by simp
  qed
qed

lemma chunk_range_nat:
  assumes cs: "chunk_size \<noteq> 0" and fits: "unat file_len + unat chunk_size \<le> 2 ^ 64"
    and n: "unat n * unat chunk_size < unat file_len"
  shows "chunk_range n file_len chunk_size = Some (n * chunk_size, min (n * chunk_size + chunk_size) file_len - 1)"
    and "unat (n * chunk_size) = unat n * unat chunk_size"
    and "unat (min (n * chunk_size + chunk_size) file_len - 1)
           = min (unat n * unat chunk_size + unat chunk_size) (unat file_len) - 1"
proof -
  have lt: "unat file_len < 2 ^ 64" by (rule u64_bound)
  show s: "unat (n * chunk_size) = unat n * unat chunk_size"
    using n lt by (simp add: unat_word_ariths)
  have e: "unat (n * chunk_size + chunk_size) = unat n * unat chunk_size + unat chunk_size"
    using n fits s by (simp add: unat_word_ariths(1))
  have nz: "file_len \<noteq> 0" using n by auto
  show "chunk_range n file_len chunk_size = Some (n * chunk_size, min (n * chunk_size + chunk_size) file_len - 1)"
    using n s nz by (simp add: chunk_range_def Let_def word_le_nat_alt)
  have m: "unat (min (n * chunk_size + chunk_size) file_len)
      = min (unat n * unat chunk_size + unat chunk_size) (unat file_len)"
    using e by (simp add: min_def word_le_nat_alt)
  moreover have "0 < min (unat n * unat chunk_size + unat chunk_size) (unat file_len)"
    using n cs by (auto simp: unat_gt_0)
  ultimately have "min (n * chunk_size + chunk_size) file_len \<noteq> 0"
    by (metis less_numeral_extra(3) unat_0)
  then show "unat (min (n * chunk_size + chunk_size) file_len - 1)
           = min (unat n * unat chunk_size + unat chunk_size) (unat file_len) - 1"
    using m by (simp add: unat_minus_one)
qed

lemma chunk_index_in_range:
  assumes "chunk_size \<noteq> 0"
  shows "n < div_ceil file_len chunk_size \<longleftrightarrow> unat n * unat chunk_size < unat file_len"
proof -
  let ?c = "unat chunk_size" and ?l = "unat file_len"
  have c: "0 < ?c" using assms by (simp add: unat_gt_0)
  have "unat n < (?l + ?c - 1) div ?c \<longleftrightarrow> unat n * ?c < ?l"
    using less_eq_div_iff_mult_less_eq [OF c, of "Suc (unat n)" "?l + ?c - 1"] c
    by (simp add: Suc_le_eq) linarith
  then show ?thesis by (simp add: word_less_nat_alt unat_div_ceil [OF assms])
qed

text \<open>The chunk arithmetic of resumable uploads tiles the file. For every chunk size that is not
  zero and does not push the end of the last chunk past the range of \<^verbatim>\<open>u64\<close>, \<^verbatim>\<open>chunk_count\<close> does
  not panic and every byte of the file lies in the range of exactly one of the counted chunks.\<close>

theorem chunks_tile_file:
  assumes "chunk_size \<noteq> 0" and "unat file_len + unat chunk_size \<le> 2 ^ 64" and "byte < file_len"
  shows "\<exists>k. chunk_count file_len chunk_size = Some k \<and>
    (\<exists>!n. n < k \<and> (\<exists>first last. chunk_range n file_len chunk_size = Some (first, last) \<and> first \<le> byte \<and> byte \<le> last))"
proof -
  let ?k = "div_ceil file_len chunk_size"
  let ?in = "\<lambda>n. \<exists>first last. chunk_range n file_len chunk_size = Some (first, last) \<and> first \<le> byte \<and> byte \<le> last"
  let ?c = "unat chunk_size" and ?l = "unat file_len" and ?b = "unat byte"
  have c: "0 < ?c" using assms(1) by (simp add: unat_gt_0)
  have b: "?b < ?l" using assms(3) by (simp add: word_less_nat_alt)
  have key: "?in n \<longleftrightarrow> n = byte div chunk_size" if "n < ?k" for n
  proof -
    have n: "unat n * ?c < ?l" using that chunk_index_in_range [OF assms(1)] by simp
    have "?in n \<longleftrightarrow> unat n * ?c \<le> ?b \<and> ?b \<le> min (unat n * ?c + ?c) ?l - 1"
      using chunk_range_nat [OF assms(1,2) n] by (simp add: word_le_nat_alt)
    also have "\<dots> \<longleftrightarrow> unat n * ?c \<le> ?b \<and> ?b < unat n * ?c + ?c" using b c by auto
    also have "\<dots> \<longleftrightarrow> unat n = ?b div ?c"
      using c by (metis add.commute div_nat_eqI dividend_less_times_div mult.commute mult_Suc times_div_less_eq_dividend)
    finally show ?thesis by (simp add: word_unat_eq_iff unat_div)
  qed
  have "byte div chunk_size < ?k"
    using b c chunk_index_in_range [OF assms(1), of "byte div chunk_size" file_len]
    by (simp add: unat_div) (meson div_times_less_eq_dividend le_less_trans)
  then have "\<exists>!n. n < ?k \<and> ?in n" using key by (intro ex1I [of _ "byte div chunk_size"]) auto
  moreover have "chunk_count file_len chunk_size = Some ?k"
    using assms(1) b by (auto simp: chunk_count_def)
  ultimately show ?thesis by blast
qed

theorem chunks_tile_file_witness:
  "\<exists>k. chunk_count 11534336 CHUNK_SIZE = Some k \<and>
    (\<exists>!n. n < k \<and> (\<exists>first last. chunk_range n 11534336 CHUNK_SIZE = Some (first, last) \<and> first \<le> 10485760 \<and> 10485760 \<le> last))"
  by (rule chunks_tile_file) (simp_all add: chunk_constants)

end
