(* ===== verification/Database.thy ===== *)
theory Database
  imports Sync_Core
begin

text \<open>
  The SQLite schema of \<^verbatim>\<open>crates/gdriver-daemon/migrations\<close>: one record per row type, one list per
  table. A table is the list of its rows in scan order; \<^verbatim>\<open>INSERT\<close> appends, \<^verbatim>\<open>UPDATE\<close> rewrites rows in
  place (\<^const>\<open>update_where\<close>), \<^verbatim>\<open>ORDER BY\<close> is a stable sort of the scan, \<^verbatim>\<open>AUTOINCREMENT\<close> ids come
  from a counter that never goes back. SQL \<^verbatim>\<open>INTEGER\<close> columns are \<open>int\<close>, \<^verbatim>\<open>TEXT\<close> columns strings,
  nullable columns options. Foreign keys are enforced (\<^verbatim>\<open>foreign_keys(true)\<close> in \<^verbatim>\<open>db/mod.rs\<close>).
\<close>

record account =
  a_id :: string
  a_email :: string
  a_display_name :: "string option"
  a_photo_url :: "string option"
  a_locale :: "string option"
  a_created_at :: int
  a_last_used_at :: int

record drive_file =
  d_id :: string
  d_account_id :: string
  d_name :: string
  d_mime_type :: string
  d_parent_id :: "string option"
  d_size :: "int option"
  d_etag :: "string option"
  d_version :: "int option"
  d_modified_time :: "int option"
  d_is_trashed :: bool
  d_is_shared :: bool
  d_local_path :: "string option"
  d_sync_state :: string
  d_local_mtime :: "int option"

text \<open>A row of \<^verbatim>\<open>drive_files\<close>, with the implicit \<^verbatim>\<open>rowid\<close> the virtual filesystem uses as inode.\<close>

record drive_file_row =
  r_rowid :: int
  r_id :: string
  r_account_id :: string
  r_name :: string
  r_mime_type :: string
  r_parent_id :: "string option"
  r_size :: "int option"
  r_etag :: "string option"
  r_version :: "int option"
  r_modified_time :: "int option"
  r_is_trashed :: int
  r_is_shared :: int
  r_local_path :: "string option"
  r_sync_state :: string
  r_local_mtime :: "int option"

record sync_task_row =
  q_id :: int
  q_account_id :: string
  q_file_id :: "string option"
  q_operation :: string
  q_local_path :: "string option"
  q_priority :: int
  q_status :: string
  q_retry_count :: int
  q_error_msg :: "string option"
  q_created_at :: int
  q_updated_at :: int

record sync_token_row =
  k_account_id :: string
  k_page_token :: string
  k_updated_at :: int

record sync_folder =
  s_id :: "int option"
  s_account_id :: string
  s_local_path :: string
  s_folder_type :: string
  s_is_enabled :: bool

record sync_folder_row =
  sr_id :: int
  sr_account_id :: string
  sr_local_path :: string
  sr_folder_type :: string
  sr_is_enabled :: int

record sync_error =
  e_id :: "int option"
  e_account_id :: "string option"
  e_file_id :: "string option"
  e_file_name :: "string option"
  e_error_code :: string
  e_error_msg :: string
  e_is_resolved :: bool
  e_created_at :: int

record sync_error_row =
  er_id :: int
  er_account_id :: "string option"
  er_file_id :: "string option"
  er_file_name :: "string option"
  er_error_code :: string
  er_error_msg :: string
  er_is_resolved :: int
  er_created_at :: int

record notification_db =
  n_id :: "int option"
  n_account_id :: "string option"
  n_kind :: string
  n_payload :: string
  n_is_read :: bool
  n_created_at :: int

record notification_row =
  nr_id :: int
  nr_account_id :: "string option"
  nr_kind :: string
  nr_payload :: string
  nr_is_read :: int
  nr_created_at :: int

record feedback =
  fb_id :: "int option"
  fb_text :: string
  fb_include_logs :: bool
  fb_created_at :: int

record feedback_row =
  fbr_id :: int
  fbr_text :: string
  fbr_include_logs :: int
  fbr_created_at :: int

record database =
  accounts :: "account list"
  drive_files :: "drive_file_row list"
  sync_queue :: "sync_task_row list"
  sync_tokens :: "sync_token_row list"
  sync_folders :: "sync_folder_row list"
  sync_errors :: "sync_error_row list"
  notifications :: "notification_row list"
  feedbacks :: "feedback_row list"
  queue_seq :: int
  folder_seq :: int
  error_seq :: int
  notification_seq :: int
  feedback_seq :: int

definition empty_db :: database where
  "empty_db = \<lparr>accounts = [], drive_files = [], sync_queue = [], sync_tokens = [], sync_folders = [],
     sync_errors = [], notifications = [], feedbacks = [], queue_seq = 0, folder_seq = 0,
     error_seq = 0, notification_seq = 0, feedback_seq = 0\<rparr>"

text \<open>Rust's \<^verbatim>\<open>bool as i64\<close> and \<^verbatim>\<open>x != 0\<close>.\<close>

definition bool_i64 :: "bool \<Rightarrow> int" where
  "bool_i64 b = (if b then 1 else 0)"

lemma bool_i64_eq_0 [simp]: "bool_i64 b = 0 \<longleftrightarrow> \<not> b"
  by (simp add: bool_i64_def)

section \<open>Integrity of the database\<close>

text \<open>
  Primary keys are unique, ids handed out by \<^verbatim>\<open>AUTOINCREMENT\<close> are below the counter, rowids are
  positive, and every row that references an account references an existing one.
\<close>

definition file_key :: "drive_file_row \<Rightarrow> string \<times> string" where
  "file_key r = (r_id r, r_account_id r)"

definition has_account :: "database \<Rightarrow> string \<Rightarrow> bool" where
  "has_account d acct = list_ex (\<lambda>a. a_id a = acct) (accounts d)"

definition wf_db :: "database \<Rightarrow> bool" where
  "wf_db d \<longleftrightarrow>
     distinct (map a_id (accounts d)) \<and>
     distinct (map a_email (accounts d)) \<and>
     distinct (map file_key (drive_files d)) \<and>
     distinct (map r_rowid (drive_files d)) \<and>
     list_all (\<lambda>r. 0 < r_rowid r) (drive_files d) \<and>
     list_all (\<lambda>r. has_account d (r_account_id r)) (drive_files d) \<and>
     distinct (map q_id (sync_queue d)) \<and>
     list_all (\<lambda>r. q_id r \<le> queue_seq d) (sync_queue d) \<and>
     distinct (map k_account_id (sync_tokens d)) \<and>
     list_all (\<lambda>r. has_account d (k_account_id r)) (sync_tokens d) \<and>
     distinct (map sr_id (sync_folders d)) \<and>
     list_all (\<lambda>r. sr_id r \<le> folder_seq d) (sync_folders d) \<and>
     list_all (\<lambda>r. has_account d (sr_account_id r)) (sync_folders d) \<and>
     distinct (map (\<lambda>r. (sr_account_id r, sr_local_path r)) (sync_folders d))"

lemma wf_db_empty [simp]: "wf_db empty_db"
  by (simp add: wf_db_def empty_db_def)

end
