(* ===== verification/Json.thy ===== *)
theory Json
  imports Gdriver_Prelude "HOL-Library.Word" "HOL-Library.List_Lexorder" "HOL-Library.Char_ord"
begin

text \<open>
  JSON values as \<^verbatim>\<open>serde_json::Value\<close> holds them, and the accessors the daemon uses. An object is a list
  of entries sorted by key, as in the \<^verbatim>\<open>BTreeMap\<close> of \<^verbatim>\<open>serde_json\<close>. A number is an integer of the
  \<^verbatim>\<open>i64\<close> or \<^verbatim>\<open>u64\<close> range or the bits of an \<^verbatim>\<open>f64\<close>. The conversions of structs follow the mapping that
  \<^verbatim>\<open>serde\<close> documents for its derived implementations.
\<close>

datatype json =
    JNull
  | JBool bool
  | JInt int
  | JFloat "64 word"
  | JStr string
  | JArr "json list"
  | JObj "(string \<times> json) list"

text \<open>\<^verbatim>\<open>Map::insert\<close> and the \<^verbatim>\<open>json!({..})\<close> macro.\<close>

fun obj_insert :: "string \<Rightarrow> json \<Rightarrow> (string \<times> json) list \<Rightarrow> (string \<times> json) list" where
  "obj_insert k v [] = [(k, v)]"
| "obj_insert k v ((j, u) # m) =
     (if k = j then (k, v) # m else if k < j then (k, v) # (j, u) # m else (j, u) # obj_insert k v m)"

definition obj_extend :: "(string \<times> json) list \<Rightarrow> (string \<times> json) list \<Rightarrow> (string \<times> json) list" where
  "obj_extend kvs m = fold (\<lambda>(k, v). obj_insert k v) kvs m"

definition jobj :: "(string \<times> json) list \<Rightarrow> json" where
  "jobj kvs = JObj (obj_extend kvs [])"

definition jopt :: "('a \<Rightarrow> json) \<Rightarrow> 'a option \<Rightarrow> json" where
  "jopt f x = (case x of None \<Rightarrow> JNull | Some y \<Rightarrow> f y)"

section \<open>Accessors\<close>

definition jget :: "string \<Rightarrow> json \<Rightarrow> json option" where
  "jget k j = (case j of JObj m \<Rightarrow> map_of m k | _ \<Rightarrow> None)"

definition as_str :: "json \<Rightarrow> string option" where
  "as_str j = (case j of JStr s \<Rightarrow> Some s | _ \<Rightarrow> None)"

definition as_bool :: "json \<Rightarrow> bool option" where
  "as_bool j = (case j of JBool b \<Rightarrow> Some b | _ \<Rightarrow> None)"

definition i64_ok :: "int \<Rightarrow> bool" where
  "i64_ok n \<longleftrightarrow> - (2 ^ 63) \<le> n \<and> n < 2 ^ 63"

definition as_i64 :: "json \<Rightarrow> int option" where
  "as_i64 j = (case j of JInt n \<Rightarrow> if i64_ok n then Some n else None | _ \<Rightarrow> None)"

definition as_u64 :: "json \<Rightarrow> nat option" where
  "as_u64 j = (case j of JInt n \<Rightarrow> if 0 \<le> n \<and> n < 2 ^ 64 then Some (nat n) else None | _ \<Rightarrow> None)"

lemma as_simps [simp]:
  "as_str (JStr s) = Some s" "as_bool (JBool b) = Some b" "jget k (JObj m) = map_of m k"
  "i64_ok n \<Longrightarrow> as_i64 (JInt n) = Some n" "as_u64 (JInt (uint (x :: 64 word))) = Some (unat x)"
  using uint_lt2p [of x] by (simp_all add: as_str_def as_bool_def jget_def as_i64_def as_u64_def)

section \<open>Derived conversions\<close>

text \<open>
  A struct is read from an object, ignoring unknown keys, or from an array of its fields in order.
  A missing field is an error, except an optional one of an object and one with a default.
\<close>

definition struct_fields :: "string list \<Rightarrow> json \<Rightarrow> (bool \<times> (string \<Rightarrow> json option)) option" where
  "struct_fields ks j =
     (case j of
        JObj m \<Rightarrow> Some (False, map_of m)
      | JArr xs \<Rightarrow> if length xs \<le> length ks then Some (True, map_of (zip ks xs)) else None
      | _ \<Rightarrow> None)"

definition req_field :: "(json \<Rightarrow> 'a option) \<Rightarrow> string \<Rightarrow> bool \<times> (string \<Rightarrow> json option) \<Rightarrow> 'a option" where
  "req_field f k fs = Option.bind (snd fs k) f"

definition opt_value :: "(json \<Rightarrow> 'a option) \<Rightarrow> json \<Rightarrow> 'a option option" where
  "opt_value f j = (if j = JNull then Some None else map_option Some (f j))"

definition opt_field :: "(json \<Rightarrow> 'a option) \<Rightarrow> string \<Rightarrow> bool \<times> (string \<Rightarrow> json option) \<Rightarrow> 'a option option" where
  "opt_field f k fs = (case snd fs k of None \<Rightarrow> if fst fs then None else Some None | Some j \<Rightarrow> opt_value f j)"

definition default_field :: "'a \<Rightarrow> (json \<Rightarrow> 'a option) \<Rightarrow> string \<Rightarrow> bool \<times> (string \<Rightarrow> json option) \<Rightarrow> 'a option" where
  "default_field d f k fs = (case snd fs k of None \<Rightarrow> Some d | Some j \<Rightarrow> f j)"

text \<open>A list of values, and an enum whose variants carry no data.\<close>

fun list_values :: "(json \<Rightarrow> 'a option) \<Rightarrow> json list \<Rightarrow> 'a list option" where
  "list_values f [] = Some []"
| "list_values f (j # js) = Option.bind (f j) (\<lambda>x. map_option (\<lambda>xs. x # xs) (list_values f js))"

definition de_list :: "(json \<Rightarrow> 'a option) \<Rightarrow> json \<Rightarrow> 'a list option" where
  "de_list f j = (case j of JArr js \<Rightarrow> list_values f js | _ \<Rightarrow> None)"

definition de_enum :: "(string \<times> 'a) list \<Rightarrow> json \<Rightarrow> 'a option" where
  "de_enum tbl j =
     (case j of
        JStr s \<Rightarrow> map_of tbl s
      | JObj [(s, v)] \<Rightarrow> if v = JNull then map_of tbl s else None
      | _ \<Rightarrow> None)"

definition de_u64 :: "json \<Rightarrow> 64 word option" where
  "de_u64 j = map_option of_nat (as_u64 j)"

definition de_u32 :: "json \<Rightarrow> 32 word option" where
  "de_u32 j = Option.bind (as_u64 j) (\<lambda>n. if n < 2 ^ 32 then Some (of_nat n) else None)"

definition de_i32 :: "json \<Rightarrow> int option" where
  "de_i32 j = Option.bind (as_i64 j) (\<lambda>n. if - (2 ^ 31) \<le> n \<and> n < 2 ^ 31 then Some n else None)"

section \<open>Lookup after insertion\<close>

lemma map_of_obj_insert [simp]: "map_of (obj_insert k v m) = (map_of m)(k \<mapsto> v)"
  by (induction k v m rule: obj_insert.induct) auto

lemma map_of_obj_extend [simp]: "map_of (obj_extend kvs m) = map_of m ++ map_of (rev kvs)"
proof (induction kvs arbitrary: m)
  case (Cons kv kvs)
  have "map_of (obj_extend kvs ((\<lambda>(k, v). obj_insert k v) kv m)) = (map_of m)(fst kv \<mapsto> snd kv) ++ map_of (rev kvs)"
    using Cons by (simp add: case_prod_beta fun_upd_def)
  then show ?case by (cases kv) (simp add: obj_extend_def map_add_assoc [symmetric])
qed (simp add: obj_extend_def)

lemma jget_jobj [simp]: "jget k (jobj kvs) = map_of (rev kvs) k"
  by (simp add: jobj_def)

lemma struct_fields_jobj [simp]: "struct_fields ks (jobj kvs) = Some (False, map_of (rev kvs))"
  by (simp add: struct_fields_def jobj_def)

lemma jobj_not [simp]: "jobj kvs \<noteq> JNull" "as_str (jobj kvs) = None"
  by (simp_all add: jobj_def as_str_def)

text \<open>A value written with \<^const>\<open>jopt\<close> is read back by \<^const>\<open>opt_field\<close>.\<close>

lemma opt_value_jopt: "(\<And>x. y = Some x \<Longrightarrow> enc x \<noteq> JNull \<and> f (enc x) = Some x) \<Longrightarrow> opt_value f (jopt enc y) = Some y"
  by (cases y) (simp_all add: opt_value_def jopt_def)

lemma opt_value_str [simp]: "opt_value as_str (jopt JStr y) = Some y"
  by (rule opt_value_jopt) simp

lemma list_values_map: "(\<And>x. x \<in> set xs \<Longrightarrow> f (enc x) = Some x) \<Longrightarrow> list_values f (map enc xs) = Some xs"
  by (induction xs) auto

lemma de_u64_uint [simp]: "de_u64 (JInt (uint x)) = Some x"
  by (simp add: de_u64_def)

lemma de_u32_uint [simp]: "de_u32 (JInt (uint (x :: 32 word))) = Some x"
proof -
  have x: "uint x < 2 ^ 32" using uint_lt2p [of x] by simp
  then have "unat x < 2 ^ 32" by (simp flip: nat_uint_eq add: nat_less_iff)
  with x have "as_u64 (JInt (uint x)) = Some (unat x)" "unat x < 2 ^ 32"
    by (simp_all add: as_u64_def)
  then show ?thesis by (simp add: de_u32_def)
qed

lemma opt_value_u64 [simp]: "opt_value de_u64 (jopt (\<lambda>x. JInt (uint x)) y) = Some y"
  by (rule opt_value_jopt) simp

lemma opt_value_u32 [simp]: "opt_value de_u32 (jopt (\<lambda>x. JInt (uint x)) y) = Some y"
  by (rule opt_value_jopt) simp

end
