(* ===== verification/World.thy ===== *)
theory World
  imports Database Json
begin

text \<open>
  The world a daemon operation runs in. It holds the database, the local file system, the push
  channel to the connected clients, the configuration the engine reads, the access-token cache,
  and the state \<open>'x\<close> of the external services (Google Drive, Google Photos, the OAuth endpoint,
  the OS keychain), which only the functions of the \<open>services\<close> record below touch.

  Failures and crashes are part of the world. Operation number \<open>n\<close> of a run (a database statement, a
  file-system call or a service call) fails with \<open>w_fault w n\<close> when that is \<open>Some\<close>; the clock read at
  operation \<open>n\<close> is \<open>w_clock w n\<close>; and nothing happens from operation \<open>w_limit w\<close> on. A run cut off by
  the limit leaves the world as it was at that moment, so a statement for every limit is a statement
  about a daemon killed at any moment, and a loop that never ends is one that reaches every limit.
\<close>

section \<open>File system\<close>

type_synonym bytes = "8 word list"

record fs_file =
  f_bytes :: bytes
  f_mtime :: "int option"

record filesystem =
  fs_files :: "string \<rightharpoonup> fs_file"
  fs_dirs :: "string set"

section \<open>Push events\<close>

datatype SyncState = CloudOnly | Downloading | Uploading | Cached | OfflineFile | Modified | Synced | FileError

text \<open>Rates and percentages are carried as the bits of an \<^verbatim>\<open>f32\<close>.\<close>

type_synonym f32 = "32 word"

record sync_item =
  i_file_id :: "string option"
  i_name :: string
  i_mime_type :: "string option"
  i_local_path :: "string option"
  i_sync_state :: SyncState
  i_progress :: "f32 option"
  i_file_size :: "u64 option"
  i_error_msg :: "string option"
  i_drive_url :: "string option"
  i_updated_at :: int

record sync_status_payload =
  p_status :: SyncStatus
  p_ts :: int
  p_speed :: "u64 option"
  p_pending :: "32 word option"

record ipc_sync_error =
  se_id :: int
  se_account_id :: "string option"
  se_file_id :: "string option"
  se_file_name :: "string option"
  se_error_code :: string
  se_error_msg :: string
  se_is_resolved :: bool
  se_created_at :: int

datatype NotificationKind =
    ConflictFound "string option" string string
  | StorageWarning f32
  | SyncErrorNoted int "string option" string

record notification =
  no_id :: int
  no_account_id :: "string option"
  no_is_read :: bool
  no_created_at :: int
  no_kind :: NotificationKind

record storage_quota =
  sq_limit :: "u64 option"
  sq_usage :: u64
  sq_usage_in_drive :: u64
  sq_usage_in_drive_trash :: u64

datatype push_event =
    SyncStatusChanged sync_status_payload
  | SyncItemUpdated sync_item
  | SyncErrorPushed ipc_sync_error
  | NotificationNew notification
  | AccountChanged "account list"
  | AccountQuotaUpdated string storage_quota
  | OauthComplete string
  | UnknownEvent string "json option"

section \<open>Tokens\<close>

record token_set =
  ts_access_token :: string
  ts_refresh_token :: "string option"
  ts_expires_at :: int

section \<open>The world\<close>

record 'x world =
  w_db :: database
  w_fs :: filesystem
  w_ext :: 'x
  w_push :: "push_event list"
  w_tokens :: "string \<rightharpoonup> token_set"
  w_sync_mode :: SyncMode
  w_mount_point :: string
  w_oauth :: "(string \<times> string) option"
  w_fault :: "nat \<Rightarrow> string option"
  w_clock :: "nat \<Rightarrow> int"
  w_limit :: nat
  w_ops :: nat

definition halted :: "'x world \<Rightarrow> bool" where
  "halted w \<longleftrightarrow> w_limit w \<le> w_ops w"

definition tick :: "'x world \<Rightarrow> 'x world" where
  "tick w = w\<lparr>w_ops := Suc (w_ops w)\<rparr>"

text \<open>A database statement.\<close>

definition db_exec :: "(database \<Rightarrow> 'a result \<times> database) \<Rightarrow> ('x world, 'a result) state" where
  "db_exec f = State (\<lambda>w.
     if halted w then (Inl ''halted'', w)
     else case w_fault w (w_ops w) of
            Some e \<Rightarrow> (Inl e, tick w)
          | None \<Rightarrow> (case f (w_db w) of (r, d) \<Rightarrow> (r, tick (w\<lparr>w_db := d\<rparr>))))"

text \<open>A file-system call; writes stamp files with the clock of the call.\<close>

definition fs_exec :: "(int \<Rightarrow> filesystem \<Rightarrow> 'a result \<times> filesystem) \<Rightarrow> ('x world, 'a result) state" where
  "fs_exec f = State (\<lambda>w.
     if halted w then (Inl ''halted'', w)
     else case w_fault w (w_ops w) of
            Some e \<Rightarrow> (Inl e, tick w)
          | None \<Rightarrow> (case f (w_clock w (w_ops w)) (w_fs w) of (r, s) \<Rightarrow> (r, tick (w\<lparr>w_fs := s\<rparr>))))"

text \<open>A call to an external service; the service itself decides whether it fails.\<close>

definition ext_call :: "('x \<Rightarrow> 'a result \<times> 'x) \<Rightarrow> ('x world, 'a result) state" where
  "ext_call f = State (\<lambda>w.
     if halted w then (Inl ''halted'', w)
     else case f (w_ext w) of (r, x) \<Rightarrow> (r, tick (w\<lparr>w_ext := x\<rparr>)))"

text \<open>Reading the clock, and a query of the file system that cannot fail.\<close>

definition now_ms :: "('x world, int) state" where
  "now_ms = State (\<lambda>w. (w_clock w (w_ops w), w))"

definition fs_query :: "(filesystem \<Rightarrow> 'a) \<Rightarrow> ('x world, 'a) state" where
  "fs_query f = State (\<lambda>w. (f (w_fs w), w))"

text \<open>Broadcasting to the clients never fails the caller.\<close>

definition push_send :: "push_event \<Rightarrow> ('x world, unit) state" where
  "push_send e = State (\<lambda>w. ((), if halted w then w else w\<lparr>w_push := w_push w @ [e]\<rparr>))"

definition cache_insert :: "string \<Rightarrow> token_set \<Rightarrow> ('x world, unit) state" where
  "cache_insert acct ts = State (\<lambda>w. ((), if halted w then w else w\<lparr>w_tokens := (w_tokens w)(acct \<mapsto> ts)\<rparr>))"

text \<open>A computation that never comes back: nothing happens afterwards.\<close>

definition hang :: "('x world, 'a result) state" where
  "hang = State (\<lambda>w. (Inl ''halted'', w\<lparr>w_ops := max (w_ops w) (w_limit w)\<rparr>))"

text \<open>The operations left before the limit: the fuel of loops that make at least one per round.\<close>

definition remaining_ops :: "('x world, nat) state" where
  "remaining_ops = State (\<lambda>w. (w_limit w - w_ops w, w))"

text \<open>Runs in which nothing outside the services fails.\<close>

definition no_faults :: "'x world \<Rightarrow> bool" where
  "no_faults w \<longleftrightarrow> w_fault w = (\<lambda>_. None)"

text \<open>At least \<open>n\<close> more operations can run.\<close>

definition can_run :: "nat \<Rightarrow> 'x world \<Rightarrow> bool" where
  "can_run n w \<longleftrightarrow> w_ops w + n \<le> w_limit w"

lemma tick_simps [simp]:
  "w_db (tick w) = w_db w" "w_fs (tick w) = w_fs w" "w_ext (tick w) = w_ext w"
  "w_push (tick w) = w_push w" "w_tokens (tick w) = w_tokens w" "w_sync_mode (tick w) = w_sync_mode w"
  "w_mount_point (tick w) = w_mount_point w" "w_oauth (tick w) = w_oauth w" "w_fault (tick w) = w_fault w"
  "w_clock (tick w) = w_clock w" "w_limit (tick w) = w_limit w" "w_ops (tick w) = Suc (w_ops w)"
  by (simp_all add: tick_def)

section \<open>File-system operations\<close>

definition fs_exists :: "filesystem \<Rightarrow> string \<Rightarrow> bool" where
  "fs_exists s p = (p \<in> fs_dirs s \<or> fs_files s p \<noteq> None)"

text \<open>The directory a new entry \<open>p\<close> would be created in exists; the empty path is the working directory.\<close>

definition parent_ok :: "filesystem \<Rightarrow> string \<Rightarrow> bool" where
  "parent_ok s p = (case path_parent p of None \<Rightarrow> False | Some d \<Rightarrow> d = [] \<or> d \<in> fs_dirs s)"

definition fs_read :: "string \<Rightarrow> ('x world, bytes result) state" where
  "fs_read p = fs_exec (\<lambda>_ s. (case fs_files s p of
     None \<Rightarrow> Inl ''No such file or directory'' | Some f \<Rightarrow> Inr (f_bytes f), s))"

text \<open>\<^verbatim>\<open>File::create\<close>: an empty file, truncating an old one.\<close>

definition fs_create :: "string \<Rightarrow> ('x world, unit result) state" where
  "fs_create p = fs_exec (\<lambda>t s.
     if p \<in> fs_dirs s then (Inl ''Is a directory'', s)
     else if \<not> parent_ok s p then (Inl ''No such file or directory'', s)
     else (Inr (), s\<lparr>fs_files := (fs_files s)(p \<mapsto> \<lparr>f_bytes = [], f_mtime = Some t\<rparr>)\<rparr>))"

text \<open>\<^verbatim>\<open>write_all\<close> through a handle opened by \<open>fs_create\<close>.\<close>

definition fs_append :: "string \<Rightarrow> bytes \<Rightarrow> ('x world, unit result) state" where
  "fs_append p bs = fs_exec (\<lambda>t s.
     case fs_files s p of
       None \<Rightarrow> (Inl ''Bad file descriptor'', s)
     | Some f \<Rightarrow> (Inr (), s\<lparr>fs_files := (fs_files s)(p \<mapsto> \<lparr>f_bytes = f_bytes f @ bs, f_mtime = Some t\<rparr>)\<rparr>))"

text \<open>\<^verbatim>\<open>rename\<close> of a file: atomic, replaces an existing file.\<close>

definition fs_rename :: "string \<Rightarrow> string \<Rightarrow> ('x world, unit result) state" where
  "fs_rename a b = fs_exec (\<lambda>_ s.
     case fs_files s a of
       None \<Rightarrow> (Inl ''No such file or directory'', s)
     | Some f \<Rightarrow>
         if b \<in> fs_dirs s then (Inl ''Is a directory'', s)
         else if \<not> parent_ok s b then (Inl ''No such file or directory'', s)
         else (Inr (), s\<lparr>fs_files := (fs_files s)(a := None, b \<mapsto> f)\<rparr>))"

text \<open>\<^verbatim>\<open>flush\<close> of a file handle: it may fail, and changes nothing visible.\<close>

definition fs_flush :: "('x world, unit result) state" where
  "fs_flush = fs_exec (\<lambda>_ s. (Inr (), s))"

definition fs_remove :: "string \<Rightarrow> ('x world, unit result) state" where
  "fs_remove p = fs_exec (\<lambda>_ s.
     case fs_files s p of
       None \<Rightarrow> (Inl ''No such file or directory'', s)
     | Some _ \<Rightarrow> (Inr (), s\<lparr>fs_files := (fs_files s)(p := None)\<rparr>))"

definition fs_create_dir_all :: "string \<Rightarrow> ('x world, unit result) state" where
  "fs_create_dir_all p = fs_exec (\<lambda>_ s.
     if list_ex (\<lambda>q. fs_files s q \<noteq> None) (path_prefixes p) then (Inl ''Not a directory'', s)
     else (Inr (), s\<lparr>fs_dirs := fs_dirs s \<union> set (path_prefixes p)\<rparr>))"

text \<open>\<^verbatim>\<open>metadata(p)\<close>: the length and the modification time in ms, when the platform has one.\<close>

definition fs_metadata :: "string \<Rightarrow> ('x world, (nat \<times> int option) result) state" where
  "fs_metadata p = fs_exec (\<lambda>_ s. (case fs_files s p of
     None \<Rightarrow> if p \<in> fs_dirs s then Inr (0, None) else Inl ''No such file or directory''
   | Some f \<Rightarrow> Inr (length (f_bytes f), f_mtime f), s))"

end
