(* ===== verification/Db_Queue.thy ===== *)
theory Db_Queue
  imports World "HOL-Library.Multiset" "HOL-Library.Product_Lexorder"
begin

text \<open>
  The task queue, \<^verbatim>\<open>crates/gdriver-daemon/src/db/queue.rs\<close>: each statement as a function on the
  database, and the asynchronous functions the engine calls. The interface \<open>task_queue\<close> states what
  the engine relies on; the last section shows that the statements provide it.
\<close>

definition task_from_row :: "sync_task_row \<Rightarrow> sync_task" where
  "task_from_row r = \<lparr>t_id = Some (q_id r), t_account_id = q_account_id r, t_file_id = q_file_id r,
     t_operation = q_operation r, t_local_path = q_local_path r, t_priority = q_priority r,
     t_status = q_status r, t_retry_count = q_retry_count r, t_error_msg = q_error_msg r,
     t_created_at = q_created_at r, t_updated_at = q_updated_at r\<rparr>"

lemma task_from_row_simps [simp]:
  "t_id (task_from_row r) = Some (q_id r)" "t_account_id (task_from_row r) = q_account_id r"
  "t_file_id (task_from_row r) = q_file_id r" "t_operation (task_from_row r) = q_operation r"
  "t_local_path (task_from_row r) = q_local_path r" "t_priority (task_from_row r) = q_priority r"
  "t_status (task_from_row r) = q_status r" "t_retry_count (task_from_row r) = q_retry_count r"
  "t_created_at (task_from_row r) = q_created_at r"
  by (simp_all add: task_from_row_def)

definition q_row :: "int \<Rightarrow> sync_task \<Rightarrow> sync_task_row" where
  "q_row i t = \<lparr>q_id = i, q_account_id = t_account_id t, q_file_id = t_file_id t,
     q_operation = t_operation t, q_local_path = t_local_path t, q_priority = t_priority t,
     q_status = t_status t, q_retry_count = t_retry_count t, q_error_msg = t_error_msg t,
     q_created_at = t_created_at t, q_updated_at = t_updated_at t\<rparr>"

section \<open>Statements\<close>

definition q_insert :: "sync_task \<Rightarrow> database \<Rightarrow> database" where
  "q_insert t d = d\<lparr>sync_queue := sync_queue d @ [q_row (queue_seq d + 1) t], queue_seq := queue_seq d + 1\<rparr>"

definition q_pending :: "database \<Rightarrow> sync_task_row list" where
  "q_pending d = filter (\<lambda>r. q_status r = ''pending'') (sync_queue d)"

definition q_key :: "sync_task_row \<Rightarrow> int \<times> int" where
  "q_key r = (q_priority r, q_created_at r)"

definition q_next :: "database \<Rightarrow> sync_task_row option" where
  "q_next d = first_min q_key (q_pending d)"

definition q_set_status :: "int \<Rightarrow> string \<Rightarrow> string option \<Rightarrow> int \<Rightarrow> database \<Rightarrow> database" where
  "q_set_status i st msg now d = d\<lparr>sync_queue :=
     update_where (\<lambda>r. q_id r = i) (\<lambda>r. r\<lparr>q_status := st, q_error_msg := msg, q_updated_at := now\<rparr>) (sync_queue d)\<rparr>"

definition q_set_retry :: "int \<Rightarrow> string \<Rightarrow> int \<Rightarrow> string option \<Rightarrow> int \<Rightarrow> database \<Rightarrow> database" where
  "q_set_retry i st n msg now d = d\<lparr>sync_queue :=
     update_where (\<lambda>r. q_id r = i)
       (\<lambda>r. r\<lparr>q_status := st, q_retry_count := n, q_error_msg := msg, q_updated_at := now\<rparr>) (sync_queue d)\<rparr>"

definition q_in_progress :: "database \<Rightarrow> sync_task_row list" where
  "q_in_progress d = sort_key q_key (filter (\<lambda>r. q_status r = ''in_progress'') (sync_queue d))"

definition q_reset :: "int \<Rightarrow> database \<Rightarrow> database" where
  "q_reset now d = d\<lparr>sync_queue :=
     update_where (\<lambda>r. q_status r = ''in_progress'') (\<lambda>r. r\<lparr>q_status := ''pending'', q_updated_at := now\<rparr>) (sync_queue d)\<rparr>"

section \<open>Asynchronous functions\<close>

definition enqueue :: "sync_task \<Rightarrow> ('x world, sync_task result) state" where
  "enqueue t = tryE (db_exec (\<lambda>d. (Inr (q_row (queue_seq d + 1) t), q_insert t d)))
     (\<lambda>row. State_Monad.return (Inr (task_from_row row)))"

definition next_pending_task :: "('x world, sync_task option result) state" where
  "next_pending_task = tryE (db_exec (\<lambda>d. (Inr (q_next d), d)))
     (\<lambda>row. State_Monad.return (Inr (map_option task_from_row row)))"

definition update_task_status :: "int \<Rightarrow> string \<Rightarrow> string option \<Rightarrow> ('x world, unit result) state" where
  "update_task_status i st msg = do {
     now \<leftarrow> now_ms;
     db_exec (\<lambda>d. (Inr (), q_set_status i st msg now d))
   }"

definition update_task_retry :: "int \<Rightarrow> string \<Rightarrow> int \<Rightarrow> string option \<Rightarrow> ('x world, unit result) state" where
  "update_task_retry i st n msg = do {
     now \<leftarrow> now_ms;
     db_exec (\<lambda>d. (Inr (), q_set_retry i st n msg now d))
   }"

definition get_in_progress_tasks :: "('x world, sync_task list result) state" where
  "get_in_progress_tasks = tryE (db_exec (\<lambda>d. (Inr (q_in_progress d), d)))
     (\<lambda>rows. State_Monad.return (Inr (map task_from_row rows)))"

definition reset_in_progress_to_pending :: "('x world, nat result) state" where
  "reset_in_progress_to_pending = do {
     now \<leftarrow> now_ms;
     db_exec (\<lambda>d. (Inr (length (q_in_progress d)), q_reset now d))
   }"

section \<open>The interface the engine relies on\<close>

text \<open>
  A pool of open entries with a sort key: \<open>nxt\<close> yields an open entry with least key, \<open>close\<close> takes
  an entry out of the pool, \<open>add\<close> puts one in under a fresh identifier.
\<close>

locale task_queue =
  fixes pool :: "'q \<Rightarrow> 'r list"
    and nxt :: "'q \<Rightarrow> 'r option"
    and close :: "int \<Rightarrow> 'q \<Rightarrow> 'q"
    and add :: "'t \<Rightarrow> 'q \<Rightarrow> 'q"
    and row :: "'t \<Rightarrow> 'q \<Rightarrow> 'r"
    and is_open :: "'t \<Rightarrow> bool"
    and ident :: "'r \<Rightarrow> int"
    and key :: "'r \<Rightarrow> 'k::linorder"
    and invar :: "'q \<Rightarrow> bool"
  assumes nxt_None: "nxt q = None \<longleftrightarrow> pool q = []"
    and nxt_in: "nxt q = Some r \<Longrightarrow> r \<in> set (pool q)"
    and nxt_least: "nxt q = Some r \<Longrightarrow> s \<in> set (pool q) \<Longrightarrow> key r \<le> key s"
    and pool_close: "invar q \<Longrightarrow> pool (close i q) = filter (\<lambda>r. ident r \<noteq> i) (pool q)"
    and pool_add: "is_open t \<Longrightarrow> pool (add t q) = pool q @ [row t q]"
    and ident_distinct: "invar q \<Longrightarrow> distinct (map ident (pool q))"
    and invar_close: "invar q \<Longrightarrow> invar (close i q)"
    and invar_add: "invar q \<Longrightarrow> invar (add t q)"
begin

text \<open>Serving the queue: take the next entry and close it, at most \<open>n\<close> times.\<close>

fun serve :: "nat \<Rightarrow> 'q \<Rightarrow> 'r list" where
  "serve 0 q = []"
| "serve (Suc n) q = (case nxt q of None \<Rightarrow> [] | Some r \<Rightarrow> r # serve n (close (ident r) q))"

lemma pool_close_nxt:
  assumes "invar q" and "nxt q = Some r"
  shows "mset (pool q) = add_mset r (mset (pool (close (ident r) q)))"
    and "length (pool (close (ident r) q)) < length (pool q)"
proof -
  have r: "r \<in> set (pool q)" using assms(2) by (rule nxt_in)
  have inj: "inj_on ident (set (pool q))" and dist: "distinct (pool q)"
    using ident_distinct [OF assms(1)] by (auto simp: distinct_map)
  have "filter (\<lambda>s. ident s \<noteq> ident r) (pool q) = remove1 r (pool q)"
    using r inj dist by (simp add: distinct_remove1_removeAll removeAll_filter_not_eq)
      (rule filter_cong, auto dest: inj_onD)
  then have eq: "pool (close (ident r) q) = remove1 r (pool q)"
    using pool_close [OF assms(1)] by simp
  then show "mset (pool q) = add_mset r (mset (pool (close (ident r) q)))"
    using r by (simp add: mset_remove1)
  then show "length (pool (close (ident r) q)) < length (pool q)"
    by (metis size_add_mset size_mset lessI)
qed

theorem serve_sorted: "invar q \<Longrightarrow> sorted (map key (serve n q))"
proof (induction n arbitrary: q)
  case (Suc n)
  show ?case
  proof (cases "nxt q")
    case (Some r)
    let ?q = "close (ident r) q"
    have sub: "set (serve m p) \<subseteq> set (pool p)" if "invar p" for m p
      using that
    proof (induction m arbitrary: p)
      case (Suc m)
      then show ?case
        using nxt_in invar_close pool_close
        by (auto split: option.splits) (metis (no_types, lifting) filter_is_subset subset_iff)
    qed simp
    have "set (serve n ?q) \<subseteq> set (pool q)"
      using sub [OF invar_close [OF Suc.prems]] pool_close [OF Suc.prems] by fastforce
    then show ?thesis
      using Some Suc nxt_least [OF Some] invar_close by auto
  qed simp
qed simp

theorem serve_all: "invar q \<Longrightarrow> length (pool q) \<le> n \<Longrightarrow> mset (serve n q) = mset (pool q)"
proof (induction n arbitrary: q)
  case (Suc n)
  show ?case
  proof (cases "nxt q")
    case None
    then show ?thesis using nxt_None [of q] by simp
  next
    case (Some r)
    then show ?thesis
      using Suc pool_close_nxt [OF Suc.prems(1) Some] invar_close by simp
  qed
qed simp

end

section \<open>The statements provide the interface\<close>

definition wf_queue :: "database \<Rightarrow> bool" where
  "wf_queue d \<longleftrightarrow> distinct (map q_id (sync_queue d)) \<and> (\<forall>r \<in> set (sync_queue d). q_id r \<le> queue_seq d)"

lemma wf_db_wf_queue: "wf_db d \<Longrightarrow> wf_queue d"
  by (auto simp: wf_db_def wf_queue_def list_all_iff)

lemma q_pending_set_status:
  "st \<noteq> ''pending'' \<Longrightarrow> q_pending (q_set_status i st msg now d) = filter (\<lambda>r. q_id r \<noteq> i) (q_pending d)"
  by (simp add: q_pending_def q_set_status_def filter_update_where)

lemma ids_set_status [simp]: "map q_id (sync_queue (q_set_status i st msg now d)) = map q_id (sync_queue d)"
  by (simp add: q_set_status_def map_update_where)

lemma ids_set_retry [simp]: "map q_id (sync_queue (q_set_retry i st n msg now d)) = map q_id (sync_queue d)"
  by (simp add: q_set_retry_def map_update_where)

lemma wf_queue_set_status [simp]: "wf_queue (q_set_status i st msg now d) = wf_queue d"
proof -
  have "queue_seq (q_set_status i st msg now d) = queue_seq d"
    by (simp add: q_set_status_def)
  then show ?thesis
    using ball_map_eq [OF ids_set_status [of i st msg now d], of "\<lambda>j. j \<le> queue_seq d"]
    by (simp add: wf_queue_def)
qed

lemma wf_queue_insert [simp]: "wf_queue d \<Longrightarrow> wf_queue (q_insert t d)"
  by (fastforce simp: wf_queue_def q_insert_def q_row_def)

interpretation tq: task_queue q_pending q_next
  "\<lambda>i d. q_set_status i ''completed'' msg now d" q_insert "\<lambda>t d. q_row (queue_seq d + 1) t"
  "\<lambda>t. t_status t = ''pending''" q_id q_key wf_queue
proof unfold_locales
  show "q_next d = None \<longleftrightarrow> q_pending d = []" for d
    by (simp add: q_next_def)
  show "r \<in> set (q_pending d)" if "q_next d = Some r" for d r
    using that first_min_SomeD by (fastforce simp: q_next_def)
  show "q_key r \<le> q_key s" if "q_next d = Some r" and "s \<in> set (q_pending d)" for d r s
    using that first_min_SomeD by (fastforce simp: q_next_def)
  show "q_pending (q_set_status i ''completed'' msg now d) = filter (\<lambda>r. q_id r \<noteq> i) (q_pending d)" for i d
    by (simp add: q_pending_set_status)
  show "q_pending (q_insert t d) = q_pending d @ [q_row (queue_seq d + 1) t]" if "t_status t = ''pending''" for t d
    using that by (simp add: q_pending_def q_insert_def q_row_def)
  show "distinct (map q_id (q_pending d))" if "wf_queue d" for d
    using that by (simp add: wf_queue_def q_pending_def distinct_map_filter)
qed simp_all

section \<open>Running the queue functions\<close>

lemma run_update_task_status [simp]:
  "run_state (update_task_status i st msg) w =
     run_state (db_exec (\<lambda>d. (Inr (), q_set_status i st msg (w_clock w (w_ops w)) d))) w"
  by (simp add: update_task_status_def now_ms_def)

lemma run_update_task_retry [simp]:
  "run_state (update_task_retry i st n msg) w =
     run_state (db_exec (\<lambda>d. (Inr (), q_set_retry i st n msg (w_clock w (w_ops w)) d))) w"
  by (simp add: update_task_retry_def now_ms_def)

lemma task_row_roundtrip: "t_id t = Some i \<Longrightarrow> task_from_row (q_row i t) = t"
  by (simp add: task_from_row_def q_row_def)

lemma row_task_roundtrip: "q_row (q_id r) (task_from_row r) = r"
  by (simp add: task_from_row_def q_row_def)

lemma compare_priority_rows:
  "compare_priority (task_from_row a) (task_from_row b) \<noteq> Greater \<longleftrightarrow> q_key a \<le> q_key b"
  by (auto simp: compare_priority_def cmp_int_def task_from_row_def q_key_def less_eq_prod_def split: if_splits)

end
