(* ===== verification/Db_Files.thy ===== *)
theory Db_Files
  imports World "HOL-Library.List_Lexorder" "HOL-Library.Char_ord" "HOL-Library.Product_Lexorder"
begin

text \<open>
  File metadata, \<^verbatim>\<open>crates/gdriver-daemon/src/db/files.rs\<close>. The table refines a map from
  (file id, account id) to file records; \<open>file_store\<close> is that interface.
\<close>

section \<open>Row conversions\<close>

definition file_from_row :: "drive_file_row \<Rightarrow> drive_file" where
  "file_from_row r = \<lparr>d_id = r_id r, d_account_id = r_account_id r, d_name = r_name r,
     d_mime_type = r_mime_type r, d_parent_id = r_parent_id r, d_size = r_size r, d_etag = r_etag r,
     d_version = r_version r, d_modified_time = r_modified_time r, d_is_trashed = (r_is_trashed r \<noteq> 0),
     d_is_shared = (r_is_shared r \<noteq> 0), d_local_path = r_local_path r, d_sync_state = r_sync_state r,
     d_local_mtime = r_local_mtime r\<rparr>"

definition row_from_file :: "int \<Rightarrow> drive_file \<Rightarrow> drive_file_row" where
  "row_from_file i f = \<lparr>r_rowid = i, r_id = d_id f, r_account_id = d_account_id f, r_name = d_name f,
     r_mime_type = d_mime_type f, r_parent_id = d_parent_id f, r_size = d_size f, r_etag = d_etag f,
     r_version = d_version f, r_modified_time = d_modified_time f,
     r_is_trashed = bool_i64 (d_is_trashed f), r_is_shared = bool_i64 (d_is_shared f),
     r_local_path = d_local_path f, r_sync_state = d_sync_state f, r_local_mtime = d_local_mtime f\<rparr>"

lemma file_row_roundtrip [simp]: "file_from_row (row_from_file i f) = f"
  by (simp add: file_from_row_def row_from_file_def)

lemma row_from_file_key [simp]:
  "file_key (row_from_file i f) = (d_id f, d_account_id f)" "r_rowid (row_from_file i f) = i"
  "r_account_id (row_from_file i f) = d_account_id f"
  by (simp_all add: file_key_def row_from_file_def)

section \<open>Statements\<close>

definition next_rowid :: "database \<Rightarrow> int" where
  "next_rowid d = fold max (map r_rowid (drive_files d)) 0 + 1"

definition f_upsert :: "drive_file \<Rightarrow> database \<Rightarrow> unit result \<times> database" where
  "f_upsert f d =
     (let k = (d_id f, d_account_id f)
      in if list_ex (\<lambda>r. file_key r = k) (drive_files d)
         then (Inr (), d\<lparr>drive_files := update_where (\<lambda>r. file_key r = k) (\<lambda>r. row_from_file (r_rowid r) f) (drive_files d)\<rparr>)
         else if has_account d (d_account_id f)
         then (Inr (), d\<lparr>drive_files := drive_files d @ [row_from_file (next_rowid d) f]\<rparr>)
         else (Inl ''FOREIGN KEY constraint failed'', d))"

definition f_get :: "string \<Rightarrow> string \<Rightarrow> database \<Rightarrow> drive_file option" where
  "f_get i acct d = map_option file_from_row (find (\<lambda>r. file_key r = (i, acct)) (drive_files d))"

definition f_get_by_local_path :: "string \<Rightarrow> database \<Rightarrow> drive_file option" where
  "f_get_by_local_path p d = map_option file_from_row (find (\<lambda>r. r_local_path r = Some p) (drive_files d))"

definition f_children :: "string option \<Rightarrow> string \<Rightarrow> database \<Rightarrow> drive_file list" where
  "f_children parent acct d = map file_from_row (sort_key r_name
     (filter (\<lambda>r. r_parent_id r = parent \<and> r_account_id r = acct \<and> r_is_trashed r = 0) (drive_files d)))"

definition f_set_sync_state :: "string \<Rightarrow> string \<Rightarrow> string \<Rightarrow> database \<Rightarrow> database" where
  "f_set_sync_state i acct st d = d\<lparr>drive_files :=
     update_where (\<lambda>r. file_key r = (i, acct)) (\<lambda>r. r\<lparr>r_sync_state := st\<rparr>) (drive_files d)\<rparr>"

definition f_mark_trashed :: "string \<Rightarrow> string \<Rightarrow> database \<Rightarrow> database" where
  "f_mark_trashed i acct d = d\<lparr>drive_files :=
     update_where (\<lambda>r. file_key r = (i, acct)) (\<lambda>r. r\<lparr>r_is_trashed := 1\<rparr>) (drive_files d)\<rparr>"

text \<open>\<^verbatim>\<open>ORDER BY modified_time DESC\<close>: newest first, \<^verbatim>\<open>NULL\<close> last.\<close>

definition recency_key :: "drive_file_row \<Rightarrow> nat \<times> int" where
  "recency_key r = (case r_modified_time r of None \<Rightarrow> (1, 0) | Some t \<Rightarrow> (0, - t))"

definition f_recent :: "database \<Rightarrow> drive_file_row list" where
  "f_recent d = sort_key recency_key (filter (\<lambda>r. r_is_trashed r = 0) (drive_files d))"

text \<open>SQLite's \<^verbatim>\<open>LIKE\<close>: \<open>%\<close> any run, \<open>_\<close> any character, ASCII letters compare case-insensitively.\<close>

definition ascii_lower :: "char \<Rightarrow> char" where
  "ascii_lower c = (let n = of_char c :: nat in if 65 \<le> n \<and> n \<le> 90 then char_of (n + 32) else c)"

fun sql_like :: "string \<Rightarrow> string \<Rightarrow> bool" where
  "sql_like [] s = (s = [])"
| "sql_like (p # ps) s =
     (if p = CHR ''%'' then sql_like ps s \<or> (case s of [] \<Rightarrow> False | _ # xs \<Rightarrow> sql_like (p # ps) xs)
      else case s of
             [] \<Rightarrow> False
           | x # xs \<Rightarrow> (p = CHR ''_'' \<or> ascii_lower p = ascii_lower x) \<and> sql_like ps xs)"

definition f_by_suffix :: "string \<Rightarrow> database \<Rightarrow> drive_file option" where
  "f_by_suffix sfx d = map_option file_from_row
     (first_min (\<lambda>r. case r_local_path r of None \<Rightarrow> 0 | Some p \<Rightarrow> length p)
       (filter (\<lambda>r. (case r_local_path r of None \<Rightarrow> False | Some p \<Rightarrow> sql_like (''%/'' @ sfx) p) \<and> r_is_trashed r = 0)
         (drive_files d)))"

definition f_sum_state :: "string \<Rightarrow> database \<Rightarrow> int" where
  "f_sum_state st d = sum_list (map (\<lambda>r. if r_sync_state r = st then (case r_size r of None \<Rightarrow> 0 | Some n \<Rightarrow> n) else 0)
     (filter (\<lambda>r. r_is_trashed r = 0) (drive_files d)))"

section \<open>Asynchronous functions\<close>

definition upsert_file :: "drive_file \<Rightarrow> ('x world, unit result) state" where
  "upsert_file f = db_exec (f_upsert f)"

definition get_file_by_id :: "string \<Rightarrow> string \<Rightarrow> ('x world, drive_file option result) state" where
  "get_file_by_id i acct = db_exec (\<lambda>d. (Inr (f_get i acct d), d))"

definition get_file_by_local_path :: "string \<Rightarrow> ('x world, drive_file option result) state" where
  "get_file_by_local_path p = db_exec (\<lambda>d. (Inr (f_get_by_local_path p d), d))"

definition list_children :: "string option \<Rightarrow> string \<Rightarrow> ('x world, drive_file list result) state" where
  "list_children parent acct = db_exec (\<lambda>d. (Inr (f_children parent acct d), d))"

definition set_sync_state :: "string \<Rightarrow> string \<Rightarrow> string \<Rightarrow> ('x world, unit result) state" where
  "set_sync_state i acct st = db_exec (\<lambda>d. (Inr (), f_set_sync_state i acct st d))"

definition mark_trashed :: "string \<Rightarrow> string \<Rightarrow> ('x world, unit result) state" where
  "mark_trashed i acct = db_exec (\<lambda>d. (Inr (), f_mark_trashed i acct d))"

definition list_recent_files :: "nat \<Rightarrow> ('x world, drive_file list result) state" where
  "list_recent_files limit = db_exec (\<lambda>d. (Inr (map file_from_row (take limit (f_recent d))), d))"

definition list_files_paginated :: "nat \<Rightarrow> nat \<Rightarrow> ('x world, drive_file list result) state" where
  "list_files_paginated page page_size =
     db_exec (\<lambda>d. (Inr (map file_from_row (take page_size (drop (page * page_size) (f_recent d)))), d))"

definition find_file_by_relative_suffix :: "string \<Rightarrow> ('x world, drive_file option result) state" where
  "find_file_by_relative_suffix sfx = db_exec (\<lambda>d. (Inr (f_by_suffix sfx d), d))"

definition sum_bytes_by_sync_state :: "('x world, (int \<times> int) result) state" where
  "sum_bytes_by_sync_state = db_exec (\<lambda>d. (Inr (f_sum_state ''offline'' d, f_sum_state ''cached'' d), d))"

text \<open>
  \<^verbatim>\<open>SUM\<close> over no rows is \<^verbatim>\<open>NULL\<close>; this query has no \<^verbatim>\<open>COALESCE\<close> and the columns are read as \<^verbatim>\<open>i64\<close>, so without a live
  row the read fails.
\<close>

definition count_files_and_folders :: "('x world, (nat \<times> nat) result) state" where
  "count_files_and_folders = db_exec (\<lambda>d.
     let rs = filter (\<lambda>r. r_is_trashed r = 0) (drive_files d);
         folders = filter (\<lambda>r. r_mime_type r = ''application/vnd.google-apps.folder'') rs
     in (if rs = [] then Inl ''unexpected null; try decoding as an `Option`'' else Inr (length rs - length folders, length folders), d))"

section \<open>The table as a map\<close>

definition files_map :: "database \<Rightarrow> string \<times> string \<Rightarrow> drive_file option" where
  "files_map d k = f_get (fst k) (snd k) d"

text \<open>What the sync code relies on: a lookup sees exactly the last write under its key.\<close>

locale file_store =
  fixes lookup :: "'s \<Rightarrow> 'k \<Rightarrow> 'v option"
    and put :: "'v \<Rightarrow> 's \<Rightarrow> 's"
    and key :: "'v \<Rightarrow> 'k"
    and ok :: "'v \<Rightarrow> 's \<Rightarrow> bool"
    and adjust :: "'k \<Rightarrow> 's \<Rightarrow> 's"
    and g :: "'v \<Rightarrow> 'v"
  assumes lookup_put: "ok v s \<Longrightarrow> lookup (put v s) = (lookup s)(key v \<mapsto> v)"
    and lookup_adjust: "lookup (adjust k s) = (lookup s)(k := map_option g (lookup s k))"
begin

lemma put_twice: "ok v s \<Longrightarrow> ok u (put v s) \<Longrightarrow> key u = key v \<Longrightarrow> lookup (put u (put v s)) = (lookup s)(key v \<mapsto> u)"
  by (simp add: lookup_put)

lemma put_other: "ok v s \<Longrightarrow> j \<noteq> key v \<Longrightarrow> lookup (put v s) j = lookup s j"
  by (simp add: lookup_put)

lemma adjust_missing: "lookup s k = None \<Longrightarrow> lookup (adjust k s) = lookup s"
  by (rule ext) (simp add: lookup_adjust)

lemma adjust_put: "ok v s \<Longrightarrow> lookup (adjust (key v) (put v s)) = (lookup s)(key v \<mapsto> g v)"
  by (simp add: lookup_adjust lookup_put)

end

definition upsert_ok :: "drive_file \<Rightarrow> database \<Rightarrow> bool" where
  "upsert_ok f d \<longleftrightarrow> is_ok (fst (f_upsert f d))"

definition db_file_key :: "drive_file \<Rightarrow> string \<times> string" where
  "db_file_key f = (d_id f, d_account_id f)"

lemma file_from_row_key: "file_key r = (d_id (file_from_row r), d_account_id (file_from_row r))"
  by (simp add: file_key_def file_from_row_def)

lemma files_map_upsert:
  assumes "upsert_ok f d"
  shows "files_map (snd (f_upsert f d)) = (files_map d)(db_file_key f \<mapsto> f)"
proof (rule ext)
  fix k :: "string \<times> string"
  let ?k = "(d_id f, d_account_id f)"
  show "files_map (snd (f_upsert f d)) k = ((files_map d)(db_file_key f \<mapsto> f)) k"
  proof (cases "list_ex (\<lambda>r. file_key r = ?k) (drive_files d)")
    case True
    have upd: "find (\<lambda>r. file_key r = k) (update_where (\<lambda>r. file_key r = ?k) (\<lambda>r. row_from_file (r_rowid r) f) (drive_files d))
        = map_option (\<lambda>r. if file_key r = ?k then row_from_file (r_rowid r) f else r) (find (\<lambda>r. file_key r = k) (drive_files d))"
      by (rule find_update_where) auto
    from True obtain r0 where r0: "find (\<lambda>r. file_key r = ?k) (drive_files d) = Some r0"
      using find_list_ex [of "\<lambda>r. file_key r = ?k"] by auto
    show ?thesis
    proof (cases "k = ?k")
      case k: True
      then show ?thesis
        using True r0 upd by (auto simp: files_map_def f_get_def f_upsert_def db_file_key_def dest: find_SomeD)
    next
      case False
      then show ?thesis
        using True upd
        by (cases "find (\<lambda>r. file_key r = k) (drive_files d)")
           (auto simp: files_map_def f_get_def f_upsert_def db_file_key_def dest: find_SomeD)
    qed
  next
    case False
    then show ?thesis
      using assms find_list_ex [of "\<lambda>r. file_key r = ?k" "drive_files d"]
      by (auto simp: upsert_ok_def files_map_def f_get_def f_upsert_def db_file_key_def find_append
          split: if_splits option.splits)
  qed
qed

lemma files_map_update:
  assumes "\<And>r. file_key (h r) = file_key r" and "\<And>r. file_from_row (h r) = g (file_from_row r)"
  shows "files_map (d\<lparr>drive_files := update_where (\<lambda>r. file_key r = k) h (drive_files d)\<rparr>)
    = (files_map d)(k := map_option g (files_map d k))"
proof (rule ext)
  fix j
  have "find (\<lambda>r. file_key r = j) (update_where (\<lambda>r. file_key r = k) h (drive_files d))
      = map_option (\<lambda>r. if file_key r = k then h r else r) (find (\<lambda>r. file_key r = j) (drive_files d))"
    by (rule find_update_where) (simp add: assms)
  then show "files_map (d\<lparr>drive_files := update_where (\<lambda>r. file_key r = k) h (drive_files d)\<rparr>) j
      = ((files_map d)(k := map_option g (files_map d k))) j"
    by (cases "find (\<lambda>r. file_key r = j) (drive_files d)")
       (auto simp: files_map_def f_get_def assms dest: find_SomeD)
qed

lemma files_map_set_sync_state:
  "files_map (f_set_sync_state (fst k) (snd k) s d) = (files_map d)(k := map_option (\<lambda>f. f\<lparr>d_sync_state := s\<rparr>) (files_map d k))"
  unfolding f_set_sync_state_def prod.collapse
  by (rule files_map_update) (simp_all add: file_key_def file_from_row_def)

lemma files_map_mark_trashed:
  "files_map (f_mark_trashed (fst k) (snd k) d) = (files_map d)(k := map_option (\<lambda>f. f\<lparr>d_is_trashed := True\<rparr>) (files_map d k))"
  unfolding f_mark_trashed_def prod.collapse
  by (rule files_map_update) (simp_all add: file_key_def file_from_row_def)

interpretation st: file_store files_map "\<lambda>f d. snd (f_upsert f d)" db_file_key upsert_ok
  "\<lambda>k d. f_set_sync_state (fst k) (snd k) s d" "\<lambda>f. f\<lparr>d_sync_state := s\<rparr>"
  by unfold_locales (simp_all add: files_map_upsert files_map_set_sync_state)

interpretation tr: file_store files_map "\<lambda>f d. snd (f_upsert f d)" db_file_key upsert_ok
  "\<lambda>k d. f_mark_trashed (fst k) (snd k) d" "\<lambda>f. f\<lparr>d_is_trashed := True\<rparr>"
  by unfold_locales (simp_all add: files_map_upsert files_map_mark_trashed)

section \<open>Integrity\<close>

lemma next_rowid_fresh: "r \<in> set (drive_files d) \<Longrightarrow> r_rowid r < next_rowid d" and next_rowid_pos: "0 < next_rowid d"
  using fold_max_ge [of "r_rowid r" "map r_rowid (drive_files d)" 0] fold_max_ge_start [of 0 "map r_rowid (drive_files d)"]
  by (auto simp: next_rowid_def)

lemma f_upsert_frame:
  "snd (f_upsert f d) = d\<lparr>drive_files := drive_files (snd (f_upsert f d))\<rparr>"
  by (simp add: f_upsert_def Let_def)

lemma wf_db_drive_files:
  assumes "wf_db d" and "distinct (map file_key rs)" and "distinct (map r_rowid rs)"
    and "\<And>r. r \<in> set rs \<Longrightarrow> 0 < r_rowid r \<and> has_account d (r_account_id r)"
  shows "wf_db (d\<lparr>drive_files := rs\<rparr>)"
  using assms by (simp add: wf_db_def has_account_def list_all_iff)

lemma wf_db_update_files:
  assumes "wf_db d" and "\<And>r. file_key (h r) = file_key r" and "\<And>r. r_rowid (h r) = r_rowid r"
  shows "wf_db (d\<lparr>drive_files := update_where p h (drive_files d)\<rparr>)"
proof (rule wf_db_drive_files [OF assms(1)])
  show "distinct (map file_key (update_where p h (drive_files d)))"
    and "distinct (map r_rowid (update_where p h (drive_files d)))"
    using assms by (simp_all add: map_update_where wf_db_def)
  have "r_account_id (h r) = r_account_id r" for r
    using assms(2) [of r] by (simp add: file_key_def)
  then show "0 < r_rowid r \<and> has_account d (r_account_id r)"
    if "r \<in> set (update_where p h (drive_files d))" for r
    using that assms by (auto simp: set_update_where wf_db_def list_all_iff split: if_splits)
qed

lemma wf_db_upsert:
  assumes "wf_db d"
  shows "wf_db (snd (f_upsert f d))"
proof (cases "list_ex (\<lambda>r. file_key r = (d_id f, d_account_id f)) (drive_files d)")
  case True
  let ?k = "(d_id f, d_account_id f)"
  let ?rs = "update_where (\<lambda>r. file_key r = ?k) (\<lambda>r. row_from_file (r_rowid r) f) (drive_files d)"
  have "wf_db (d\<lparr>drive_files := ?rs\<rparr>)"
  proof (rule wf_db_drive_files [OF assms])
    show "distinct (map file_key ?rs)" and "distinct (map r_rowid ?rs)"
      using assms by (simp_all add: map_update_where wf_db_def)
    show "0 < r_rowid r \<and> has_account d (r_account_id r)" if "r \<in> set ?rs" for r
      using that assms by (auto simp: set_update_where wf_db_def list_all_iff file_key_def split: if_splits)
  qed
  then show ?thesis using True by (simp add: f_upsert_def)
next
  case False
  let ?rs = "drive_files d @ [row_from_file (next_rowid d) f]"
  have F: "distinct (map file_key (drive_files d))" "distinct (map r_rowid (drive_files d))"
    "\<forall>r \<in> set (drive_files d). 0 < r_rowid r \<and> has_account d (r_account_id r)"
    using assms by (simp_all add: wf_db_def list_all_iff)
  have "wf_db (d\<lparr>drive_files := ?rs\<rparr>)" if "has_account d (d_account_id f)"
  proof (rule wf_db_drive_files [OF assms])
    show "distinct (map file_key ?rs)" using F(1) False by (auto simp: list_ex_iff)
    show "distinct (map r_rowid ?rs)" using F(2) next_rowid_fresh [of _ d] by fastforce
    show "0 < r_rowid r \<and> has_account d (r_account_id r)" if "r \<in> set ?rs" for r
      using that F(3) next_rowid_pos [of d] \<open>has_account d (d_account_id f)\<close> by auto
  qed
  then show ?thesis using False assms by (simp add: f_upsert_def)
qed

end
