(* ===== verification/Db_Tables.thy ===== *)
theory Db_Tables
  imports Db_Queue Db_Files
begin

text \<open>
  The remaining tables of \<^verbatim>\<open>crates/gdriver-daemon/src/db\<close>: accounts, change-feed page tokens, sync
  folders, the error log, notifications and feedback.
\<close>

section \<open>Accounts\<close>

definition acc_insert :: "account \<Rightarrow> database \<Rightarrow> unit result \<times> database" where
  "acc_insert a d =
     (if list_ex (\<lambda>b. a_email b = a_email a \<and> a_id b \<noteq> a_id a) (accounts d)
      then (Inl ''UNIQUE constraint failed: accounts.email'', d)
      else if has_account d (a_id a)
      then (Inr (), d\<lparr>accounts := update_where (\<lambda>b. a_id b = a_id a)
              (\<lambda>b. b\<lparr>a_email := a_email a, a_display_name := a_display_name a, a_photo_url := a_photo_url a,
                     a_locale := a_locale a, a_last_used_at := a_last_used_at a\<rparr>) (accounts d)\<rparr>)
      else (Inr (), d\<lparr>accounts := accounts d @ [a]\<rparr>))"

definition acc_get :: "string \<Rightarrow> database \<Rightarrow> account option" where
  "acc_get i d = find (\<lambda>a. a_id a = i) (accounts d)"

definition acc_list :: "database \<Rightarrow> account list" where
  "acc_list d = sort_key (\<lambda>a. - a_last_used_at a) (accounts d)"

text \<open>
  \<^verbatim>\<open>DELETE FROM accounts\<close> cascades to the tables that declare \<^verbatim>\<open>REFERENCES accounts(id) ON DELETE CASCADE\<close>:
  \<^verbatim>\<open>drive_files\<close>, \<^verbatim>\<open>sync_tokens\<close> and \<^verbatim>\<open>sync_folders\<close>. \<^verbatim>\<open>sync_queue\<close> declares no reference.
\<close>

definition acc_delete :: "string \<Rightarrow> database \<Rightarrow> database" where
  "acc_delete i d = d\<lparr>accounts := filter (\<lambda>a. a_id a \<noteq> i) (accounts d),
     drive_files := filter (\<lambda>r. r_account_id r \<noteq> i) (drive_files d),
     sync_tokens := filter (\<lambda>r. k_account_id r \<noteq> i) (sync_tokens d),
     sync_folders := filter (\<lambda>r. sr_account_id r \<noteq> i) (sync_folders d)\<rparr>"

definition insert_account :: "account \<Rightarrow> ('x world, unit result) state" where
  "insert_account a = db_exec (acc_insert a)"

definition get_account :: "string \<Rightarrow> ('x world, account option result) state" where
  "get_account i = db_exec (\<lambda>d. (Inr (acc_get i d), d))"

definition list_accounts :: "('x world, account list result) state" where
  "list_accounts = db_exec (\<lambda>d. (Inr (acc_list d), d))"

definition delete_account :: "string \<Rightarrow> ('x world, unit result) state" where
  "delete_account i = db_exec (\<lambda>d. (Inr (), acc_delete i d))"

section \<open>Page tokens\<close>

definition tok_get :: "string \<Rightarrow> database \<Rightarrow> string option" where
  "tok_get acct d = map_option k_page_token (find (\<lambda>r. k_account_id r = acct) (sync_tokens d))"

definition tok_set :: "string \<Rightarrow> string \<Rightarrow> int \<Rightarrow> database \<Rightarrow> unit result \<times> database" where
  "tok_set acct tok now d =
     (if list_ex (\<lambda>r. k_account_id r = acct) (sync_tokens d)
      then (Inr (), d\<lparr>sync_tokens := update_where (\<lambda>r. k_account_id r = acct)
              (\<lambda>r. r\<lparr>k_page_token := tok, k_updated_at := now\<rparr>) (sync_tokens d)\<rparr>)
      else if has_account d acct
      then (Inr (), d\<lparr>sync_tokens := sync_tokens d @ [\<lparr>k_account_id = acct, k_page_token = tok, k_updated_at = now\<rparr>]\<rparr>)
      else (Inl ''FOREIGN KEY constraint failed'', d))"

definition get_token :: "string \<Rightarrow> ('x world, string option result) state" where
  "get_token acct = db_exec (\<lambda>d. (Inr (tok_get acct d), d))"

definition set_token :: "string \<Rightarrow> string \<Rightarrow> ('x world, unit result) state" where
  "set_token acct tok = do {
     now \<leftarrow> now_ms;
     db_exec (tok_set acct tok now)
   }"

section \<open>Sync folders\<close>

definition folder_from_row :: "sync_folder_row \<Rightarrow> sync_folder" where
  "folder_from_row r = \<lparr>s_id = Some (sr_id r), s_account_id = sr_account_id r, s_local_path = sr_local_path r,
     s_folder_type = sr_folder_type r, s_is_enabled = (sr_is_enabled r \<noteq> 0)\<rparr>"

definition fold_enabled :: "database \<Rightarrow> sync_folder_row list" where
  "fold_enabled d = sort_key sr_id (filter (\<lambda>r. sr_is_enabled r = 1) (sync_folders d))"

definition fold_by_account :: "string \<Rightarrow> database \<Rightarrow> sync_folder_row list" where
  "fold_by_account acct d = sort_key sr_id (filter (\<lambda>r. sr_account_id r = acct) (sync_folders d))"

definition fold_row :: "int \<Rightarrow> sync_folder \<Rightarrow> sync_folder_row" where
  "fold_row i f = \<lparr>sr_id = i, sr_account_id = s_account_id f, sr_local_path = s_local_path f,
     sr_folder_type = s_folder_type f, sr_is_enabled = bool_i64 (s_is_enabled f)\<rparr>"

definition fold_add :: "sync_folder \<Rightarrow> database \<Rightarrow> sync_folder_row result \<times> database" where
  "fold_add f d =
     (if list_ex (\<lambda>r. sr_account_id r = s_account_id f \<and> sr_local_path r = s_local_path f) (sync_folders d)
      then (Inl ''UNIQUE constraint failed: sync_folders.account_id, sync_folders.local_path'', d)
      else if \<not> has_account d (s_account_id f) then (Inl ''FOREIGN KEY constraint failed'', d)
      else (let row = fold_row (folder_seq d + 1) f
            in (Inr row, d\<lparr>sync_folders := sync_folders d @ [row], folder_seq := folder_seq d + 1\<rparr>)))"

definition list_enabled :: "('x world, sync_folder list result) state" where
  "list_enabled = db_exec (\<lambda>d. (Inr (map folder_from_row (fold_enabled d)), d))"

definition list_by_account :: "string \<Rightarrow> ('x world, sync_folder list result) state" where
  "list_by_account acct = db_exec (\<lambda>d. (Inr (map folder_from_row (fold_by_account acct d)), d))"

definition add_folder :: "sync_folder \<Rightarrow> ('x world, sync_folder result) state" where
  "add_folder f = tryE (db_exec (fold_add f)) (\<lambda>row. State_Monad.return (Inr (folder_from_row row)))"

definition delete_folder :: "int \<Rightarrow> ('x world, unit result) state" where
  "delete_folder i = db_exec (\<lambda>d. (Inr (), d\<lparr>sync_folders := filter (\<lambda>r. sr_id r \<noteq> i) (sync_folders d)\<rparr>))"

definition set_enabled :: "int \<Rightarrow> bool \<Rightarrow> ('x world, unit result) state" where
  "set_enabled i b = db_exec (\<lambda>d. (Inr (), d\<lparr>sync_folders :=
     update_where (\<lambda>r. sr_id r = i) (\<lambda>r. r\<lparr>sr_is_enabled := bool_i64 b\<rparr>) (sync_folders d)\<rparr>))"

section \<open>Error log\<close>

definition error_from_row :: "sync_error_row \<Rightarrow> sync_error" where
  "error_from_row r = \<lparr>e_id = Some (er_id r), e_account_id = er_account_id r, e_file_id = er_file_id r,
     e_file_name = er_file_name r, e_error_code = er_error_code r, e_error_msg = er_error_msg r,
     e_is_resolved = (er_is_resolved r \<noteq> 0), e_created_at = er_created_at r\<rparr>"

definition err_row :: "int \<Rightarrow> sync_error \<Rightarrow> sync_error_row" where
  "err_row i e = \<lparr>er_id = i, er_account_id = e_account_id e, er_file_id = e_file_id e,
     er_file_name = e_file_name e, er_error_code = e_error_code e, er_error_msg = e_error_msg e,
     er_is_resolved = bool_i64 (e_is_resolved e), er_created_at = e_created_at e\<rparr>"

definition err_insert :: "sync_error \<Rightarrow> database \<Rightarrow> database" where
  "err_insert e d = d\<lparr>sync_errors := sync_errors d @ [err_row (error_seq d + 1) e], error_seq := error_seq d + 1\<rparr>"

definition err_unresolved :: "database \<Rightarrow> sync_error_row list" where
  "err_unresolved d = take 100 (sort_key (\<lambda>r. - er_created_at r) (filter (\<lambda>r. er_is_resolved r = 0) (sync_errors d)))"

definition insert_error :: "sync_error \<Rightarrow> ('x world, sync_error result) state" where
  "insert_error e = tryE (db_exec (\<lambda>d. (Inr (err_row (error_seq d + 1) e), err_insert e d)))
     (\<lambda>row. State_Monad.return (Inr (error_from_row row)))"

definition list_unresolved :: "('x world, sync_error list result) state" where
  "list_unresolved = db_exec (\<lambda>d. (Inr (map error_from_row (err_unresolved d)), d))"

definition resolve_error :: "int \<Rightarrow> ('x world, unit result) state" where
  "resolve_error i = db_exec (\<lambda>d. (Inr (), d\<lparr>sync_errors :=
     update_where (\<lambda>r. er_id r = i) (\<lambda>r. r\<lparr>er_is_resolved := 1\<rparr>) (sync_errors d)\<rparr>))"

section \<open>Notifications\<close>

definition notification_from_row :: "notification_row \<Rightarrow> notification_db" where
  "notification_from_row r = \<lparr>n_id = Some (nr_id r), n_account_id = nr_account_id r, n_kind = nr_kind r,
     n_payload = nr_payload r, n_is_read = (nr_is_read r \<noteq> 0), n_created_at = nr_created_at r\<rparr>"

definition notif_row :: "int \<Rightarrow> notification_db \<Rightarrow> notification_row" where
  "notif_row i n = \<lparr>nr_id = i, nr_account_id = n_account_id n, nr_kind = n_kind n, nr_payload = n_payload n,
     nr_is_read = bool_i64 (n_is_read n), nr_created_at = n_created_at n\<rparr>"

definition insert_notification :: "notification_db \<Rightarrow> ('x world, notification_db result) state" where
  "insert_notification n = tryE
     (db_exec (\<lambda>d. let row = notif_row (notification_seq d + 1) n
        in (Inr row, d\<lparr>notifications := notifications d @ [row], notification_seq := notification_seq d + 1\<rparr>)))
     (\<lambda>row. State_Monad.return (Inr (notification_from_row row)))"

definition notif_list :: "bool \<Rightarrow> database \<Rightarrow> notification_row list" where
  "notif_list unread_only d = sort_key (\<lambda>r. - nr_created_at r)
     (if unread_only then filter (\<lambda>r. nr_is_read r = 0) (notifications d) else notifications d)"

definition list_notifications :: "bool \<Rightarrow> nat \<Rightarrow> ('x world, notification_db list result) state" where
  "list_notifications unread_only limit =
     db_exec (\<lambda>d. (Inr (map notification_from_row (take limit (notif_list unread_only d))), d))"

definition mark_read :: "int \<Rightarrow> ('x world, unit result) state" where
  "mark_read i = db_exec (\<lambda>d. (Inr (), d\<lparr>notifications :=
     update_where (\<lambda>r. nr_id r = i) (\<lambda>r. r\<lparr>nr_is_read := 1\<rparr>) (notifications d)\<rparr>))"

definition mark_all_read :: "('x world, unit result) state" where
  "mark_all_read = db_exec (\<lambda>d. (Inr (), d\<lparr>notifications :=
     update_where (\<lambda>r. nr_is_read r = 0) (\<lambda>r. r\<lparr>nr_is_read := 1\<rparr>) (notifications d)\<rparr>))"

definition dismiss_notification :: "int \<Rightarrow> ('x world, unit result) state" where
  "dismiss_notification i = db_exec (\<lambda>d. (Inr (), d\<lparr>notifications := filter (\<lambda>r. nr_id r \<noteq> i) (notifications d)\<rparr>))"

definition count_unread :: "('x world, nat result) state" where
  "count_unread = db_exec (\<lambda>d. (Inr (length (filter (\<lambda>r. nr_is_read r = 0) (notifications d))), d))"

section \<open>Feedback\<close>

definition feedback_from_row :: "feedback_row \<Rightarrow> feedback" where
  "feedback_from_row r = \<lparr>fb_id = Some (fbr_id r), fb_text = fbr_text r,
     fb_include_logs = (fbr_include_logs r \<noteq> 0), fb_created_at = fbr_created_at r\<rparr>"

definition insert_feedback :: "feedback \<Rightarrow> ('x world, feedback result) state" where
  "insert_feedback f = tryE
     (db_exec (\<lambda>d. let row = \<lparr>fbr_id = feedback_seq d + 1, fbr_text = fb_text f,
                fbr_include_logs = bool_i64 (fb_include_logs f), fbr_created_at = fb_created_at f\<rparr>
        in (Inr row, d\<lparr>feedbacks := feedbacks d @ [row], feedback_seq := feedback_seq d + 1\<rparr>)))
     (\<lambda>row. State_Monad.return (Inr (feedback_from_row row)))"

section \<open>Integrity\<close>

lemma wf_db_sub:
  assumes "wf_db d"
    and "accounts d' = accounts d" "drive_files d' = drive_files d"
    and "map q_id (sync_queue d') = map q_id (sync_queue d)" "queue_seq d' = queue_seq d"
    and "sync_tokens d' = sync_tokens d" "sync_folders d' = sync_folders d" "folder_seq d' = folder_seq d"
  shows "wf_db d'"
proof -
  have "has_account d' = has_account d"
    using assms(2) by (simp add: fun_eq_iff has_account_def)
  moreover have "(\<forall>r \<in> set (sync_queue d'). q_id r \<le> queue_seq d) \<longleftrightarrow> (\<forall>r \<in> set (sync_queue d). q_id r \<le> queue_seq d)"
    using ball_map_eq [OF assms(4), of "\<lambda>j. j \<le> queue_seq d"] .
  ultimately show ?thesis
    using assms unfolding wf_db_def list_all_iff by simp
qed

lemma wf_db_set_status: "wf_db d \<Longrightarrow> wf_db (q_set_status i st msg now d)"
  by (erule wf_db_sub) (simp_all add: q_set_status_def map_update_where)

lemma wf_db_set_retry: "wf_db d \<Longrightarrow> wf_db (q_set_retry i st n msg now d)"
  by (erule wf_db_sub) (simp_all add: q_set_retry_def map_update_where)

lemma wf_db_reset: "wf_db d \<Longrightarrow> wf_db (q_reset now d)"
  by (erule wf_db_sub) (simp_all add: q_reset_def map_update_where)

lemma wf_db_err_insert: "wf_db d \<Longrightarrow> wf_db (err_insert e d)"
  by (erule wf_db_sub) (simp_all add: err_insert_def)

lemma wf_db_q_insert: "wf_db d \<Longrightarrow> wf_db (q_insert t d)"
  by (fastforce simp: wf_db_def q_insert_def q_row_def has_account_def list_all_iff)

lemma wf_db_mark_trashed: "wf_db d \<Longrightarrow> wf_db (f_mark_trashed i acct d)"
  unfolding f_mark_trashed_def by (rule wf_db_update_files) (simp_all add: file_key_def)

lemma wf_db_set_sync_state: "wf_db d \<Longrightarrow> wf_db (f_set_sync_state i acct st d)"
  unfolding f_set_sync_state_def by (rule wf_db_update_files) (simp_all add: file_key_def)

lemma wf_db_tok_set:
  assumes "wf_db d"
  shows "wf_db (snd (tok_set acct tok now d))"
proof (cases "list_ex (\<lambda>r. k_account_id r = acct) (sync_tokens d)")
  case True
  let ?ts = "update_where (\<lambda>r. k_account_id r = acct) (\<lambda>r. r\<lparr>k_page_token := tok, k_updated_at := now\<rparr>) (sync_tokens d)"
  have "map k_account_id ?ts = map k_account_id (sync_tokens d)"
    by (simp add: map_update_where)
  moreover have "(\<forall>r \<in> set ?ts. has_account d (k_account_id r)) \<longleftrightarrow> (\<forall>r \<in> set (sync_tokens d). has_account d (k_account_id r))"
    by (rule ball_map_eq) (simp add: map_update_where)
  ultimately show ?thesis
    using assms True by (simp add: tok_set_def wf_db_def has_account_def list_all_iff)
next
  case False
  then show ?thesis
    using assms by (auto simp: tok_set_def wf_db_def has_account_def list_all_iff list_ex_iff)
qed

lemma tok_get_set:
  "is_ok (fst (tok_set acct tok now d)) \<Longrightarrow> tok_get acct' (snd (tok_set acct tok now d)) = (if acct' = acct then Some tok else tok_get acct' d)"
proof (cases "list_ex (\<lambda>r. k_account_id r = acct) (sync_tokens d)")
  case True
  then obtain r0 where "find (\<lambda>r. k_account_id r = acct) (sync_tokens d) = Some r0"
    using find_list_ex [of "\<lambda>r. k_account_id r = acct"] by auto
  moreover have "find (\<lambda>r. k_account_id r = acct') (update_where (\<lambda>r. k_account_id r = acct) (\<lambda>r. r\<lparr>k_page_token := tok, k_updated_at := now\<rparr>) (sync_tokens d))
     = map_option (\<lambda>r. if k_account_id r = acct then r\<lparr>k_page_token := tok, k_updated_at := now\<rparr> else r) (find (\<lambda>r. k_account_id r = acct') (sync_tokens d))"
    by (rule find_update_where) simp
  ultimately show ?thesis
    using True by (cases "find (\<lambda>r. k_account_id r = acct') (sync_tokens d)")
       (auto simp: tok_set_def tok_get_def dest: find_SomeD)
next
  case False
  assume "is_ok (fst (tok_set acct tok now d))"
  with False show ?thesis
    using find_list_ex [of "\<lambda>r. k_account_id r = acct" "sync_tokens d"]
    by (auto simp: tok_set_def tok_get_def find_append split: if_splits option.splits)
qed

lemma files_map_q_insert [simp]: "files_map (q_insert t d) = files_map d"
  by (rule ext) (simp add: files_map_def f_get_def q_insert_def)

end
