(* ===== verification/Services.thy ===== *)
theory Services
  imports Db_Tables
begin

text \<open>
  What the daemon asks of the outside: the functions of \<^verbatim>\<open>gdriver-api\<close> it calls (Drive files, the
  changes feed, Photos, the OAuth token endpoint) and the OS keychain. They form the record
  \<open>services\<close>, a parameter of every operation that uses them, over an unspecified service state
  \<open>'x\<close>. The section on tokens models \<^verbatim>\<open>auth/token_store.rs\<close> and the client construction of
  \<^verbatim>\<open>sync/engine.rs\<close> on top of it.
\<close>

section \<open>Drive resources\<close>

record api_file =
  g_id :: "string option"
  g_name :: "string option"
  g_mime_type :: "string option"
  g_parents :: "string list option"
  g_size :: "string option"
  g_etag :: "string option"
  g_version :: "string option"
  g_modified_time :: "string option"
  g_created_time :: "string option"
  g_trashed :: "bool option"
  g_shared :: "bool option"
  g_md5_checksum :: "string option"
  g_web_view_link :: "string option"

record create_file_metadata =
  m_name :: string
  m_mime_type :: string
  m_parents :: "string list option"

datatype upload_chunk_result = Incomplete nat | Complete api_file

record file_list_response =
  fl_files :: "api_file list"
  fl_next_page_token :: "string option"
  fl_incomplete_search :: "bool option"

record change =
  ch_kind :: "string option"
  ch_type :: "string option"
  ch_file_id :: "string option"
  ch_removed :: "bool option"
  ch_time :: "string option"
  ch_file :: "api_file option"

record change_list_response =
  cl_changes :: "change list"
  cl_next_page_token :: "string option"
  cl_new_start_page_token :: "string option"

record media_item =
  mi_id :: "string option"
  mi_product_url :: "string option"

record media_status =
  ms_message :: "string option"
  ms_code :: "int option"

record media_item_result =
  mr_upload_token :: "string option"
  mr_status :: "media_status option"
  mr_media_item :: "media_item option"

text \<open>A client: its access token and, when attached, the account its refresher serves.\<close>

record drive_client =
  c_token :: string
  c_refresher :: "string option"

record 'x services =
  sv_files_list :: "drive_client \<Rightarrow> string option \<Rightarrow> 'x \<Rightarrow> file_list_response result \<times> 'x"
  sv_files_get :: "drive_client \<Rightarrow> string \<Rightarrow> 'x \<Rightarrow> api_file result \<times> 'x"
  sv_files_delete :: "drive_client \<Rightarrow> string \<Rightarrow> 'x \<Rightarrow> unit result \<times> 'x"
  sv_files_download :: "drive_client \<Rightarrow> string \<Rightarrow> 'x \<Rightarrow> bytes result list result \<times> 'x"
  sv_files_export :: "drive_client \<Rightarrow> string \<Rightarrow> string \<Rightarrow> 'x \<Rightarrow> bytes result list result \<times> 'x"
  sv_upload_multipart :: "drive_client \<Rightarrow> create_file_metadata \<Rightarrow> bytes \<Rightarrow> string \<Rightarrow> 'x \<Rightarrow> api_file result \<times> 'x"
  sv_resumable_start :: "drive_client \<Rightarrow> create_file_metadata \<Rightarrow> 'x \<Rightarrow> string result \<times> 'x"
  sv_resumable_chunk :: "drive_client \<Rightarrow> string \<Rightarrow> bytes \<Rightarrow> nat \<Rightarrow> nat \<Rightarrow> nat \<Rightarrow> 'x \<Rightarrow> upload_chunk_result result \<times> 'x"
  sv_resumable_query :: "drive_client \<Rightarrow> string \<Rightarrow> nat \<Rightarrow> 'x \<Rightarrow> (nat \<times> bool) result \<times> 'x"
  sv_start_page_token :: "drive_client \<Rightarrow> 'x \<Rightarrow> string result \<times> 'x"
  sv_changes_list :: "drive_client \<Rightarrow> string \<Rightarrow> 'x \<Rightarrow> change_list_response result \<times> 'x"
  sv_photos_upload :: "drive_client \<Rightarrow> bytes \<Rightarrow> string \<Rightarrow> 'x \<Rightarrow> string result \<times> 'x"
  sv_batch_create :: "drive_client \<Rightarrow> string \<Rightarrow> string option \<Rightarrow> 'x \<Rightarrow> media_item_result list result \<times> 'x"
  sv_refresh_access_token :: "string \<times> string \<Rightarrow> string \<Rightarrow> 'x \<Rightarrow> token_set result \<times> 'x"
  sv_keyring_get :: "string \<Rightarrow> 'x \<Rightarrow> string option result \<times> 'x"
  sv_keyring_set :: "string \<Rightarrow> string \<Rightarrow> 'x \<Rightarrow> unit result \<times> 'x"
  sv_keyring_delete :: "string \<Rightarrow> 'x \<Rightarrow> bool result \<times> 'x"
  sv_parse_rfc3339 :: "string \<Rightarrow> int option"
  sv_local_time :: "int \<Rightarrow> string"

section \<open>Number parsing\<close>

text \<open>\<^verbatim>\<open>str::parse::<i64>\<close> and \<^verbatim>\<open>str::parse::<u64>\<close>: an optional sign, at least one digit, in range.\<close>

definition digit_val :: "char \<Rightarrow> nat option" where
  "digit_val c = (let n = of_char c :: nat in if 48 \<le> n \<and> n \<le> 57 then Some (n - 48) else None)"

fun digits_val :: "nat \<Rightarrow> string \<Rightarrow> nat option" where
  "digits_val acc [] = Some acc"
| "digits_val acc (c # cs) =
     (case digit_val c of None \<Rightarrow> None | Some v \<Rightarrow> digits_val (10 * acc + v) cs)"

definition parse_nat :: "string \<Rightarrow> nat option" where
  "parse_nat s = (if s = [] then None else digits_val 0 s)"

definition parse_u64 :: "string \<Rightarrow> nat option" where
  "parse_u64 s =
     (case parse_nat (case s of c # cs \<Rightarrow> if c = CHR ''+'' then cs else s | [] \<Rightarrow> s) of
        None \<Rightarrow> None | Some n \<Rightarrow> if n < 2 ^ 64 then Some n else None)"

definition parse_i64 :: "string \<Rightarrow> int option" where
  "parse_i64 s =
     (case s of
        [] \<Rightarrow> None
      | c # cs \<Rightarrow>
          if c = CHR ''-'' then
            (case parse_nat cs of None \<Rightarrow> None | Some n \<Rightarrow> if int n \<le> 2 ^ 63 then Some (- int n) else None)
          else
            (case parse_nat (if c = CHR ''+'' then cs else s) of
               None \<Rightarrow> None | Some n \<Rightarrow> if int n < 2 ^ 63 then Some (int n) else None))"

text \<open>\<^verbatim>\<open>format!("{n}")\<close> of an unsigned number.\<close>

definition digit_char :: "nat \<Rightarrow> char" where
  "digit_char d = char_of (48 + d)"

fun show_nat :: "nat \<Rightarrow> string" where
  "show_nat n = (if n < 10 then [digit_char n] else show_nat (n div 10) @ [digit_char (n mod 10)])"

declare show_nat.simps [simp del]

lemma digit_val_char [simp]: "d < 10 \<Longrightarrow> digit_val (digit_char d) = Some d"
  by (simp add: digit_val_def digit_char_def)

lemma digits_val_append:
  "digits_val acc (xs @ ys) = Option.bind (digits_val acc xs) (\<lambda>a. digits_val a ys)"
  by (induction xs arbitrary: acc) (auto split: option.splits)

lemma digits_val_show_nat [simp]: "digits_val 0 (show_nat n) = Some n"
proof (induction n rule: show_nat.induct)
  case (1 n)
  then show ?case
    by (cases "n < 10") (simp_all add: show_nat.simps [of n] digits_val_append)
qed

lemma show_nat_not_Nil [simp]: "show_nat n \<noteq> []"
  by (simp add: show_nat.simps [of n])

lemma show_nat_digits: "c \<in> set (show_nat n) \<Longrightarrow> digit_val c \<noteq> None"
proof (induction n rule: show_nat.induct)
  case (1 n)
  then show ?case
    by (cases "n < 10") (auto simp: show_nat.simps [of n])
qed

lemma digit_val_other [simp]:
  "digit_val (CHR ''+'') = None" "digit_val (CHR ''-'') = None" "digit_val (CHR ''/'') = None"
  by (simp_all add: digit_val_def)

lemma show_nat_clean [simp]:
  "CHR ''+'' \<notin> set (show_nat n)" "CHR ''-'' \<notin> set (show_nat n)" "CHR ''/'' \<notin> set (show_nat n)"
  using show_nat_digits by fastforce+

lemma parse_u64_show [simp]: "n < 2 ^ 64 \<Longrightarrow> parse_u64 (show_nat n) = Some n"
proof -
  assume n: "n < 2 ^ 64"
  obtain ch s where s: "show_nat n = ch # s" using show_nat_not_Nil [of n] by (cases "show_nat n") auto
  then have "ch \<noteq> CHR ''+''" using show_nat_clean(1) [of n] by auto
  then have "parse_nat (case show_nat n of c # cs \<Rightarrow> if c = CHR ''+'' then cs else show_nat n | [] \<Rightarrow> show_nat n) = Some n"
    using digits_val_show_nat [of n] by (simp add: s parse_nat_def del: digits_val.simps)
  then show "parse_u64 (show_nat n) = Some n" using n by (simp only: parse_u64_def option.case if_True)
qed

section \<open>From the API to the database\<close>

definition map_api_file_to_db :: "'x services \<Rightarrow> api_file \<Rightarrow> string \<Rightarrow> drive_file" where
  "map_api_file_to_db sv f acct = \<lparr>
     d_id = (case g_id f of None \<Rightarrow> [] | Some i \<Rightarrow> i),
     d_account_id = acct,
     d_name = (case g_name f of None \<Rightarrow> ''Untitled'' | Some n \<Rightarrow> n),
     d_mime_type = (case g_mime_type f of None \<Rightarrow> ''application/octet-stream'' | Some m \<Rightarrow> m),
     d_parent_id = Option.bind (g_parents f) (\<lambda>ps. case ps of [] \<Rightarrow> None | p # _ \<Rightarrow> Some p),
     d_size = Option.bind (g_size f) parse_i64,
     d_etag = g_etag f,
     d_version = Option.bind (g_version f) parse_i64,
     d_modified_time = Option.bind (g_modified_time f) (sv_parse_rfc3339 sv),
     d_is_trashed = (case g_trashed f of None \<Rightarrow> False | Some b \<Rightarrow> b),
     d_is_shared = (case g_shared f of None \<Rightarrow> False | Some b \<Rightarrow> b),
     d_local_path = None,
     d_sync_state = ''cloud_only'',
     d_local_mtime = None\<rparr>"

section \<open>Tokens\<close>

definition should_refresh :: "int \<Rightarrow> token_set \<Rightarrow> bool" where
  "should_refresh now ts = (now \<ge> ts_expires_at ts - 5 * 60 * 1000)"

definition keyring_account :: "string \<Rightarrow> string" where
  "keyring_account acct = ''refresh_token:'' @ acct"

definition save_refresh_token :: "'x services \<Rightarrow> string \<Rightarrow> string \<Rightarrow> ('x world, unit result) state" where
  "save_refresh_token sv acct rt = ext_call (sv_keyring_set sv (keyring_account acct) rt)"

definition load_refresh_token :: "'x services \<Rightarrow> string \<Rightarrow> ('x world, string option result) state" where
  "load_refresh_token sv acct = ext_call (sv_keyring_get sv (keyring_account acct))"

definition delete_refresh_token :: "'x services \<Rightarrow> string \<Rightarrow> ('x world, unit result) state" where
  "delete_refresh_token sv acct = tryE (ext_call (sv_keyring_delete sv (keyring_account acct)))
     (\<lambda>_. State_Monad.return (Inr ()))"

definition get_token_set :: "string \<Rightarrow> ('x world, token_set option) state" where
  "get_token_set acct = State (\<lambda>w. (w_tokens w acct, w))"

definition get_access_token :: "string \<Rightarrow> ('x world, string option) state" where
  "get_access_token acct = State (\<lambda>w. (map_option ts_access_token (w_tokens w acct), w))"

definition cache_access_token :: "string \<Rightarrow> token_set \<Rightarrow> ('x world, unit) state" where
  "cache_access_token acct ts = cache_insert acct ts"

definition clear_access_token :: "string \<Rightarrow> ('x world, unit) state" where
  "clear_access_token acct = State (\<lambda>w. ((), if halted w then w else w\<lparr>w_tokens := (w_tokens w)(acct := None)\<rparr>))"

definition delete_all_tokens :: "'x services \<Rightarrow> string \<Rightarrow> ('x world, unit result) state" where
  "delete_all_tokens sv acct = do {
     r \<leftarrow> delete_refresh_token sv acct;
     _ \<leftarrow> clear_access_token acct;
     State_Monad.return r
   }"

text \<open>The exchange shared by \<^verbatim>\<open>build_client_for_account\<close> and the 401 refresher: store a rotated refresh token, cache the set.\<close>

definition adopt_token_set :: "'x services \<Rightarrow> string \<Rightarrow> string \<Rightarrow> token_set \<Rightarrow> ('x world, unit) state" where
  "adopt_token_set sv acct rt ts = do {
     _ \<leftarrow> (case ts_refresh_token ts of
            None \<Rightarrow> State_Monad.return (Inr ())
          | Some new_rt \<Rightarrow> if new_rt \<noteq> rt then save_refresh_token sv acct new_rt else State_Monad.return (Inr ()));
     cache_access_token acct ts
   }"

definition read_oauth :: "('x world, (string \<times> string) option) state" where
  "read_oauth = State (\<lambda>w. (w_oauth w, w))"

definition build_client_for_account :: "'x services \<Rightarrow> string \<Rightarrow> ('x world, drive_client option) state" where
  "build_client_for_account sv acct = do {
     cached \<leftarrow> get_token_set acct;
     now \<leftarrow> now_ms;
     oauth \<leftarrow> read_oauth;
     case (case cached of None \<Rightarrow> None | Some ts \<Rightarrow> if should_refresh now ts then None else Some ts) of
       Some ts \<Rightarrow> State_Monad.return (Some \<lparr>c_token = ts_access_token ts,
                    c_refresher = (case oauth of None \<Rightarrow> None | Some _ \<Rightarrow> Some acct)\<rparr>)
     | None \<Rightarrow> do {
         loaded \<leftarrow> load_refresh_token sv acct;
         case loaded of
           Inl _ \<Rightarrow> State_Monad.return None
         | Inr None \<Rightarrow> State_Monad.return None
         | Inr (Some rt) \<Rightarrow>
             (case oauth of
                None \<Rightarrow> State_Monad.return None
              | Some cfg \<Rightarrow> do {
                  r \<leftarrow> ext_call (sv_refresh_access_token sv cfg rt);
                  case r of
                    Inl _ \<Rightarrow> State_Monad.return None
                  | Inr ts \<Rightarrow> do {
                      _ \<leftarrow> adopt_token_set sv acct rt ts;
                      State_Monad.return (Some \<lparr>c_token = ts_access_token ts, c_refresher = Some acct\<rparr>)
                    }
                })
       }
   }"

definition refresher_refresh :: "'x services \<Rightarrow> (string \<times> string) \<Rightarrow> string \<Rightarrow> ('x world, string result) state" where
  "refresher_refresh sv cfg acct =
     tryE (load_refresh_token sv acct) (\<lambda>loaded.
       case loaded of
         None \<Rightarrow> State_Monad.return (Inl (''no refresh token for '' @ acct))
       | Some rt \<Rightarrow> tryE (ext_call (sv_refresh_access_token sv cfg rt)) (\<lambda>ts. do {
           _ \<leftarrow> adopt_token_set sv acct rt ts;
           State_Monad.return (Inr (ts_access_token ts))
         }))"

end
