(* ===== verification/Uploader.thy ===== *)
theory Uploader
  imports Services
begin

text \<open>
  \<^verbatim>\<open>crates/gdriver-daemon/src/sync/uploader.rs\<close>: one upload task, from marking it in progress to
  completion, retry or permanent failure. Byte offsets are natural numbers: they are bounded by the
  length of an in-memory buffer, far below the range of \<^verbatim>\<open>u64\<close>.
\<close>

definition UPLOAD_THRESHOLD :: nat where "UPLOAD_THRESHOLD = 5 * 1024 * 1024"
definition UPLOAD_CHUNK_SIZE :: nat where "UPLOAD_CHUNK_SIZE = 5 * 1024 * 1024"
definition UPLOAD_MAX_RETRIES :: int where "UPLOAD_MAX_RETRIES = 3"

definition uploader_guess_mime :: "string \<Rightarrow> string" where
  "uploader_guess_mime p = mime_of_ext (path_extension p)"

definition upload_file_name :: "string \<Rightarrow> string" where
  "upload_file_name p = (case path_file_name p of None \<Rightarrow> ''Untitled'' | Some n \<Rightarrow> n)"

section \<open>Failure handling\<close>

text \<open>
  \<^verbatim>\<open>handle_upload_failure\<close>, \<^verbatim>\<open>handle_download_failure\<close> and \<^verbatim>\<open>handle_delete_failure\<close> are the same code with
  different error codes. Past the retry limit the task is marked failed and an error is logged,
  otherwise it goes back to pending with its counter increased.
\<close>

definition record_failure :: "string \<Rightarrow> int \<Rightarrow> sync_task \<Rightarrow> int \<Rightarrow> string \<Rightarrow> ('x world, unit result) state" where
  "record_failure code max_retries t task_id msg =
     (let new_retry = t_retry_count t + 1
      in if new_retry > max_retries
         then tryE (update_task_status task_id ''failed'' (Some msg)) (\<lambda>_. do {
                now \<leftarrow> now_ms;
                _ \<leftarrow> insert_error \<lparr>e_id = None, e_account_id = Some (t_account_id t), e_file_id = t_file_id t,
                       e_file_name = Option.bind (t_local_path t) path_file_name,
                       e_error_code = code, e_error_msg = msg, e_is_resolved = False, e_created_at = now\<rparr>;
                State_Monad.return (Inr ())
              })
         else update_task_retry task_id ''pending'' new_retry (Some msg))"

definition handle_upload_failure :: "sync_task \<Rightarrow> int \<Rightarrow> string \<Rightarrow> ('x world, unit result) state" where
  "handle_upload_failure = record_failure ''UPLOAD_FAILED'' UPLOAD_MAX_RETRIES"

section \<open>Upload strategies\<close>

definition do_multipart_upload :: "'x services \<Rightarrow> drive_client \<Rightarrow> create_file_metadata \<Rightarrow> bytes \<Rightarrow> string \<Rightarrow> ('x world, api_file result) state" where
  "do_multipart_upload sv c meta content mime = ext_call (sv_upload_multipart sv c meta content mime)"

text \<open>The chunk of the current offset and its inclusive end.\<close>

definition chunk_end :: "nat \<Rightarrow> nat \<Rightarrow> nat" where
  "chunk_end offset file_len = min (offset + UPLOAD_CHUNK_SIZE) file_len - 1"

definition chunk_slice :: "bytes \<Rightarrow> nat \<Rightarrow> nat \<Rightarrow> bytes" where
  "chunk_slice content offset last_byte = take (Suc last_byte - offset) (drop offset content)"

text \<open>
  The \<^verbatim>\<open>while offset < file_len\<close> loop. Every round makes a service call, so with as much fuel as the
  world has operations left the fuel never runs out before the world halts.
\<close>

fun resumable_loop :: "nat \<Rightarrow> 'x services \<Rightarrow> drive_client \<Rightarrow> string \<Rightarrow> bytes \<Rightarrow> nat \<Rightarrow> ('x world, api_file option result) state" where
  "resumable_loop 0 sv c uri content offset = hang"
| "resumable_loop (Suc n) sv c uri content offset =
     (let file_len = length content; last_byte = chunk_end offset file_len
      in if offset < file_len then do {
           r \<leftarrow> ext_call (sv_resumable_chunk sv c uri (chunk_slice content offset last_byte) offset last_byte file_len);
           case r of
             Inr (Incomplete received) \<Rightarrow> resumable_loop n sv c uri content received
           | Inr (Complete f) \<Rightarrow> State_Monad.return (Inr (Some f))
           | Inl e \<Rightarrow> do {
               q \<leftarrow> ext_call (sv_resumable_query sv c uri file_len);
               case q of
                 Inr (received, is_complete) \<Rightarrow> resumable_loop n sv c uri content received
               | Inl _ \<Rightarrow> State_Monad.return (Inl e)
             }
         } else State_Monad.return (Inr None))"

definition do_resumable_upload :: "'x services \<Rightarrow> drive_client \<Rightarrow> create_file_metadata \<Rightarrow> bytes \<Rightarrow> ('x world, api_file result) state" where
  "do_resumable_upload sv c meta content =
     tryE (ext_call (sv_resumable_start sv c meta)) (\<lambda>uri. do {
       fuel \<leftarrow> remaining_ops;
       tryE (resumable_loop (Suc fuel) sv c uri content 0) (\<lambda>result.
         case result of
           None \<Rightarrow> State_Monad.return (Inl ''resumable upload loop exited without completion'')
         | Some f \<Rightarrow> State_Monad.return (Inr f))
     })"

section \<open>The task\<close>

definition upload_file :: "'x services \<Rightarrow> drive_client \<Rightarrow> sync_task \<Rightarrow> ('x world, unit result) state" where
  "upload_file sv c t =
     (case t_id t of
        None \<Rightarrow> State_Monad.return (Inr ())
      | Some task_id \<Rightarrow>
          (case t_local_path t of
             None \<Rightarrow> update_task_status task_id ''completed'' (Some ''no local_path'')
           | Some p \<Rightarrow>
               tryE (update_task_status task_id ''in_progress'' None) (\<lambda>_. do {
                 rd \<leftarrow> fs_read p;
                 case rd of
                   Inl e \<Rightarrow> handle_upload_failure t task_id (''read error: '' @ e)
                 | Inr content \<Rightarrow>
                     (let mime = uploader_guess_mime p;
                          meta = \<lparr>m_name = upload_file_name p, m_mime_type = mime, m_parents = None\<rparr>
                      in do {
                        result \<leftarrow> (if length content < UPLOAD_THRESHOLD
                                    then do_multipart_upload sv c meta content mime
                                    else do_resumable_upload sv c meta content);
                        case result of
                          Inr f \<Rightarrow> do {
                            _ \<leftarrow> upsert_file (map_api_file_to_db sv f (t_account_id t));
                            update_task_status task_id ''completed'' None
                          }
                        | Inl e \<Rightarrow> handle_upload_failure t task_id e
                      })
               })))"

end
