(* ===== verification/Downloader.thy ===== *)
theory Downloader
  imports Uploader
begin

text \<open>
  \<^verbatim>\<open>crates/gdriver-daemon/src/sync/downloader.rs\<close>: one download task. The body is streamed into a
  temporary file beside the target and renamed over it at the end.
\<close>

definition DOWNLOAD_MAX_RETRIES :: int where "DOWNLOAD_MAX_RETRIES = 3"

definition is_google_workspace_mime :: "string \<Rightarrow> bool" where
  "is_google_workspace_mime m =
     (m = ''application/vnd.google-apps.document'' \<or>
      m = ''application/vnd.google-apps.spreadsheet'' \<or>
      m = ''application/vnd.google-apps.presentation'' \<or>
      m = ''application/vnd.google-apps.drawing'' \<or>
      m = ''application/vnd.google-apps.script'')"

definition export_mime_for :: "string \<Rightarrow> string" where
  "export_mime_for m =
     (if m = ''application/vnd.google-apps.document''
      then ''application/vnd.openxmlformats-officedocument.wordprocessingml.document''
      else if m = ''application/vnd.google-apps.spreadsheet''
      then ''application/vnd.openxmlformats-officedocument.spreadsheetml.sheet''
      else if m = ''application/vnd.google-apps.presentation''
      then ''application/vnd.openxmlformats-officedocument.presentationml.presentation''
      else if m = ''application/vnd.google-apps.drawing'' then ''image/svg+xml''
      else if m = ''application/vnd.google-apps.script'' then ''application/json''
      else ''application/pdf'')"

definition tmp_path :: "string \<Rightarrow> string" where
  "tmp_path p = p @ ''.gdriver-tmp''"

definition handle_download_failure :: "sync_task \<Rightarrow> int \<Rightarrow> string \<Rightarrow> ('x world, unit result) state" where
  "handle_download_failure = record_failure ''DOWNLOAD_FAILED'' DOWNLOAD_MAX_RETRIES"

text \<open>Write the chunks of a response body; a broken stream or a failed write ends it.\<close>

fun write_stream :: "string \<Rightarrow> bytes result list \<Rightarrow> ('x world, unit result) state" where
  "write_stream p [] = fs_flush"
| "write_stream p (ch # chs) =
     (case ch of
        Inl e \<Rightarrow> State_Monad.return (Inl e)
      | Inr bs \<Rightarrow> tryE (fs_append p bs) (\<lambda>_. write_stream p chs))"

definition do_download :: "'x services \<Rightarrow> drive_client \<Rightarrow> string \<Rightarrow> string \<Rightarrow> ('x world, unit result) state" where
  "do_download sv c file_id tmp =
     tryE (ext_call (sv_files_download sv c file_id)) (\<lambda>body.
       tryE (fs_create tmp) (\<lambda>_. write_stream tmp body))"

definition do_export :: "'x services \<Rightarrow> drive_client \<Rightarrow> string \<Rightarrow> string \<Rightarrow> string \<Rightarrow> ('x world, unit result) state" where
  "do_export sv c file_id export_mime tmp =
     tryE (ext_call (sv_files_export sv c file_id export_mime)) (\<lambda>body.
       tryE (fs_create tmp) (\<lambda>_. write_stream tmp body))"

text \<open>\<^verbatim>\<open>if let Some(parent) = path.parent() { if !parent.exists() { create_dir_all(parent)? } }\<close>\<close>

definition ensure_parent :: "string \<Rightarrow> ('x world, unit result) state" where
  "ensure_parent p =
     (case path_parent p of
        None \<Rightarrow> State_Monad.return (Inr ())
      | Some d \<Rightarrow> do {
          ex \<leftarrow> fs_query (\<lambda>s. fs_exists s d);
          if ex then State_Monad.return (Inr ()) else fs_create_dir_all d
        })"

text \<open>The success branch: move the file into place, record it, complete the task.\<close>

definition finish_download :: "sync_task \<Rightarrow> int \<Rightarrow> string \<Rightarrow> drive_file option \<Rightarrow> ('x world, unit result) state" where
  "finish_download t task_id p df = do {
     rn \<leftarrow> fs_rename (tmp_path p) p;
     case rn of
       Inl e \<Rightarrow> do {
         _ \<leftarrow> fs_remove (tmp_path p);
         handle_download_failure t task_id (''rename failed: '' @ e)
       }
     | Inr _ \<Rightarrow> do {
         _ \<leftarrow> (case df of
                None \<Rightarrow> State_Monad.return (Inr ())
              | Some f \<Rightarrow> do {
                  md \<leftarrow> fs_metadata p;
                  upsert_file (f\<lparr>d_sync_state := ''cached'', d_local_path := Some p,
                    d_local_mtime := (case md of Inr (_, Some mt) \<Rightarrow> Some mt | _ \<Rightarrow> d_local_mtime f)\<rparr>)
                });
         update_task_status task_id ''completed'' None
       }
   }"

definition download_file :: "'x services \<Rightarrow> drive_client \<Rightarrow> sync_task \<Rightarrow> ('x world, unit result) state" where
  "download_file sv c t =
     (case t_id t of
        None \<Rightarrow> State_Monad.return (Inr ())
      | Some task_id \<Rightarrow>
     (case t_file_id t of
        None \<Rightarrow> update_task_status task_id ''completed'' (Some ''no file_id'')
      | Some file_id \<Rightarrow>
     (case t_local_path t of
        None \<Rightarrow> update_task_status task_id ''completed'' (Some ''no local_path'')
      | Some p \<Rightarrow>
          tryE (update_task_status task_id ''in_progress'' None) (\<lambda>_.
          tryE (get_file_by_id file_id (t_account_id t)) (\<lambda>df.
          (let mime = (case df of None \<Rightarrow> ''application/octet-stream'' | Some f \<Rightarrow> d_mime_type f)
           in tryE (ensure_parent p) (\<lambda>_. do {
             result \<leftarrow> (if is_google_workspace_mime mime
                         then do_export sv c file_id (export_mime_for mime) (tmp_path p)
                         else do_download sv c file_id (tmp_path p));
             case result of
               Inr _ \<Rightarrow> finish_download t task_id p df
             | Inl e \<Rightarrow> do {
                 _ \<leftarrow> fs_remove (tmp_path p);
                 handle_download_failure t task_id e
               }
           })))))))"

end
