(* ===== verification/Deleter.thy ===== *)
theory Deleter
  imports Downloader
begin

text \<open>
  \<^verbatim>\<open>crates/gdriver-daemon/src/sync/deleter.rs\<close>: a delete task with a file id is taken to come from
  Drive (the local copy is removed), one with only a local path to come from the user (the file is
  deleted on Drive).
\<close>

definition DELETE_MAX_RETRIES :: int where "DELETE_MAX_RETRIES = 3"

definition handle_delete_failure :: "sync_task \<Rightarrow> int \<Rightarrow> string \<Rightarrow> ('x world, unit result) state" where
  "handle_delete_failure = record_failure ''DELETE_FAILED'' DELETE_MAX_RETRIES"

definition handle_remote_delete :: "sync_task \<Rightarrow> int \<Rightarrow> string \<Rightarrow> ('x world, unit result) state" where
  "handle_remote_delete t task_id file_id =
     tryE (get_file_by_id file_id (t_account_id t)) (\<lambda>df. do {
       _ \<leftarrow> (case df of
              None \<Rightarrow> State_Monad.return (Inr ())
            | Some f \<Rightarrow> do {
                _ \<leftarrow> (case d_local_path f of
                       None \<Rightarrow> State_Monad.return (Inr ())
                     | Some p \<Rightarrow> do {
                         ex \<leftarrow> fs_query (\<lambda>s. fs_exists s p);
                         if ex then fs_remove p else State_Monad.return (Inr ())
                       });
                upsert_file (f\<lparr>d_local_path := None, d_local_mtime := None, d_sync_state := ''cloud_only''\<rparr>)
              });
       update_task_status task_id ''completed'' None
     })"

definition handle_local_delete :: "'x services \<Rightarrow> drive_client \<Rightarrow> sync_task \<Rightarrow> int \<Rightarrow> string \<Rightarrow> ('x world, unit result) state" where
  "handle_local_delete sv c t task_id p =
     tryE (get_file_by_local_path p) (\<lambda>df.
       case df of
         None \<Rightarrow> update_task_status task_id ''completed'' (Some ''no DB record'')
       | Some f \<Rightarrow> do {
           r \<leftarrow> ext_call (sv_files_delete sv c (d_id f));
           case r of
             Inr _ \<Rightarrow> do {
               _ \<leftarrow> mark_trashed (d_id f) (d_account_id f);
               update_task_status task_id ''completed'' None
             }
           | Inl e \<Rightarrow> handle_delete_failure t task_id e
         })"

definition delete_file :: "'x services \<Rightarrow> drive_client \<Rightarrow> sync_task \<Rightarrow> ('x world, unit result) state" where
  "delete_file sv c t =
     (case t_id t of
        None \<Rightarrow> State_Monad.return (Inr ())
      | Some task_id \<Rightarrow>
          tryE (update_task_status task_id ''in_progress'' None) (\<lambda>_.
            case t_file_id t of
              Some file_id \<Rightarrow> handle_remote_delete t task_id file_id
            | None \<Rightarrow>
                (case t_local_path t of
                   Some p \<Rightarrow> handle_local_delete sv c t task_id p
                 | None \<Rightarrow> update_task_status task_id ''completed'' (Some ''no file_id or local_path''))))"

end
