(* ===== verification/Conflict.thy ===== *)
theory Conflict
  imports Deleter
begin

text \<open>
  \<^verbatim>\<open>crates/gdriver-daemon/src/sync/conflict.rs\<close>: before an upload of a known file, check whether both
  sides changed since the last sync; if so keep the local version under a conflict name, upload that
  copy, and download the remote version to the original path.
\<close>

definition conflict_guess_mime :: "string \<Rightarrow> string" where
  "conflict_guess_mime p = mime_of_ext (path_extension p)"

definition db_detect_conflict :: "int \<Rightarrow> drive_file \<Rightarrow> string \<Rightarrow> bool" where
  "db_detect_conflict current_local_mtime f current_remote_etag =
     ((case d_local_mtime f of None \<Rightarrow> False | Some stored \<Rightarrow> current_local_mtime > stored) \<and>
      (case d_etag f of None \<Rightarrow> False | Some stored \<Rightarrow> stored \<noteq> current_remote_etag))"

text \<open>The daemon's own copy of the resumable upload loop.\<close>

definition CONFLICT_THRESHOLD :: nat where "CONFLICT_THRESHOLD = 5 * 1024 * 1024"

definition conflict_upload_resumable :: "'x services \<Rightarrow> drive_client \<Rightarrow> create_file_metadata \<Rightarrow> bytes \<Rightarrow> ('x world, api_file result) state" where
  "conflict_upload_resumable sv c meta content =
     tryE (ext_call (sv_resumable_start sv c meta)) (\<lambda>uri. do {
       fuel \<leftarrow> remaining_ops;
       tryE (resumable_loop (Suc fuel) sv c uri content 0) (\<lambda>result.
         case result of
           None \<Rightarrow> State_Monad.return (Inl ''resumable upload loop exited without completion'')
         | Some f \<Rightarrow> State_Monad.return (Inr f))
     })"

definition conflict_name :: "'x services \<Rightarrow> string \<Rightarrow> int \<Rightarrow> string" where
  "conflict_name sv p now =
     (case path_file_stem p of None \<Rightarrow> ''Untitled'' | Some s \<Rightarrow> s)
     @ '' (conflict copy '' @ sv_local_time sv now @ '')''
     @ (case path_extension p of None \<Rightarrow> [] | Some e \<Rightarrow> ''.'' @ e)"

definition conflict_path :: "'x services \<Rightarrow> string \<Rightarrow> int \<Rightarrow> string" where
  "conflict_path sv p now =
     path_join (case path_parent p of None \<Rightarrow> ''.'' | Some d \<Rightarrow> d) (conflict_name sv p now)"

text \<open>The record written back after the remote version is in place.\<close>

definition resolved_record :: "drive_file \<Rightarrow> string \<Rightarrow> api_file \<Rightarrow> (nat \<times> int option) result \<Rightarrow> drive_file" where
  "resolved_record f p remote md = f\<lparr>
     d_sync_state := ''cached'',
     d_local_path := Some p,
     d_etag := (case g_etag remote of None \<Rightarrow> d_etag f | Some e \<Rightarrow> Some e),
     d_version := (case Option.bind (g_version remote) parse_i64 of None \<Rightarrow> d_version f | Some v \<Rightarrow> Some v),
     d_size := (case md of Inl _ \<Rightarrow> d_size f | Inr (n, _) \<Rightarrow> Some (int n)),
     d_local_mtime := (case md of Inr (_, Some mt) \<Rightarrow> Some mt | _ \<Rightarrow> d_local_mtime f)\<rparr>"

text \<open>The second half: fetch the remote version into place, record it, complete the task, notify.\<close>

definition restore_remote :: "'x services \<Rightarrow> drive_client \<Rightarrow> sync_task \<Rightarrow> drive_file \<Rightarrow> string \<Rightarrow> api_file \<Rightarrow> string \<Rightarrow> ('x world, unit result) state" where
  "restore_remote sv c t f p remote cname =
     (let task_id = (case t_id t of None \<Rightarrow> 0 | Some i \<Rightarrow> i)
      in tryE (ext_call (sv_files_download sv c (d_id f))) (\<lambda>body.
         tryE (fs_create (tmp_path p)) (\<lambda>_.
         tryE (write_stream (tmp_path p) body) (\<lambda>_.
         tryE (fs_rename (tmp_path p) p) (\<lambda>_. do {
           md \<leftarrow> fs_metadata p;
           tryE (upsert_file (resolved_record f p remote md)) (\<lambda>_.
           tryE (update_task_status task_id ''completed'' (Some ''conflict resolved'')) (\<lambda>_. do {
             ts \<leftarrow> now_ms;
             _ \<leftarrow> push_send (NotificationNew \<lparr>no_id = 0, no_account_id = Some (t_account_id t), no_is_read = False,
                    no_created_at = ts, no_kind = ConflictFound (Some (d_id f)) (d_name f) cname\<rparr>);
             State_Monad.return (Inr ())
           }))
         })))))"

definition resolve_conflict :: "'x services \<Rightarrow> drive_client \<Rightarrow> sync_task \<Rightarrow> drive_file \<Rightarrow> string \<Rightarrow> api_file \<Rightarrow> ('x world, unit result) state" where
  "resolve_conflict sv c t f p remote = do {
     now \<leftarrow> now_ms;
     let cname = conflict_name sv p now;
         cpath = conflict_path sv p now;
         mime = conflict_guess_mime cpath
     in tryE (fs_rename p cpath) (\<lambda>_.
        tryE (fs_read cpath) (\<lambda>content. do {
          up \<leftarrow> (let meta = \<lparr>m_name = cname, m_mime_type = mime, m_parents = map_option (\<lambda>d. [d]) (d_parent_id f)\<rparr>
                 in if length content < CONFLICT_THRESHOLD
                    then ext_call (sv_upload_multipart sv c meta content mime)
                    else conflict_upload_resumable sv c meta content);
          _ \<leftarrow> (case up of
                 Inl _ \<Rightarrow> State_Monad.return (Inr ())
               | Inr g \<Rightarrow> upsert_file (map_api_file_to_db sv g (t_account_id t)));
          restore_remote sv c t f p remote cname
        }))
   }"

text \<open>
  \<open>Inr True\<close> is \<^verbatim>\<open>Ok(Some(()))\<close> (a conflict was resolved), \<open>Inr False\<close> is \<^verbatim>\<open>Ok(None)\<close>.
\<close>

definition check_and_resolve :: "'x services \<Rightarrow> drive_client \<Rightarrow> sync_task \<Rightarrow> string \<Rightarrow> string \<Rightarrow> ('x world, bool result) state" where
  "check_and_resolve sv c t file_id p =
     tryE (get_file_by_id file_id (t_account_id t)) (\<lambda>df.
       case df of
         None \<Rightarrow> State_Monad.return (Inr False)
       | Some f \<Rightarrow> do {
           md \<leftarrow> fs_metadata p;
           case md of
             Inr (_, Some mtime) \<Rightarrow> do {
               rf \<leftarrow> ext_call (sv_files_get sv c file_id);
               case rf of
                 Inl _ \<Rightarrow> State_Monad.return (Inr False)
               | Inr remote \<Rightarrow>
                   (case g_etag remote of
                      None \<Rightarrow> State_Monad.return (Inr False)
                    | Some etag \<Rightarrow>
                        if \<not> db_detect_conflict mtime f etag then State_Monad.return (Inr False)
                        else tryE (resolve_conflict sv c t f p remote) (\<lambda>_. State_Monad.return (Inr True)))
             }
           | _ \<Rightarrow> State_Monad.return (Inr False)
         })"

end
