(* ===== verification/Photos.thy ===== *)
theory Photos
  imports Conflict
begin

text \<open>
  \<^verbatim>\<open>crates/gdriver-daemon/src/sync/photos.rs\<close> and the format table of \<^verbatim>\<open>gdriver-api/src/photos.rs\<close>:
  back a local media file up to Google Photos (upload bytes, then create the media item).
\<close>

definition PHOTOS_MAX_RETRIES :: int where "PHOTOS_MAX_RETRIES = 3"

definition ascii_lowercase :: "string \<Rightarrow> string" where
  "ascii_lowercase s = map ascii_lower s"

definition photos_ext_mime :: "string \<Rightarrow> string option" where
  "photos_ext_mime ext =
     (if ext = ''jpg'' \<or> ext = ''jpeg'' then Some ''image/jpeg''
      else if ext = ''png'' then Some ''image/png''
      else if ext = ''gif'' then Some ''image/gif''
      else if ext = ''bmp'' then Some ''image/bmp''
      else if ext = ''tiff'' \<or> ext = ''tif'' then Some ''image/tiff''
      else if ext = ''webp'' then Some ''image/webp''
      else if ext = ''heic'' then Some ''image/heic''
      else if ext = ''heif'' then Some ''image/heif''
      else if ext = ''raw'' \<or> ext = ''cr2'' \<or> ext = ''nef'' \<or> ext = ''arw'' \<or> ext = ''dng''
      then Some ''application/octet-stream''
      else if ext = ''mp4'' then Some ''video/mp4''
      else if ext = ''mov'' then Some ''video/quicktime''
      else if ext = ''avi'' then Some ''video/x-msvideo''
      else if ext = ''wmv'' then Some ''video/x-ms-wmv''
      else if ext = ''flv'' then Some ''video/x-flv''
      else if ext = ''mkv'' then Some ''video/x-matroska''
      else if ext = ''3gp'' then Some ''video/3gpp''
      else if ext = ''m4v'' then Some ''video/x-m4v''
      else if ext = ''mpg'' \<or> ext = ''mpeg'' then Some ''video/mpeg''
      else if ext = ''webm'' then Some ''video/webm''
      else None)"

definition photos_mime_type :: "string \<Rightarrow> string option" where
  "photos_mime_type p = Option.bind (path_extension p) (\<lambda>e. photos_ext_mime (ascii_lowercase e))"

definition is_supported_photo_format :: "string \<Rightarrow> bool" where
  "is_supported_photo_format p = (photos_mime_type p \<noteq> None)"

definition upload_media_item_from_path :: "'x services \<Rightarrow> drive_client \<Rightarrow> string \<Rightarrow> ('x world, string result) state" where
  "upload_media_item_from_path sv c p =
     (case photos_mime_type p of
        None \<Rightarrow> State_Monad.return (Inl (''unsupported photo format: '' @ p))
      | Some mime \<Rightarrow> tryE (fs_read p) (\<lambda>content. ext_call (sv_photos_upload sv c content mime)))"

definition push_item_event :: "string \<Rightarrow> string \<Rightarrow> SyncState \<Rightarrow> string option \<Rightarrow> string option \<Rightarrow> ('x world, unit) state" where
  "push_item_event name p st err url = do {
     now \<leftarrow> now_ms;
     push_send (SyncItemUpdated \<lparr>i_file_id = None, i_name = name, i_mime_type = None, i_local_path = Some p,
       i_sync_state = st, i_progress = None, i_file_size = None, i_error_msg = err, i_drive_url = url, i_updated_at = now\<rparr>)
   }"

definition photos_handle_failure :: "sync_task \<Rightarrow> int \<Rightarrow> string \<Rightarrow> ('x world, unit result) state" where
  "photos_handle_failure t task_id msg = do {
     _ \<leftarrow> push_item_event
            (case Option.bind (t_local_path t) path_file_name of None \<Rightarrow> ''unknown'' | Some n \<Rightarrow> n)
            (case t_local_path t of None \<Rightarrow> [] | Some p \<Rightarrow> p) FileError (Some msg) None;
     let new_retry = t_retry_count t + 1
     in if new_retry > PHOTOS_MAX_RETRIES
        then update_task_status task_id ''failed'' (Some msg)
        else update_task_retry task_id ''pending'' new_retry (Some msg)
   }"

text \<open>The outcome of \<^verbatim>\<open>batchCreate\<close>: \<open>Inr url\<close> for success, \<open>Inl\<close> for the failure message; \<open>True\<close> when a synced event is pushed.\<close>

definition evaluate_batch :: "media_item_result list \<Rightarrow> string + (bool \<times> string option)" where
  "evaluate_batch results =
     (case results of
        [] \<Rightarrow> Inl ''batchCreate returned empty results''
      | r # _ \<Rightarrow>
          (case mr_status r of
             Some st \<Rightarrow>
               if ms_code st = Some 0 then Inr (True, Option.bind (mr_media_item r) mi_product_url)
               else Inl (''Photos API error: '' @ (case ms_message st of None \<Rightarrow> ''unknown'' | Some m \<Rightarrow> m))
           | None \<Rightarrow>
               if mr_media_item r \<noteq> None then Inr (False, None)
               else Inl ''batchCreate returned no status and no mediaItem''))"

definition backup_photo :: "'x services \<Rightarrow> drive_client \<Rightarrow> sync_task \<Rightarrow> ('x world, unit result) state" where
  "backup_photo sv c t =
     (case t_id t of
        None \<Rightarrow> State_Monad.return (Inr ())
      | Some task_id \<Rightarrow>
     (case t_local_path t of
        None \<Rightarrow> update_task_status task_id ''completed'' (Some ''no local_path'')
      | Some p \<Rightarrow>
          if \<not> is_supported_photo_format p
          then photos_handle_failure t task_id (''unsupported photo format: '' @ p)
          else tryE (update_task_status task_id ''in_progress'' None) (\<lambda>_.
            (let name = upload_file_name p
             in do {
               _ \<leftarrow> push_item_event name p Uploading None None;
               tok \<leftarrow> upload_media_item_from_path sv c p;
               case tok of
                 Inl e \<Rightarrow> photos_handle_failure t task_id (''upload failed: '' @ e)
               | Inr upload_token \<Rightarrow> do {
                   resp \<leftarrow> ext_call (sv_batch_create sv c upload_token (Some name));
                   case resp of
                     Inl e \<Rightarrow> photos_handle_failure t task_id (''batchCreate failed: '' @ e)
                   | Inr results \<Rightarrow>
                       (case evaluate_batch results of
                          Inl msg \<Rightarrow> photos_handle_failure t task_id msg
                        | Inr (announce, url) \<Rightarrow> do {
                            _ \<leftarrow> (if announce then push_item_event name p Synced None url
                                  else State_Monad.return ());
                            update_task_status task_id ''completed'' None
                          })
                 }
             }))))"

end
