(* ===== verification/Initial.thy ===== *)
theory Initial
  imports Photos
begin

text \<open>
  \<^verbatim>\<open>crates/gdriver-daemon/src/sync/initial.rs\<close>: the first full listing of an account, and the
  enqueueing of downloads in mirror mode. The walk up the parent chain is a partial function: it is
  \<open>None\<close> when the chain is cyclic, where the code loops for ever.
\<close>

section \<open>Local paths\<close>

type_synonym name_map = "string \<rightharpoonup> (string \<times> string option)"

partial_function (option) walk_parents :: "name_map \<Rightarrow> string \<Rightarrow> string list \<Rightarrow> string list option" where
  "walk_parents nm current segments =
     (case nm current of
        None \<Rightarrow> Some segments
      | Some (name, parent) \<Rightarrow>
          (case parent of
             None \<Rightarrow> Some (segments @ [name])
           | Some pid \<Rightarrow> walk_parents nm pid (segments @ [name])))"

declare walk_parents.simps [code]

definition resolve_relative_path :: "string \<Rightarrow> name_map \<Rightarrow> string option" where
  "resolve_relative_path file_id nm = map_option (\<lambda>segs. join_with ''/'' (rev segs)) (walk_parents nm file_id [])"

definition build_name_map :: "drive_file list \<Rightarrow> name_map" where
  "build_name_map files = fold (\<lambda>f nm. nm(d_id f \<mapsto> (d_name f, d_parent_id f))) files Map.empty"

definition build_folders :: "drive_file list \<Rightarrow> string set" where
  "build_folders files = fold (\<lambda>f s. if d_mime_type f = ''application/vnd.google-apps.folder'' then insert (d_id f) s else s) files {}"

definition under_mount :: "string \<Rightarrow> string \<Rightarrow> string" where
  "under_mount mount_point rel = trim_end (CHR ''/'') mount_point @ ''/'' @ rel"

section \<open>Mirror downloads\<close>

definition already_local :: "string \<Rightarrow> bool" where
  "already_local st = (st = ''cached'' \<or> st = ''synced'' \<or> st = ''offline'' \<or> st = ''downloading'')"

definition download_task :: "int \<Rightarrow> string \<Rightarrow> string \<Rightarrow> string \<Rightarrow> sync_task" where
  "download_task now acct file_id p = \<lparr>t_id = None, t_account_id = acct, t_file_id = Some file_id,
     t_operation = ''download'', t_local_path = Some p, t_priority = 5, t_status = ''pending'',
     t_retry_count = 0, t_error_msg = None, t_created_at = now, t_updated_at = now\<rparr>"

definition f_live :: "string \<Rightarrow> database \<Rightarrow> drive_file list" where
  "f_live acct d = map file_from_row (filter (\<lambda>r. r_account_id r = acct \<and> r_is_trashed r = 0) (drive_files d))"

fun mirror_loop :: "int \<Rightarrow> string \<Rightarrow> string \<Rightarrow> name_map \<Rightarrow> string set \<Rightarrow> drive_file list \<Rightarrow> nat \<Rightarrow> ('x world, nat result) state" where
  "mirror_loop now acct mp nm folders [] n = State_Monad.return (Inr n)"
| "mirror_loop now acct mp nm folders (f # fs) n =
     (if d_id f \<in> folders \<or> already_local (d_sync_state f) \<or> d_local_path f \<noteq> None
      then mirror_loop now acct mp nm folders fs n
      else case resolve_relative_path (d_id f) nm of
             None \<Rightarrow> hang
           | Some rel \<Rightarrow>
               (let p = under_mount mp rel
                in tryE (upsert_file (f\<lparr>d_local_path := Some p\<rparr>)) (\<lambda>_. do {
                     r \<leftarrow> enqueue (download_task now acct (d_id f) p);
                     case r of
                       Inl _ \<Rightarrow> mirror_loop now acct mp nm folders fs n
                     | Inr _ \<Rightarrow> mirror_loop now acct mp nm folders fs (n + 1)
                   })))"

definition enqueue_mirror_downloads :: "string \<Rightarrow> string \<Rightarrow> ('x world, nat result) state" where
  "enqueue_mirror_downloads acct mount_point =
     tryE (db_exec (\<lambda>d. (Inr (f_live acct d), d))) (\<lambda>all_files. do {
       now \<leftarrow> now_ms;
       mirror_loop now acct mount_point (build_name_map all_files) (build_folders all_files) all_files 0
     })"

section \<open>The first sync\<close>

text \<open>One service call a round, so the operations left bound the rounds.\<close>

fun list_loop :: "nat \<Rightarrow> 'x services \<Rightarrow> drive_client \<Rightarrow> string \<Rightarrow> string option \<Rightarrow> ('x world, unit result) state" where
  "list_loop 0 sv c acct page = hang"
| "list_loop (Suc n) sv c acct page =
     tryE (ext_call (sv_files_list sv c page)) (\<lambda>response.
     tryE (try_each (fl_files response) (\<lambda>f. upsert_file (map_api_file_to_db sv f acct))) (\<lambda>_.
       case fl_next_page_token response of
         None \<Rightarrow> State_Monad.return (Inr ())
       | Some tok \<Rightarrow> list_loop n sv c acct (Some tok)))"

definition initial_sync :: "'x services \<Rightarrow> string \<Rightarrow> drive_client \<Rightarrow> SyncMode \<Rightarrow> string \<Rightarrow> ('x world, unit result) state" where
  "initial_sync sv acct c sync_mode mount_point =
     tryE (ext_call (sv_start_page_token sv c)) (\<lambda>page_token.
     tryE (set_token acct page_token) (\<lambda>_. do {
       fuel \<leftarrow> remaining_ops;
       tryE (list_loop (Suc fuel) sv c acct None) (\<lambda>_.
         if sync_mode = Mirror
         then tryE (enqueue_mirror_downloads acct mount_point) (\<lambda>_. State_Monad.return (Inr ()))
         else State_Monad.return (Inr ()))
     }))"

end
