(* ===== verification/Incremental.thy ===== *)
theory Incremental
  imports Initial
begin

text \<open>
  \<^verbatim>\<open>crates/gdriver-daemon/src/sync/incremental.rs\<close>: one poll of the changes feed of an account.
\<close>

definition enqueue_task :: "string \<Rightarrow> string \<Rightarrow> string \<Rightarrow> drive_file \<Rightarrow> ('x world, unit) state" where
  "enqueue_task acct file_id operation f = do {
     now \<leftarrow> now_ms;
     _ \<leftarrow> enqueue \<lparr>t_id = None, t_account_id = acct, t_file_id = Some file_id, t_operation = operation,
            t_local_path = d_local_path f, t_priority = 5, t_status = ''pending'', t_retry_count = 0,
            t_error_msg = None, t_created_at = now, t_updated_at = now\<rparr>;
     State_Monad.return ()
   }"

definition change_path :: "string \<Rightarrow> drive_file \<Rightarrow> string" where
  "change_path mount_point f =
     (case d_local_path f of Some p \<Rightarrow> p | None \<Rightarrow> under_mount mount_point (d_name f))"

definition enqueue_download_for_change :: "string \<Rightarrow> drive_file \<Rightarrow> SyncMode \<Rightarrow> string \<Rightarrow> ('x world, unit) state" where
  "enqueue_download_for_change acct f sync_mode mount_point =
     (if d_mime_type f = ''application/vnd.google-apps.folder'' then State_Monad.return ()
      else if already_local (d_sync_state f) then State_Monad.return ()
      else if sync_mode = Mirror then do {
        now \<leftarrow> now_ms;
        _ \<leftarrow> enqueue (download_task now acct (d_id f) (change_path mount_point f));
        State_Monad.return ()
      } else do {
        r \<leftarrow> list_by_account acct;
        case r of
          Inl _ \<Rightarrow> State_Monad.return ()
        | Inr folders \<Rightarrow>
            if folders = [] then State_Monad.return ()
            else (let p = change_path mount_point f
                  in if \<not> list_ex (\<lambda>fo. s_is_enabled fo \<and> starts_with (s_local_path fo) p) folders
                     then State_Monad.return ()
                     else do {
                       now \<leftarrow> now_ms;
                       _ \<leftarrow> enqueue (download_task now acct (d_id f) p);
                       State_Monad.return ()
                     })
      })"

definition process_change :: "'x services \<Rightarrow> string \<Rightarrow> change \<Rightarrow> SyncMode \<Rightarrow> string \<Rightarrow> ('x world, unit result) state" where
  "process_change sv acct ch sync_mode mount_point =
     (case ch_file_id ch of
        None \<Rightarrow> State_Monad.return (Inr ())
      | Some file_id \<Rightarrow>
          if (case ch_removed ch of None \<Rightarrow> False | Some b \<Rightarrow> b)
          then tryE (mark_trashed file_id acct) (\<lambda>_.
               tryE (get_file_by_id file_id acct) (\<lambda>existing.
                 case existing of
                   None \<Rightarrow> State_Monad.return (Inr ())
                 | Some f \<Rightarrow>
                     if d_local_path f \<noteq> None
                     then do {
                       _ \<leftarrow> enqueue_task acct file_id ''delete'' f;
                       State_Monad.return (Inr ())
                     }
                     else State_Monad.return (Inr ())))
          else (case ch_file ch of
                  None \<Rightarrow> State_Monad.return (Inr ())
                | Some api_file \<Rightarrow>
                    (let db_file = map_api_file_to_db sv api_file acct
                     in tryE (get_file_by_id file_id acct) (\<lambda>existing.
                        tryE (upsert_file db_file) (\<lambda>_.
                          if g_trashed api_file = Some True
                          then do {
                            _ \<leftarrow> (if d_local_path db_file \<noteq> None
                                  then enqueue_task acct file_id ''delete'' db_file
                                  else State_Monad.return ());
                            State_Monad.return (Inr ())
                          }
                          else do {
                            _ \<leftarrow> (if existing = None
                                  then enqueue_download_for_change acct db_file sync_mode mount_point
                                  else enqueue_download_for_change acct db_file sync_mode mount_point);
                            State_Monad.return (Inr ())
                          })))))"

definition process_page :: "'x services \<Rightarrow> string \<Rightarrow> SyncMode \<Rightarrow> string \<Rightarrow> change list \<Rightarrow> ('x world, unit) state" where
  "process_page sv acct sync_mode mount_point chs =
     for_each chs (\<lambda>ch. do {
       _ \<leftarrow> process_change sv acct ch sync_mode mount_point;
       State_Monad.return ()
     })"

text \<open>
  The paging loop returns the number of changes and the last \<^verbatim>\<open>newStartPageToken\<close> seen. One service
  call a round, so the operations left bound the rounds.
\<close>

fun changes_loop :: "nat \<Rightarrow> 'x services \<Rightarrow> drive_client \<Rightarrow> string \<Rightarrow> SyncMode \<Rightarrow> string \<Rightarrow> string \<Rightarrow>
    string option \<Rightarrow> nat \<Rightarrow> ('x world, (nat \<times> string option) result) state" where
  "changes_loop 0 sv c acct sync_mode mount_point tok latest seen = hang"
| "changes_loop (Suc n) sv c acct sync_mode mount_point tok latest seen =
     tryE (ext_call (sv_changes_list sv c tok)) (\<lambda>response.
       (let latest' = (case cl_new_start_page_token response of None \<Rightarrow> latest | Some t \<Rightarrow> Some t);
            seen' = seen + length (cl_changes response)
        in do {
          _ \<leftarrow> process_page sv acct sync_mode mount_point (cl_changes response);
          case cl_next_page_token response of
            None \<Rightarrow> State_Monad.return (Inr (seen', latest'))
          | Some t \<Rightarrow> changes_loop n sv c acct sync_mode mount_point t latest' seen'
        }))"

definition incremental_sync :: "'x services \<Rightarrow> string \<Rightarrow> drive_client \<Rightarrow> SyncMode \<Rightarrow> string \<Rightarrow> ('x world, nat result) state" where
  "incremental_sync sv acct c sync_mode mount_point =
     tryE (get_token acct) (\<lambda>stored.
       case stored of
         None \<Rightarrow> State_Monad.return (Inr 0)
       | Some page_token \<Rightarrow> do {
           fuel \<leftarrow> remaining_ops;
           tryE (changes_loop (Suc fuel) sv c acct sync_mode mount_point page_token None 0) (\<lambda>(seen, latest).
             case latest of
               None \<Rightarrow> State_Monad.return (Inr seen)
             | Some tok \<Rightarrow> tryE (set_token acct tok) (\<lambda>_. State_Monad.return (Inr seen)))
         })"

end
