(* ===== verification/Engine.thy ===== *)
theory Engine
  imports Incremental
begin

text \<open>
  \<^verbatim>\<open>crates/gdriver-daemon/src/sync/engine.rs\<close>: the state machine of the sync engine and its event loop.
  Every handler takes the engine state and returns the new one; the world carries the rest.
\<close>

section \<open>State changes\<close>

definition push_status :: "SyncEngineState \<Rightarrow> ('x world, unit) state" where
  "push_status st = do {
     now \<leftarrow> now_ms;
     push_send (SyncStatusChanged \<lparr>p_status = to_sync_status st, p_ts = now, p_speed = None, p_pending = None\<rparr>)
   }"

definition transition_to :: "SyncEngineState \<Rightarrow> SyncEngineState \<Rightarrow> ('x world, SyncEngineState) state" where
  "transition_to new_state current =
     (if current = new_state then State_Monad.return current
      else do {
        _ \<leftarrow> push_status new_state;
        State_Monad.return new_state
      })"

definition read_prefs :: "('x world, string \<times> SyncMode) state" where
  "read_prefs = State (\<lambda>w. ((w_mount_point w, w_sync_mode w), w))"

section \<open>Mode switch\<close>

definition f_reset_stream :: "string \<Rightarrow> database \<Rightarrow> database" where
  "f_reset_stream acct d = d\<lparr>drive_files :=
     update_where (\<lambda>r. r_account_id r = acct \<and> r_is_trashed r = 0 \<and>
         r_mime_type r \<noteq> ''application/vnd.google-apps.folder'' \<and> r_local_path r \<noteq> None)
       (\<lambda>r. r\<lparr>r_local_path := None, r_sync_state := ''cloud_only''\<rparr>) (drive_files d)\<rparr>"

definition reset_mirror_to_stream :: "string \<Rightarrow> ('x world, nat result) state" where
  "reset_mirror_to_stream acct = db_exec (\<lambda>d.
     (Inr (length (filter (\<lambda>r. r_account_id r = acct \<and> r_is_trashed r = 0 \<and>
         r_mime_type r \<noteq> ''application/vnd.google-apps.folder'' \<and> r_local_path r \<noteq> None) (drive_files d))),
      f_reset_stream acct d))"

definition switch_account :: "SyncMode \<Rightarrow> string \<Rightarrow> account \<Rightarrow> ('x world, unit) state" where
  "switch_account new_mode mount_point a = do {
     _ \<leftarrow> (case new_mode of
            Mirror \<Rightarrow> enqueue_mirror_downloads (a_id a) mount_point
          | Stream \<Rightarrow> reset_mirror_to_stream (a_id a));
     State_Monad.return ()
   }"

definition handle_mode_switch :: "SyncEngineState \<Rightarrow> SyncMode \<Rightarrow> ('x world, SyncEngineState) state" where
  "handle_mode_switch st new_mode = do {
     (mount_point, old_mode) \<leftarrow> read_prefs;
     if old_mode = new_mode then State_Monad.return st
     else do {
       st1 \<leftarrow> transition_to Syncing st;
       accs \<leftarrow> list_accounts;
       case accs of
         Inl _ \<Rightarrow> transition_to Idle st1
       | Inr as \<Rightarrow> do {
           _ \<leftarrow> for_each as (switch_account new_mode mount_point);
           transition_to Idle st1
         }
     }
   }"

definition handle_command :: "SyncEngineState \<Rightarrow> SyncCommand \<Rightarrow> ('x world, SyncEngineState) state" where
  "handle_command st cmd =
     (case cmd of
        Pause \<Rightarrow> transition_to Paused st
      | Resume \<Rightarrow> if st = Paused then transition_to Idle st else State_Monad.return st
      | SwitchMode m \<Rightarrow> handle_mode_switch st m)"

section \<open>The task queue\<close>

text \<open>One task: \<open>True\<close> when the conflict check already settled an upload.\<close>

definition upload_conflict_check :: "'x services \<Rightarrow> drive_client \<Rightarrow> sync_task \<Rightarrow> ('x world, bool) state" where
  "upload_conflict_check sv c t =
     (case (t_file_id t, t_local_path t) of
        (Some file_id, Some p) \<Rightarrow> do {
          r \<leftarrow> check_and_resolve sv c t file_id p;
          State_Monad.return (r = Inr True)
        }
      | _ \<Rightarrow> State_Monad.return False)"

definition run_with_client :: "'x services \<Rightarrow> sync_task \<Rightarrow> (drive_client \<Rightarrow> ('x world, unit result) state) \<Rightarrow> ('x world, unit) state" where
  "run_with_client sv t act = do {
     client \<leftarrow> build_client_for_account sv (t_account_id t);
     case client of
       None \<Rightarrow> State_Monad.return ()
     | Some c \<Rightarrow> do {
         _ \<leftarrow> act c;
         State_Monad.return ()
       }
   }"

definition process_task :: "'x services \<Rightarrow> sync_task \<Rightarrow> ('x world, unit) state" where
  "process_task sv t =
     (if t_operation t = ''upload'' then
        run_with_client sv t (\<lambda>c. do {
          resolved \<leftarrow> upload_conflict_check sv c t;
          if resolved then State_Monad.return (Inr ()) else upload_file sv c t
        })
      else if t_operation t = ''download'' then run_with_client sv t (\<lambda>c. download_file sv c t)
      else if t_operation t = ''photos_backup'' then run_with_client sv t (\<lambda>c. backup_photo sv c t)
      else if t_operation t = ''delete'' then run_with_client sv t (\<lambda>c. delete_file sv c t)
      else case t_id t of
             None \<Rightarrow> State_Monad.return ()
           | Some i \<Rightarrow> do {
               _ \<leftarrow> update_task_status i ''completed'' (Some ''unknown operation'');
               State_Monad.return ()
             })"

fun process_tasks :: "nat \<Rightarrow> 'x services \<Rightarrow> ('x world, unit) state" where
  "process_tasks 0 sv = State_Monad.return ()"
| "process_tasks (Suc n) sv = do {
     r \<leftarrow> next_pending_task;
     case r of
       Inl _ \<Rightarrow> State_Monad.return ()
     | Inr None \<Rightarrow> State_Monad.return ()
     | Inr (Some t) \<Rightarrow> do {
         _ \<leftarrow> process_task sv t;
         process_tasks n sv
       }
   }"

definition process_pending_tasks :: "'x services \<Rightarrow> ('x world, unit) state" where
  "process_pending_tasks sv = process_tasks 10 sv"

section \<open>Poll and watcher\<close>

definition poll_account :: "'x services \<Rightarrow> account \<Rightarrow> ('x world, unit) state" where
  "poll_account sv a = do {
     client \<leftarrow> build_client_for_account sv (a_id a);
     case client of
       None \<Rightarrow> State_Monad.return ()
     | Some c \<Rightarrow> do {
         (mount_point, sync_mode) \<leftarrow> read_prefs;
         _ \<leftarrow> incremental_sync sv (a_id a) c sync_mode mount_point;
         State_Monad.return ()
       }
   }"

definition handle_remote_poll :: "'x services \<Rightarrow> SyncEngineState \<Rightarrow> ('x world, SyncEngineState) state" where
  "handle_remote_poll sv st =
     (if st = Paused then State_Monad.return st
      else do {
        accs \<leftarrow> list_accounts;
        case accs of
          Inl _ \<Rightarrow> State_Monad.return st
        | Inr as \<Rightarrow>
            if as = [] then State_Monad.return st
            else do {
              st1 \<leftarrow> transition_to Scanning st;
              _ \<leftarrow> for_each as (poll_account sv);
              st2 \<leftarrow> transition_to Syncing st1;
              _ \<leftarrow> process_pending_tasks sv;
              transition_to Idle st2
            }
      })"

definition handle_watcher_task :: "'x services \<Rightarrow> SyncEngineState \<Rightarrow> sync_task \<Rightarrow> ('x world, SyncEngineState) state" where
  "handle_watcher_task sv st t =
     (if st = Paused then State_Monad.return st
      else do {
        r \<leftarrow> enqueue t;
        case r of
          Inl _ \<Rightarrow> State_Monad.return st
        | Inr _ \<Rightarrow> do {
            st1 \<leftarrow> transition_to Syncing st;
            _ \<leftarrow> process_pending_tasks sv;
            State_Monad.return st1
          }
      })"

section \<open>The event loop\<close>

text \<open>
  \<^verbatim>\<open>tokio::select!\<close> picks one ready branch: a command, a timer tick or a watcher message. A run of the
  loop is the sequence of events it picked. \<open>Shutdown\<close> is the closed command channel, \<open>WatcherClosed\<close>
  the closed watcher channel.
\<close>

datatype engine_event = Command SyncCommand | PollTick | WatcherTask sync_task | WatcherClosed | Shutdown

record engine =
  en_state :: SyncEngineState
  en_watching :: bool
  en_running :: bool

text \<open>An event can be picked when the loop still runs and, for the watcher branch, while the channel is there.\<close>

fun event_ready :: "engine \<Rightarrow> engine_event \<Rightarrow> bool" where
  "event_ready en (WatcherTask t) = (en_running en \<and> en_watching en)"
| "event_ready en WatcherClosed = (en_running en \<and> en_watching en)"
| "event_ready en _ = en_running en"

fun handle_event :: "'x services \<Rightarrow> engine \<Rightarrow> engine_event \<Rightarrow> ('x world, engine) state" where
  "handle_event sv en (Command cmd) = do {
     st \<leftarrow> handle_command (en_state en) cmd;
     State_Monad.return (en\<lparr>en_state := st\<rparr>)
   }"
| "handle_event sv en PollTick = do {
     st \<leftarrow> handle_remote_poll sv (en_state en);
     State_Monad.return (en\<lparr>en_state := st\<rparr>)
   }"
| "handle_event sv en (WatcherTask t) = do {
     st \<leftarrow> handle_watcher_task sv (en_state en) t;
     State_Monad.return (en\<lparr>en_state := st\<rparr>)
   }"
| "handle_event sv en WatcherClosed = State_Monad.return (en\<lparr>en_watching := False\<rparr>)"
| "handle_event sv en Shutdown = State_Monad.return (en\<lparr>en_running := False\<rparr>)"

definition engine_start :: "bool \<Rightarrow> ('x world, engine) state" where
  "engine_start watching = do {
     _ \<leftarrow> push_status Idle;
     State_Monad.return \<lparr>en_state = Idle, en_watching = watching, en_running = True\<rparr>
   }"

inductive engine_step :: "'x services \<Rightarrow> engine \<times> 'x world \<Rightarrow> engine \<times> 'x world \<Rightarrow> bool" for sv where
  step: "event_ready en ev \<Longrightarrow> run_state (handle_event sv en ev) w = (en', w') \<Longrightarrow>
     engine_step sv (en, w) (en', w')"

inductive engine_runs :: "'x services \<Rightarrow> engine \<times> 'x world \<Rightarrow> engine \<times> 'x world \<Rightarrow> bool" for sv where
  start: "run_state (engine_start watching) w = (en, w') \<Longrightarrow> engine_runs sv (en, w') (en, w')"
| more: "engine_runs sv s0 s \<Longrightarrow> engine_step sv s s' \<Longrightarrow> engine_runs sv s0 s'"

inductive_cases engine_stepE: "engine_step sv s s'"

text \<open>The loop on a given sequence of picked events, for evaluation; events that are not ready are not picked.\<close>

fun run_events :: "'x services \<Rightarrow> engine \<Rightarrow> engine_event list \<Rightarrow> ('x world, engine) state" where
  "run_events sv en [] = State_Monad.return en"
| "run_events sv en (ev # evs) =
     (if event_ready en ev
      then do {
        en' \<leftarrow> handle_event sv en ev;
        run_events sv en' evs
      }
      else run_events sv en evs)"

end
