(* ===== verification/Samples.thy ===== *)
theory Samples
  imports Engine
begin

text \<open>
  Concrete values the witnesses evaluate the model on: services that answer nothing, one account with
  a few files and tasks, and a small file system.
\<close>

definition null_services :: "'x services" where
  "null_services = \<lparr>
     sv_files_list = (\<lambda>_ _ x. (Inl ''offline'', x)),
     sv_files_get = (\<lambda>_ _ x. (Inl ''offline'', x)),
     sv_files_delete = (\<lambda>_ _ x. (Inl ''offline'', x)),
     sv_files_download = (\<lambda>_ _ x. (Inl ''offline'', x)),
     sv_files_export = (\<lambda>_ _ _ x. (Inl ''offline'', x)),
     sv_upload_multipart = (\<lambda>_ _ _ _ x. (Inl ''offline'', x)),
     sv_resumable_start = (\<lambda>_ _ x. (Inl ''offline'', x)),
     sv_resumable_chunk = (\<lambda>_ _ _ _ _ _ x. (Inl ''offline'', x)),
     sv_resumable_query = (\<lambda>_ _ _ x. (Inl ''offline'', x)),
     sv_start_page_token = (\<lambda>_ x. (Inl ''offline'', x)),
     sv_changes_list = (\<lambda>_ _ x. (Inl ''offline'', x)),
     sv_photos_upload = (\<lambda>_ _ _ x. (Inl ''offline'', x)),
     sv_batch_create = (\<lambda>_ _ _ x. (Inl ''offline'', x)),
     sv_refresh_access_token = (\<lambda>_ _ x. (Inl ''offline'', x)),
     sv_keyring_get = (\<lambda>_ x. (Inr None, x)),
     sv_keyring_set = (\<lambda>_ _ x. (Inr (), x)),
     sv_keyring_delete = (\<lambda>_ x. (Inr False, x)),
     sv_parse_rfc3339 = (\<lambda>_. None),
     sv_local_time = (\<lambda>_. ''2024-01-01'')\<rparr>"

definition sample_client :: drive_client where
  "sample_client = \<lparr>c_token = ''tok'', c_refresher = None\<rparr>"

definition sample_api_file :: api_file where
  "sample_api_file = \<lparr>g_id = Some ''new'', g_name = Some ''notes.txt'', g_mime_type = Some ''text/plain'',
     g_parents = Some [''root''], g_size = Some ''3'', g_etag = Some ''e1'', g_version = Some ''7'',
     g_modified_time = None, g_created_time = None, g_trashed = Some False, g_shared = None,
     g_md5_checksum = None, g_web_view_link = None\<rparr>"

definition sample_account :: account where
  "sample_account = \<lparr>a_id = ''alice'', a_email = ''alice@example.org'', a_display_name = None,
     a_photo_url = None, a_locale = None, a_created_at = 0, a_last_used_at = 0\<rparr>"

definition sample_row :: drive_file_row where
  "sample_row = \<lparr>r_rowid = 1, r_id = ''f1'', r_account_id = ''alice'', r_name = ''a.bin'',
     r_mime_type = ''application/octet-stream'', r_parent_id = None, r_size = Some 4, r_etag = Some ''e0'',
     r_version = Some 1, r_modified_time = Some 10, r_is_trashed = 0, r_is_shared = 0,
     r_local_path = Some ''/drive/a.bin'', r_sync_state = ''cached'', r_local_mtime = Some 5\<rparr>"

definition sample_task :: "int \<Rightarrow> string \<Rightarrow> string option \<Rightarrow> string option \<Rightarrow> sync_task_row" where
  "sample_task i oper fid p = \<lparr>q_id = i, q_account_id = ''alice'', q_file_id = fid, q_operation = oper,
     q_local_path = p, q_priority = 5, q_status = ''pending'', q_retry_count = 0, q_error_msg = None,
     q_created_at = i, q_updated_at = i\<rparr>"

definition upload_row :: sync_task_row where
  "upload_row = sample_task 1 ''upload'' None (Some ''/home/notes.txt'')"

definition download_row1 :: sync_task_row where
  "download_row1 = sample_task 2 ''download'' (Some ''f1'') (Some ''/drive/a.bin'')"

definition sample_db :: database where
  "sample_db = empty_db\<lparr>accounts := [sample_account], drive_files := [sample_row],
     sync_queue := [upload_row, download_row1], queue_seq := 2\<rparr>"

definition sample_fs :: "bytes \<Rightarrow> filesystem" where
  "sample_fs bs = \<lparr>fs_files = [''/home/notes.txt'' \<mapsto> \<lparr>f_bytes = bs, f_mtime = Some 20\<rparr>,
                               ''/drive/a.bin'' \<mapsto> \<lparr>f_bytes = [9], f_mtime = Some 30\<rparr>],
     fs_dirs = {''/'', ''/home'', ''/drive''}\<rparr>"

definition sample_world :: "bytes \<Rightarrow> nat \<Rightarrow> 'x \<Rightarrow> 'x world" where
  "sample_world bs limit x = \<lparr>w_db = sample_db, w_fs = sample_fs bs, w_ext = x, w_push = [], w_tokens = Map.empty,
     w_sync_mode = Stream, w_mount_point = ''/drive'', w_oauth = None, w_fault = (\<lambda>_. None),
     w_clock = (\<lambda>n. 1000 + int n), w_limit = limit, w_ops = 0\<rparr>"

lemma sample_world_simps [simp]:
  "w_db (sample_world bs limit x) = sample_db" "w_fs (sample_world bs limit x) = sample_fs bs"
  "w_ext (sample_world bs limit x) = x" "w_tokens (sample_world bs limit x) = Map.empty"
  "w_sync_mode (sample_world bs limit x) = Stream" "w_fault (sample_world bs limit x) = (\<lambda>_. None)"
  "w_limit (sample_world bs limit x) = limit" "w_ops (sample_world bs limit x) = 0"
  "no_faults (sample_world bs limit x)" "can_run n (sample_world bs limit x) \<longleftrightarrow> n \<le> limit"
  by (simp_all add: sample_world_def no_faults_def can_run_def)

lemma sample_task_simps [simp]:
  "q_id (sample_task i oper fid p) = i" "q_account_id (sample_task i oper fid p) = ''alice''"
  "q_file_id (sample_task i oper fid p) = fid" "q_operation (sample_task i oper fid p) = oper"
  "q_local_path (sample_task i oper fid p) = p" "q_status (sample_task i oper fid p) = ''pending''"
  "q_retry_count (sample_task i oper fid p) = 0" "q_priority (sample_task i oper fid p) = 5"
  "q_created_at (sample_task i oper fid p) = i"
  by (simp_all add: sample_task_def)

lemma sample_db_simps [simp]:
  "accounts sample_db = [sample_account]" "drive_files sample_db = [sample_row]"
  "sync_queue sample_db = [upload_row, download_row1]" "queue_seq sample_db = 2"
  "sync_tokens sample_db = []" "sync_folders sample_db = []" "has_account sample_db ''alice''"
  by (simp_all add: sample_db_def empty_db_def has_account_def sample_account_def)

lemma sample_wf: "wf_db sample_db"
  by (simp add: wf_db_def sample_db_def empty_db_def has_account_def sample_account_def sample_row_def
      upload_row_def download_row1_def)

end
