(* ===== verification/Db_Props.thy ===== *)
theory Db_Props
  imports Samples
begin

text \<open>
  The tables as the rest of the daemon uses them: the queue hands tasks out by priority and age and
  loses none, the file table is a map, and deleting an account removes what belongs to it, except its
  queued tasks.
\<close>

section \<open>The queue\<close>

text \<open>\<^verbatim>\<open>next_pending_task\<close> hands out the first task of the order \<^verbatim>\<open>compare_priority\<close> of the sync
  crate defines: the task it returns is a pending row of the queue, and no pending row comes before it.
  It returns nothing only when nothing is pending.\<close>

theorem next_task_is_first:
  assumes "run_state next_pending_task w = (Inr res, w')"
  shows "case res of
      None \<Rightarrow> q_pending (w_db w) = []
    | Some t \<Rightarrow> t \<in> task_from_row ` set (q_pending (w_db w)) \<and>
        (\<forall>r \<in> set (q_pending (w_db w)). compare_priority t (task_from_row r) \<noteq> Greater)"
proof -
  have res: "res = map_option task_from_row (q_next (w_db w))"
    using assms by (auto simp: next_pending_task_def db_exec_def split: if_splits option.splits)
  show ?thesis
  proof (cases "q_next (w_db w)")
    case None
    then show ?thesis using res tq.nxt_None [of "w_db w"] by simp
  next
    case (Some r)
    then show ?thesis
      using res tq.nxt_in [OF Some] tq.nxt_least [OF Some] by (auto simp: compare_priority_rows)
  qed
qed

theorem next_task_is_first_witness:
  "upload_row \<in> set (q_pending sample_db) \<and>
   (\<exists>w'. run_state next_pending_task (sample_world [] 1 ()) = (Inr (Some (task_from_row upload_row)), w')) \<and>
   download_row1 \<in> set (q_pending sample_db) \<and>
   compare_priority (task_from_row upload_row) (task_from_row download_row1) \<noteq> Greater"
proof -
  have run: "run_state next_pending_task (sample_world [] 1 ())
      = (Inr (Some (task_from_row upload_row)), tick (sample_world [] 1 ()))"
    by (simp add: next_pending_task_def db_exec_def halted_def q_next_def q_pending_def upload_row_def download_row1_def
        q_key_def sample_world_def tick_def)
  then show ?thesis
    using next_task_is_first [OF run] by (auto simp: q_pending_def upload_row_def download_row1_def)
qed

text \<open>Taking the next task and completing it, over and over.\<close>

fun drain :: "nat \<Rightarrow> int \<Rightarrow> database \<Rightarrow> sync_task_row list" where
  "drain 0 now d = []"
| "drain (Suc n) now d =
     (case q_next d of None \<Rightarrow> [] | Some r \<Rightarrow> r # drain n now (q_set_status (q_id r) ''completed'' None now d))"

lemma drain_serve: "drain n now d = tq.serve None now n d"
  by (induction n arbitrary: d) (auto split: option.splits)

text \<open>Draining the queue serves every pending task exactly once, in order of priority and, within
  a priority, of creation time.\<close>

theorem queue_drains_in_order:
  assumes "wf_db d" and "length (q_pending d) \<le> n"
  shows "mset (drain n now d) = mset (q_pending d) \<and> sorted (map q_key (drain n now d))"
  using tq.serve_all [OF wf_db_wf_queue [OF assms(1)] assms(2)] tq.serve_sorted [OF wf_db_wf_queue [OF assms(1)]]
  by (simp add: drain_serve)

theorem queue_drains_in_order_witness:
  "mset (drain 2 0 sample_db) = {#upload_row, download_row1#} \<and> sorted (map q_key (drain 2 0 sample_db))"
  using queue_drains_in_order [OF sample_wf, of 2 0]
  by (simp add: q_pending_def upload_row_def download_row1_def)

section \<open>The file table\<close>

text \<open>C40: \<^verbatim>\<open>upsert_file\<close> refines a map update. On a sound database it succeeds exactly when the account
  exists; then the table, read as a map from (file id, account id), is updated at that key and nowhere
  else, and every row already in the table keeps its rowid, which the virtual filesystem uses as
  inode. When it fails nothing changes.\<close>

theorem upsert_refines_map:
  assumes "wf_db d"
  shows "case f_upsert f d of
      (Inr _, d') \<Rightarrow> has_account d (d_account_id f) \<and> files_map d' = (files_map d)(db_file_key f \<mapsto> f) \<and>
        (\<forall>r \<in> set (drive_files d). \<exists>r' \<in> set (drive_files d'). file_key r' = file_key r \<and> r_rowid r' = r_rowid r)
    | (Inl _, d') \<Rightarrow> \<not> has_account d (d_account_id f) \<and> d' = d"
proof (cases "f_upsert f d")
  case (Pair res d')
  have keyed: "has_account d (d_account_id f)" if "list_ex (\<lambda>r. file_key r = (d_id f, d_account_id f)) (drive_files d)"
    using that assms by (auto simp: list_ex_iff list_all_iff wf_db_def file_key_def)
  show ?thesis
  proof (cases res)
    case (Inl e)
    then show ?thesis using Pair by (auto simp: f_upsert_def Let_def split: if_splits)
  next
    case (Inr u)
    then have ok: "upsert_ok f d" using Pair by (simp add: upsert_ok_def)
    have acct: "has_account d (d_account_id f)"
      using Pair Inr keyed by (auto simp: f_upsert_def Let_def split: if_splits)
    have "\<exists>r' \<in> set (drive_files d'). file_key r' = file_key r \<and> r_rowid r' = r_rowid r" if r: "r \<in> set (drive_files d)" for r
    proof -
      let ?u = "\<lambda>s. if file_key s = (d_id f, d_account_id f) then row_from_file (r_rowid s) f else s"
      have "?u r \<in> set (drive_files d') \<or> r \<in> set (drive_files d')"
        using Pair r by (auto simp: f_upsert_def Let_def update_where_def split: if_splits)
      then show ?thesis by (cases "file_key r = (d_id f, d_account_id f)") (auto intro: bexI [of _ "?u r"])
    qed
    then show ?thesis using Pair Inr acct files_map_upsert [OF ok] by simp
  qed
qed

theorem upsert_refines_map_witness:
  "let f = (file_from_row sample_row)\<lparr>d_name := ''b.bin''\<rparr>
   in files_map (snd (f_upsert f sample_db)) = (files_map sample_db)((''f1'', ''alice'') \<mapsto> f)"
  using upsert_refines_map [OF sample_wf, of "(file_from_row sample_row)\<lparr>d_name := ''b.bin''\<rparr>"]
  by (simp add: Let_def f_upsert_def file_from_row_def sample_row_def file_key_def db_file_key_def)

section \<open>Accounts\<close>

text \<open>Deleting an account keeps the database sound and removes the account with its files, its page
  token and its folders, and no row of any other account. Its queued tasks stay: \<^verbatim>\<open>sync_queue\<close> has no
  foreign key, so the cascade the doc comment of \<^verbatim>\<open>delete_account\<close> promises does not reach it.\<close>

theorem delete_account_cascade:
  assumes "wf_db d" and d': "d' = acc_delete i d"
  shows "wf_db d' \<and> \<not> has_account d' i \<and>
    set (drive_files d') = {r \<in> set (drive_files d). r_account_id r \<noteq> i} \<and>
    set (sync_tokens d') = {r \<in> set (sync_tokens d). k_account_id r \<noteq> i} \<and>
    set (sync_folders d') = {r \<in> set (sync_folders d). sr_account_id r \<noteq> i} \<and>
    set (accounts d') = {a \<in> set (accounts d). a_id a \<noteq> i} \<and> sync_queue d' = sync_queue d"
proof -
  have acct: "has_account d' a \<longleftrightarrow> has_account d a \<and> a \<noteq> i" for a
    by (auto simp: d' acc_delete_def has_account_def list_ex_iff)
  have "wf_db d'"
    using assms(1) unfolding wf_db_def acct list_all_iff
    by (simp add: d' acc_delete_def distinct_map_filter)
  then show ?thesis using acct [of i] by (auto simp: d' acc_delete_def)
qed

theorem delete_account_cascade_witness:
  "wf_db (acc_delete ''alice'' sample_db) \<and> drive_files (acc_delete ''alice'' sample_db) = [] \<and>
   sync_queue (acc_delete ''alice'' sample_db) = [upload_row, download_row1]"
  using delete_account_cascade [OF sample_wf refl, of "''alice''"]
  by (simp add: acc_delete_def sample_row_def)

end
