(* ===== verification/Api_Client.thy ===== *)
theory Api_Client
  imports Services
begin

text \<open>
  \<^verbatim>\<open>crates/gdriver-api/src/client.rs\<close>: the authenticated HTTP client with its retry and token-refresh
  loop, and the token endpoint of \<^verbatim>\<open>auth.rs\<close>. The network (\<^verbatim>\<open>reqwest\<close>), the OS keychain, the JSON codecs
  (\<^verbatim>\<open>serde_json\<close>) and the calendar (\<^verbatim>\<open>chrono\<close>) form the record \<open>transport\<close>, a parameter of every request.
\<close>

section \<open>Requests and responses\<close>

record http_request =
  rq_method :: string
  rq_url :: string
  rq_headers :: "(string \<times> string) list"
  rq_body :: bytes
  rq_follow :: bool

text \<open>The body arrives in chunks; an error in the list is a connection broken at that point.\<close>

record http_response =
  rs_status :: nat
  rs_headers :: "(string \<times> string) list"
  rs_body :: "bytes result list"

record raw_token_response =
  rt_access_token :: string
  rt_refresh_token :: "string option"
  rt_expires_in :: nat
  rt_token_type :: string

record about_user =
  au_permission_id :: "string option"
  au_display_name :: string
  au_email_address :: string
  au_photo_link :: "string option"
  au_locale :: "string option"

record about_storage_quota =
  aq_limit :: "string option"
  aq_usage :: string
  aq_usage_in_drive :: "string option"
  aq_usage_in_drive_trash :: "string option"

record about_response =
  ab_user :: about_user
  ab_storage_quota :: about_storage_quota

record update_file_metadata =
  um_name :: "string option"
  um_mime_type :: "string option"
  um_trashed :: "bool option"

record new_media_item =
  nm_description :: "string option"
  nm_upload_token :: string
  nm_file_name :: "string option"

record batch_create_request =
  bc_album_id :: "string option"
  bc_new_media_items :: "new_media_item list"

record 'h transport =
  tp_send :: "http_request \<Rightarrow> 'h \<Rightarrow> http_response result \<times> 'h"
  tp_now :: "'h \<Rightarrow> int"
  tp_keyring_get :: "string \<Rightarrow> 'h \<Rightarrow> string option result \<times> 'h"
  tp_keyring_set :: "string \<Rightarrow> string \<Rightarrow> 'h \<Rightarrow> unit result \<times> 'h"
  tp_keyring_delete :: "string \<Rightarrow> 'h \<Rightarrow> bool result \<times> 'h"
  tp_text :: "bytes \<Rightarrow> string"
  tp_bytes :: "string \<Rightarrow> bytes"
  tp_form :: "(string \<times> string) list \<Rightarrow> bytes"
  tp_file_json :: "bytes \<Rightarrow> api_file option"
  tp_file_list_json :: "bytes \<Rightarrow> file_list_response option"
  tp_change_list_json :: "bytes \<Rightarrow> change_list_response option"
  tp_start_token_json :: "bytes \<Rightarrow> string option"
  tp_batch_json :: "bytes \<Rightarrow> media_item_result list option"
  tp_about_json :: "bytes \<Rightarrow> about_response option"
  tp_token_json :: "bytes \<Rightarrow> raw_token_response option"
  tp_json_create :: "create_file_metadata \<Rightarrow> bytes"
  tp_json_update :: "update_file_metadata \<Rightarrow> bytes"
  tp_json_batch :: "batch_create_request \<Rightarrow> bytes"
  tp_parse_rfc3339 :: "string \<Rightarrow> int option"
  tp_local_time :: "int \<Rightarrow> string"

text \<open>
  What the API layer runs on: the outside, the token each client holds when it is not the one it was
  created with, the requests sent so far and the seconds slept between them. The token map stands
  for the \<^verbatim>\<open>RwLock<String>\<close> of the clients: it is indexed by the token a client was created with.
\<close>

record 'h api_state =
  ap_net :: 'h
  ap_tokens :: "string \<rightharpoonup> string"
  ap_sent :: "http_request list"
  ap_slept :: "nat list"

definition net :: "('h \<Rightarrow> 'a \<times> 'h) \<Rightarrow> ('h api_state, 'a) state" where
  "net f = State (\<lambda>s. case f (ap_net s) of (r, h) \<Rightarrow> (r, s\<lparr>ap_net := h\<rparr>))"

definition send :: "'h transport \<Rightarrow> http_request \<Rightarrow> ('h api_state, http_response result) state" where
  "send tp rq = State (\<lambda>s. case tp_send tp rq (ap_net s) of (r, h) \<Rightarrow>
     (r, s\<lparr>ap_net := h, ap_sent := ap_sent s @ [rq]\<rparr>))"

definition sleep :: "nat \<Rightarrow> ('h api_state, unit) state" where
  "sleep secs = State (\<lambda>s. ((), s\<lparr>ap_slept := ap_slept s @ [secs]\<rparr>))"

section \<open>Reading a response\<close>

text \<open>\<^verbatim>\<open>bytes()\<close>: all chunks, or the error that broke the stream.\<close>

fun body_bytes :: "bytes result list \<Rightarrow> bytes result" where
  "body_bytes [] = Inr []"
| "body_bytes (Inl e # chs) = Inl e"
| "body_bytes (Inr bs # chs) = (case body_bytes chs of Inl e \<Rightarrow> Inl e | Inr rest \<Rightarrow> Inr (bs @ rest))"

lemma body_bytes_map [simp]: "body_bytes (map Inr chunks) = Inr (concat chunks)"
  by (induction chunks) simp_all

definition read_json :: "(bytes \<Rightarrow> 'a option) \<Rightarrow> string \<Rightarrow> http_response \<Rightarrow> 'a result" where
  "read_json decode what resp =
     (case body_bytes (rs_body resp) of
        Inl e \<Rightarrow> Inl what
      | Inr bs \<Rightarrow> (case decode bs of None \<Rightarrow> Inl what | Some v \<Rightarrow> Inr v))"

definition read_text :: "'h transport \<Rightarrow> http_response \<Rightarrow> string" where
  "read_text tp resp = (case body_bytes (rs_body resp) of Inl _ \<Rightarrow> [] | Inr bs \<Rightarrow> tp_text tp bs)"

definition is_success :: "nat \<Rightarrow> bool" where
  "is_success st \<longleftrightarrow> 200 \<le> st \<and> st < 300"

definition is_server_error :: "nat \<Rightarrow> bool" where
  "is_server_error st \<longleftrightarrow> 500 \<le> st \<and> st < 600"

section \<open>The client\<close>

definition access_token :: "drive_client \<Rightarrow> ('h api_state, string) state" where
  "access_token c = State (\<lambda>s. (case ap_tokens s (c_token c) of None \<Rightarrow> c_token c | Some t \<Rightarrow> t, s))"

definition set_access_token :: "drive_client \<Rightarrow> string \<Rightarrow> ('h api_state, unit) state" where
  "set_access_token c t = State (\<lambda>s. ((), s\<lparr>ap_tokens := (ap_tokens s)(c_token c \<mapsto> t)\<rparr>))"

definition authorize :: "string \<Rightarrow> http_request \<Rightarrow> http_request" where
  "authorize token rq = rq\<lparr>rq_headers := rq_headers rq @ [(''Authorization'', ''Bearer '' @ token)]\<rparr>"

definition TOKEN_ENDPOINT :: string where "TOKEN_ENDPOINT = ''https://oauth2.googleapis.com/token''"

text \<open>\<^verbatim>\<open>expires_in as i64 * 1000\<close> added to the clock; lifetimes are far below the range of \<^verbatim>\<open>i64\<close>.\<close>

definition token_set_from :: "int \<Rightarrow> raw_token_response \<Rightarrow> token_set" where
  "token_set_from now r = \<lparr>ts_access_token = rt_access_token r, ts_refresh_token = rt_refresh_token r,
     ts_expires_at = now + int (rt_expires_in r) * 1000\<rparr>"

definition token_request :: "'h transport \<Rightarrow> (string \<times> string) list \<Rightarrow> http_request" where
  "token_request tp form = \<lparr>rq_method = ''POST'', rq_url = TOKEN_ENDPOINT,
     rq_headers = [(''Content-Type'', ''application/x-www-form-urlencoded'')], rq_body = tp_form tp form, rq_follow = True\<rparr>"

definition refresh_access_token :: "'h transport \<Rightarrow> string \<times> string \<Rightarrow> string \<Rightarrow> ('h api_state, token_set result) state" where
  "refresh_access_token tp cfg refresh_token =
     tryE (send tp (token_request tp [(''refresh_token'', refresh_token), (''client_id'', fst cfg),
        (''client_secret'', snd cfg), (''grant_type'', ''refresh_token'')])) (\<lambda>resp.
       if \<not> is_success (rs_status resp)
       then State_Monad.return (Inl (''token refresh failed: '' @ read_text tp resp))
       else (case read_json (tp_token_json tp) ''failed to parse token refresh response'' resp of
               Inl e \<Rightarrow> State_Monad.return (Inl e)
             | Inr raw \<Rightarrow> do {
                 now \<leftarrow> net (\<lambda>h. (tp_now tp h, h));
                 State_Monad.return (Inr (token_set_from now
                   (if rt_refresh_token raw = None then raw\<lparr>rt_refresh_token := Some refresh_token\<rparr> else raw)))
               }))"

definition exchange_code :: "'h transport \<Rightarrow> string \<times> string \<Rightarrow> string \<Rightarrow> string \<Rightarrow> string \<Rightarrow> ('h api_state, token_set result) state" where
  "exchange_code tp cfg code code_verifier redirect_uri =
     tryE (send tp (token_request tp [(''code'', code), (''code_verifier'', code_verifier), (''client_id'', fst cfg),
        (''client_secret'', snd cfg), (''redirect_uri'', redirect_uri), (''grant_type'', ''authorization_code'')])) (\<lambda>resp.
       if \<not> is_success (rs_status resp)
       then State_Monad.return (Inl (''token exchange failed: '' @ read_text tp resp))
       else (case read_json (tp_token_json tp) ''failed to parse token exchange response'' resp of
               Inl e \<Rightarrow> State_Monad.return (Inl e)
             | Inr raw \<Rightarrow> do {
                 now \<leftarrow> net (\<lambda>h. (tp_now tp h, h));
                 State_Monad.return (Inr (token_set_from now raw))
               }))"

text \<open>
  The daemon's \<^verbatim>\<open>TokenRefresher\<close> (\<^verbatim>\<open>sync/engine.rs\<close>), as far as it touches the outside: the refresh
  token of the account from the keychain, a new token set, and the rotated refresh token back.
\<close>

definition client_refresh :: "'h transport \<Rightarrow> string \<times> string \<Rightarrow> string \<Rightarrow> ('h api_state, string result) state" where
  "client_refresh tp cfg acct =
     tryE (net (tp_keyring_get tp (keyring_account acct))) (\<lambda>loaded.
       case loaded of
         None \<Rightarrow> State_Monad.return (Inl (''no refresh token for '' @ acct))
       | Some rt \<Rightarrow> tryE (refresh_access_token tp cfg rt) (\<lambda>ts. do {
           _ \<leftarrow> (case ts_refresh_token ts of
                  None \<Rightarrow> State_Monad.return (Inr ())
                | Some new_rt \<Rightarrow>
                    if new_rt \<noteq> rt then net (tp_keyring_set tp (keyring_account acct) new_rt)
                    else State_Monad.return (Inr ()));
           State_Monad.return (Inr (ts_access_token ts))
         }))"

section \<open>The retry loop\<close>

definition CLIENT_MAX_RETRIES :: nat where "CLIENT_MAX_RETRIES = 3"

definition api_error :: "'h transport \<Rightarrow> http_request \<Rightarrow> http_response \<Rightarrow> string" where
  "api_error tp rq resp = ''Drive API error (HTTP '' @ show_nat (rs_status resp) @ '' on '' @ rq_method rq @ '' ''
     @ rq_url rq @ ''): '' @ take 500 (read_text tp resp)"

text \<open>Refresh and store the new token: \<open>True\<close> when the request should be sent again.\<close>

definition try_refresh :: "'h transport \<Rightarrow> string \<times> string \<Rightarrow> drive_client \<Rightarrow> ('h api_state, bool) state" where
  "try_refresh tp cfg c =
     (case c_refresher c of
        None \<Rightarrow> State_Monad.return False
      | Some acct \<Rightarrow> do {
          r \<leftarrow> client_refresh tp cfg acct;
          case r of
            Inl _ \<Rightarrow> State_Monad.return False
          | Inr t \<Rightarrow> do {
              _ \<leftarrow> set_access_token c t;
              State_Monad.return True
            }
        })"

text \<open>
  The loop shared by the four \<^verbatim>\<open>execute_*\<close> methods; they differ in the statuses they accept and in a
  header. A 401 is never a 429 or 5xx, so a failed refresh ends the request.
\<close>

function execute :: "'h transport \<Rightarrow> string \<times> string \<Rightarrow> drive_client \<Rightarrow> (nat \<Rightarrow> bool) \<Rightarrow> http_request \<Rightarrow> nat \<Rightarrow> bool
    \<Rightarrow> ('h api_state, http_response result) state" where
  "execute tp cfg c accept rq attempt token_refreshed = do {
     token \<leftarrow> access_token c;
     tryE (send tp (authorize token rq)) (\<lambda>resp.
       if accept (rs_status resp) then State_Monad.return (Inr resp)
       else if rs_status resp = 401 \<and> \<not> token_refreshed then do {
         healed \<leftarrow> try_refresh tp cfg c;
         if healed then execute tp cfg c accept rq attempt True
         else State_Monad.return (Inl (api_error tp rq resp))
       }
       else if (rs_status resp = 429 \<or> is_server_error (rs_status resp)) \<and> attempt < CLIENT_MAX_RETRIES then do {
         _ \<leftarrow> sleep (2 ^ Suc attempt);
         execute tp cfg c accept rq (Suc attempt) token_refreshed
       }
       else State_Monad.return (Inl (api_error tp rq resp)))
   }"
  by pat_completeness auto
termination
  by (relation "measure (\<lambda>(_, _, _, _, _, attempt, refreshed). (CLIENT_MAX_RETRIES - attempt) + (if refreshed then 0 else 1))")
     (auto simp: CLIENT_MAX_RETRIES_def)

declare execute.simps [simp del]

definition execute_json :: "'h transport \<Rightarrow> string \<times> string \<Rightarrow> drive_client \<Rightarrow> (bytes \<Rightarrow> 'a option) \<Rightarrow> http_request \<Rightarrow> ('h api_state, 'a result) state" where
  "execute_json tp cfg c decode rq =
     tryE (execute tp cfg c is_success (rq\<lparr>rq_headers := rq_headers rq @ [(''Content-Type'', ''application/json'')]\<rparr>) 0 False)
       (\<lambda>resp. State_Monad.return (read_json decode ''failed to deserialise Drive API response'' resp))"

definition execute_no_content :: "'h transport \<Rightarrow> string \<times> string \<Rightarrow> drive_client \<Rightarrow> http_request \<Rightarrow> ('h api_state, unit result) state" where
  "execute_no_content tp cfg c rq =
     tryE (execute tp cfg c is_success rq 0 False) (\<lambda>_. State_Monad.return (Inr ()))"

definition execute_raw :: "'h transport \<Rightarrow> string \<times> string \<Rightarrow> drive_client \<Rightarrow> http_request \<Rightarrow> ('h api_state, http_response result) state" where
  "execute_raw tp cfg c rq = execute tp cfg c is_success rq 0 False"

definition execute_raw_no_redirect :: "'h transport \<Rightarrow> string \<times> string \<Rightarrow> drive_client \<Rightarrow> http_request \<Rightarrow> ('h api_state, http_response result) state" where
  "execute_raw_no_redirect tp cfg c rq = execute tp cfg c (\<lambda>st. is_success st \<or> st = 308) rq 0 False"

section \<open>The methods\<close>

definition plain_request :: "string \<Rightarrow> string \<Rightarrow> http_request" where
  "plain_request verb url = \<lparr>rq_method = verb, rq_url = url, rq_headers = [], rq_body = [], rq_follow = True\<rparr>"

definition json_request :: "string \<Rightarrow> string \<Rightarrow> bytes \<Rightarrow> http_request" where
  "json_request verb url body = \<lparr>rq_method = verb, rq_url = url,
     rq_headers = [(''Content-Type'', ''application/json'')], rq_body = body, rq_follow = True\<rparr>"

definition get_json :: "'h transport \<Rightarrow> string \<times> string \<Rightarrow> drive_client \<Rightarrow> (bytes \<Rightarrow> 'a option) \<Rightarrow> string \<Rightarrow> ('h api_state, 'a result) state" where
  "get_json tp cfg c decode url = execute_json tp cfg c decode (plain_request ''GET'' url)"

definition post_json :: "'h transport \<Rightarrow> string \<times> string \<Rightarrow> drive_client \<Rightarrow> (bytes \<Rightarrow> 'a option) \<Rightarrow> string \<Rightarrow> bytes \<Rightarrow> ('h api_state, 'a result) state" where
  "post_json tp cfg c decode url body = execute_json tp cfg c decode (json_request ''POST'' url body)"

definition patch_json :: "'h transport \<Rightarrow> string \<times> string \<Rightarrow> drive_client \<Rightarrow> (bytes \<Rightarrow> 'a option) \<Rightarrow> string \<Rightarrow> bytes \<Rightarrow> ('h api_state, 'a result) state" where
  "patch_json tp cfg c decode url body = execute_json tp cfg c decode (json_request ''PATCH'' url body)"

definition delete_json :: "'h transport \<Rightarrow> string \<times> string \<Rightarrow> drive_client \<Rightarrow> (bytes \<Rightarrow> 'a option) \<Rightarrow> string \<Rightarrow> ('h api_state, 'a result) state" where
  "delete_json tp cfg c decode url = execute_json tp cfg c decode (plain_request ''DELETE'' url)"

definition delete_empty :: "'h transport \<Rightarrow> string \<times> string \<Rightarrow> drive_client \<Rightarrow> string \<Rightarrow> ('h api_state, unit result) state" where
  "delete_empty tp cfg c url = execute_no_content tp cfg c (plain_request ''DELETE'' url)"

definition get_raw :: "'h transport \<Rightarrow> string \<times> string \<Rightarrow> drive_client \<Rightarrow> string \<Rightarrow> ('h api_state, http_response result) state" where
  "get_raw tp cfg c url = execute_raw tp cfg c (plain_request ''GET'' url)"

definition post_raw :: "'h transport \<Rightarrow> string \<times> string \<Rightarrow> drive_client \<Rightarrow> string \<Rightarrow> bytes \<Rightarrow> string \<Rightarrow> ('h api_state, http_response result) state" where
  "post_raw tp cfg c url body content_type = execute_raw tp cfg c \<lparr>rq_method = ''POST'', rq_url = url,
     rq_headers = [(''Content-Type'', content_type)], rq_body = body, rq_follow = True\<rparr>"

definition put_raw_no_redirect :: "'h transport \<Rightarrow> string \<times> string \<Rightarrow> drive_client \<Rightarrow> string \<Rightarrow> bytes \<Rightarrow> (string \<times> string) list \<Rightarrow> ('h api_state, http_response result) state" where
  "put_raw_no_redirect tp cfg c url body extra_headers = execute_raw_no_redirect tp cfg c
     \<lparr>rq_method = ''PUT'', rq_url = url, rq_headers = extra_headers, rq_body = body, rq_follow = False\<rparr>"

end
