(* ===== verification/Api_Files.thy ===== *)
theory Api_Files
  imports Api_Client
begin

text \<open>
  \<^verbatim>\<open>crates/gdriver-api/src/files.rs\<close>, \<^verbatim>\<open>changes.rs\<close> and the requests of \<^verbatim>\<open>photos.rs\<close>: URLs, bodies and
  replies of the Drive and Photos endpoints. The last section assembles them into the record
  \<open>services\<close> the daemon runs on. Strings are their UTF-8 bytes, one character each.
\<close>

definition DRIVE_API_BASE :: string where "DRIVE_API_BASE = ''https://www.googleapis.com/drive/v3''"
definition UPLOAD_API_BASE :: string where "UPLOAD_API_BASE = ''https://www.googleapis.com/upload/drive/v3''"
definition PHOTOS_API_BASE :: string where "PHOTOS_API_BASE = ''https://photoslibrary.googleapis.com/v1''"

definition DEFAULT_FILE_FIELDS :: string where
  "DEFAULT_FILE_FIELDS = ''files(id,name,mimeType,parents,size,version,modifiedTime,createdTime,trashed,shared,md5Checksum,webViewLink),nextPageToken,incompleteSearch''"

definition SINGLE_FILE_FIELDS :: string where
  "SINGLE_FILE_FIELDS = ''id,name,mimeType,parents,size,version,modifiedTime,createdTime,trashed,shared,md5Checksum,webViewLink''"

definition CHANGE_FIELDS :: string where
  "CHANGE_FIELDS = ''changes(kind,changeType,fileId,removed,time,file(id,name,mimeType,parents,size,version,modifiedTime,createdTime,trashed,md5Checksum,webViewLink)),nextPageToken,newStartPageToken''"

section \<open>Percent encoding\<close>

definition url_safe :: "char \<Rightarrow> bool" where
  "url_safe ch = (let n = of_char ch :: nat in
     (65 \<le> n \<and> n \<le> 90) \<or> (97 \<le> n \<and> n \<le> 122) \<or> (48 \<le> n \<and> n \<le> 57) \<or> ch \<in> set ''-_.~:/,()'' \<or>
     n = 39 \<or> ch \<in> set ''!*@;=$'')"

definition hex_digit :: "nat \<Rightarrow> char" where
  "hex_digit d = (if d < 10 then char_of (48 + d) else char_of (55 + d))"

definition encode_char :: "char \<Rightarrow> string" where
  "encode_char ch = (if url_safe ch then [ch]
     else if ch = CHR '' '' then ''%20''
     else let n = of_char ch :: nat in [CHR ''%'', hex_digit (n div 16), hex_digit (n mod 16)])"

definition urlencoding :: "string \<Rightarrow> string" where
  "urlencoding s = concat (map encode_char s)"

text \<open>The decoder of the URL standard, for the round trip.\<close>

definition hex_val :: "char \<Rightarrow> nat option" where
  "hex_val ch = (let n = of_char ch :: nat in
     if 48 \<le> n \<and> n \<le> 57 then Some (n - 48) else if 65 \<le> n \<and> n \<le> 70 then Some (n - 55)
     else if 97 \<le> n \<and> n \<le> 102 then Some (n - 87) else None)"

fun percent_decode :: "string \<Rightarrow> string" where
  "percent_decode [] = []"
| "percent_decode (ch # s) =
     (if ch = CHR ''%'' then
        (case s of
           a # b # rest \<Rightarrow>
             (case (hex_val a, hex_val b) of
                (Some x, Some y) \<Rightarrow> char_of (16 * x + y) # percent_decode rest
              | _ \<Rightarrow> ch # percent_decode s)
         | _ \<Rightarrow> ch # percent_decode s)
      else ch # percent_decode s)"

section \<open>Files\<close>

definition query_string :: "(string \<times> string) list \<Rightarrow> string" where
  "query_string params = join_with ''&'' (map (\<lambda>(k, v). k @ ''='' @ urlencoding v) params)"

definition opt_param :: "string \<Rightarrow> string option \<Rightarrow> (string \<times> string) list" where
  "opt_param k v = (case v of None \<Rightarrow> [] | Some x \<Rightarrow> [(k, x)])"

definition about_get :: "'h transport \<Rightarrow> string \<times> string \<Rightarrow> drive_client \<Rightarrow> ('h api_state, about_response result) state" where
  "about_get tp cfg c = get_json tp cfg c (tp_about_json tp) (DRIVE_API_BASE @ ''/about?fields=user,storageQuota'')"

definition files_list_url :: "string option \<Rightarrow> string option \<Rightarrow> nat option \<Rightarrow> string option \<Rightarrow> string" where
  "files_list_url query page_token page_size flds =
     DRIVE_API_BASE @ ''/files'' @ ''?'' @ query_string
       (opt_param ''q'' query @ opt_param ''pageToken'' page_token @ opt_param ''pageSize'' (map_option show_nat page_size)
        @ [(''fields'', case flds of None \<Rightarrow> DEFAULT_FILE_FIELDS | Some f \<Rightarrow> f)])"

definition files_list :: "'h transport \<Rightarrow> string \<times> string \<Rightarrow> drive_client \<Rightarrow> string option \<Rightarrow> string option \<Rightarrow> nat option \<Rightarrow> string option
    \<Rightarrow> ('h api_state, file_list_response result) state" where
  "files_list tp cfg c query page_token page_size flds =
     get_json tp cfg c (tp_file_list_json tp) (files_list_url query page_token page_size flds)"

definition files_get_url :: "string \<Rightarrow> string option \<Rightarrow> string" where
  "files_get_url file_id flds = DRIVE_API_BASE @ ''/files/'' @ urlencoding file_id @ ''?fields=''
     @ urlencoding (case flds of None \<Rightarrow> SINGLE_FILE_FIELDS | Some f \<Rightarrow> f)"

definition files_get :: "'h transport \<Rightarrow> string \<times> string \<Rightarrow> drive_client \<Rightarrow> string \<Rightarrow> string option \<Rightarrow> ('h api_state, api_file result) state" where
  "files_get tp cfg c file_id flds = get_json tp cfg c (tp_file_json tp) (files_get_url file_id flds)"

definition files_create :: "'h transport \<Rightarrow> string \<times> string \<Rightarrow> drive_client \<Rightarrow> create_file_metadata \<Rightarrow> ('h api_state, api_file result) state" where
  "files_create tp cfg c meta = post_json tp cfg c (tp_file_json tp)
     (DRIVE_API_BASE @ ''/files?fields='' @ urlencoding SINGLE_FILE_FIELDS) (tp_json_create tp meta)"

definition files_delete :: "'h transport \<Rightarrow> string \<times> string \<Rightarrow> drive_client \<Rightarrow> string \<Rightarrow> ('h api_state, unit result) state" where
  "files_delete tp cfg c file_id = delete_empty tp cfg c (DRIVE_API_BASE @ ''/files/'' @ urlencoding file_id)"

definition files_update :: "'h transport \<Rightarrow> string \<times> string \<Rightarrow> drive_client \<Rightarrow> string \<Rightarrow> update_file_metadata \<Rightarrow> string list option \<Rightarrow> string list option
    \<Rightarrow> ('h api_state, api_file result) state" where
  "files_update tp cfg c file_id meta add_parents remove_parents =
     patch_json tp cfg c (tp_file_json tp)
       (files_get_url file_id None
        @ (case add_parents of None \<Rightarrow> [] | Some ps \<Rightarrow> ''&addParents='' @ join_with '','' ps)
        @ (case remove_parents of None \<Rightarrow> [] | Some ps \<Rightarrow> ''&removeParents='' @ join_with '','' ps))
       (tp_json_update tp meta)"

definition files_download :: "'h transport \<Rightarrow> string \<times> string \<Rightarrow> drive_client \<Rightarrow> string \<Rightarrow> ('h api_state, http_response result) state" where
  "files_download tp cfg c file_id = get_raw tp cfg c (DRIVE_API_BASE @ ''/files/'' @ urlencoding file_id @ ''?alt=media'')"

definition files_export :: "'h transport \<Rightarrow> string \<times> string \<Rightarrow> drive_client \<Rightarrow> string \<Rightarrow> string \<Rightarrow> ('h api_state, http_response result) state" where
  "files_export tp cfg c file_id mime_type = get_raw tp cfg c
     (DRIVE_API_BASE @ ''/files/'' @ urlencoding file_id @ ''/export?mimeType='' @ urlencoding mime_type)"

section \<open>Uploads\<close>

definition crlf :: string where "crlf = [CHR 0x0D, CHR 0x0A]"

definition multipart_body :: "'h transport \<Rightarrow> bytes \<Rightarrow> bytes \<Rightarrow> string \<Rightarrow> bytes" where
  "multipart_body tp metadata_json content content_mime =
     tp_bytes tp (''--gdriver_multipart_boundary'' @ crlf)
     @ tp_bytes tp (''Content-Type: application/json; charset=UTF-8'' @ crlf @ crlf)
     @ metadata_json
     @ tp_bytes tp crlf
     @ tp_bytes tp (''--gdriver_multipart_boundary'' @ crlf)
     @ tp_bytes tp (''Content-Type: '' @ content_mime @ crlf @ crlf)
     @ content
     @ tp_bytes tp crlf
     @ tp_bytes tp (''--gdriver_multipart_boundary--'' @ crlf)"

definition files_upload_multipart :: "'h transport \<Rightarrow> string \<times> string \<Rightarrow> drive_client \<Rightarrow> create_file_metadata \<Rightarrow> bytes \<Rightarrow> string
    \<Rightarrow> ('h api_state, api_file result) state" where
  "files_upload_multipart tp cfg c meta content content_mime =
     tryE (post_raw tp cfg c (UPLOAD_API_BASE @ ''/files?uploadType=multipart&fields='' @ urlencoding SINGLE_FILE_FIELDS)
        (multipart_body tp (tp_json_create tp meta) content content_mime)
        ''multipart/related; boundary=\"gdriver_multipart_boundary\"'') (\<lambda>resp.
       State_Monad.return (read_json (tp_file_json tp) ''failed to deserialise multipart upload response'' resp))"

text \<open>Header names are matched without case; \<^verbatim>\<open>to_str\<close> accepts visible ASCII and tabs only.\<close>

definition get_header :: "string \<Rightarrow> http_response \<Rightarrow> string option" where
  "get_header name resp = map_option snd (find (\<lambda>(k, _). map ascii_lower k = map ascii_lower name) (rs_headers resp))"

definition header_to_str :: "string \<Rightarrow> string option" where
  "header_to_str v = (if list_all (\<lambda>ch. let n = of_char ch :: nat in n = 9 \<or> (32 \<le> n \<and> n < 127)) v then Some v else None)"

definition files_upload_resumable_start :: "'h transport \<Rightarrow> string \<times> string \<Rightarrow> drive_client \<Rightarrow> create_file_metadata
    \<Rightarrow> ('h api_state, string result) state" where
  "files_upload_resumable_start tp cfg c meta =
     tryE (post_raw tp cfg c (UPLOAD_API_BASE @ ''/files?uploadType=resumable'') (tp_json_create tp meta)
        ''application/json; charset=UTF-8'') (\<lambda>resp.
       case get_header ''Location'' resp of
         None \<Rightarrow> State_Monad.return (Inl ''missing Location header in resumable upload start response'')
       | Some v \<Rightarrow>
           (case header_to_str v of
              None \<Rightarrow> State_Monad.return (Inl ''Location header is not valid UTF-8'')
            | Some location \<Rightarrow> State_Monad.return (Inr location)))"

text \<open>\<^verbatim>\<open>end + 1\<close> on \<^verbatim>\<open>u64\<close> wraps in a release build.\<close>

definition parse_range_header :: "http_response \<Rightarrow> nat option" where
  "parse_range_header resp =
     Option.bind (get_header ''Range'' resp) (\<lambda>v.
     Option.bind (header_to_str v) (\<lambda>s.
     Option.bind (strip_prefix ''bytes='' s) (\<lambda>r.
     Option.bind (case split_on (CHR ''-'') r of _ # e # _ \<Rightarrow> Some e | _ \<Rightarrow> None) (\<lambda>e.
     map_option (\<lambda>n. (n + 1) mod 2 ^ 64) (parse_u64 e)))))"

definition unexpected_status :: "'h transport \<Rightarrow> string \<Rightarrow> http_response \<Rightarrow> string" where
  "unexpected_status tp what resp =
     ''unexpected status '' @ show_nat (rs_status resp) @ '' on '' @ what @ '': '' @ take 500 (read_text tp resp)"

definition files_upload_resumable_chunk :: "'h transport \<Rightarrow> string \<times> string \<Rightarrow> drive_client \<Rightarrow> string \<Rightarrow> bytes \<Rightarrow> nat \<Rightarrow> nat \<Rightarrow> nat
    \<Rightarrow> ('h api_state, upload_chunk_result result) state" where
  "files_upload_resumable_chunk tp cfg c uri chunk range_start range_end total_len =
     tryE (put_raw_no_redirect tp cfg c uri chunk
        [(''Content-Range'', ''bytes '' @ show_nat range_start @ ''-'' @ show_nat range_end @ ''/'' @ show_nat total_len)]) (\<lambda>resp.
       if rs_status resp = 200 \<or> rs_status resp = 201
       then (case read_json (tp_file_json tp) ''failed to deserialise completed upload response'' resp of
               Inl e \<Rightarrow> State_Monad.return (Inl e)
             | Inr f \<Rightarrow> State_Monad.return (Inr (Complete f)))
       else if rs_status resp = 308
       then State_Monad.return (Inr (Incomplete
              (case parse_range_header resp of None \<Rightarrow> range_end + 1 | Some n \<Rightarrow> n)))
       else State_Monad.return (Inl (unexpected_status tp ''resumable upload chunk PUT'' resp)))"

definition files_upload_resumable_query :: "'h transport \<Rightarrow> string \<times> string \<Rightarrow> drive_client \<Rightarrow> string \<Rightarrow> nat
    \<Rightarrow> ('h api_state, (nat \<times> bool) result) state" where
  "files_upload_resumable_query tp cfg c uri total_len =
     tryE (put_raw_no_redirect tp cfg c uri [] [(''Content-Range'', ''bytes */'' @ show_nat total_len)]) (\<lambda>resp.
       if rs_status resp = 200 \<or> rs_status resp = 201 then State_Monad.return (Inr (total_len, True))
       else if rs_status resp = 308
       then State_Monad.return (Inr (case parse_range_header resp of None \<Rightarrow> 0 | Some n \<Rightarrow> n, False))
       else State_Monad.return (Inl (unexpected_status tp ''upload query'' resp)))"

definition parse_quota_number :: "string option \<Rightarrow> nat result" where
  "parse_quota_number s =
     (case s of
        None \<Rightarrow> Inr 0
      | Some v \<Rightarrow> if v = [] then Inr 0
          else (case parse_u64 v of None \<Rightarrow> Inl ''invalid quota number'' | Some n \<Rightarrow> Inr n))"

section \<open>Changes and photos\<close>

definition changes_get_start_page_token :: "'h transport \<Rightarrow> string \<times> string \<Rightarrow> drive_client \<Rightarrow> string option \<Rightarrow> ('h api_state, string result) state" where
  "changes_get_start_page_token tp cfg c drive_id =
     get_json tp cfg c (tp_start_token_json tp) (DRIVE_API_BASE @ ''/changes/startPageToken''
       @ (case drive_id of None \<Rightarrow> [] | Some i \<Rightarrow> ''?'' @ ''driveId='' @ urlencoding i))"

definition changes_list_url :: "string \<Rightarrow> nat option \<Rightarrow> string option \<Rightarrow> string option \<Rightarrow> bool option \<Rightarrow> string" where
  "changes_list_url page_token page_size flds drive_id include_removed =
     DRIVE_API_BASE @ ''/changes'' @ ''?'' @ query_string
       ([(''pageToken'', page_token)] @ opt_param ''pageSize'' (map_option show_nat page_size)
        @ [(''fields'', case flds of None \<Rightarrow> CHANGE_FIELDS | Some f \<Rightarrow> f)] @ opt_param ''driveId'' drive_id
        @ opt_param ''includeRemoved'' (map_option (\<lambda>b. if b then ''true'' else ''false'') include_removed))"

definition changes_list :: "'h transport \<Rightarrow> string \<times> string \<Rightarrow> drive_client \<Rightarrow> string \<Rightarrow> nat option \<Rightarrow> string option \<Rightarrow> string option \<Rightarrow> bool option
    \<Rightarrow> ('h api_state, change_list_response result) state" where
  "changes_list tp cfg c page_token page_size flds drive_id include_removed =
     get_json tp cfg c (tp_change_list_json tp) (changes_list_url page_token page_size flds drive_id include_removed)"

definition upload_media_item :: "'h transport \<Rightarrow> string \<times> string \<Rightarrow> drive_client \<Rightarrow> bytes \<Rightarrow> string \<Rightarrow> ('h api_state, string result) state" where
  "upload_media_item tp cfg c content mime_type =
     tryE (post_raw tp cfg c (PHOTOS_API_BASE @ ''/uploads'') content mime_type) (\<lambda>resp.
       State_Monad.return (case body_bytes (rs_body resp) of
          Inl _ \<Rightarrow> Inl ''failed to read upload token response'' | Inr bs \<Rightarrow> Inr (tp_text tp bs)))"

definition batch_create :: "'h transport \<Rightarrow> string \<times> string \<Rightarrow> drive_client \<Rightarrow> batch_create_request \<Rightarrow> ('h api_state, media_item_result list result) state" where
  "batch_create tp cfg c request = post_json tp cfg c (tp_batch_json tp)
     (PHOTOS_API_BASE @ ''/mediaItems:batchCreate'') (tp_json_batch tp request)"

section \<open>The services of the daemon\<close>

text \<open>The arguments the daemon passes: \<^verbatim>\<open>sync/initial.rs\<close>, \<^verbatim>\<open>incremental.rs\<close>, \<^verbatim>\<open>conflict.rs\<close> and \<^verbatim>\<open>photos.rs\<close>.\<close>

definition CONFLICT_FIELDS :: string where
  "CONFLICT_FIELDS = ''id,name,mimeType,size,etag,version,modifiedTime,trashed''"

definition photo_request :: "string \<Rightarrow> string option \<Rightarrow> batch_create_request" where
  "photo_request upload_token file_name = \<lparr>bc_album_id = None,
     bc_new_media_items = [\<lparr>nm_description = None, nm_upload_token = upload_token, nm_file_name = file_name\<rparr>]\<rparr>"

definition lift_net :: "('h \<Rightarrow> 'a \<times> 'h) \<Rightarrow> 'h api_state \<Rightarrow> 'a \<times> 'h api_state" where
  "lift_net f = run_state (net f)"

definition api_services :: "'h transport \<Rightarrow> string \<times> string \<Rightarrow> 'h api_state services" where
  "api_services tp cfg = \<lparr>
     sv_files_list = (\<lambda>c tok. run_state (files_list tp cfg c None tok (Some 1000) None)),
     sv_files_get = (\<lambda>c i. run_state (files_get tp cfg c i (Some CONFLICT_FIELDS))),
     sv_files_delete = (\<lambda>c i. run_state (files_delete tp cfg c i)),
     sv_files_download = (\<lambda>c i. run_state (tryE (files_download tp cfg c i) (\<lambda>resp. State_Monad.return (Inr (rs_body resp))))),
     sv_files_export = (\<lambda>c i m. run_state (tryE (files_export tp cfg c i m) (\<lambda>resp. State_Monad.return (Inr (rs_body resp))))),
     sv_upload_multipart = (\<lambda>c meta bs mime. run_state (files_upload_multipart tp cfg c meta bs mime)),
     sv_resumable_start = (\<lambda>c meta. run_state (files_upload_resumable_start tp cfg c meta)),
     sv_resumable_chunk = (\<lambda>c uri bs a b n. run_state (files_upload_resumable_chunk tp cfg c uri bs a b n)),
     sv_resumable_query = (\<lambda>c uri n. run_state (files_upload_resumable_query tp cfg c uri n)),
     sv_start_page_token = (\<lambda>c. run_state (changes_get_start_page_token tp cfg c None)),
     sv_changes_list = (\<lambda>c tok. run_state (changes_list tp cfg c tok (Some 1000) None None (Some True))),
     sv_photos_upload = (\<lambda>c bs mime. run_state (upload_media_item tp cfg c bs mime)),
     sv_batch_create = (\<lambda>c tok name. run_state (batch_create tp cfg c (photo_request tok name))),
     sv_refresh_access_token = (\<lambda>cf rt. run_state (refresh_access_token tp cf rt)),
     sv_keyring_get = (\<lambda>k. lift_net (tp_keyring_get tp k)),
     sv_keyring_set = (\<lambda>k v. lift_net (tp_keyring_set tp k v)),
     sv_keyring_delete = (\<lambda>k. lift_net (tp_keyring_delete tp k)),
     sv_parse_rfc3339 = tp_parse_rfc3339 tp,
     sv_local_time = tp_local_time tp\<rparr>"

end
