(* ===== verification/Frames.thy ===== *)
theory Frames
  imports Engine
begin

text \<open>
  What the handlers can change. \<open>world_frame\<close> is the interface of a relation between the world
  before and after a program that is closed under everything outside the database; \<open>task_frame\<close>
  adds the statements a task handler issues for its own task, \<open>poll_frame\<close> those the pollers issue,
  \<open>work_frame\<close> those of the rest of the work, \<open>engine_frame\<close> the status messages of the engine. The handlers are walked through once, inside the locales, and every frame property below
  is an interpretation. All statements hold for every fault pattern and every crash point.
\<close>

section \<open>Interfaces\<close>

locale world_frame = io_preorder R for R :: "'x world \<Rightarrow> 'x world \<Rightarrow> bool" +
  assumes R_ops: "w_ops w \<le> n \<Longrightarrow> R w (w\<lparr>w_ops := n\<rparr>)"
    and R_fs: "R w (w\<lparr>w_fs := s\<rparr>)"
    and R_ext: "R w (w\<lparr>w_ext := x\<rparr>)"
    and R_push_item: "R w (w\<lparr>w_push := w_push w @ [SyncItemUpdated it]\<rparr>)"
    and R_push_conflict: "R w (w\<lparr>w_push := w_push w @ [NotificationNew nt]\<rparr>)"
    and R_tokens: "R w (w\<lparr>w_tokens := ts\<rparr>)"
begin

lemma R_tick: "R w w' \<Longrightarrow> R w (tick w')"
  unfolding tick_def by (rule R_trans [OF _ R_ops]) simp_all

lemma io_db [io_rel]:
  "(\<And>w. R w (w\<lparr>w_db := snd (f (w_db w))\<rparr>)) \<Longrightarrow> state_io_rel R (db_exec f)"
  unfolding state_io_rel_def db_exec_def
  by (auto simp: R_refl intro!: R_tick split: option.splits prod.splits) (metis snd_conv)

lemma R_db_id: "R w (w\<lparr>w_db := w_db w\<rparr>)"
  by (simp add: R_refl)

lemma io_fs [io_rel]: "state_io_rel R (fs_exec f)"
  unfolding state_io_rel_def fs_exec_def
  by (auto simp: R_refl intro!: R_tick R_fs split: option.splits prod.splits)

lemma io_ext [io_rel]: "state_io_rel R (ext_call f)"
  unfolding state_io_rel_def ext_call_def
  by (auto simp: R_refl intro!: R_tick R_ext split: prod.splits)

lemma io_reads [io_rel]:
  "state_io_rel R now_ms" "state_io_rel R (fs_query q)" "state_io_rel R remaining_ops"
  "state_io_rel R read_prefs" "state_io_rel R read_oauth" "state_io_rel R (get_token_set acct)"
  by (simp_all add: state_io_rel_def now_ms_def fs_query_def remaining_ops_def read_prefs_def
      read_oauth_def get_token_set_def R_refl)

lemma io_push [io_rel]:
  "state_io_rel R (push_send (SyncItemUpdated i))" "state_io_rel R (push_send (NotificationNew n))"
  by (simp_all add: state_io_rel_def push_send_def R_refl R_push_item R_push_conflict)

lemma io_cache [io_rel]: "state_io_rel R (cache_insert acct ts)"
  by (simp add: state_io_rel_def cache_insert_def R_refl R_tokens)

lemma io_hang [io_rel]: "state_io_rel R hang"
  by (simp add: state_io_rel_def hang_def R_ops)

lemma io_queries [io_rel]:
  "state_io_rel R next_pending_task" "state_io_rel R (get_file_by_id i acct)"
  "state_io_rel R (get_file_by_local_path p)" "state_io_rel R list_accounts"
  "state_io_rel R (get_token acct)" "state_io_rel R (list_by_account acct)"
  by (auto simp: next_pending_task_def get_file_by_id_def get_file_by_local_path_def list_accounts_def
      get_token_def list_by_account_def R_refl intro!: io_rel)

lemma io_fs_calls [io_rel]:
  "state_io_rel R (fs_read p)" "state_io_rel R (fs_create p)" "state_io_rel R (fs_append p bs)"
  "state_io_rel R (fs_rename p q)" "state_io_rel R fs_flush" "state_io_rel R (fs_remove p)"
  "state_io_rel R (fs_create_dir_all p)" "state_io_rel R (fs_metadata p)"
  by (simp_all add: fs_read_def fs_create_def fs_append_def fs_rename_def fs_flush_def fs_remove_def
      fs_create_dir_all_def fs_metadata_def io_fs)

lemma io_client [io_rel]: "state_io_rel R (build_client_for_account sv acct)"
  unfolding build_client_for_account_def load_refresh_token_def adopt_token_set_def
    save_refresh_token_def cache_access_token_def
  by (intro io_rel)

lemma io_write_stream [io_rel]: "state_io_rel R (write_stream p chs)"
  by (induction chs) (auto intro!: io_rel)

lemma io_ensure_parent [io_rel]: "state_io_rel R (ensure_parent p)"
  unfolding ensure_parent_def by (intro io_rel)

lemma io_resumable_loop [io_rel]: "state_io_rel R (resumable_loop n sv c uri content off)"
proof (induction n arbitrary: off)
  case (Suc n)
  then show ?case
    by (auto simp: Let_def intro!: io_rel split: sum.splits upload_chunk_result.splits prod.splits)
qed (simp add: io_hang)

lemma io_transfers [io_rel]:
  "state_io_rel R (do_multipart_upload sv c meta content mime)"
  "state_io_rel R (do_resumable_upload sv c meta content)"
  "state_io_rel R (conflict_upload_resumable sv c meta content)"
  "state_io_rel R (do_download sv c i tmp)" "state_io_rel R (do_export sv c i em tmp)"
  "state_io_rel R (upload_media_item_from_path sv c p)"
  unfolding do_multipart_upload_def do_resumable_upload_def conflict_upload_resumable_def
    do_download_def do_export_def upload_media_item_from_path_def
  by (intro io_rel)+

lemma io_item_event [io_rel]: "state_io_rel R (push_item_event name p s err url)"
  unfolding push_item_event_def by (intro io_rel)

end

section \<open>Task handlers\<close>

text \<open>
  The database statements a handler issues for the task \<open>tid\<close>. The side conditions record what the
  handlers guarantee: a status other than pending is one of the other three, and a task put back to
  pending has a retry count between 1 and 3.
\<close>

locale task_frame = world_frame R for R :: "'x world \<Rightarrow> 'x world \<Rightarrow> bool" +
  fixes tid :: int
    and own :: "sync_task \<Rightarrow> bool"
  assumes R_upsert: "R w (w\<lparr>w_db := snd (f_upsert f (w_db w))\<rparr>)"
    and R_trash: "R w (w\<lparr>w_db := f_mark_trashed i acct (w_db w)\<rparr>)"
    and R_err: "R w (w\<lparr>w_db := err_insert e (w_db w)\<rparr>)"
    and R_status: "st = ''in_progress'' \<or> st = ''completed'' \<or> st = ''failed'' \<Longrightarrow>
      R w (w\<lparr>w_db := q_set_status tid st msg now (w_db w)\<rparr>)"
    and R_retry: "own t \<Longrightarrow> n = t_retry_count t + 1 \<Longrightarrow> n \<le> 3 \<Longrightarrow>
      R w (w\<lparr>w_db := q_set_retry tid ''pending'' n msg now (w_db w)\<rparr>)"
begin

lemma io_upsert [io_rel]: "state_io_rel R (upsert_file f)"
  by (simp add: upsert_file_def io_db R_upsert)

lemma io_trash [io_rel]: "state_io_rel R (mark_trashed i acct)"
  by (simp add: mark_trashed_def io_db R_trash)

lemma io_insert_error [io_rel]: "state_io_rel R (insert_error e)"
  by (auto simp: insert_error_def R_err intro!: io_rel)

lemma io_update_status [io_rel]:
  "st = ''in_progress'' \<or> st = ''completed'' \<or> st = ''failed'' \<Longrightarrow>
   state_io_rel R (update_task_status tid st msg)"
  unfolding update_task_status_def by (intro io_rel) (simp add: R_status)

lemma io_update_retry:
  "own t \<Longrightarrow> n = t_retry_count t + 1 \<Longrightarrow> n \<le> 3 \<Longrightarrow> state_io_rel R (update_task_retry tid ''pending'' n msg)"
  unfolding update_task_retry_def by (intro io_rel) (simp add: R_retry)

lemma io_record_failure: "own t \<Longrightarrow> state_io_rel R (record_failure code 3 t tid msg)"
  unfolding record_failure_def Let_def
  by (intro io_rel io_update_retry [where t = t]) auto

lemma io_failures [io_rel]:
  assumes "own t"
  shows "state_io_rel R (handle_upload_failure t tid msg)"
    and "state_io_rel R (handle_download_failure t tid msg)"
    and "state_io_rel R (handle_delete_failure t tid msg)"
  by (simp_all add: handle_upload_failure_def handle_download_failure_def handle_delete_failure_def
      UPLOAD_MAX_RETRIES_def DOWNLOAD_MAX_RETRIES_def DELETE_MAX_RETRIES_def io_record_failure [OF assms])

lemma io_photos_failure [io_rel]: "own t \<Longrightarrow> state_io_rel R (photos_handle_failure t tid msg)"
  unfolding photos_handle_failure_def Let_def PHOTOS_MAX_RETRIES_def
  by (intro io_rel io_update_retry [where t = t]) auto

lemma io_upload_file:
  assumes "t_id t = Some tid" and "own t"
  shows "state_io_rel R (upload_file sv c t)"
  unfolding upload_file_def assms option.case Let_def
  by (intro io_rel assms) auto

lemma io_download_file:
  assumes "t_id t = Some tid" and "own t"
  shows "state_io_rel R (download_file sv c t)"
  unfolding download_file_def finish_download_def assms option.case Let_def
  by (intro io_rel assms) auto

lemma io_delete_file:
  assumes "t_id t = Some tid" and "own t"
  shows "state_io_rel R (delete_file sv c t)"
  unfolding delete_file_def handle_remote_delete_def handle_local_delete_def assms option.case
  by (intro io_rel assms) auto

lemma io_resolve_conflict:
  assumes "t_id t = Some tid"
  shows "state_io_rel R (resolve_conflict sv c t f p remote)"
  unfolding resolve_conflict_def restore_remote_def assms option.case Let_def
  by (intro io_rel) auto

lemma io_check_and_resolve:
  assumes "t_id t = Some tid"
  shows "state_io_rel R (check_and_resolve sv c t i p)"
  unfolding check_and_resolve_def
  by (intro io_rel io_resolve_conflict assms)

lemma io_backup_photo:
  assumes "t_id t = Some tid" and "own t"
  shows "state_io_rel R (backup_photo sv c t)"
  unfolding backup_photo_def assms option.case Let_def
  by (intro io_rel assms) auto

lemma io_run_with_client [io_rel]: "(\<And>c. state_io_rel R (act c)) \<Longrightarrow> state_io_rel R (run_with_client sv t act)"
  unfolding run_with_client_def by (intro io_rel)

theorem io_process_task:
  assumes "t_id t = Some tid" and "own t"
  shows "state_io_rel R (process_task sv t)"
  unfolding process_task_def upload_conflict_check_def assms option.case
  by (intro io_rel io_upload_file io_download_file io_delete_file io_backup_photo io_check_and_resolve assms) simp

end

section \<open>Pollers and the queue\<close>

text \<open>A task as the watcher and the pollers create them.\<close>

definition fresh_task :: "sync_task \<Rightarrow> bool" where
  "fresh_task t \<longleftrightarrow> t_status t = ''pending'' \<and> t_retry_count t = 0"

fun event_fresh :: "engine_event \<Rightarrow> bool" where
  "event_fresh (WatcherTask t) = fresh_task t"
| "event_fresh _ = True"

locale poll_frame = world_frame R for R :: "'x world \<Rightarrow> 'x world \<Rightarrow> bool" +
  assumes R_upsert: "R w (w\<lparr>w_db := snd (f_upsert f (w_db w))\<rparr>)"
    and R_trash: "R w (w\<lparr>w_db := f_mark_trashed i acct (w_db w)\<rparr>)"
    and R_insert: "fresh_task t \<Longrightarrow> R w (w\<lparr>w_db := q_insert t (w_db w)\<rparr>)"
begin

lemma io_upsert [io_rel]: "state_io_rel R (upsert_file f)"
  by (simp add: upsert_file_def io_db R_upsert)

lemma io_trash [io_rel]: "state_io_rel R (mark_trashed i acct)"
  by (simp add: mark_trashed_def io_db R_trash)

lemma io_enqueue: "fresh_task t \<Longrightarrow> state_io_rel R (enqueue t)"
  by (auto simp: enqueue_def R_insert intro!: io_rel)

lemma io_enqueue_download [io_rel]: "state_io_rel R (enqueue (download_task now acct i p))"
  by (rule io_enqueue) (simp add: fresh_task_def download_task_def)

lemma io_enqueue_task [io_rel]: "state_io_rel R (enqueue_task acct i operation f)"
  unfolding enqueue_task_def by (intro io_rel io_enqueue) (simp add: fresh_task_def)

lemma io_mirror_loop [io_rel]: "state_io_rel R (mirror_loop now acct mp nm folders fs n)"
  by (induction fs arbitrary: n) (auto simp: Let_def intro!: io_rel)

lemma io_enqueue_mirror [io_rel]: "state_io_rel R (enqueue_mirror_downloads acct mp)"
  unfolding enqueue_mirror_downloads_def by (intro io_rel) (simp add: R_refl)

lemma io_list_loop [io_rel]: "state_io_rel R (list_loop n sv c acct page)"
  by (induction n arbitrary: page) (auto intro!: io_rel)

lemma io_process_change [io_rel]: "state_io_rel R (process_change sv acct ch mode mp)"
  unfolding process_change_def enqueue_download_for_change_def Let_def
  by (intro io_rel)

lemma io_changes_loop [io_rel]: "state_io_rel R (changes_loop n sv c acct mode mp tok latest seen)"
  by (induction n arbitrary: tok latest seen) (auto simp: Let_def process_page_def intro!: io_rel)

end

lemma next_pending_Some:
  assumes "run_state next_pending_task w = (Inr (Some t), w')"
  obtains r where "q_next (w_db w') = Some r" and "t = task_from_row r"
proof -
  have "w_db w' = w_db w \<and> map_option task_from_row (q_next (w_db w)) = Some t"
    using assms unfolding next_pending_task_def db_exec_def run_tryE
    by (auto split: if_splits option.splits)
  then show thesis using that by (cases "q_next (w_db w)") simp_all
qed

locale work_frame = poll_frame R for R :: "'x world \<Rightarrow> 'x world \<Rightarrow> bool" +
  fixes sv :: "'x services"
  assumes R_token: "R w (w\<lparr>w_db := snd (tok_set acct tok now (w_db w))\<rparr>)"
    and R_reset: "R w (w\<lparr>w_db := f_reset_stream acct (w_db w)\<rparr>)"
    and R_task: "q_next (w_db w) = Some r \<Longrightarrow> R w (snd (run_state (process_task sv (task_from_row r)) w))"
begin

lemma io_set_token [io_rel]: "state_io_rel R (set_token acct tok)"
  unfolding set_token_def by (intro io_rel R_token)

lemma io_reset [io_rel]: "state_io_rel R (reset_mirror_to_stream acct)"
  unfolding reset_mirror_to_stream_def by (intro io_rel) (simp add: R_reset)

theorem io_initial_sync: "state_io_rel R (initial_sync sv acct c mode mp)"
  unfolding initial_sync_def by (intro io_rel)

lemma io_incremental_sync [io_rel]: "state_io_rel R (incremental_sync sv acct c mode mp)"
  unfolding incremental_sync_def by (intro io_rel)

lemma R_process_tasks: "R w (snd (run_state (process_tasks n sv) w))"
proof (induction n arbitrary: w)
  case (Suc n)
  obtain r w1 where run: "run_state next_pending_task w = (r, w1)"
    by (cases "run_state next_pending_task w")
  have w1: "R w w1" using io_run [OF io_queries(1), of w] run by simp
  have "R w (snd (run_state (process_tasks n sv) w2))"
    if r: "r = Inr (Some t)" and pt: "run_state (process_task sv t) w1 = (u, w2)" for t u w2
  proof -
    obtain row where "q_next (w_db w1) = Some row" and "t = task_from_row row"
      using run unfolding r by (rule next_pending_Some)
    then have "R w1 w2" using R_task [of w1 row] pt by simp
    then show ?thesis using w1 Suc R_trans by blast
  qed
  then show ?case
    using w1 by (simp add: run split: sum.split option.split prod.split)
qed (simp add: R_refl)

lemma io_process_pending [io_rel]: "state_io_rel R (process_pending_tasks sv)"
  by (simp add: state_io_rel_def process_pending_tasks_def R_process_tasks)

lemma io_switch_account [io_rel]: "state_io_rel R (switch_account mode mp a)"
  unfolding switch_account_def by (cases mode) (simp_all add: io_bind io_return io_reset io_enqueue_mirror)

lemma io_poll_account [io_rel]: "state_io_rel R (poll_account sv a)"
  unfolding poll_account_def by (intro io_rel)

end

section \<open>The engine\<close>

locale engine_frame = work_frame R sv for R :: "'x world \<Rightarrow> 'x world \<Rightarrow> bool" and sv :: "'x services" +
  assumes R_push_status: "R w (w\<lparr>w_push := w_push w @ [SyncStatusChanged st]\<rparr>)"
begin

lemma io_status [io_rel]:
  "state_io_rel R (push_status st)" "state_io_rel R (transition_to st st')"
proof -
  have "state_io_rel R (push_send (SyncStatusChanged p))" for p
    by (simp add: state_io_rel_def push_send_def R_refl R_push_status)
  then show "state_io_rel R (push_status st)" for st
    unfolding push_status_def by (intro io_rel)
  then show "state_io_rel R (transition_to st st')"
    unfolding transition_to_def by (intro io_rel)
qed

lemma io_handle_command [io_rel]: "state_io_rel R (handle_command st cmd)"
proof (cases cmd)
  case (SwitchMode m)
  then show ?thesis
    unfolding handle_command_def handle_mode_switch_def SyncCommand.case
    by simp (intro io_rel)
qed (simp_all add: handle_command_def io_if io_return io_status)

lemma io_poll [io_rel]: "state_io_rel R (handle_remote_poll sv st)"
  unfolding handle_remote_poll_def by (intro io_rel)

theorem io_handle_event: "event_fresh ev \<Longrightarrow> state_io_rel R (handle_event sv en ev)"
  by (cases ev) (simp_all add: handle_watcher_task_def io_bind io_return io_handle_command io_poll
      io_if io_enqueue io_case_sum io_status io_process_pending)

theorem R_run_events:
  "list_all event_fresh evs \<Longrightarrow> R w (snd (run_state (run_events sv en evs) w))"
proof (induction evs arbitrary: en w)
  case (Cons ev evs)
  obtain en' w' where run: "run_state (handle_event sv en ev) w = (en', w')"
    by (cases "run_state (handle_event sv en ev) w")
  then have "R w w'" using io_run [OF io_handle_event, of ev w en] Cons.prems by simp
  then show ?case using Cons run by (auto intro: R_trans)
qed (simp add: R_refl)

end

end
