(* ===== verification/Frame_Props.thy ===== *)
theory Frame_Props
  imports Frames Samples
begin

text \<open>
  The frame properties of the task handlers and of the engine: each section defines a relation,
  interprets the frames with it, and states what follows for whole runs.
\<close>

section \<open>Integrity\<close>

definition keeps_wf :: "'x world \<Rightarrow> 'x world \<Rightarrow> bool" where
  "keeps_wf w w' \<longleftrightarrow> (wf_db (w_db w) \<longrightarrow> wf_db (w_db w'))"

lemma wf_db_reset_stream: "wf_db d \<Longrightarrow> wf_db (f_reset_stream acct d)"
  unfolding f_reset_stream_def by (rule wf_db_update_files) (simp_all add: file_key_def)

interpretation wft: task_frame keeps_wf tid "\<lambda>_. True"
  by unfold_locales (auto simp: keeps_wf_def wf_db_upsert wf_db_mark_trashed wf_db_err_insert
      wf_db_set_status wf_db_set_retry)

interpretation wfe: engine_frame keeps_wf "sv :: 'x services"
proof unfold_locales
  show "keeps_wf w (snd (run_state (process_task sv (task_from_row r)) w))" for w :: "'x world" and r
    by (rule wft.io_run [OF wft.io_process_task [where tid = "q_id r"]]) simp_all
qed (auto simp: keeps_wf_def wf_db_upsert wf_db_mark_trashed wf_db_q_insert wf_db_tok_set wf_db_reset_stream)

section \<open>A handler touches its own task only\<close>

definition same_tables :: "database \<Rightarrow> database \<Rightarrow> bool" where
  "same_tables d d' \<longleftrightarrow> accounts d' = accounts d \<and> sync_folders d' = sync_folders d \<and>
     folder_seq d' = folder_seq d \<and> notifications d' = notifications d \<and>
     notification_seq d' = notification_seq d \<and> feedbacks d' = feedbacks d \<and> feedback_seq d' = feedback_seq d"

definition same_config :: "'x world \<Rightarrow> 'x world \<Rightarrow> bool" where
  "same_config w w' \<longleftrightarrow> w_sync_mode w' = w_sync_mode w \<and> w_mount_point w' = w_mount_point w \<and>
     w_oauth w' = w_oauth w"

text \<open>The columns of a queue row that say what the task is.\<close>

definition task_identity :: "sync_task_row \<Rightarrow> sync_task_row" where
  "task_identity r = r\<lparr>q_status := [], q_retry_count := 0, q_error_msg := None, q_updated_at := 0\<rparr>"

definition only_task :: "int \<Rightarrow> 'x world \<Rightarrow> 'x world \<Rightarrow> bool" where
  "only_task tid w w' \<longleftrightarrow>
     filter (\<lambda>r. q_id r \<noteq> tid) (sync_queue (w_db w')) = filter (\<lambda>r. q_id r \<noteq> tid) (sync_queue (w_db w)) \<and>
     map task_identity (sync_queue (w_db w')) = map task_identity (sync_queue (w_db w)) \<and>
     queue_seq (w_db w') = queue_seq (w_db w) \<and> sync_tokens (w_db w') = sync_tokens (w_db w) \<and>
     same_tables (w_db w) (w_db w') \<and> same_config w w'"

lemma upsert_queue [simp]:
  "sync_queue (snd (f_upsert f d)) = sync_queue d" "queue_seq (snd (f_upsert f d)) = queue_seq d"
  "sync_tokens (snd (f_upsert f d)) = sync_tokens d" "same_tables d (snd (f_upsert f d))"
  by (simp_all add: f_upsert_def Let_def same_tables_def)

lemma tok_set_queue [simp]:
  "sync_queue (snd (tok_set acct tok now d)) = sync_queue d" "queue_seq (snd (tok_set acct tok now d)) = queue_seq d"
  "same_tables d (snd (tok_set acct tok now d))"
  by (simp_all add: tok_set_def same_tables_def)

lemma other_rows_update:
  "(\<And>r. q_id (h r) = q_id r) \<Longrightarrow>
   filter (\<lambda>r. q_id r \<noteq> tid) (update_where (\<lambda>r. q_id r = tid) h rs) = filter (\<lambda>r. q_id r \<noteq> tid) rs"
  by (induction rs) auto

interpretation own: task_frame "only_task tid" tid "\<lambda>_. True"
proof unfold_locales
  show "only_task tid w (w\<lparr>w_db := q_set_status tid st msg now (w_db w)\<rparr>)" for w :: "'x world" and st msg now
    by (simp add: only_task_def same_config_def same_tables_def q_set_status_def other_rows_update
        map_update_where task_identity_def)
  show "only_task tid w (w\<lparr>w_db := q_set_retry tid ''pending'' n msg now (w_db w)\<rparr>)" for w :: "'x world" and n msg now
    by (simp add: only_task_def same_config_def same_tables_def q_set_retry_def other_rows_update
        map_update_where task_identity_def)
qed (simp_all add: only_task_def same_config_def same_tables_def f_mark_trashed_def err_insert_def,
  simp_all add: f_upsert_def Let_def)

section \<open>Statuses and retry counts\<close>

definition valid_status :: "string \<Rightarrow> bool" where
  "valid_status st \<longleftrightarrow> st = ''pending'' \<or> st = ''in_progress'' \<or> st = ''completed'' \<or> st = ''failed''"

definition valid_row :: "sync_task_row \<Rightarrow> bool" where
  "valid_row r \<longleftrightarrow> valid_status (q_status r) \<and> 0 \<le> q_retry_count r \<and> q_retry_count r \<le> 3"

definition valid_queue :: "database \<Rightarrow> bool" where
  "valid_queue d \<longleftrightarrow> list_all valid_row (sync_queue d)"

definition keeps_valid :: "'x world \<Rightarrow> 'x world \<Rightarrow> bool" where
  "keeps_valid w w' \<longleftrightarrow> (valid_queue (w_db w) \<longrightarrow> valid_queue (w_db w'))"

lemma valid_queue_update:
  "valid_queue d \<Longrightarrow> (\<And>r. valid_row r \<Longrightarrow> valid_row (h r)) \<Longrightarrow>
   valid_queue (d\<lparr>sync_queue := update_where p h (sync_queue d)\<rparr>)"
  by (auto simp: valid_queue_def list_all_iff set_update_where)

interpretation vt: task_frame keeps_valid tid "\<lambda>t. 0 \<le> t_retry_count t"
proof unfold_locales
  show "keeps_valid w (w\<lparr>w_db := q_set_status tid st msg now (w_db w)\<rparr>)"
    if "st = ''in_progress'' \<or> st = ''completed'' \<or> st = ''failed''" for w :: "'x world" and st msg now
    using that by (auto simp: keeps_valid_def q_set_status_def valid_row_def valid_status_def intro!: valid_queue_update)
  show "keeps_valid w (w\<lparr>w_db := q_set_retry tid ''pending'' n msg now (w_db w)\<rparr>)"
    if "0 \<le> t_retry_count t" and "n = t_retry_count t + 1" and "n \<le> 3" for w :: "'x world" and t n msg now
    using that by (auto simp: keeps_valid_def q_set_retry_def valid_row_def valid_status_def intro!: valid_queue_update)
qed (simp_all add: keeps_valid_def valid_queue_def f_mark_trashed_def err_insert_def)

lemma q_next_in: "q_next d = Some r \<Longrightarrow> r \<in> set (sync_queue d) \<and> q_status r = ''pending''"
  using tq.nxt_in [of d r] by (simp add: q_pending_def)

interpretation ve: engine_frame keeps_valid "sv :: 'x services"
proof unfold_locales
  show "keeps_valid w (snd (run_state (process_task sv (task_from_row r)) w))"
    if "q_next (w_db w) = Some r" for w :: "'x world" and r
  proof (cases "valid_queue (w_db w)")
    case True
    then have "0 \<le> q_retry_count r"
      using q_next_in [OF that] by (simp add: valid_queue_def valid_row_def list_all_iff)
    then show ?thesis
      by (intro vt.io_run vt.io_process_task [where tid = "q_id r"]) simp_all
  qed (simp add: keeps_valid_def)
qed (auto simp: keeps_valid_def valid_queue_def f_mark_trashed_def f_reset_stream_def q_insert_def q_row_def
    fresh_task_def valid_row_def valid_status_def)

section \<open>Tasks that are not pending\<close>

text \<open>
  Rows whose status is not pending stay exactly as they are, whatever the engine does: a
  settled task is never reopened, and one left in progress is never picked up again.
\<close>

definition keeps_settled :: "'x world \<Rightarrow> 'x world \<Rightarrow> bool" where
  "keeps_settled w w' \<longleftrightarrow> (wf_db (w_db w) \<longrightarrow> wf_db (w_db w') \<and>
     (\<forall>r \<in> set (sync_queue (w_db w)). q_status r \<noteq> ''pending'' \<longrightarrow> r \<in> set (sync_queue (w_db w'))))"

lemma keeps_settled_queue_eq:
  "keeps_wf w w' \<Longrightarrow> sync_queue (w_db w') = sync_queue (w_db w) \<Longrightarrow> keeps_settled w w'"
  by (simp add: keeps_wf_def keeps_settled_def)

interpretation se: engine_frame keeps_settled "sv :: 'x services"
proof unfold_locales
  show "keeps_settled w (snd (run_state (process_task sv (task_from_row r)) w))" (is "keeps_settled w ?w")
    if nxt: "q_next (w_db w) = Some r" for w :: "'x world" and r
  proof -
    have own: "only_task (q_id r) w ?w"
      by (intro own.io_run own.io_process_task) simp_all
    have wf: "keeps_wf w ?w"
      by (intro wft.io_run wft.io_process_task [where tid = "q_id r"]) simp_all
    have "s \<in> set (sync_queue (w_db ?w))"
      if "wf_db (w_db w)" and s: "s \<in> set (sync_queue (w_db w))" "q_status s \<noteq> ''pending''" for s
    proof -
      have "q_id s \<noteq> q_id r"
        using that q_next_in [OF nxt] by (auto simp: wf_db_def distinct_map dest: inj_onD)
      then have "s \<in> set (filter (\<lambda>x. q_id x \<noteq> q_id r) (sync_queue (w_db w)))" using s by simp
      then have "s \<in> set (filter (\<lambda>x. q_id x \<noteq> q_id r) (sync_queue (w_db ?w)))"
        using own by (simp add: only_task_def)
      then show ?thesis by simp
    qed
    then show ?thesis using wf by (simp add: keeps_settled_def keeps_wf_def)
  qed
  show "keeps_settled w (w\<lparr>w_db := q_insert t (w_db w)\<rparr>)" for w :: "'x world" and t
    by (auto simp: keeps_settled_def wf_db_q_insert) (simp add: q_insert_def)
qed (auto simp: keeps_settled_def wf_db_upsert wf_db_mark_trashed wf_db_tok_set wf_db_reset_stream
    f_mark_trashed_def [THEN arg_cong [where f = sync_queue]] f_reset_stream_def [THEN arg_cong [where f = sync_queue]])

section \<open>What the engine leaves alone\<close>

text \<open>
  The queue is a log of tasks: nothing is ever removed from it and a task never changes what it is.
  Accounts, folders, notifications, feedback and the configuration are not the engine's to change.
\<close>

definition engine_scope :: "'x world \<Rightarrow> 'x world \<Rightarrow> bool" where
  "engine_scope w w' \<longleftrightarrow> same_tables (w_db w) (w_db w') \<and> same_config w w' \<and>
     (\<exists>new. map task_identity (sync_queue (w_db w')) = map task_identity (sync_queue (w_db w)) @ new)"

interpretation sc: engine_frame engine_scope "sv :: 'x services"
proof unfold_locales
  show "engine_scope w (snd (run_state (process_task sv (task_from_row r)) w))"
    for w :: "'x world" and r
    using own.io_run [OF own.io_process_task [where tid = "q_id r"], of "task_from_row r" w sv]
    by (simp add: only_task_def engine_scope_def)
  show "engine_scope w w''" if "engine_scope w w'" and "engine_scope w' w''" for w w' w'' :: "'x world"
    using that by (auto simp: engine_scope_def same_tables_def same_config_def)
qed (simp_all add: engine_scope_def same_config_def f_mark_trashed_def f_reset_stream_def q_insert_def,
  simp_all add: same_tables_def)

section \<open>Whole runs\<close>

text \<open>No run of the engine breaks the integrity of the database. Starting from a sound database,
  after any sequence of commands, poll ticks and watcher tasks, with any services, any pattern of failing
  operations and any crash point, primary keys are unique, ids are below their counters and every row
  that refers to an account refers to an existing one.\<close>

theorem engine_keeps_integrity:
  assumes "wf_db (w_db w)" and "list_all event_fresh evs"
  shows "wf_db (w_db (snd (run_state (run_events sv en evs) w)))"
  using wfe.R_run_events [OF assms(2), of w sv en] assms(1) by (simp add: keeps_wf_def)

definition sample_engine :: engine where
  "sample_engine = \<lparr>en_state = Idle, en_watching = True, en_running = True\<rparr>"

definition sample_events :: "engine_event list" where
  "sample_events = [PollTick, WatcherTask (task_from_row upload_row), Command (SwitchMode Mirror), Command Pause]"

lemma sample_events_fresh: "list_all event_fresh sample_events"
  by (simp add: sample_events_def fresh_task_def upload_row_def)

theorem engine_keeps_integrity_witness:
  "wf_db (w_db (snd (run_state (run_events null_services sample_engine sample_events) (sample_world [1] 50 ()))))"
  by (rule engine_keeps_integrity) (simp_all add: sample_wf sample_events_fresh)

text \<open>The first full sync of an account keeps the database sound, and never puts a task into an
  unknown status or beyond the retry limit, in every run.\<close>

theorem initial_sync_integrity:
  assumes "wf_db (w_db w)" and "valid_queue (w_db w)" and "run_state (initial_sync sv acct c mode mp) w = (res, w')"
  shows "wf_db (w_db w') \<and> valid_queue (w_db w')"
proof -
  have "keeps_wf w w'" "keeps_valid w w'"
    using wfe.io_initial_sync [of sv acct c mode mp] ve.io_initial_sync [of sv acct c mode mp] assms(3)
    by (auto simp: state_io_rel_def dest!: spec [of _ w])
  then show ?thesis using assms(1,2) by (simp add: keeps_wf_def keeps_valid_def)
qed

lemma sample_valid: "valid_queue sample_db"
  by (simp add: valid_queue_def valid_row_def valid_status_def upload_row_def download_row1_def)

text \<open>Every task is in one of the four statuses and has been retried at most three times, after
  any run of the engine from a queue where that holds.\<close>

theorem engine_bounds_retries:
  assumes "valid_queue (w_db w)" and "list_all event_fresh evs"
  shows "valid_queue (w_db (snd (run_state (run_events sv en evs) w)))"
  using ve.R_run_events [OF assms(2), of w sv en] assms(1) by (simp add: keeps_valid_def)

theorem engine_bounds_retries_witness:
  "valid_queue (w_db (snd (run_state (run_events null_services sample_engine sample_events) (sample_world [1] 50 ()))))"
  by (rule engine_bounds_retries) (simp_all add: sample_valid sample_events_fresh)

text \<open>A task that is not pending is final. Whatever the engine does, a row that is completed,
  failed or in progress stays in the queue exactly as it is: settled tasks are not run again.\<close>

theorem settled_tasks_final:
  assumes "wf_db (w_db w)" and "list_all event_fresh evs"
    and "r \<in> set (sync_queue (w_db w))" and "q_status r \<noteq> ''pending''"
  shows "r \<in> set (sync_queue (w_db (snd (run_state (run_events sv en evs) w))))"
  using se.R_run_events [OF assms(2), of w sv en] assms(1,3,4) by (simp add: keeps_settled_def)

theorem settled_tasks_final_witness:
  "let r = upload_row\<lparr>q_status := ''completed''\<rparr>; w = (sample_world [1] 50 ())\<lparr>w_db := sample_db\<lparr>sync_queue := [r, download_row1]\<rparr>\<rparr>
   in r \<in> set (sync_queue (w_db (snd (run_state (run_events null_services sample_engine sample_events) w))))"
  unfolding Let_def
  by (rule settled_tasks_final [OF _ sample_events_fresh])
     (simp_all add: wf_db_def sample_db_def empty_db_def has_account_def sample_account_def sample_row_def upload_row_def download_row1_def)

text \<open>Processing a task touches no other task. In every run the other rows of the queue, the page
  tokens, accounts, folders, notifications, feedback and the configuration are unchanged, and the
  task itself keeps its account, file, operation, path, priority and creation time.\<close>

theorem task_touches_only_itself:
  assumes "run_state (process_task sv (task_from_row r)) w = (u, w')"
  shows "only_task (q_id r) w w'"
  using own.io_run [OF own.io_process_task [where tid = "q_id r" and t = "task_from_row r" and sv = sv], of w] assms by simp

theorem task_touches_only_itself_witness:
  "only_task 2 (sample_world [] 9 ()) (snd (run_state (process_task null_services (task_from_row download_row1)) (sample_world [] 9 ())))"
  using task_touches_only_itself [OF prod.collapse [symmetric], where sv = null_services and r = download_row1 and w = "sample_world [] 9 ()"]
  by (simp add: download_row1_def)

text \<open>The engine only ever appends to the queue and never touches accounts, sync folders,
  notifications, feedback or the configuration, in every run.\<close>

theorem engine_stays_in_scope:
  assumes "list_all event_fresh evs"
  shows "engine_scope w (snd (run_state (run_events sv en evs) w))"
  by (rule sc.R_run_events [OF assms])

end
