(* ===== verification/Outcomes.thy ===== *)
theory Outcomes
  imports Frame_Props
begin

text \<open>
  How operations end. \<open>ends m w Q\<close> says that \<open>m\<close>, run in \<open>w\<close>, ends with a result and a world that
  satisfy \<open>Q\<close>. The rules \<open>ends_steps\<close> step through a program in which no operation fails and enough
  operations are left; \<open>ends_any\<close> step through every run, failures and crashes included. Each
  step introduces the next world by what is known of it, so goals stay small.
\<close>

definition ends :: "('s, 'a) state \<Rightarrow> 's \<Rightarrow> ('a \<Rightarrow> 's \<Rightarrow> bool) \<Rightarrow> bool" where
  "ends m w Q = (case run_state m w of (r, w') \<Rightarrow> Q r w')"

lemma ends_return [simp]: "ends (State_Monad.return x) w Q = Q x w"
  by (simp add: ends_def)

lemma ends_bind [simp]: "ends (State_Monad.bind m f) w Q = ends m w (\<lambda>x w'. ends (f x) w' Q)"
  by (simp add: ends_def split: prod.splits)

lemma ends_try [simp]:
  "ends (tryE m k) w Q = ends m w (\<lambda>r w'. case r of Inl e \<Rightarrow> Q (Inl e) w' | Inr x \<Rightarrow> ends (k x) w' Q)"
  by (simp add: ends_def split: prod.splits sum.splits)

lemma ends_now [simp]: "ends now_ms w Q = Q (w_clock w (w_ops w)) w"
  by (simp add: ends_def now_ms_def)

lemma ends_State [simp]: "ends (State f) w Q = (case f w of (r, w') \<Rightarrow> Q r w')"
  by (simp add: ends_def)

lemma ends_run: "ends m w Q \<longleftrightarrow> (\<exists>r w'. run_state m w = (r, w') \<and> Q r w')"
  by (simp add: ends_def split: prod.splits)

lemma ends_mono: "ends m w Q \<Longrightarrow> (\<And>r w'. Q r w' \<Longrightarrow> Q' r w') \<Longrightarrow> ends m w Q'"
  by (simp add: ends_def split: prod.splits)

text \<open>The operations left before the world halts.\<close>

definition left_ops :: "'x world \<Rightarrow> nat" where
  "left_ops w = w_limit w - w_ops w"

lemma can_run_left: "can_run n w \<Longrightarrow> n \<le> left_ops w"
  by (simp add: can_run_def left_ops_def)

lemma ends_db:
  assumes "no_faults w" and "0 < left_ops w"
    and "\<And>w'. no_faults w' \<Longrightarrow> left_ops w = Suc (left_ops w') \<Longrightarrow> w_db w' = snd (f (w_db w)) \<Longrightarrow>
      w_fs w' = w_fs w \<Longrightarrow> w_ext w' = w_ext w \<Longrightarrow> Q (fst (f (w_db w))) w'"
  shows "ends (db_exec f) w Q"
  using assms(1,2) assms(3) [of "tick (w\<lparr>w_db := snd (f (w_db w))\<rparr>)"]
  by (cases "f (w_db w)") (auto simp: ends_def db_exec_def halted_def no_faults_def left_ops_def)

lemma ends_fs:
  assumes "no_faults w" and "0 < left_ops w"
    and "\<And>w' t. no_faults w' \<Longrightarrow> left_ops w = Suc (left_ops w') \<Longrightarrow> w_db w' = w_db w \<Longrightarrow>
      w_fs w' = snd (f t (w_fs w)) \<Longrightarrow> w_ext w' = w_ext w \<Longrightarrow> Q (fst (f t (w_fs w))) w'"
  shows "ends (fs_exec f) w Q"
  using assms(1,2) assms(3) [of "tick (w\<lparr>w_fs := snd (f (w_clock w (w_ops w)) (w_fs w))\<rparr>)" "w_clock w (w_ops w)"]
  by (cases "f (w_clock w (w_ops w)) (w_fs w)") (auto simp: ends_def fs_exec_def halted_def no_faults_def left_ops_def)

lemma ends_ext:
  assumes "no_faults w" and "0 < left_ops w"
    and "\<And>w'. no_faults w' \<Longrightarrow> left_ops w = Suc (left_ops w') \<Longrightarrow> w_db w' = w_db w \<Longrightarrow>
      w_fs w' = w_fs w \<Longrightarrow> w_ext w' = snd (f (w_ext w)) \<Longrightarrow> Q (fst (f (w_ext w))) w'"
  shows "ends (ext_call f) w Q"
  using assms(1,2) assms(3) [of "tick (w\<lparr>w_ext := snd (f (w_ext w))\<rparr>)"]
  by (cases "f (w_ext w)") (auto simp: ends_def ext_call_def halted_def no_faults_def left_ops_def)

lemmas ends_steps = ends_db ends_fs ends_ext

text \<open>The same for every run: an operation may fail, or the world may have halted.\<close>

lemma ends_db_any:
  assumes "\<And>r w'. w_fs w' = w_fs w \<Longrightarrow> w_ext w' = w_ext w \<Longrightarrow> Q r w'"
  shows "ends (db_exec f) w Q"
  using assms by (auto simp: ends_def db_exec_def split: option.splits prod.splits)

lemma ends_fs_any:
  assumes "\<And>e w'. w_fs w' = w_fs w \<Longrightarrow> w_ext w' = w_ext w \<Longrightarrow> Q (Inl e) w'"
    and "\<And>w' t. w_fs w' = snd (f t (w_fs w)) \<Longrightarrow> w_ext w' = w_ext w \<Longrightarrow> Q (fst (f t (w_fs w))) w'"
  shows "ends (fs_exec f) w Q"
  using assms(1) [of w] assms(1) [of "tick w"]
    assms(2) [of "tick (w\<lparr>w_fs := snd (f (w_clock w (w_ops w)) (w_fs w))\<rparr>)" "w_clock w (w_ops w)"]
  by (cases "f (w_clock w (w_ops w)) (w_fs w)") (auto simp: ends_def fs_exec_def split: option.splits)

lemma ends_ext_any:
  assumes "\<And>e w'. w_fs w' = w_fs w \<Longrightarrow> w_ext w' = w_ext w \<Longrightarrow> Q (Inl e) w'"
    and "\<And>w'. w_fs w' = w_fs w \<Longrightarrow> w_ext w' = snd (f (w_ext w)) \<Longrightarrow> Q (fst (f (w_ext w))) w'"
  shows "ends (ext_call f) w Q"
  using assms(1) [of w] assms(2) [of "tick (w\<lparr>w_ext := snd (f (w_ext w))\<rparr>)"]
  by (cases "f (w_ext w)") (auto simp: ends_def ext_call_def)

lemmas ends_any = ends_db_any ends_fs_any ends_ext_any

text \<open>The file-system calls in every run.\<close>

lemma ends_fs_create_any:
  assumes "\<And>e w'. w_fs w' = w_fs w \<Longrightarrow> w_ext w' = w_ext w \<Longrightarrow> Q (Inl e) w'"
    and "\<And>w' t. w_fs w' = (w_fs w)\<lparr>fs_files := (fs_files (w_fs w))(p \<mapsto> \<lparr>f_bytes = [], f_mtime = Some t\<rparr>)\<rparr> \<Longrightarrow>
      w_ext w' = w_ext w \<Longrightarrow> Q (Inr ()) w'"
  shows "ends (fs_create p) w Q"
  unfolding fs_create_def by (rule ends_fs_any) (auto intro: assms split: if_splits)

lemma ends_fs_rename_any:
  assumes "\<And>e w'. w_fs w' = w_fs w \<Longrightarrow> w_ext w' = w_ext w \<Longrightarrow> Q (Inl e) w'"
    and "\<And>w' f. fs_files (w_fs w) a = Some f \<Longrightarrow>
      w_fs w' = (w_fs w)\<lparr>fs_files := (fs_files (w_fs w))(a := None, b \<mapsto> f)\<rparr> \<Longrightarrow>
      w_ext w' = w_ext w \<Longrightarrow> Q (Inr ()) w'"
  shows "ends (fs_rename a b) w Q"
  unfolding fs_rename_def by (rule ends_fs_any) (auto intro: assms split: if_splits option.splits)

lemma ends_fs_remove_any:
  assumes "\<And>e w'. w_fs w' = w_fs w \<Longrightarrow> w_ext w' = w_ext w \<Longrightarrow> Q (Inl e) w'"
    and "\<And>w'. w_fs w' = (w_fs w)\<lparr>fs_files := (fs_files (w_fs w))(p := None)\<rparr> \<Longrightarrow>
      w_ext w' = w_ext w \<Longrightarrow> Q (Inr ()) w'"
  shows "ends (fs_remove p) w Q"
  unfolding fs_remove_def by (rule ends_fs_any) (auto intro: assms split: if_splits option.splits)

lemma ends_fs_read_any:
  assumes "\<And>e w'. w_fs w' = w_fs w \<Longrightarrow> w_ext w' = w_ext w \<Longrightarrow> Q (Inl e) w'"
    and "\<And>w' f. fs_files (w_fs w) p = Some f \<Longrightarrow> w_fs w' = w_fs w \<Longrightarrow> w_ext w' = w_ext w \<Longrightarrow> Q (Inr (f_bytes f)) w'"
  shows "ends (fs_read p) w Q"
  unfolding fs_read_def by (rule ends_fs_any) (auto intro: assms split: option.splits)

lemma ends_fs_metadata_any:
  assumes "\<And>r w'. w_fs w' = w_fs w \<Longrightarrow> w_ext w' = w_ext w \<Longrightarrow> Q r w'"
  shows "ends (fs_metadata p) w Q"
  unfolding fs_metadata_def by (rule ends_fs_any) (auto intro: assms)

lemma ends_fs_create_dir_any:
  assumes "\<And>r w'. fs_files (w_fs w') = fs_files (w_fs w) \<Longrightarrow> w_ext w' = w_ext w \<Longrightarrow> Q r w'"
  shows "ends (fs_create_dir_all p) w Q"
  unfolding fs_create_dir_all_def by (rule ends_fs_any) (auto intro: assms)

lemma ends_fs_query [simp]: "ends (fs_query q) w Q = Q (q (w_fs w)) w"
  by (simp add: ends_def fs_query_def)

lemmas ends_fs_calls = ends_fs_create_any ends_fs_rename_any ends_fs_remove_any ends_fs_read_any
  ends_fs_metadata_any ends_fs_create_dir_any

lemma ends_db_calls:
  assumes "\<And>r w'. w_fs w' = w_fs w \<Longrightarrow> w_ext w' = w_ext w \<Longrightarrow> Q r w'"
  shows "ends (update_task_status i st msg) w Q" "ends (update_task_retry i st n msg) w Q"
  using assms by (auto simp: update_task_status_def update_task_retry_def intro!: ends_db_any)

lemma ends_record_failure_any:
  assumes "\<And>r w'. w_fs w' = w_fs w \<Longrightarrow> w_ext w' = w_ext w \<Longrightarrow> Q r w'"
  shows "ends (record_failure code n t i msg) w Q"
  using assms
  by (auto simp: record_failure_def Let_def insert_error_def intro!: ends_db_calls ends_db_any split: sum.splits)

definition queue_row :: "int \<Rightarrow> database \<Rightarrow> sync_task_row option" where
  "queue_row i d = find (\<lambda>r. q_id r = i) (sync_queue d)"

definition failure_recorded :: "string \<Rightarrow> sync_task_row \<Rightarrow> string \<Rightarrow> database \<Rightarrow> database \<Rightarrow> bool" where
  "failure_recorded code r msg d d' \<longleftrightarrow>
     (\<exists>r'. queue_row (q_id r) d' = Some r' \<and> task_identity r' = task_identity r \<and> q_error_msg r' = Some msg \<and>
        (if q_retry_count r < 3
         then q_status r' = ''pending'' \<and> q_retry_count r' = q_retry_count r + 1 \<and> sync_errors d' = sync_errors d
         else q_status r' = ''failed'' \<and> q_retry_count r' = q_retry_count r \<and>
           (\<exists>e. sync_errors d' = sync_errors d @ [e] \<and> er_error_code e = code \<and> er_error_msg e = msg \<and>
              er_account_id e = Some (q_account_id r) \<and> er_is_resolved e = 0)))"

lemma queue_row_set_status:
  "queue_row j (q_set_status i st msg now d) =
     map_option (\<lambda>r. if q_id r = i then r\<lparr>q_status := st, q_error_msg := msg, q_updated_at := now\<rparr> else r) (queue_row j d)"
  unfolding queue_row_def q_set_status_def by (simp add: find_update_where)

lemma queue_row_set_retry:
  "queue_row j (q_set_retry i st n msg now d) =
     map_option (\<lambda>r. if q_id r = i then r\<lparr>q_status := st, q_retry_count := n, q_error_msg := msg, q_updated_at := now\<rparr> else r) (queue_row j d)"
  unfolding queue_row_def q_set_retry_def by (simp add: find_update_where)

lemma queue_row_id: "queue_row i d = Some r \<Longrightarrow> q_id r = i"
  by (auto simp: queue_row_def dest: find_SomeD)

lemma task_identity_simps [simp]:
  "task_identity (r\<lparr>q_status := st, q_error_msg := msg, q_updated_at := now\<rparr>) = task_identity r"
  "task_identity (r\<lparr>q_status := st, q_retry_count := n, q_error_msg := msg, q_updated_at := now\<rparr>) = task_identity r"
  by (simp_all add: task_identity_def)

lemma queue_row_err_insert [simp]: "queue_row i (err_insert e d) = queue_row i d"
  by (simp add: queue_row_def err_insert_def)

lemma q_set_frame [simp]:
  "sync_errors (q_set_status i st msg now d) = sync_errors d" "error_seq (q_set_status i st msg now d) = error_seq d"
  "sync_errors (q_set_retry i st n msg now d) = sync_errors d"
  "drive_files (q_set_status i st msg now d) = drive_files d" "drive_files (q_set_retry i st n msg now d) = drive_files d"
  "drive_files (err_insert e d) = drive_files d"
  "accounts (q_set_status i st msg now d) = accounts d"
  "sync_errors (err_insert e d) = sync_errors d @ [err_row (error_seq d + 1) e]"
  by (simp_all add: q_set_status_def q_set_retry_def err_insert_def)

text \<open>The task is still in the queue, with its retry count.\<close>

definition has_task :: "sync_task_row \<Rightarrow> database \<Rightarrow> bool" where
  "has_task r d \<longleftrightarrow> (\<exists>r'. queue_row (q_id r) d = Some r' \<and> task_identity r' = task_identity r \<and>
     q_retry_count r' = q_retry_count r)"

lemma has_task_row: "queue_row (q_id r) d = Some r \<Longrightarrow> has_task r d"
  by (auto simp: has_task_def)

lemma has_task_set_status [simp]: "has_task r (q_set_status i st msg now d) = has_task r d"
  by (cases "queue_row (q_id r) d") (auto simp: has_task_def queue_row_set_status)

lemma failure_recorded_set_status [simp]:
  "failure_recorded code r msg (q_set_status i st m now d) d' = failure_recorded code r msg d d'"
  by (simp add: failure_recorded_def)

lemma record_failure_ends:
  assumes "no_faults w" and "1 < left_ops w"
    and row: "has_task r (w_db w)"
    and Q: "\<And>w'. failure_recorded code r msg (w_db w) (w_db w') \<Longrightarrow> w_ext w' = w_ext w \<Longrightarrow> w_fs w' = w_fs w \<Longrightarrow>
       drive_files (w_db w') = drive_files (w_db w) \<Longrightarrow> Q (Inr ()) w'"
  shows "ends (record_failure code 3 (task_from_row r) (q_id r) msg) w Q"
proof -
  obtain r0 where r0: "queue_row (q_id r) (w_db w) = Some r0" "task_identity r0 = task_identity r"
      "q_retry_count r0 = q_retry_count r" "q_id r0 = q_id r"
    using row queue_row_id by (auto simp: has_task_def)
  show ?thesis
  proof (cases "q_retry_count r < 3")
    case True
    then show ?thesis using assms r0
      by (auto simp: record_failure_def update_task_retry_def failure_recorded_def queue_row_set_retry
         intro!: ends_steps)
  next
    case False
    then show ?thesis using assms r0
      by (auto simp: record_failure_def update_task_status_def failure_recorded_def queue_row_set_status
         insert_error_def err_row_def intro!: ends_steps)
  qed
qed

lemma find_rowD: "queue_row i (q_set_status i st msg now d) = Some r' \<longleftrightarrow>
  (\<exists>r. queue_row i d = Some r \<and> r' = r\<lparr>q_status := st, q_error_msg := msg, q_updated_at := now\<rparr>)"
  by (auto simp: queue_row_set_status dest: queue_row_id)

definition task_completed :: "sync_task_row \<Rightarrow> database \<Rightarrow> bool" where
  "task_completed r d' \<longleftrightarrow> (\<exists>r'. queue_row (q_id r) d' = Some r' \<and> task_identity r' = task_identity r \<and>
     q_status r' = ''completed'' \<and> q_retry_count r' = q_retry_count r)"

lemma queue_row_upsert [simp]: "queue_row i (snd (f_upsert f d)) = queue_row i d"
  by (simp add: queue_row_def)

lemma f_get_set_status [simp]: "f_get i acct (q_set_status j st msg now d) = f_get i acct d"
  by (simp add: f_get_def)

lemma files_map_set_status [simp]: "files_map (q_set_status i st msg now d) = files_map d"
  by (rule ext) (simp add: files_map_def f_get_def)

lemma upsert_ok_account: "has_account d (d_account_id f) \<Longrightarrow> upsert_ok f d"
  by (simp add: upsert_ok_def f_upsert_def Let_def)

lemma has_account_set_status [simp]: "has_account (q_set_status i st msg now d) a = has_account d a"
  by (simp add: has_account_def)


lemma files_map_key: "files_map d k = Some f \<Longrightarrow> db_file_key f = k"
  by (auto simp: files_map_def f_get_def db_file_key_def file_from_row_def file_key_def dest!: find_SomeD)

lemma upsert_ok_existing: "files_map d (db_file_key f) = Some g \<Longrightarrow> upsert_ok f d"
  using find_list_ex [of "\<lambda>r. file_key r = db_file_key f" "drive_files d"]
  by (auto simp: files_map_def f_get_def db_file_key_def upsert_ok_def f_upsert_def)

end
