(* ===== verification/Upload_Props.thy ===== *)
theory Upload_Props
  imports Outcomes
begin

lemma map_api_file_account [simp]: "d_account_id (map_api_file_to_db sv g acct) = acct"
  by (simp add: map_api_file_to_db_def)

lemmas upload_ends_simps = upload_file_def update_task_status_def fs_read_def do_multipart_upload_def upsert_file_def
  Let_def handle_upload_failure_def UPLOAD_MAX_RETRIES_def

text \<open>C23: an upload of a file below the threshold sends exactly one multipart request, carrying the
  name, the MIME type and the bytes of the file. If the service accepts it, the task is completed and
  the returned metadata is recorded under the task's account; if it refuses, the failure is recorded:
  below the retry limit the task goes back to pending with its count increased by one, at the limit it
  is failed and an error is logged. The local file is not touched.\<close>

theorem upload_small_file:
  assumes "no_faults w" and "can_run 6 w"
    and "queue_row (q_id r) (w_db w) = Some r" and "q_local_path r = Some p"
    and "fs_files (w_fs w) p = Some fl" and "length (f_bytes fl) < UPLOAD_THRESHOLD"
    and "has_account (w_db w) (q_account_id r)"
    and reply: "sv_upload_multipart sv c \<lparr>m_name = upload_file_name p, m_mime_type = uploader_guess_mime p, m_parents = None\<rparr>
      (f_bytes fl) (uploader_guess_mime p) (w_ext w) = (res, x)"
  shows "\<exists>w'. run_state (upload_file sv c (task_from_row r)) w = (Inr (), w') \<and> w_ext w' = x \<and> w_fs w' = w_fs w \<and>
      (case res of
         Inr g \<Rightarrow> (let f = map_api_file_to_db sv g (q_account_id r)
           in task_completed r (w_db w') \<and> files_map (w_db w') = (files_map (w_db w))(db_file_key f \<mapsto> f))
       | Inl e \<Rightarrow> failure_recorded ''UPLOAD_FAILED'' r e (w_db w) (w_db w') \<and> drive_files (w_db w') = drive_files (w_db w))"
proof -
  have "ends (upload_file sv c (task_from_row r)) w (\<lambda>u w'. u = Inr () \<and> w_ext w' = x \<and> w_fs w' = w_fs w \<and>
      (case res of
         Inr g \<Rightarrow> (let f = map_api_file_to_db sv g (q_account_id r)
           in task_completed r (w_db w') \<and> files_map (w_db w') = (files_map (w_db w))(db_file_key f \<mapsto> f))
       | Inl e \<Rightarrow> failure_recorded ''UPLOAD_FAILED'' r e (w_db w) (w_db w') \<and> drive_files (w_db w') = drive_files (w_db w)))"
  proof (cases res)
    case (Inr g)
    then show ?thesis
      using assms(1,3-) can_run_left [OF assms(2)]
      by (auto simp: upload_ends_simps task_completed_def find_rowD files_map_upsert upsert_ok_account
           intro!: ends_steps)
  next
    case (Inl e)
    then show ?thesis
      using assms(1,3-) can_run_left [OF assms(2)]
      by (auto simp: upload_ends_simps has_task_row less_diff_conv intro!: ends_steps record_failure_ends)
  qed
  then show ?thesis by (auto simp: ends_run)
qed

theorem upload_small_file_witness:
  "let sv = null_services\<lparr>sv_upload_multipart := \<lambda>c m bs mime x. (Inr sample_api_file, bs)\<rparr>;
       w = sample_world [1, 2, 3] 6 []; f = map_api_file_to_db sv sample_api_file ''alice''
   in \<exists>w'. run_state (upload_file sv sample_client (task_from_row upload_row)) w = (Inr (), w') \<and>
        w_ext w' = [1, 2, 3] \<and> w_fs w' = w_fs w \<and> task_completed upload_row (w_db w') \<and>
        files_map (w_db w') = (files_map (w_db w))(db_file_key f \<mapsto> f)"
  using upload_small_file [where w = "sample_world [1, 2, 3] 6 []" and r = upload_row and p = "''/home/notes.txt''"
      and fl = "\<lparr>f_bytes = [1, 2, 3], f_mtime = Some 20\<rparr>" and c = sample_client
      and sv = "null_services\<lparr>sv_upload_multipart := \<lambda>c m bs mime x. (Inr sample_api_file, bs)\<rparr>"
      and res = "Inr sample_api_file" and x = "[1, 2, 3]"]
  by (simp add: queue_row_def upload_row_def sample_fs_def UPLOAD_THRESHOLD_def Let_def)

section \<open>Resumable uploads\<close>

text \<open>
  What the protocol promises. \<open>recv\<close> is the prefix of the file the server has stored for the session
  \<open>uri\<close>, \<open>budget\<close> bounds the failures still to come. A chunk sent at the stored length stores a
  prefix of it; the reply is complete when everything is stored, otherwise it names the
  new length, which has grown, or it is lost, and then the status query names the stored length.
\<close>

definition chunk_answer ::
  "'x services \<Rightarrow> drive_client \<Rightarrow> string \<Rightarrow> nat \<Rightarrow> ('x \<Rightarrow> bytes) \<Rightarrow> ('x \<Rightarrow> nat) \<Rightarrow> 'x \<Rightarrow> upload_chunk_result result \<Rightarrow> 'x \<Rightarrow> bool" where
  "chunk_answer sv c uri file_len recv budget x reply x' \<longleftrightarrow>
     (case reply of
        Inr (Complete f) \<Rightarrow> length (recv x') = file_len
      | Inr (Incomplete n) \<Rightarrow> n = length (recv x') \<and> length (recv x) < n \<and> n < file_len \<and> budget x' \<le> budget x
      | Inl e \<Rightarrow> length (recv x') < file_len \<and> budget x' < budget x \<and>
          (\<exists>b x''. sv_resumable_query sv c uri file_len x' = (Inr (length (recv x'), b), x'') \<and>
             recv x'' = recv x' \<and> budget x'' = budget x'))"

definition resumable_contract ::
  "'x services \<Rightarrow> drive_client \<Rightarrow> string \<Rightarrow> nat \<Rightarrow> ('x \<Rightarrow> bytes) \<Rightarrow> ('x \<Rightarrow> nat) \<Rightarrow> bool" where
  "resumable_contract sv c uri file_len recv budget \<longleftrightarrow>
     (\<forall>x chunk. chunk \<noteq> [] \<longrightarrow> length (recv x) + length chunk \<le> file_len \<longrightarrow>
       (\<exists>k reply x'. sv_resumable_chunk sv c uri chunk (length (recv x)) (length (recv x) + length chunk - 1) file_len x = (reply, x') \<and>
          recv x' = recv x @ take k chunk \<and> chunk_answer sv c uri file_len recv budget x reply x'))"

lemma chunk_slice_drop:
  assumes "off < length content"
  shows "chunk_slice content off (chunk_end off (length content)) = take UPLOAD_CHUNK_SIZE (drop off content)"
    and "chunk_end off (length content) = off + length (take UPLOAD_CHUNK_SIZE (drop off content)) - 1"
proof -
  have pos: "0 < UPLOAD_CHUNK_SIZE" by (simp add: UPLOAD_CHUNK_SIZE_def)
  show "chunk_end off (length content) = off + length (take UPLOAD_CHUNK_SIZE (drop off content)) - 1"
    using assms by (auto simp: chunk_end_def min_def)
  have "Suc (chunk_end off (length content)) - off = min UPLOAD_CHUNK_SIZE (length content - off)"
    using assms pos by (auto simp: chunk_end_def min_def)
  then show "chunk_slice content off (chunk_end off (length content)) = take UPLOAD_CHUNK_SIZE (drop off content)"
    by (simp add: chunk_slice_def min_def)
qed

lemma take_prefix_eq: "xs = take a ys @ take k (take m (drop a ys)) \<Longrightarrow> xs = take (length xs) ys"
  by (metis append_take_drop_id append_eq_conv_conj take_add take_take)

lemma resumable_loop_completes:
  assumes "resumable_contract sv c uri (length content) recv budget"
    and "no_faults w" and "recv (w_ext w) = take off content" and "off < length content"
    and "2 * (length content - off + budget (w_ext w)) \<le> left_ops w"
    and "length content - off + budget (w_ext w) \<le> n"
  shows "ends (resumable_loop n sv c uri content off) w (\<lambda>r w'. (\<exists>f. r = Inr (Some f)) \<and> no_faults w' \<and>
     recv (w_ext w') = content \<and> w_db w' = w_db w \<and> w_fs w' = w_fs w \<and>
     left_ops w \<le> left_ops w' + 2 * (length content - off + budget (w_ext w)))"
  using assms(2-)
proof (induction n arbitrary: w off)
  case 0
  then show ?case by simp
next
  case (Suc n)
  let ?chunk = "take UPLOAD_CHUNK_SIZE (drop off content)"
  let ?Q = "\<lambda>r w'. (\<exists>f. r = Inr (Some f)) \<and> no_faults w' \<and>
     recv (w_ext w') = content \<and> w_db w' = w_db w \<and> w_fs w' = w_fs w \<and>
     left_ops w \<le> left_ops w' + 2 * (length content - off + budget (w_ext w))"
  have len: "length (recv (w_ext w)) = off" using Suc.prems by simp
  have ch: "?chunk \<noteq> []" "off + length ?chunk \<le> length content"
    using Suc.prems by (auto simp: UPLOAD_CHUNK_SIZE_def)
  obtain k reply x' where call:
      "sv_resumable_chunk sv c uri ?chunk off (off + length ?chunk - 1) (length content) (w_ext w) = (reply, x')"
    and recv: "recv x' = take off content @ take k ?chunk"
    and ans: "chunk_answer sv c uri (length content) recv budget (w_ext w) reply x'"
    using assms(1) ch len Suc.prems(2) unfolding resumable_contract_def by metis
  have call': "sv_resumable_chunk sv c uri (chunk_slice content off (chunk_end off (length content))) off
      (chunk_end off (length content)) (length content) (w_ext w) = (reply, x')"
    using call chunk_slice_drop [OF Suc.prems(3)] by simp
  have pre: "recv x' = take (length (recv x')) content"
    using recv by (rule take_prefix_eq)
  have ge: "off \<le> length (recv x')" using recv Suc.prems by simp
  have again: "ends (resumable_loop n sv c uri content (length (recv x'))) w' ?Q"
    if "no_faults w'" "left_ops w \<le> left_ops w' + 2" "w_db w' = w_db w" "w_fs w' = w_fs w"
      "recv (w_ext w') = recv x'" "budget (w_ext w') = budget x'" "length (recv x') < length content"
      "length content - length (recv x') + budget x' < length content - off + budget (w_ext w)" for w'
    by (rule ends_mono [OF Suc.IH [of w' "length (recv x')"]])
       (use that Suc.prems pre in \<open>auto simp: diff_mult_distrib2\<close>)
  have "ends (resumable_loop (Suc n) sv c uri content off) w ?Q"
  proof (cases reply)
    case (Inl e)
    then show ?thesis
      using ans call' Suc.prems ge again
      by (auto simp: chunk_answer_def Let_def intro!: ends_ext)
  next
    case (Inr a)
    then show ?thesis
      using ans call' Suc.prems pre again
      by (cases a) (auto simp: chunk_answer_def Let_def len intro!: ends_ext)
  qed
  then show ?case .
qed

lemma do_resumable_ends:
  assumes "fst (sv_resumable_start sv c meta (w_ext w)) = Inr uri" and "recv (snd (sv_resumable_start sv c meta (w_ext w))) = []"
    and "resumable_contract sv c uri (length content) recv budget" and "content \<noteq> []"
    and "no_faults w" and "2 * (length content + budget (snd (sv_resumable_start sv c meta (w_ext w)))) < left_ops w"
    and Q: "\<And>f w'. no_faults w' \<Longrightarrow> recv (w_ext w') = content \<Longrightarrow> w_db w' = w_db w \<Longrightarrow> w_fs w' = w_fs w \<Longrightarrow>
      left_ops w \<le> Suc (left_ops w' + 2 * (length content + budget (snd (sv_resumable_start sv c meta (w_ext w))))) \<Longrightarrow> Q (Inr f) w'"
  shows "ends (do_resumable_upload sv c meta content) w Q"
proof -
  let ?x = "snd (sv_resumable_start sv c meta (w_ext w))"
  have loop: "ends (resumable_loop (Suc (left_ops w')) sv c uri content 0) w' (\<lambda>r w''. \<exists>f. r = Inr (Some f) \<and> Q (Inr f) w'')"
    if "no_faults w'" "left_ops w = Suc (left_ops w')" "w_db w' = w_db w" "w_fs w' = w_fs w" "w_ext w' = ?x" for w'
    by (rule ends_mono [OF resumable_loop_completes [OF assms(3)]])
       (use that assms(2,4,6) Q in auto)
  show ?thesis
    using assms(1,5,6)
    by (auto simp: do_resumable_upload_def remaining_ops_def left_ops_def [symmetric] simp del: resumable_loop.simps
        intro!: ends_ext ends_mono [OF loop])
qed

text \<open>The outcome of a large upload, for the properties here and over HTTP.\<close>

lemma large_upload_ends:
  assumes "no_faults w" and "can_run (2 * (length (f_bytes fl) + budget (snd (sv_resumable_start sv c meta (w_ext w)))) + 5) w"
    and "queue_row (q_id r) (w_db w) = Some r" and "q_local_path r = Some p"
    and "fs_files (w_fs w) p = Some fl" and "UPLOAD_THRESHOLD \<le> length (f_bytes fl)"
    and meta: "meta = \<lparr>m_name = upload_file_name p, m_mime_type = uploader_guess_mime p, m_parents = None\<rparr>"
    and start: "fst (sv_resumable_start sv c meta (w_ext w)) = Inr uri" "recv (snd (sv_resumable_start sv c meta (w_ext w))) = []"
    and contract: "resumable_contract sv c uri (length (f_bytes fl)) recv budget"
  shows "ends (upload_file sv c (task_from_row r)) w
    (\<lambda>u w'. u = Inr () \<and> recv (w_ext w') = f_bytes fl \<and> w_fs w' = w_fs w \<and> task_completed r (w_db w'))"
proof -
  have ne: "f_bytes fl \<noteq> []" using assms(6) by (auto simp: UPLOAD_THRESHOLD_def)
  then show ?thesis
    using assms(1,3-6) start can_run_left [OF assms(2)]
    by (auto simp: upload_ends_simps task_completed_def find_rowD meta [symmetric]
        intro!: ends_steps do_resumable_ends [OF _ _ contract])
qed


text \<open>A server that stores what it is sent and follows the protocol.\<close>

definition store_services :: "bytes services" where
  "store_services = null_services\<lparr>
     sv_resumable_start := \<lambda>c m x. (Inr ''session'', []),
     sv_resumable_chunk := \<lambda>c uri chunk off last_byte file_len x.
       (let x' = x @ chunk
        in (if length x' = file_len then Inr (Complete sample_api_file) else Inr (Incomplete (length x')), x'))\<rparr>"

lemma store_services_contract: "resumable_contract store_services c uri n (\<lambda>x. x) (\<lambda>_. 0)"
proof -
  have "\<exists>k reply x'. sv_resumable_chunk store_services c uri chunk (length x) (length x + length chunk - 1) n x = (reply, x') \<and>
      x' = x @ take k chunk \<and> chunk_answer store_services c uri n (\<lambda>x. x) (\<lambda>_. 0) x reply x'"
    if "chunk \<noteq> []" "length x + length chunk \<le> n" for x chunk
    using that by (intro exI [of _ "length chunk"]) (auto simp: store_services_def Let_def chunk_answer_def)
  then show ?thesis by (simp add: resumable_contract_def)
qed


text \<open>A lost reply to the last chunk loses the upload. When the server has stored the whole file
  but its answer to the chunk fails, the status query reports completion, the code ignores that flag,
  leaves the loop and reports that the upload did not complete.\<close>

theorem resumable_lost_reply:
  assumes "sv_resumable_start sv c meta (w_ext w) = (Inr uri, xs)"
    and "content \<noteq> []" and "length content \<le> UPLOAD_CHUNK_SIZE"
    and "sv_resumable_chunk sv c uri content 0 (length content - 1) (length content) xs = (Inl e, xq)"
    and "sv_resumable_query sv c uri (length content) xq = (Inr (length content, True), xr)"
    and "no_faults w" and "can_run 4 w"
  shows "fst (run_state (do_resumable_upload sv c meta content) w) =
    Inl ''resumable upload loop exited without completion''"
proof -
  have sl: "chunk_slice content 0 (chunk_end 0 (length content)) = content"
    "chunk_end 0 (length content) = length content - 1"
    using chunk_slice_drop [of 0 content] assms(2,3) by (simp_all add: min_def)
  have "ends (do_resumable_upload sv c meta content) w
      (\<lambda>r _. r = Inl ''resumable upload loop exited without completion'')"
    using assms can_run_left [OF assms(7)] sl
    by (auto simp: do_resumable_upload_def remaining_ops_def left_ops_def [symmetric] Let_def
        intro!: ends_ext)
  then show ?thesis by (simp add: ends_def split: prod.splits)
qed

end
