(* ===== verification/Api_Props.thy ===== *)
theory Api_Props
  imports Api_Files Upload_Props
begin

text \<open>
  The HTTP client: every request is bounded in time and number of attempts, transient errors are
  ridden out, an expired token is renewed once, URLs and range headers survive the round trip, and a
  server that keeps the resumable protocol at the level of HTTP makes a large upload succeed.
\<close>

section \<open>The state of the client\<close>

lemma run_send: "run_state (send tp rq) s =
    (fst (tp_send tp rq (ap_net s)), s\<lparr>ap_net := snd (tp_send tp rq (ap_net s)), ap_sent := ap_sent s @ [rq]\<rparr>)"
  by (simp add: send_def split: prod.splits)

lemma run_net: "run_state (net f) s = (fst (f (ap_net s)), s\<lparr>ap_net := snd (f (ap_net s))\<rparr>)"
  by (simp add: net_def split: prod.splits)

definition current_token :: "drive_client \<Rightarrow> 'h api_state \<Rightarrow> string" where
  "current_token c s = (case ap_tokens s (c_token c) of None \<Rightarrow> c_token c | Some t \<Rightarrow> t)"

lemma run_access_token: "run_state (access_token c) s = (current_token c s, s)"
  by (simp add: access_token_def current_token_def)

text \<open>One round of the loop.\<close>

lemma execute_round:
  assumes "tp_send tp (authorize (current_token c s) rq) (ap_net s) = (r, h)"
  shows "run_state (execute tp cfg c accept rq attempt done_refresh) s =
     (let s1 = s\<lparr>ap_net := h, ap_sent := ap_sent s @ [authorize (current_token c s) rq]\<rparr>
      in case r of
           Inl e \<Rightarrow> (Inl e, s1)
         | Inr resp \<Rightarrow>
             if accept (rs_status resp) then (Inr resp, s1)
             else if rs_status resp = 401 \<and> \<not> done_refresh then
               (case run_state (try_refresh tp cfg c) s1 of (healed, s2) \<Rightarrow>
                  if healed then run_state (execute tp cfg c accept rq attempt True) s2
                  else (Inl (api_error tp rq resp), s2))
             else if (rs_status resp = 429 \<or> is_server_error (rs_status resp)) \<and> attempt < CLIENT_MAX_RETRIES then
               run_state (execute tp cfg c accept rq (Suc attempt) done_refresh) (s1\<lparr>ap_slept := ap_slept s1 @ [2 ^ Suc attempt]\<rparr>)
             else (Inl (api_error tp rq resp), s1))"
  by (subst execute.simps)
     (simp add: assms run_access_token run_send sleep_def Let_def split: sum.splits prod.splits)

section \<open>Bounds\<close>

lemma try_refresh_cost:
  assumes "run_state (try_refresh tp cfg c) s = (healed, s')"
  shows "\<exists>sent. ap_sent s' = ap_sent s @ sent \<and> length sent \<le> 1 \<and> list_all (\<lambda>q. rq_url q = TOKEN_ENDPOINT) sent \<and>
    ap_slept s' = ap_slept s"
  using assms
  by (auto simp: try_refresh_def client_refresh_def refresh_access_token_def run_net run_send set_access_token_def token_request_def
      split: option.splits sum.splits if_splits prod.splits)

lemma execute_cost:
  assumes "run_state (execute tp cfg c accept rq attempt refreshed) s = (res, s')" and "attempt \<le> CLIENT_MAX_RETRIES"
  shows "\<exists>sent k. ap_sent s' = ap_sent s @ sent \<and> ap_slept s' = ap_slept s @ map (\<lambda>i. 2 ^ Suc i) [attempt..<attempt + k] \<and>
    attempt + k \<le> CLIENT_MAX_RETRIES \<and> length sent \<le> Suc k + (if refreshed then 0 else 2) \<and>
    list_all (\<lambda>q. (\<exists>t. q = authorize t rq) \<or> rq_url q = TOKEN_ENDPOINT) sent \<and>
    (\<forall>resp. res = Inr resp \<longrightarrow> accept (rs_status resp))"
  (is "?P attempt refreshed s")
  using assms
proof (induction "(CLIENT_MAX_RETRIES - attempt) + (if refreshed then 0 else 1 :: nat)" arbitrary: attempt refreshed s rule: less_induct)
  case less
  let ?q = "authorize (current_token c s) rq"
  obtain r h where snd: "tp_send tp ?q (ap_net s) = (r, h)" by (cases "tp_send tp ?q (ap_net s)")
  let ?s = "s\<lparr>ap_net := h, ap_sent := ap_sent s @ [?q]\<rparr>"
  note run = less.prems(1) [unfolded execute_round [OF snd] Let_def]
  have stop: "?P attempt refreshed s" if "s' = ?s" "\<forall>resp. res = Inr resp \<longrightarrow> accept (rs_status resp)"
    using that less.prems(2) by (intro exI [of _ "[?q]"] exI [of _ 0]) auto
  show ?case
  proof (cases r)
    case (Inl e)
    then show ?thesis using run by (intro stop) auto
  next
    case (Inr resp)
    consider (ok) "accept (rs_status resp)"
      | (auth) "\<not> accept (rs_status resp)" "rs_status resp = 401" "\<not> refreshed"
      | (again) "\<not> accept (rs_status resp)" "\<not> (rs_status resp = 401 \<and> \<not> refreshed)" "attempt < CLIENT_MAX_RETRIES"
          "rs_status resp = 429 \<or> is_server_error (rs_status resp)"
      | (fail) "\<not> accept (rs_status resp)" "\<not> (rs_status resp = 401 \<and> \<not> refreshed)"
          "\<not> ((rs_status resp = 429 \<or> is_server_error (rs_status resp)) \<and> attempt < CLIENT_MAX_RETRIES)"
      by blast
    then show ?thesis
    proof cases
      case ok
      then show ?thesis using run Inr by (intro stop) auto
    next
      case fail
      then show ?thesis using run Inr by (intro stop) auto
    next
      case again
      then have "run_state (execute tp cfg c accept rq (Suc attempt) refreshed) (?s\<lparr>ap_slept := ap_slept ?s @ [2 ^ Suc attempt]\<rparr>) = (res, s')"
        using run Inr by (auto simp del: power_Suc)
      moreover have "(CLIENT_MAX_RETRIES - Suc attempt) + (if refreshed then 0 else 1 :: nat) < (CLIENT_MAX_RETRIES - attempt) + (if refreshed then 0 else 1)"
        using again(3) by simp
      ultimately obtain sent k where
        "ap_sent s' = (ap_sent s @ [?q]) @ sent" "ap_slept s' = (ap_slept s @ [2 ^ Suc attempt]) @ map (\<lambda>i. 2 ^ Suc i) [Suc attempt..<Suc attempt + k]"
        "Suc attempt + k \<le> CLIENT_MAX_RETRIES" "length sent \<le> Suc k + (if refreshed then 0 else 2)"
        "list_all (\<lambda>q. (\<exists>t. q = authorize t rq) \<or> rq_url q = TOKEN_ENDPOINT) sent"
        "\<forall>resp. res = Inr resp \<longrightarrow> accept (rs_status resp)"
        using less.hyps [of "Suc attempt" refreshed] again(3) by fastforce
      then show ?thesis
        by (intro exI [of _ "?q # sent"] exI [of _ "Suc k"]) (auto simp: upt_conv_Cons)
    next
      case auth
      obtain healed s2 where tr: "run_state (try_refresh tp cfg c) ?s = (healed, s2)"
        by (cases "run_state (try_refresh tp cfg c) ?s")
      from try_refresh_cost [OF this] obtain sent where sent: "ap_sent s2 = (ap_sent s @ [?q]) @ sent" "length sent \<le> 1"
        "list_all (\<lambda>q. rq_url q = TOKEN_ENDPOINT) sent" "ap_slept s2 = ap_slept s" by auto
      show ?thesis
      proof (cases healed)
        case False
        then show ?thesis using run Inr auth tr sent less.prems(2)
          by (intro exI [of _ "?q # sent"] exI [of _ 0]) (auto simp: list_all_iff)
      next
        case True
        then have "run_state (execute tp cfg c accept rq attempt True) s2 = (res, s')"
          using run Inr auth tr by auto
        from less.hyps [OF _ this] auth(3) less.prems(2) obtain sent' k where
          "ap_sent s' = ap_sent s2 @ sent'" "ap_slept s' = ap_slept s2 @ map (\<lambda>i. 2 ^ Suc i) [attempt..<attempt + k]"
          "attempt + k \<le> CLIENT_MAX_RETRIES" "length sent' \<le> Suc k"
          "list_all (\<lambda>q. (\<exists>t. q = authorize t rq) \<or> rq_url q = TOKEN_ENDPOINT) sent'"
          "\<forall>resp. res = Inr resp \<longrightarrow> accept (rs_status resp)"
          by auto
        then show ?thesis using sent auth(3)
          by (intro exI [of _ "?q # sent @ sent'"] exI [of _ k]) (auto simp: list_all_iff)
      qed
    qed
  qed
qed

text \<open>A transport that plays back a list of responses, for the witnesses.\<close>

definition script_transport :: "http_response list transport" where
  "script_transport = \<lparr>
     tp_send = (\<lambda>rq rs. case rs of [] \<Rightarrow> (Inl ''connection refused'', []) | r # rest \<Rightarrow> (Inr r, rest)),
     tp_now = (\<lambda>_. 1000),
     tp_keyring_get = (\<lambda>k rs. (Inr (Some ''refresh''), rs)),
     tp_keyring_set = (\<lambda>k v rs. (Inr (), rs)),
     tp_keyring_delete = (\<lambda>k rs. (Inr True, rs)),
     tp_text = map (\<lambda>b. char_of (unat b)),
     tp_bytes = map (\<lambda>ch. word_of_nat (of_char ch)),
     tp_form = (\<lambda>ps. map (\<lambda>ch. word_of_nat (of_char ch)) (concat (map (\<lambda>(k, v). k @ ''='' @ v @ ''&'') ps))),
     tp_file_json = (\<lambda>_. Some \<lparr>g_id = Some ''new'', g_name = None, g_mime_type = None, g_parents = None, g_size = None,
        g_etag = None, g_version = None, g_modified_time = None, g_created_time = None, g_trashed = None,
        g_shared = None, g_md5_checksum = None, g_web_view_link = None\<rparr>),
     tp_file_list_json = (\<lambda>_. None), tp_change_list_json = (\<lambda>_. None), tp_start_token_json = (\<lambda>_. None),
     tp_batch_json = (\<lambda>_. None), tp_about_json = (\<lambda>_. None),
     tp_token_json = (\<lambda>_. Some \<lparr>rt_access_token = ''fresh'', rt_refresh_token = None, rt_expires_in = 3600, rt_token_type = ''Bearer''\<rparr>),
     tp_json_create = (\<lambda>_. []), tp_json_update = (\<lambda>_. []), tp_json_batch = (\<lambda>_. []),
     tp_parse_rfc3339 = (\<lambda>_. None), tp_local_time = (\<lambda>_. [])\<rparr>"

definition reply :: "nat \<Rightarrow> http_response" where
  "reply st = \<lparr>rs_status = st, rs_headers = [], rs_body = [Inr [123, 125]]\<rparr>"

definition script_state :: "http_response list \<Rightarrow> http_response list api_state" where
  "script_state rs = \<lparr>ap_net = rs, ap_tokens = Map.empty, ap_sent = [], ap_slept = []\<rparr>"

definition sample_request :: http_request where
  "sample_request = plain_request ''GET'' ''https://www.googleapis.com/drive/v3/files/f1''"



section \<open>Errors the client recovers from\<close>

text \<open>The network answers with the responses of a list, in order.\<close>

definition scripted :: "'h transport \<Rightarrow> ('h \<Rightarrow> http_response list) \<Rightarrow> bool" where
  "scripted tp script \<longleftrightarrow> (\<forall>rq h resp rest. script h = resp # rest \<longrightarrow>
     (\<exists>h'. tp_send tp rq h = (Inr resp, h') \<and> script h' = rest))"

lemma scriptedD:
  assumes "scripted tp script" and "script h = resp # rest"
  obtains h' where "tp_send tp rq h = (Inr resp, h')" and "script h' = rest"
  using assms unfolding scripted_def by blast

lemma script_transport_scripted: "scripted script_transport (\<lambda>rs. rs)"
  by (simp add: scripted_def script_transport_def)

definition transient :: "nat \<Rightarrow> bool" where
  "transient st \<longleftrightarrow> st = 429 \<or> is_server_error st"

lemma transient_not_401 [simp]: "transient st \<Longrightarrow> st \<noteq> 401"
  by (auto simp: transient_def is_server_error_def)

lemma execute_transient:
  assumes "scripted tp script" and "accept (rs_status resp)"
  shows "script (ap_net s) = fails @ resp # rest \<Longrightarrow> attempt + length fails \<le> CLIENT_MAX_RETRIES \<Longrightarrow>
    list_all (\<lambda>f. transient (rs_status f) \<and> \<not> accept (rs_status f)) fails \<Longrightarrow>
    \<exists>s'. run_state (execute tp cfg c accept rq attempt done_refresh) s = (Inr resp, s') \<and> script (ap_net s') = rest \<and>
      ap_tokens s' = ap_tokens s \<and>
      ap_sent s' = ap_sent s @ replicate (Suc (length fails)) (authorize (current_token c s) rq) \<and>
      ap_slept s' = ap_slept s @ map (\<lambda>i. 2 ^ Suc i) [attempt..<attempt + length fails]"
proof (induction fails arbitrary: s attempt)
  case Nil
  then obtain h' where h': "tp_send tp (authorize (current_token c s) rq) (ap_net s) = (Inr resp, h')" "script h' = rest"
    using scriptedD [OF assms(1)] by (metis append_Nil)
  then show ?case using assms(2) by (simp add: execute_round [OF h'(1)])
next
  case (Cons f fs)
  then obtain h' where h': "tp_send tp (authorize (current_token c s) rq) (ap_net s) = (Inr f, h')" "script h' = fs @ resp # rest"
    using scriptedD [OF assms(1)] by (metis append_Cons)
  let ?s = "s\<lparr>ap_net := h', ap_sent := ap_sent s @ [authorize (current_token c s) rq], ap_slept := ap_slept s @ [2 ^ Suc attempt]\<rparr>"
  have st: "transient (rs_status f)" "\<not> accept (rs_status f)" "attempt < CLIENT_MAX_RETRIES"
    using Cons.prems by auto
  then have run: "run_state (execute tp cfg c accept rq attempt done_refresh) s =
      run_state (execute tp cfg c accept rq (Suc attempt) done_refresh) ?s"
    using transient_not_401 [OF st(1)] by (simp add: execute_round [OF h'(1)] transient_def [symmetric] del: transient_not_401)
  have tok: "current_token c ?s = current_token c s" by (simp add: current_token_def)
  have "\<exists>s'. run_state (execute tp cfg c accept rq (Suc attempt) done_refresh) ?s = (Inr resp, s') \<and> script (ap_net s') = rest \<and>
      ap_tokens s' = ap_tokens ?s \<and>
      ap_sent s' = ap_sent ?s @ replicate (Suc (length fs)) (authorize (current_token c ?s) rq) \<and>
      ap_slept s' = ap_slept ?s @ map (\<lambda>i. 2 ^ Suc i) [Suc attempt..<Suc attempt + length fs]"
    using Cons.prems h'(2) by (intro Cons.IH) auto
  moreover have "[attempt..<attempt + length (f # fs)] = attempt # [Suc attempt..<Suc attempt + length fs]"
    by (simp add: upt_conv_Cons del: upt_Suc)
  ultimately show ?case
    unfolding run tok by (auto simp del: upt_Suc)
qed

text \<open>Transient errors are ridden out. When the server answers up to three times with 429 or 5xx and
  then with an accepted response, the caller gets that response: the very same request was sent
  once per answer, with pauses of 2, 4 and 8 seconds, and the token is unchanged.\<close>

theorem transient_errors_survived:
  assumes "scripted tp script" and "script (ap_net s) = fails @ resp # rest" and "length fails \<le> 3"
    and "list_all (\<lambda>f. transient (rs_status f) \<and> \<not> accept (rs_status f)) fails" and "accept (rs_status resp)"
  shows "\<exists>s'. run_state (execute tp cfg c accept rq 0 False) s = (Inr resp, s') \<and> script (ap_net s') = rest \<and>
    current_token c s' = current_token c s \<and>
    ap_sent s' = ap_sent s @ replicate (Suc (length fails)) (authorize (current_token c s) rq) \<and>
    ap_slept s' = ap_slept s @ map (\<lambda>i. 2 ^ Suc i) [0..<length fails]"
  using execute_transient [OF assms(1,5,2) _ assms(4), of 0] assms(3)
  by (fastforce simp: current_token_def CLIENT_MAX_RETRIES_def)

theorem transient_errors_survived_witness:
  "\<exists>s'. run_state (execute script_transport (''id'', ''secret'') sample_client is_success sample_request 0 False)
      (script_state [reply 503, reply 429, reply 200]) = (Inr (reply 200), s') \<and> ap_net s' = [] \<and>
    ap_sent s' = replicate 3 (authorize ''tok'' sample_request) \<and> ap_slept s' = [2, 4]"
  using transient_errors_survived [OF script_transport_scripted, of "script_state [reply 503, reply 429, reply 200]"
      "[reply 503, reply 429]" "reply 200" "[]" is_success "(''id'', ''secret'')" sample_client sample_request]
  by (auto simp: script_state_def reply_def transient_def is_server_error_def is_success_def current_token_def sample_client_def numeral_3_eq_3)

text \<open>An expired access token is renewed once. When the server answers 401, the client has a
  refresher and the token endpoint issues a new token, the request is sent again with it; later
  requests of this client carry it too.\<close>

theorem expired_token_renewed:
  assumes "scripted tp script" and "script (ap_net s) = [expired, grant, resp] @ rest"
    and "rs_status expired = 401" and "\<not> accept 401" and "is_success (rs_status grant)" and "accept (rs_status resp)"
    and "c_refresher c = Some acct"
    and "\<And>h. fst (tp_keyring_get tp (keyring_account acct) h) = Inr (Some rt) \<and> script (snd (tp_keyring_get tp (keyring_account acct) h)) = script h"
    and "read_json (tp_token_json tp) ''failed to parse token refresh response'' grant = Inr raw" and "rt_refresh_token raw = None"
  shows "\<exists>s'. run_state (execute tp cfg c accept rq 0 False) s = (Inr resp, s') \<and> script (ap_net s') = rest \<and>
    current_token c s' = rt_access_token raw \<and>
    map rq_url (ap_sent s') = map rq_url (ap_sent s) @ [rq_url rq, TOKEN_ENDPOINT, rq_url rq] \<and>
    last (ap_sent s') = authorize (rt_access_token raw) rq"
proof -
  obtain h1 where h1: "tp_send tp (authorize (current_token c s) rq) (ap_net s) = (Inr expired, h1)" "script h1 = [grant, resp] @ rest"
    using scriptedD [OF assms(1), of "ap_net s"] assms(2) by (metis append_Cons)
  define h2 where "h2 = snd (tp_keyring_get tp (keyring_account acct) h1)"
  have h2: "tp_keyring_get tp (keyring_account acct) h1 = (Inr (Some rt), h2)" "script h2 = [grant, resp] @ rest"
    using assms(8) [of h1] h1(2) by (simp_all add: h2_def prod_eq_iff)
  define tq where "tq = token_request tp [(''refresh_token'', rt), (''client_id'', fst cfg), (''client_secret'', snd cfg), (''grant_type'', ''refresh_token'')]"
  obtain h3 where h3: "tp_send tp tq h2 = (Inr grant, h3)" "script h3 = [resp] @ rest"
    using scriptedD [OF assms(1), of h2] h2(2) by (metis append_Cons)
  define s3 where "s3 = s\<lparr>ap_net := h3, ap_sent := ap_sent s @ [authorize (current_token c s) rq, tq],
      ap_tokens := (ap_tokens s)(c_token c \<mapsto> rt_access_token raw)\<rparr>"
  have "run_state (try_refresh tp cfg c) (s\<lparr>ap_net := h1, ap_sent := ap_sent s @ [authorize (current_token c s) rq]\<rparr>) = (True, s3)"
    using assms(5,7,9,10) h2(1) h3(1)
    by (simp add: try_refresh_def client_refresh_def refresh_access_token_def run_net run_send tq_def [symmetric] token_set_from_def
        set_access_token_def s3_def)
  then have run: "run_state (execute tp cfg c accept rq 0 False) s = run_state (execute tp cfg c accept rq 0 True) s3"
    using assms(3,4) by (simp add: execute_round [OF h1(1)])
  have tok: "current_token c s3 = rt_access_token raw" by (simp add: s3_def current_token_def)
  have "script (ap_net s3) = [] @ resp # rest" using h3(2) by (simp add: s3_def)
  from execute_transient [where fails = "[]" and accept = accept, OF assms(1,6) this, of 0] obtain s' where
    "run_state (execute tp cfg c accept rq 0 True) s3 = (Inr resp, s')" "script (ap_net s') = rest"
    "ap_tokens s' = ap_tokens s3" "ap_sent s' = ap_sent s3 @ [authorize (rt_access_token raw) rq]"
    by (fastforce simp: tok)
  then show ?thesis
    unfolding run using tok by (auto simp: s3_def current_token_def authorize_def tq_def token_request_def)
qed

theorem expired_token_renewed_witness:
  "\<exists>s'. run_state (execute script_transport (''id'', ''secret'') (sample_client\<lparr>c_refresher := Some ''alice''\<rparr>) is_success sample_request 0 False)
      (script_state [reply 401, reply 200, reply 204]) = (Inr (reply 204), s') \<and> ap_net s' = [] \<and>
    last (ap_sent s') = authorize ''fresh'' sample_request"
  using expired_token_renewed [OF script_transport_scripted, of "script_state [reply 401, reply 200, reply 204]"
      "reply 401" "reply 200" "reply 204" "[]" is_success "sample_client\<lparr>c_refresher := Some ''alice''\<rparr>" "''alice''" "''refresh''"
      "\<lparr>rt_access_token = ''fresh'', rt_refresh_token = None, rt_expires_in = 3600, rt_token_type = ''Bearer''\<rparr>"
      "(''id'', ''secret'')" sample_request]
  by (auto simp: script_state_def reply_def is_success_def script_transport_def read_json_def)

section \<open>URLs and headers\<close>

lemma url_safe_chars: "url_safe ch \<Longrightarrow> ch \<notin> set ''&?#+ %''"
  by (auto simp: url_safe_def)

lemma hex_val_digit [simp]: "d < 16 \<Longrightarrow> hex_val (hex_digit d) = Some d"
  by (auto simp: hex_digit_def hex_val_def)

lemma hex_digit_clean: "d < 16 \<Longrightarrow> hex_digit d \<notin> set ''&?#+ %=''"
proof -
  assume "d < 16"
  then have "\<exists>v. hex_val (hex_digit d) = Some v" by simp
  moreover have "hex_val ch = None" if "ch \<in> set ''&?#+ %=''" for ch
    using that by (auto simp: hex_val_def)
  ultimately show ?thesis by fastforce
qed

lemma percent_decode_encode: "percent_decode (encode_char ch @ s) = ch # percent_decode s"
proof (cases "url_safe ch")
  case True
  then show ?thesis using url_safe_chars [OF True] by (simp add: encode_char_def)
next
  case False
  have n: "of_char ch div 16 < (16 :: nat)" "of_char ch mod 16 < (16 :: nat)"
    using nat_of_char_less_256 [of ch] by (auto simp: less_mult_imp_div_less)
  show ?thesis
  proof (cases "ch = CHR '' ''")
    case True
    then show ?thesis by (simp add: encode_char_def url_safe_def hex_val_def char_of_def bit_Suc_0_iff)
  next
    case sp: False
    have "char_of (16 * (of_char ch div 16) + of_char ch mod 16 :: nat) = ch" by simp
    then show ?thesis using False sp n by (simp add: encode_char_def Let_def del: mult_div_mod_eq)
  qed
qed

lemma encode_char_clean: "c \<in> set (encode_char ch) \<Longrightarrow> c \<notin> set ''&?#+ ''"
  using nat_of_char_less_256 [of ch] url_safe_chars [of c]
    hex_digit_clean [of "of_char ch div 16"] hex_digit_clean [of "of_char ch mod 16"]
  by (auto simp: encode_char_def Let_def less_mult_imp_div_less split: if_splits)

lemma percent_decode_urlencoding: "percent_decode (urlencoding s) = s"
  by (induction s) (simp_all add: urlencoding_def percent_decode_encode)

lemma urlencoding_clean: "c \<in> set (urlencoding s) \<Longrightarrow> c \<notin> set ''&?#+ ''"
  by (auto simp: urlencoding_def dest: encode_char_clean)

text \<open>How a server reads a query: pieces between ampersands, the value behind the first equals sign.\<close>

definition decode_param :: "string \<Rightarrow> string \<times> string" where
  "decode_param piece = (takeWhile (\<lambda>c. c \<noteq> CHR ''='') piece, percent_decode (tl (dropWhile (\<lambda>c. c \<noteq> CHR ''='') piece)))"

definition decode_query :: "string \<Rightarrow> (string \<times> string) list" where
  "decode_query q = map decode_param (split_on (CHR ''&'') q)"

text \<open>Query parameters survive the trip. A server that splits the query string the client builds
  gets exactly the parameters back, whatever bytes the values hold; a value cannot add a parameter
  or end the query.\<close>

theorem query_round_trip:
  assumes "params \<noteq> []" and "\<And>k v. (k, v) \<in> set params \<Longrightarrow> CHR ''='' \<notin> set k \<and> CHR ''&'' \<notin> set k"
  shows "decode_query (query_string params) = params \<and> CHR ''#'' \<notin> set (urlencoding v) \<and> percent_decode (urlencoding v) = v"
proof -
  let ?piece = "\<lambda>(k, v). k @ ''='' @ urlencoding v"
  have "split_on (CHR ''&'') (query_string params) = map ?piece params"
    unfolding query_string_def using assms urlencoding_clean
    by (intro split_join_with) fastforce+
  moreover have "decode_param (k @ ''='' @ urlencoding v) = (k, v)" if "(k, v) \<in> set params" for k v
  proof -
    have "\<forall>c \<in> set k. c \<noteq> CHR ''=''" using assms(2) [OF that] by auto
    then show ?thesis
      by (simp add: decode_param_def takeWhile_append2 dropWhile_append2 percent_decode_urlencoding)
  qed
  then have "map (decode_param \<circ> ?piece) params = params"
    by (auto intro!: map_idI)
  ultimately show ?thesis
    using urlencoding_clean [of "CHR ''#''" v] by (auto simp: decode_query_def percent_decode_urlencoding)
qed

theorem query_round_trip_witness:
  "decode_query (query_string [(''q'', ''name = 'a&b' #1''), (''pageSize'', ''1000'')]) = [(''q'', ''name = 'a&b' #1''), (''pageSize'', ''1000'')]"
  by (rule conjunct1 [OF query_round_trip]) auto

lemma header_to_str_nat: "header_to_str (''bytes=0-'' @ show_nat n) = Some (''bytes=0-'' @ show_nat n)"
proof -
  have "48 \<le> (of_char c :: nat) \<and> of_char c \<le> (57 :: nat)" if "c \<in> set (show_nat n)" for c
    using show_nat_digits [OF that] by (simp add: digit_val_def Let_def split: if_splits)
  then show ?thesis by (fastforce simp: header_to_str_def list_all_iff Let_def)
qed

lemma parse_range_header_names:
  assumes "get_header ''Range'' resp = Some (''bytes=0-'' @ show_nat n)" and "n + 1 < 2 ^ 64"
  shows "parse_range_header resp = Some (n + 1)"
proof -
  have "split_on (CHR ''-'') (CHR ''0'' # CHR ''-'' # show_nat n) = [''0'', show_nat n]"
    using split_on_app [of "CHR ''-''" "''0''" "show_nat n"] by (simp add: split_on_free)
  moreover have "n < 2 ^ 64" using assms(2) by linarith
  ultimately show ?thesis
    using assms by (simp add: parse_range_header_def header_to_str_nat [simplified])
qed

section \<open>Resumable uploads over HTTP\<close>

definition chunk_request :: "string \<Rightarrow> bytes \<Rightarrow> nat \<Rightarrow> nat \<Rightarrow> http_request" where
  "chunk_request uri chunk off n = \<lparr>rq_method = ''PUT'', rq_url = uri,
     rq_headers = [(''Content-Range'', ''bytes '' @ show_nat off @ ''-'' @ show_nat (off + length chunk - 1) @ ''/'' @ show_nat n)],
     rq_body = chunk, rq_follow = False\<rparr>"

definition query_request :: "string \<Rightarrow> nat \<Rightarrow> http_request" where
  "query_request uri n = \<lparr>rq_method = ''PUT'', rq_url = uri, rq_headers = [(''Content-Range'', ''bytes */'' @ show_nat n)],
     rq_body = [], rq_follow = False\<rparr>"

text \<open>The Range header names the stored prefix; it is absent while nothing is stored.\<close>

definition range_names :: "http_response \<Rightarrow> nat \<Rightarrow> bool" where
  "range_names resp m \<longleftrightarrow> get_header ''Range'' resp = (if m = 0 then None else Some (''bytes=0-'' @ show_nat (m - 1)))"

text \<open>
  A server that follows the protocol: it answers a chunk sent at the stored length with 429 or 5xx and
  stores nothing, which happens a bounded number of times, or stores a prefix of it; then it
  names the new length with 308, or ends with 200 or 201 and the metadata of the file.
\<close>

definition chunk_reply :: "'h transport \<Rightarrow> nat \<Rightarrow> ('h \<Rightarrow> bytes) \<Rightarrow> ('h \<Rightarrow> nat) \<Rightarrow> bytes \<Rightarrow> 'h \<Rightarrow> http_response \<Rightarrow> 'h \<Rightarrow> bool" where
  "chunk_reply tp n recv busy chunk h resp h' \<longleftrightarrow>
     (\<exists>k. recv h' = recv h @ take k chunk \<and> busy h' \<le> busy h \<and>
        (if length (recv h') = n
         then (rs_status resp = 200 \<or> rs_status resp = 201) \<and> (\<exists>bs f. rs_body resp = [Inr bs] \<and> tp_file_json tp bs = Some f)
         else length (recv h) < length (recv h') \<and> rs_status resp = 308 \<and> range_names resp (length (recv h'))))"

definition http_resumable :: "'h transport \<Rightarrow> string \<Rightarrow> nat \<Rightarrow> ('h \<Rightarrow> bytes) \<Rightarrow> ('h \<Rightarrow> nat) \<Rightarrow> bool" where
  "http_resumable tp uri n recv busy \<longleftrightarrow>
     (\<forall>t h chunk. chunk \<noteq> [] \<longrightarrow> length (recv h) + length chunk \<le> n \<longrightarrow>
        (\<exists>resp h'. tp_send tp (authorize t (chunk_request uri chunk (length (recv h)) n)) h = (Inr resp, h') \<and>
           (chunk_reply tp n recv busy chunk h resp h' \<or>
            transient (rs_status resp) \<and> recv h' = recv h \<and> busy h' < busy h))) \<and>
     (\<forall>t h. length (recv h) < n \<longrightarrow>
        (\<exists>resp h'. tp_send tp (authorize t (query_request uri n)) h = (Inr resp, h') \<and> rs_status resp = 308 \<and>
           range_names resp (length (recv h)) \<and> recv h' = recv h \<and> busy h' = busy h))"

lemma http_chunkD:
  assumes "http_resumable tp uri n recv busy" and "chunk \<noteq> []" and "length (recv h) + length chunk \<le> n"
  obtains resp h' where "tp_send tp (authorize t (chunk_request uri chunk (length (recv h)) n)) h = (Inr resp, h')"
    and "chunk_reply tp n recv busy chunk h resp h' \<or> transient (rs_status resp) \<and> recv h' = recv h \<and> busy h' < busy h"
  using assms unfolding http_resumable_def by blast

lemma http_queryD:
  assumes "http_resumable tp uri n recv busy" and "length (recv h) < n"
  obtains resp h' where "tp_send tp (authorize t (query_request uri n)) h = (Inr resp, h')" and "rs_status resp = 308"
    and "range_names resp (length (recv h))" and "recv h' = recv h" and "busy h' = busy h"
  using assms unfolding http_resumable_def by blast

abbreviation put_accept :: "nat \<Rightarrow> bool" where
  "put_accept \<equiv> \<lambda>st. is_success st \<or> st = 308"

lemma execute_chunk:
  assumes "http_resumable tp uri n recv busy" and "chunk \<noteq> []"
  shows "off = length (recv (ap_net s)) \<Longrightarrow> off + length chunk \<le> n \<Longrightarrow>
    \<exists>res s'. run_state (execute tp cfg c put_accept (chunk_request uri chunk off n) attempt False) s = (res, s') \<and>
      (case res of
         Inl e \<Rightarrow> recv (ap_net s') = recv (ap_net s) \<and> busy (ap_net s') < busy (ap_net s)
       | Inr resp \<Rightarrow> \<exists>h. recv h = recv (ap_net s) \<and> busy h \<le> busy (ap_net s) \<and> chunk_reply tp n recv busy chunk h resp (ap_net s'))"
proof (induction "CLIENT_MAX_RETRIES - attempt" arbitrary: attempt s rule: less_induct)
  case less
  let ?rq = "chunk_request uri chunk off n"
  obtain resp h' where snd: "tp_send tp (authorize (current_token c s) ?rq) (ap_net s) = (Inr resp, h')"
    and ans: "chunk_reply tp n recv busy chunk (ap_net s) resp h' \<or>
      transient (rs_status resp) \<and> recv h' = recv (ap_net s) \<and> busy h' < busy (ap_net s)"
    using http_chunkD [OF assms, of "ap_net s" "current_token c s"] less.prems by metis
  note run = execute_round [OF snd, of cfg put_accept attempt False]
  show ?case
  proof (cases "chunk_reply tp n recv busy chunk (ap_net s) resp h'")
    case True
    then have "put_accept (rs_status resp)" by (auto simp: chunk_reply_def is_success_def split: if_splits)
    then show ?thesis using True by (auto simp: run Let_def)
  next
    case False
    then have tr: "transient (rs_status resp)" "recv h' = recv (ap_net s)" "busy h' < busy (ap_net s)" using ans by auto
    then have st: "rs_status resp = 429 \<or> is_server_error (rs_status resp)" "\<not> put_accept (rs_status resp)" "rs_status resp \<noteq> 401"
      by (auto simp: transient_def is_success_def is_server_error_def)
    show ?thesis
    proof (cases "attempt < CLIENT_MAX_RETRIES")
      case True
      let ?s = "s\<lparr>ap_net := h', ap_sent := ap_sent s @ [authorize (current_token c s) ?rq], ap_slept := ap_slept s @ [2 ^ Suc attempt]\<rparr>"
      have "run_state (execute tp cfg c put_accept ?rq attempt False) s = run_state (execute tp cfg c put_accept ?rq (Suc attempt) False) ?s"
        using st True by (simp add: run Let_def)
      moreover have dec: "CLIENT_MAX_RETRIES - Suc attempt < CLIENT_MAX_RETRIES - attempt" using True by simp
      have "off = length (recv (ap_net ?s))" using tr less.prems by simp
      note less.hyps [OF dec this less.prems(2)]
      then obtain res s' where
        "run_state (execute tp cfg c put_accept ?rq (Suc attempt) False) ?s = (res, s')"
        and "case res of Inl e \<Rightarrow> recv (ap_net s') = recv (ap_net ?s) \<and> busy (ap_net s') < busy (ap_net ?s)
           | Inr resp \<Rightarrow> \<exists>h. recv h = recv (ap_net ?s) \<and> busy h \<le> busy (ap_net ?s) \<and> chunk_reply tp n recv busy chunk h resp (ap_net s')"
        by blast
      ultimately show ?thesis
        using tr by (intro exI [of _ res] exI [of _ s']) (auto split: sum.splits)
    next
      case False
      then show ?thesis using st tr by (simp add: run Let_def)
    qed
  qed
qed

lemma run_chunk:
  assumes "run_state (execute tp cfg c put_accept (chunk_request uri chunk off n) 0 False) s = (res, s')"
  shows "run_state (files_upload_resumable_chunk tp cfg c uri chunk off (off + length chunk - 1) n) s =
    (case res of
       Inl e \<Rightarrow> Inl e
     | Inr resp \<Rightarrow>
         if rs_status resp = 200 \<or> rs_status resp = 201
         then (case read_json (tp_file_json tp) ''failed to deserialise completed upload response'' resp of
                 Inl e \<Rightarrow> Inl e | Inr f \<Rightarrow> Inr (Complete f))
         else if rs_status resp = 308
         then Inr (Incomplete (case parse_range_header resp of None \<Rightarrow> off + length chunk - 1 + 1 | Some m \<Rightarrow> m))
         else Inl (unexpected_status tp ''resumable upload chunk PUT'' resp), s')"
  using assms unfolding files_upload_resumable_chunk_def put_raw_no_redirect_def execute_raw_no_redirect_def chunk_request_def
  by (simp split: sum.splits del: One_nat_def)

lemma http_chunk:
  assumes "http_resumable tp uri n recv busy" and "n < 2 ^ 64" and "chunk \<noteq> []" and "length (recv (ap_net s)) + length chunk \<le> n"
  shows "\<exists>k reply s'. run_state (files_upload_resumable_chunk tp cfg c uri chunk (length (recv (ap_net s)))
        (length (recv (ap_net s)) + length chunk - 1) n) s = (reply, s') \<and>
      recv (ap_net s') = recv (ap_net s) @ take k chunk \<and>
      (case reply of
         Inr (Complete f) \<Rightarrow> length (recv (ap_net s')) = n
       | Inr (Incomplete m) \<Rightarrow> m = length (recv (ap_net s')) \<and> length (recv (ap_net s)) < m \<and> m < n \<and> busy (ap_net s') \<le> busy (ap_net s)
       | Inl e \<Rightarrow> recv (ap_net s') = recv (ap_net s) \<and> busy (ap_net s') < busy (ap_net s))"
proof -
  let ?off = "length (recv (ap_net s))"
  obtain res s' where ex: "run_state (execute tp cfg c put_accept (chunk_request uri chunk ?off n) 0 False) s = (res, s')"
    and ans: "case res of Inl e \<Rightarrow> recv (ap_net s') = recv (ap_net s) \<and> busy (ap_net s') < busy (ap_net s)
       | Inr resp \<Rightarrow> \<exists>h. recv h = recv (ap_net s) \<and> busy h \<le> busy (ap_net s) \<and> chunk_reply tp n recv busy chunk h resp (ap_net s')"
    using execute_chunk [OF assms(1,3) refl assms(4), of cfg c 0] by blast
  note run = run_chunk [OF ex]
  show ?thesis
  proof (cases res)
    case (Inl e)
    then show ?thesis using ans by (intro exI [of _ 0]) (simp add: run del: One_nat_def)
  next
    case (Inr resp)
    then obtain h0 where h0: "recv h0 = recv (ap_net s)" "busy h0 \<le> busy (ap_net s)" "chunk_reply tp n recv busy chunk h0 resp (ap_net s')"
      using ans by auto
    from h0(3) obtain k where "recv (ap_net s') = recv h0 @ take k chunk" and le: "busy (ap_net s') \<le> busy h0"
      and "if length (recv (ap_net s')) = n
         then (rs_status resp = 200 \<or> rs_status resp = 201) \<and> (\<exists>bs f. rs_body resp = [Inr bs] \<and> tp_file_json tp bs = Some f)
         else length (recv h0) < length (recv (ap_net s')) \<and> rs_status resp = 308 \<and> range_names resp (length (recv (ap_net s')))"
      unfolding chunk_reply_def by blast
    note h = this(1) [unfolded h0(1)] order.trans [OF le h0(2)] and rep = this(3) [unfolded h0(1)]
    show ?thesis
    proof (cases "length (recv (ap_net s')) = n")
      case True
      then show ?thesis using rep h Inr by (intro exI [of _ k]) (auto simp: run read_json_def simp del: One_nat_def)
    next
      case False
      let ?m = "length (recv (ap_net s'))"
      have m: "?off < ?m" "rs_status resp = 308" "range_names resp ?m" using rep False by auto
      have le: "?m \<le> ?off + length chunk" using h(1) by simp
      then have lt: "?m < n" using False assms(4) by linarith
      have "get_header ''Range'' resp = Some (''bytes=0-'' @ show_nat (?m - 1))"
        using m unfolding range_names_def by auto
      then have "parse_range_header resp = Some ?m"
        using parse_range_header_names [of resp "?m - 1"] m(1) lt assms(2) by simp
      then show ?thesis using m h lt Inr by (intro exI [of _ k]) (auto simp: run simp del: One_nat_def)
    qed
  qed
qed

lemma http_query:
  assumes "http_resumable tp uri n recv busy" and "n < 2 ^ 64" and "length (recv (ap_net s)) < n"
  shows "\<exists>s'. run_state (files_upload_resumable_query tp cfg c uri n) s = (Inr (length (recv (ap_net s)), False), s') \<and>
    recv (ap_net s') = recv (ap_net s) \<and> busy (ap_net s') = busy (ap_net s)"
proof -
  let ?m = "length (recv (ap_net s))"
  obtain resp h' where q: "tp_send tp (authorize (current_token c s) (query_request uri n)) (ap_net s) = (Inr resp, h')"
    and st: "rs_status resp = 308" and rg: "range_names resp ?m" and same: "recv h' = recv (ap_net s)" "busy h' = busy (ap_net s)"
    using http_queryD [OF assms(1,3)] by blast
  have "(case parse_range_header resp of None \<Rightarrow> 0 | Some v \<Rightarrow> v) = ?m"
  proof (cases "?m = 0")
    case True
    then show ?thesis using rg by (simp add: range_names_def parse_range_header_def)
  next
    case False
    then have "get_header ''Range'' resp = Some (''bytes=0-'' @ show_nat (?m - 1))"
      using rg unfolding range_names_def by auto
    then show ?thesis using parse_range_header_names [of resp "?m - 1"] False assms(2,3) by simp
  qed
  moreover have "run_state (execute tp cfg c put_accept (query_request uri n) 0 False) s =
      (Inr resp, s\<lparr>ap_net := h', ap_sent := ap_sent s @ [authorize (current_token c s) (query_request uri n)]\<rparr>)"
    using st by (simp add: execute_round [OF q])
  ultimately show ?thesis
    using st same unfolding files_upload_resumable_query_def put_raw_no_redirect_def execute_raw_no_redirect_def query_request_def
    by simp
qed

lemma http_contract:
  assumes "http_resumable tp uri n recv busy" and "n < 2 ^ 64"
  shows "resumable_contract (api_services tp cfg) c uri n (\<lambda>x. recv (ap_net x)) (\<lambda>x. busy (ap_net x))"
  unfolding resumable_contract_def
proof (intro allI impI)
  fix x :: "'a api_state" and chunk :: bytes
  assume ch: "chunk \<noteq> []" "length (recv (ap_net x)) + length chunk \<le> n"
  then have pos: "0 < length chunk" by simp
  from http_chunk [OF assms ch, of cfg c] obtain k reply x' where
    run: "run_state (files_upload_resumable_chunk tp cfg c uri chunk (length (recv (ap_net x)))
        (length (recv (ap_net x)) + length chunk - 1) n) x = (reply, x')"
    and rec: "recv (ap_net x') = recv (ap_net x) @ take k chunk"
    and ans: "case reply of
         Inr (Complete f) \<Rightarrow> length (recv (ap_net x')) = n
       | Inr (Incomplete m) \<Rightarrow> m = length (recv (ap_net x')) \<and> length (recv (ap_net x)) < m \<and> m < n \<and> busy (ap_net x') \<le> busy (ap_net x)
       | Inl e \<Rightarrow> recv (ap_net x') = recv (ap_net x) \<and> busy (ap_net x') < busy (ap_net x)"
    by blast
  have "chunk_answer (api_services tp cfg) c uri n (\<lambda>x. recv (ap_net x)) (\<lambda>x. busy (ap_net x)) x reply x'"
  proof (cases reply)
    case (Inl e)
    then have "length (recv (ap_net x')) < n" using ans ch(2) pos by (simp del: length_greater_0_conv)
    then show ?thesis
      using http_query [OF assms, of x' cfg c] Inl ans by (auto simp: chunk_answer_def api_services_def)
  qed (use ans in \<open>simp add: chunk_answer_def\<close>)
  then show "\<exists>k reply x'. sv_resumable_chunk (api_services tp cfg) c uri chunk (length (recv (ap_net x)))
      (length (recv (ap_net x)) + length chunk - 1) n x = (reply, x') \<and>
    recv (ap_net x') = recv (ap_net x) @ take k chunk \<and>
    chunk_answer (api_services tp cfg) c uri n (\<lambda>x. recv (ap_net x)) (\<lambda>x. busy (ap_net x)) x reply x'"
    using run rec by (auto simp: api_services_def)
qed

text \<open>C28: a large upload over HTTP transfers the whole file. The upload task of the daemon, running on
  the HTTP client and a server that follows Google's resumable protocol at the level of statuses and
  Range headers, ends with every byte of the file stored in order and the task completed, although chunks
  may be stored in part and the server may answer 429 or 5xx a bounded number of times.\<close>

theorem http_upload_delivers:
  assumes "no_faults w" and "can_run (2 * (length (f_bytes fl) + busy (ap_net sess)) + 5) w"
    and "queue_row (q_id r) (w_db w) = Some r" and "q_local_path r = Some p"
    and "fs_files (w_fs w) p = Some fl" and "UPLOAD_THRESHOLD \<le> length (f_bytes fl)" and "length (f_bytes fl) < 2 ^ 64"
    and start: "run_state (files_upload_resumable_start tp cfg c
        \<lparr>m_name = upload_file_name p, m_mime_type = uploader_guess_mime p, m_parents = None\<rparr>) (w_ext w) = (Inr uri, sess)"
    and "recv (ap_net sess) = []" and server: "http_resumable tp uri (length (f_bytes fl)) recv busy"
  shows "\<exists>w'. run_state (upload_file (api_services tp cfg) c (task_from_row r)) w = (Inr (), w') \<and>
    recv (ap_net (w_ext w')) = f_bytes fl \<and> w_fs w' = w_fs w \<and> task_completed r (w_db w')"
proof -
  have "sv_resumable_start (api_services tp cfg) c
      \<lparr>m_name = upload_file_name p, m_mime_type = uploader_guess_mime p, m_parents = None\<rparr> (w_ext w) = (Inr uri, sess)"
    using start by (simp add: api_services_def)
  then show ?thesis
    using large_upload_ends [OF assms(1) _ assms(3-6) refl _ _ http_contract [OF server assms(7), of cfg c]] assms(2,9)
    by (auto simp: ends_run)
qed

text \<open>A server that stores everything it is sent.\<close>

definition range_reply :: "nat \<Rightarrow> http_response" where
  "range_reply m = \<lparr>rs_status = 308, rs_headers = (if m = 0 then [] else [(''Range'', ''bytes=0-'' @ show_nat (m - 1))]), rs_body = []\<rparr>"

definition store_send :: "nat \<Rightarrow> http_request \<Rightarrow> bytes \<Rightarrow> http_response result \<times> bytes" where
  "store_send n rq h =
     (if rq_method rq = ''POST'' then (Inr \<lparr>rs_status = 200, rs_headers = [(''Location'', ''session'')], rs_body = []\<rparr>, [])
      else let h' = h @ rq_body rq
           in (Inr (if rq_body rq \<noteq> [] \<and> length h' = n then reply 200 else range_reply (length h')), h'))"

definition store_transport :: "nat \<Rightarrow> bytes transport" where
  "store_transport n = \<lparr>
     tp_send = store_send n, tp_now = (\<lambda>_. 0), tp_keyring_get = (\<lambda>k h. (Inr None, h)), tp_keyring_set = (\<lambda>k v h. (Inr (), h)),
     tp_keyring_delete = (\<lambda>k h. (Inr True, h)), tp_text = (\<lambda>_. []), tp_bytes = (\<lambda>_. []), tp_form = (\<lambda>_. []),
     tp_file_json = tp_file_json script_transport,
     tp_file_list_json = (\<lambda>_. None), tp_change_list_json = (\<lambda>_. None), tp_start_token_json = (\<lambda>_. None),
     tp_batch_json = (\<lambda>_. None), tp_about_json = (\<lambda>_. None), tp_token_json = (\<lambda>_. None),
     tp_json_create = (\<lambda>_. []), tp_json_update = (\<lambda>_. []), tp_json_batch = (\<lambda>_. []),
     tp_parse_rfc3339 = (\<lambda>_. None), tp_local_time = (\<lambda>_. [])\<rparr>"

lemma range_reply_names: "rs_status (range_reply m) = 308" "range_names (range_reply m) m"
  by (simp_all add: range_reply_def range_names_def get_header_def)

lemma store_resumable: "http_resumable (store_transport n) uri n (\<lambda>h. h) (\<lambda>_. 0)"
proof -
  have "chunk_reply (store_transport n) n (\<lambda>h. h) (\<lambda>_. 0) chunk h
      (if length (h @ chunk) = n then reply 200 else range_reply (length (h @ chunk))) (h @ chunk)" if "chunk \<noteq> []" for h chunk
    unfolding chunk_reply_def
    by (rule exI [of _ "length chunk"])
       (use that range_reply_names [of "length (h @ chunk)"] in \<open>auto simp: reply_def store_transport_def script_transport_def\<close>)
  then show ?thesis
    using range_reply_names
    by (auto simp: http_resumable_def store_transport_def store_send_def authorize_def chunk_request_def query_request_def Let_def)
qed

definition store_state :: "bytes api_state" where
  "store_state = \<lparr>ap_net = [], ap_tokens = Map.empty, ap_sent = [], ap_slept = []\<rparr>"

theorem http_upload_delivers_witness:
  "\<exists>w'. run_state (upload_file (api_services (store_transport 6000000) (''id'', ''secret'')) sample_client (task_from_row upload_row))
      (sample_world (replicate 6000000 7) 12000005 store_state) = (Inr (), w') \<and>
    ap_net (w_ext w') = replicate 6000000 7 \<and> task_completed upload_row (w_db w')"
proof -
  let ?w = "sample_world (replicate 6000000 7) 12000005 store_state"
  let ?fl = "\<lparr>f_bytes = replicate 6000000 7, f_mtime = Some 20\<rparr>"
  let ?meta = "\<lparr>m_name = upload_file_name ''/home/notes.txt'', m_mime_type = uploader_guess_mime ''/home/notes.txt'', m_parents = None\<rparr>"
  let ?tp = "store_transport 6000000"
  let ?start = "run_state (files_upload_resumable_start ?tp (''id'', ''secret'') sample_client ?meta) store_state"
  have snd: "tp_send ?tp (authorize t \<lparr>rq_method = ''POST'', rq_url = u, rq_headers = hs, rq_body = b, rq_follow = f\<rparr>) h =
      (Inr \<lparr>rs_status = 200, rs_headers = [(''Location'', ''session'')], rs_body = []\<rparr>, [])" for t u hs b f h
    by (simp add: store_transport_def store_send_def authorize_def)
  have "fst ?start = Inr ''session'' \<and> ap_net (snd ?start) = []"
    by (simp add: files_upload_resumable_start_def post_raw_def execute_raw_def execute_round [OF snd] is_success_def get_header_def
        header_to_str_def)
  then obtain sess where sess: "?start = (Inr ''session'', sess)" "ap_net sess = []" by (cases ?start) auto
  have "\<exists>w'. run_state (upload_file (api_services ?tp (''id'', ''secret'')) sample_client (task_from_row upload_row)) ?w = (Inr (), w') \<and>
      ap_net (w_ext w') = replicate 6000000 7 \<and> w_fs w' = w_fs ?w \<and> task_completed upload_row (w_db w')"
    using http_upload_delivers [where w = ?w and r = upload_row and p = "''/home/notes.txt''" and fl = ?fl and busy = "\<lambda>_. 0" and sess = sess
        and recv = "\<lambda>h. h" and tp = ?tp and cfg = "(''id'', ''secret'')" and c = sample_client and uri = "''session''"]
      sess store_resumable [of 6000000 "''session''"]
    by (simp add: queue_row_def upload_row_def sample_fs_def UPLOAD_THRESHOLD_def)
  then show ?thesis by blast
qed

section \<open>Etags\<close>

fun mentions :: "string \<Rightarrow> string \<Rightarrow> bool" where
  "mentions word [] = (word = [])"
| "mentions word (ch # s) = (starts_with word (ch # s) \<or> mentions word s)"



end
