(* ===== verification/Download_Props.thy ===== *)
theory Download_Props
  imports Outcomes
begin

text \<open>
  Downloads: in every run, whatever fails and wherever the daemon is killed, the target path holds
  either what it held before or the complete body the service delivered.
\<close>

definition same_except :: "string \<Rightarrow> filesystem \<Rightarrow> filesystem \<Rightarrow> bool" where
  "same_except tmp s s' \<longleftrightarrow> (\<forall>q. q \<noteq> tmp \<longrightarrow> fs_files s' q = fs_files s q)"

lemma same_except_refl [simp]: "same_except tmp s s"
  by (simp add: same_except_def)

lemma same_except_trans: "same_except tmp s s' \<Longrightarrow> same_except tmp s' s'' \<Longrightarrow> same_except tmp s s''"
  by (simp add: same_except_def)

lemma same_except_upd [simp]:
  "same_except tmp s (s'\<lparr>fs_files := (fs_files s')(tmp := v)\<rparr>) = same_except tmp s s'"
  by (simp add: same_except_def)

lemma same_except_dirs [simp]: "same_except tmp s (s'\<lparr>fs_dirs := d\<rparr>) = same_except tmp s s'"
  by (simp add: same_except_def)

lemma same_exceptD: "same_except tmp s s' \<Longrightarrow> q \<noteq> tmp \<Longrightarrow> fs_files s' q = fs_files s q"
  by (simp add: same_except_def)

lemma tmp_path_neq [simp]: "tmp_path p \<noteq> p" "p \<noteq> tmp_path p"
  by (simp_all add: tmp_path_def)

lemma ends_write_stream:
  assumes "fs_files (w_fs w) tmp = Some f"
    and "\<And>e w'. same_except tmp (w_fs w) (w_fs w') \<Longrightarrow> w_ext w' = w_ext w \<Longrightarrow> Q (Inl e) w'"
    and "\<And>w' chunks f'. body = map Inr chunks \<Longrightarrow> same_except tmp (w_fs w) (w_fs w') \<Longrightarrow> w_ext w' = w_ext w \<Longrightarrow>
      fs_files (w_fs w') tmp = Some f' \<Longrightarrow> f_bytes f' = f_bytes f @ concat chunks \<Longrightarrow> Q (Inr ()) w'"
  shows "ends (write_stream tmp body) w Q"
  using assms
proof (induction body arbitrary: w f)
  case Nil
  then show ?case
    by (auto simp: fs_flush_def intro!: ends_fs_any)
next
  case (Cons ch body)
  show ?case
  proof (cases ch)
    case (Inl e)
    then show ?thesis using Cons.prems(2) [of w] by simp
  next
    case (Inr bs)
    have "ends (write_stream tmp body) w' Q"
      if w': "w_fs w' = (w_fs w)\<lparr>fs_files := (fs_files (w_fs w))(tmp \<mapsto> \<lparr>f_bytes = f_bytes f @ bs, f_mtime = Some t\<rparr>)\<rparr>"
        "w_ext w' = w_ext w" for w' t
    proof (rule Cons.IH [of w' "\<lparr>f_bytes = f_bytes f @ bs, f_mtime = Some t\<rparr>"])
      show "fs_files (w_fs w') tmp = Some \<lparr>f_bytes = f_bytes f @ bs, f_mtime = Some t\<rparr>" using w' by simp
      show "Q (Inl e) w''" if "same_except tmp (w_fs w') (w_fs w'')" "w_ext w'' = w_ext w'" for e w''
        using that w' by (intro Cons.prems(2)) (simp_all add: same_except_def)
      show "Q (Inr ()) w''" if "body = map Inr chunks" "same_except tmp (w_fs w') (w_fs w'')" "w_ext w'' = w_ext w'"
         "fs_files (w_fs w'') tmp = Some f'" "f_bytes f' = f_bytes \<lparr>f_bytes = f_bytes f @ bs, f_mtime = Some t\<rparr> @ concat chunks"
         for w'' chunks f'
        using that w' Inr by (intro Cons.prems(3) [of "bs # chunks" _ f']) (simp_all add: same_except_def)
    qed
    then show ?thesis
      using Inr Cons.prems(1,2) by (auto simp: fs_append_def intro!: ends_fs_any)
  qed
qed

text \<open>Fetching a body into a temporary file: \<open>fetch\<close> is the service call.\<close>

definition fetch_to :: "('x \<Rightarrow> bytes result list result \<times> 'x) \<Rightarrow> string \<Rightarrow> ('x world, unit result) state" where
  "fetch_to fetch tmp = tryE (ext_call fetch) (\<lambda>body. tryE (fs_create tmp) (\<lambda>_. write_stream tmp body))"

lemma fetch_to_folds:
  "do_download sv c i tmp = fetch_to (sv_files_download sv c i) tmp"
  "do_export sv c i m tmp = fetch_to (sv_files_export sv c i m) tmp"
  by (simp_all add: do_download_def do_export_def fetch_to_def)

lemma ends_fetch_to:
  assumes "\<And>e w'. same_except tmp (w_fs w) (w_fs w') \<Longrightarrow> Q (Inl e) w'"
    and "\<And>w' chunks f. fst (fetch (w_ext w)) = Inr (map Inr chunks) \<Longrightarrow> same_except tmp (w_fs w) (w_fs w') \<Longrightarrow>
      w_ext w' = snd (fetch (w_ext w)) \<Longrightarrow> fs_files (w_fs w') tmp = Some f \<Longrightarrow> f_bytes f = concat chunks \<Longrightarrow> Q (Inr ()) w'"
  shows "ends (fetch_to fetch tmp) w Q"
proof -
  have written: "ends (write_stream tmp body) w' Q"
    if "fst (fetch (w_ext w)) = Inr body" "w_ext w' = snd (fetch (w_ext w))"
      "w_fs w' = (w_fs w)\<lparr>fs_files := (fs_files (w_fs w))(tmp \<mapsto> \<lparr>f_bytes = [], f_mtime = Some t\<rparr>)\<rparr>" for body w' t
    using that assms by (intro ends_write_stream [where f = "\<lparr>f_bytes = [], f_mtime = Some t\<rparr>"]) (auto simp: same_except_def)
  show ?thesis
    using assms(1) written unfolding fetch_to_def
    by (auto intro!: ends_ext_any ends_fs_create_any split: sum.splits)
qed

lemma ends_ensure_parent:
  assumes "\<And>r w'. fs_files (w_fs w') = fs_files (w_fs w) \<Longrightarrow> w_ext w' = w_ext w \<Longrightarrow> Q r w'"
  shows "ends (ensure_parent p) w Q"
  using assms by (auto simp: ensure_parent_def intro!: ends_fs_create_dir_any split: option.splits)

text \<open>The bytes of a body the service delivered in full, as a download or as an export.\<close>

definition complete_body :: "'x services \<Rightarrow> drive_client \<Rightarrow> string \<Rightarrow> 'x \<Rightarrow> bytes \<Rightarrow> bool" where
  "complete_body sv c i x bs \<longleftrightarrow> (\<exists>chunks. bs = concat chunks \<and>
     (fst (sv_files_download sv c i x) = Inr (map Inr chunks) \<or>
      (\<exists>m. fst (sv_files_export sv c i m x) = Inr (map Inr chunks))))"

lemma complete_bodyI:
  "fst (sv_files_download sv c i x) = Inr (map Inr chunks) \<Longrightarrow> complete_body sv c i x (concat chunks)"
  "fst (sv_files_export sv c i m x) = Inr (map Inr chunks) \<Longrightarrow> complete_body sv c i x (concat chunks)"
  by (auto simp: complete_body_def)

text \<open>C14: downloads are atomic. In every run of a download task, whatever operation fails and
  wherever the daemon is killed, the target path holds afterwards either exactly what it held before
  or the complete body the service delivered; never a part of it.\<close>

theorem download_atomic:
  assumes "run_state (download_file sv c t) w = (res, w')" and "t_local_path t = Some p"
  shows "fs_files (w_fs w') p = fs_files (w_fs w) p \<or>
    (\<exists>i f. t_file_id t = Some i \<and> fs_files (w_fs w') p = Some f \<and> complete_body sv c i (w_ext w) (f_bytes f))"
proof -
  let ?Q = "\<lambda>_ w'. fs_files (w_fs w') p = fs_files (w_fs w) p \<or>
    (\<exists>i f. t_file_id t = Some i \<and> fs_files (w_fs w') p = Some f \<and> complete_body sv c i (w_ext w) (f_bytes f))"
  have "ends (download_file sv c t) w ?Q"
    unfolding download_file_def finish_download_def Let_def fetch_to_folds handle_download_failure_def
    by (auto simp: assms(2) complete_bodyI same_except_def get_file_by_id_def upsert_file_def
      intro!: ends_db_calls ends_db_any ends_ensure_parent ends_fetch_to ends_fs_calls ends_record_failure_any
      split: option.splits sum.splits)
  then show ?thesis using assms(1) by (simp add: ends_def)
qed

theorem download_atomic_witness:
  "let sv = null_services\<lparr>sv_files_download := \<lambda>c i x. (Inr [Inr [1], Inl ''reset'', Inr [2]], x)\<rparr>;
       w' = snd (run_state (download_file sv sample_client (task_from_row download_row1)) (sample_world [] 20 ()))
   in fs_files (w_fs w') ''/drive/a.bin'' = fs_files (sample_fs []) ''/drive/a.bin'' \<or>
     (\<exists>f. fs_files (w_fs w') ''/drive/a.bin'' = Some f \<and> complete_body sv sample_client ''f1'' () (f_bytes f))"
  using download_atomic [OF prod.collapse [symmetric], where
      sv = "null_services\<lparr>sv_files_download := \<lambda>c i x. (Inr [Inr [1], Inl ''reset'', Inr [2]], x)\<rparr>" and c = sample_client and
      t = "task_from_row download_row1" and w = "sample_world [] 20 ()" and p = "''/drive/a.bin''"]
  by (simp add: download_row1_def Let_def)

section \<open>A download that goes through\<close>

lemma ends_write_stream_ok:
  assumes "no_faults w" and "length chunks < left_ops w" and "fs_files (w_fs w) tmp = Some f"
    and "\<And>w' g. no_faults w' \<Longrightarrow> left_ops w = left_ops w' + Suc (length chunks) \<Longrightarrow> w_db w' = w_db w \<Longrightarrow> w_ext w' = w_ext w \<Longrightarrow>
      fs_dirs (w_fs w') = fs_dirs (w_fs w) \<Longrightarrow> same_except tmp (w_fs w) (w_fs w') \<Longrightarrow>
      fs_files (w_fs w') tmp = Some g \<Longrightarrow> f_bytes g = f_bytes f @ concat chunks \<Longrightarrow> f_mtime g \<noteq> None \<Longrightarrow> Q (Inr ()) w'"
    and "f_mtime f \<noteq> None"
  shows "ends (write_stream tmp (map Inr chunks)) w Q"
  using assms
proof (induction chunks arbitrary: w f)
  case Nil
  then show ?case by (auto simp: fs_flush_def intro!: ends_fs)
next
  case (Cons bs chunks)
  show ?case
    using Cons.prems(1-3)
    by (auto simp: fs_append_def same_except_def intro!: ends_fs Cons.IH [where f = "\<lparr>f_bytes = f_bytes f @ bs, f_mtime = Some t\<rparr>" for t] Cons.prems(4))
qed

text \<open>The temporary file holds \<open>bs\<close> and nothing else changed.\<close>

definition fetched :: "string \<Rightarrow> bytes \<Rightarrow> filesystem \<Rightarrow> filesystem \<Rightarrow> bool" where
  "fetched tmp bs s s' \<longleftrightarrow> fs_dirs s' = fs_dirs s \<and> same_except tmp s s' \<and>
     (\<exists>g. fs_files s' tmp = Some g \<and> f_bytes g = bs \<and> f_mtime g \<noteq> None)"

lemma ends_fetch_to_ok:
  assumes "no_faults w" and "length chunks + 2 < left_ops w" and "fst (fetch (w_ext w)) = Inr (map Inr chunks)"
    and "tmp \<notin> fs_dirs (w_fs w)" and "parent_ok (w_fs w) tmp"
    and Q: "\<And>w'. no_faults w' \<Longrightarrow> left_ops w = left_ops w' + (length chunks + 3) \<Longrightarrow> w_db w' = w_db w \<Longrightarrow> w_ext w' = snd (fetch (w_ext w)) \<Longrightarrow>
      fetched tmp (concat chunks) (w_fs w) (w_fs w') \<Longrightarrow> Q (Inr ()) w'"
  shows "ends (fetch_to fetch tmp) w Q"
proof -
  have "ends (write_stream tmp (map Inr chunks)) w' Q"
    if "no_faults w'" "left_ops w = left_ops w' + 2" "w_db w' = w_db w" "w_ext w' = snd (fetch (w_ext w))"
      "w_fs w' = (w_fs w)\<lparr>fs_files := (fs_files (w_fs w))(tmp \<mapsto> \<lparr>f_bytes = [], f_mtime = Some t\<rparr>)\<rparr>" for w' t
    using that assms(2)
    by (intro ends_write_stream_ok [where f = "\<lparr>f_bytes = [], f_mtime = Some t\<rparr>"] Q)
       (auto simp: same_except_def fetched_def)
  then show ?thesis
    using assms(1-5) by (auto simp: fetch_to_def fs_create_def intro!: ends_ext ends_fs)
qed

text \<open>What a download leaves behind that goes through.\<close>

definition downloaded :: "sync_task_row \<Rightarrow> string \<Rightarrow> string \<Rightarrow> drive_file \<Rightarrow> bytes \<Rightarrow> 'x world \<Rightarrow> 'x world \<Rightarrow> bool" where
  "downloaded r i p f bs w w' \<longleftrightarrow> task_completed r (w_db w') \<and>
     q_pending (w_db w') = filter (\<lambda>s. q_id s \<noteq> q_id r) (q_pending (w_db w)) \<and>
     (\<exists>g. fs_files (w_fs w') = (fs_files (w_fs w))(p \<mapsto> g, tmp_path p := None) \<and> f_bytes g = bs \<and>
        files_map (w_db w') = (files_map (w_db w))((i, q_account_id r) \<mapsto>
          f\<lparr>d_sync_state := ''cached'', d_local_path := Some p, d_local_mtime := f_mtime g\<rparr>))"

lemma q_pending_upsert [simp]: "q_pending (snd (f_upsert f d)) = q_pending d"
  by (simp add: q_pending_def)

lemma download_ends:
  assumes "no_faults w" and "length chunks + 9 \<le> left_ops w"
    and "queue_row (q_id r) (w_db w) = Some r" and "q_file_id r = Some i" and "q_local_path r = Some p"
    and "files_map (w_db w) (i, q_account_id r) = Some f" and "\<not> is_google_workspace_mime (d_mime_type f)"
    and "path_parent p = Some dir" and "path_parent (tmp_path p) = Some dir" and "dir \<in> fs_dirs (w_fs w)"
    and "p \<notin> fs_dirs (w_fs w)" and "tmp_path p \<notin> fs_dirs (w_fs w)"
    and "fst (sv_files_download sv c i (w_ext w)) = Inr (map Inr chunks)"
  shows "ends (download_file sv c (task_from_row r)) w (\<lambda>res w'. res = Inr () \<and> no_faults w' \<and>
    left_ops w = left_ops w' + (length chunks + 9) \<and> w_ext w' = snd (sv_files_download sv c i (w_ext w)) \<and>
    downloaded r i p f (concat chunks) w w')"
proof -
  have get: "f_get i (q_account_id r) (w_db w) = Some f"
    using assms(6) by (simp add: files_map_def)
  have key: "d_id f = i" "d_account_id f = q_account_id r"
    using files_map_key [OF assms(6)] by (simp_all add: db_file_key_def)
  have upd: "files_map (snd (f_upsert (f\<lparr>d_sync_state := s, d_local_path := lp, d_local_mtime := m\<rparr>) (q_set_status j st msg now (w_db w))))
      = (files_map (w_db w))((i, q_account_id r) \<mapsto> f\<lparr>d_sync_state := s, d_local_path := lp, d_local_mtime := m\<rparr>)"
      (is "files_map (snd (f_upsert ?f ?d)) = _") for s lp m j st msg now
    using files_map_upsert [of ?f ?d] upsert_ok_existing [of ?d ?f f] assms(6) key by (simp add: db_file_key_def)
  have finish: "ends (finish_download (task_from_row r) (q_id r) p (Some f)) w1 (\<lambda>res w'. res = Inr () \<and> no_faults w' \<and>
      left_ops w1 = left_ops w' + 4 \<and> w_ext w' = snd (sv_files_download sv c i (w_ext w)) \<and> downloaded r i p f (concat chunks) w w')"
    if "no_faults w1" "4 \<le> left_ops w1"
      "w_db w1 = q_set_status (q_id r) ''in_progress'' None (w_clock w (w_ops w)) (w_db w)"
      "w_ext w1 = snd (sv_files_download sv c i (w_ext w))" and fetched: "fetched (tmp_path p) (concat chunks) (w_fs w) (w_fs w1)" for w1
  proof -
    obtain g where g: "fs_files (w_fs w1) (tmp_path p) = Some g" "f_bytes g = concat chunks" "f_mtime g \<noteq> None"
        "fs_dirs (w_fs w1) = fs_dirs (w_fs w)"
      using fetched by (auto simp: fetched_def)
    have fs: "(fs_files (w_fs w1))(tmp_path p := None, p \<mapsto> g) = (fs_files (w_fs w))(p \<mapsto> g, tmp_path p := None)"
      using fetched by (auto simp: fetched_def same_except_def fun_eq_iff)
    show ?thesis
      using that(1-4) g assms(3,8,10,11)
      by (auto simp: finish_download_def update_task_status_def upsert_file_def fs_rename_def fs_metadata_def parent_ok_def
          find_rowD task_completed_def downloaded_def q_pending_set_status upd fs intro!: ends_steps exI [of _ g])
  qed
  show ?thesis
    using assms(1,2,4,5,7-10,12,13) get
    by (auto simp: download_file_def update_task_status_def get_file_by_id_def Let_def fetch_to_folds
        ensure_parent_def fs_exists_def parent_ok_def intro!: ends_db ends_fetch_to_ok [where chunks = chunks] ends_mono [OF finish])
qed

text \<open>A download the service delivers in full succeeds: the target holds the concatenation of the
  delivered chunks, the temporary file is gone, no other file changed, the task is completed and the
  file is recorded as cached at that path with the modification time of the new file.\<close>

theorem download_delivers:
  assumes "no_faults w" and "can_run (length chunks + 9) w"
    and "queue_row (q_id r) (w_db w) = Some r" and "q_file_id r = Some i" and "q_local_path r = Some p"
    and "files_map (w_db w) (i, q_account_id r) = Some f" and "\<not> is_google_workspace_mime (d_mime_type f)"
    and "path_parent p = Some dir" and "path_parent (tmp_path p) = Some dir" and "dir \<in> fs_dirs (w_fs w)"
    and "p \<notin> fs_dirs (w_fs w)" and "tmp_path p \<notin> fs_dirs (w_fs w)"
    and "fst (sv_files_download sv c i (w_ext w)) = Inr (map Inr chunks)"
  shows "\<exists>w' g. run_state (download_file sv c (task_from_row r)) w = (Inr (), w') \<and> w_ext w' = snd (sv_files_download sv c i (w_ext w)) \<and>
    fs_files (w_fs w') = (fs_files (w_fs w))(p \<mapsto> g, tmp_path p := None) \<and> f_bytes g = concat chunks \<and>
    task_completed r (w_db w') \<and>
    files_map (w_db w') = (files_map (w_db w))((i, q_account_id r) \<mapsto>
      f\<lparr>d_sync_state := ''cached'', d_local_path := Some p, d_local_mtime := f_mtime g\<rparr>)"
  using download_ends [OF assms(1) can_run_left [OF assms(2)] assms(3-13)] by (auto simp: ends_run downloaded_def)

theorem download_delivers_witness:
  "\<exists>w' g. run_state (download_file (null_services\<lparr>sv_files_download := \<lambda>c i x. (Inr [Inr [1, 2], Inr [3]], x)\<rparr>)
        sample_client (task_from_row download_row1)) (sample_world [] 11 ()) = (Inr (), w') \<and>
      fs_files (w_fs w') ''/drive/a.bin'' = Some g \<and> f_bytes g = [1, 2, 3] \<and> task_completed download_row1 (w_db w')"
proof -
  have p: "path_parent ''/drive/a.bin'' = Some ''/drive''" "path_parent ''/drive/a.bin.gdriver-tmp'' = Some ''/drive''"
    by (simp_all add: path_parent_def path_comps_def path_is_abs_def path_render_def)
  have "\<exists>w' g. run_state (download_file (null_services\<lparr>sv_files_download := \<lambda>c i x. (Inr [Inr [1, 2], Inr [3]], x)\<rparr>)
        sample_client (task_from_row download_row1)) (sample_world [] 11 ()) = (Inr (), w') \<and> w_ext w' = () \<and>
      fs_files (w_fs w') = (fs_files (w_fs (sample_world [] 11 ())))(''/drive/a.bin'' \<mapsto> g, tmp_path ''/drive/a.bin'' := None) \<and>
      f_bytes g = concat [[1, 2], [3]] \<and> task_completed download_row1 (w_db w') \<and>
      files_map (w_db w') = (files_map (w_db (sample_world [] 11 ())))((''f1'', q_account_id download_row1) \<mapsto>
        (file_from_row sample_row)\<lparr>d_sync_state := ''cached'', d_local_path := Some ''/drive/a.bin'', d_local_mtime := f_mtime g\<rparr>)"
    by (rule exE [OF download_delivers [where w = "sample_world [] 11 ()" and r = download_row1 and i = "''f1''" and p = "''/drive/a.bin''"
          and dir = "''/drive''" and f = "file_from_row sample_row" and chunks = "[[1, 2], [3]]" and c = sample_client
          and sv = "null_services\<lparr>sv_files_download := \<lambda>c i x. (Inr [Inr [1, 2], Inr [3]], x)\<rparr>"]])
       (auto simp: p queue_row_def upload_row_def download_row1_def files_map_def f_get_def sample_row_def file_key_def file_from_row_def
          is_google_workspace_mime_def sample_fs_def tmp_path_def)
  then show ?thesis by auto
qed

end
