(* ===== verification/Conflict_Props.thy ===== *)
theory Conflict_Props
  imports Download_Props
begin

text \<open>
  Conflict resolution: the user's version is never lost, in any run, and a resolved conflict leaves
  it under the conflict name beside the complete remote version.
\<close>

section \<open>The conflict path\<close>

lemma conflict_path_fresh:
  assumes fn: "path_file_name p = Some fn" and time: "CHR ''/'' \<notin> set (sv_local_time sv now)"
  shows "conflict_path sv p now \<noteq> p" and "conflict_path sv p now \<noteq> tmp_path p"
proof -
  obtain s e where se: "split_last_dot fn = (s, e)" by (cases "split_last_dot fn")
  define rest where "rest = (case e of None \<Rightarrow> [] | Some x \<Rightarrow> ''.'' @ x)"
  have f: "fn = s @ rest" using split_last_dot_append [OF se] by (simp add: rest_def)
  have slash: "CHR ''/'' \<notin> set s" "CHR ''/'' \<notin> set rest"
    using path_file_name_no_slash [OF fn] f by auto
  define mid where "mid = '' (conflict copy '' @ sv_local_time sv now @ '')''"
  have name: "conflict_name sv p now = s @ mid @ rest"
    using fn se by (simp add: conflict_name_def path_file_stem_def path_extension_def mid_def rest_def split: option.splits)
  have "CHR ''/'' \<notin> set mid" using time by (simp add: mid_def)
  then have last: "last (split_on (CHR ''/'') (conflict_path sv p now)) = s @ mid @ rest"
    unfolding conflict_path_def name using slash by (intro last_piece_join) simp
  note cases = last_piece_file_name [OF fn]
  show "conflict_path sv p now \<noteq> p"
  proof
    assume "conflict_path sv p now = p"
    then have "last (split_on (CHR ''/'') p) = s @ mid @ rest" using last by simp
    then have "s @ mid @ rest = s @ rest \<or> s @ mid @ rest = [] \<or> s @ mid @ rest = ''.''"
      using cases unfolding f by simp
    then show False by (auto simp: mid_def append_eq_Cons_conv)
  qed
  show "conflict_path sv p now \<noteq> tmp_path p"
  proof
    assume "conflict_path sv p now = tmp_path p"
    then have "last (split_on (CHR ''/'') p) @ ''.gdriver-tmp'' = s @ mid @ rest"
      using last last_split_on_append [of "CHR ''/''" "''.gdriver-tmp''" p] by (simp add: tmp_path_def)
    then have "s @ rest @ ''.gdriver-tmp'' = s @ mid @ rest \<or> ''.gdriver-tmp'' = s @ mid @ rest \<or> ''..gdriver-tmp'' = s @ mid @ rest"
      using cases unfolding f by auto
    moreover have "CHR '' '' \<in> set (s @ mid @ rest)" by (simp add: mid_def)
    moreover have "x \<noteq> s @ mid @ rest" if "CHR '' '' \<notin> set x" for x
      using that calculation(2) by auto
    ultimately have "rest @ ''.gdriver-tmp'' = mid @ rest" by simp
    then show False by (auto simp: mid_def rest_def split: option.splits)
  qed
qed

section \<open>Resolution\<close>

lemma ends_resumable_any:
  assumes "\<And>r w'. w_fs w' = w_fs w \<Longrightarrow> Q r w'"
  shows "ends (resumable_loop n sv c uri content off) w Q"
  using assms
proof (induction n arbitrary: off w)
  case 0
  then show ?case by (simp add: hang_def)
next
  case (Suc n)
  show ?case
    using Suc.prems
    by (auto simp: Let_def intro!: ends_ext_any Suc.IH split: sum.splits upload_chunk_result.splits)
qed

lemma ends_conflict_upload_any:
  assumes "\<And>r w'. w_fs w' = w_fs w \<Longrightarrow> Q r w'"
  shows "ends (conflict_upload_resumable sv c meta content) w Q"
  using assms
  by (auto simp: conflict_upload_resumable_def remaining_ops_def simp del: resumable_loop.simps
      intro!: ends_ext_any ends_resumable_any split: sum.splits option.splits)

text \<open>The world after a resolution attempt that started with \<open>g\<close> at \<open>p\<close>.\<close>

definition local_kept :: "'x services \<Rightarrow> string \<Rightarrow> fs_file \<Rightarrow> filesystem \<Rightarrow> bool" where
  "local_kept sv p g s \<longleftrightarrow> fs_files s p = Some g \<or> (\<exists>now. fs_files s (conflict_path sv p now) = Some g)"

definition both_kept :: "'x services \<Rightarrow> drive_client \<Rightarrow> string \<Rightarrow> string \<Rightarrow> fs_file \<Rightarrow> filesystem \<Rightarrow> bool" where
  "both_kept sv c i p g s \<longleftrightarrow> (\<exists>now. fs_files s (conflict_path sv p now) = Some g) \<and>
     (\<exists>h x chunks. fs_files s p = Some h \<and> fst (sv_files_download sv c i x) = Inr (map Inr chunks) \<and> f_bytes h = concat chunks)"

lemma keptI:
  "fs_files s p = Some g \<Longrightarrow> local_kept sv p g s"
  "fs_files s (conflict_path sv p now) = Some g \<Longrightarrow> local_kept sv p g s"
  "fs_files s (conflict_path sv p now) = Some g \<Longrightarrow> fs_files s p = Some h \<Longrightarrow>
     fst (sv_files_download sv c i x) = Inr (map Inr chunks) \<Longrightarrow> f_bytes h = concat chunks \<Longrightarrow> both_kept sv c i p g s"
  by (auto simp: local_kept_def both_kept_def)

lemma fetch_to_try:
  "tryE (ext_call fetch) (\<lambda>body. tryE (fs_create tmp) (\<lambda>_. tryE (write_stream tmp body) k)) = tryE (fetch_to fetch tmp) k"
  by (rule state.expand, rule ext) (simp add: fetch_to_def split: prod.splits sum.splits)

lemma restore_remote_ends:
  assumes q: "fs_files (w_fs w) (conflict_path sv p now) = Some g"
    and ne: "conflict_path sv p now \<noteq> p" "conflict_path sv p now \<noteq> tmp_path p"
  shows "ends (restore_remote sv c t f p remote cname) w (\<lambda>res w'. local_kept sv p g (w_fs w') \<and>
    (is_ok res \<longrightarrow> both_kept sv c (d_id f) p g (w_fs w')))"
proof -
  let ?Q = "\<lambda>res w'. local_kept sv p g (w_fs w') \<and> (is_ok res \<longrightarrow> both_kept sv c (d_id f) p g (w_fs w'))"
  have kept: "local_kept sv p g s" if "same_except (tmp_path p) (w_fs w) s" for s
    using that q ne by (intro keptI(2) [where now = now]) (simp add: same_except_def)
  have finished: "local_kept sv p g s' \<and> both_kept sv c (d_id f) p g s'"
    if "same_except (tmp_path p) (w_fs w) s" "s' = s\<lparr>fs_files := (fs_files s)(tmp_path p := None, p \<mapsto> h)\<rparr>"
      "fst (sv_files_download sv c (d_id f) (w_ext w)) = Inr (map Inr chunks)" "f_bytes h = concat chunks" for s s' h chunks
    using that q ne
    by (auto intro!: keptI(2) [where now = now] keptI(3) [where now = now and h = h and chunks = chunks and x = "w_ext w"]
        simp: same_except_def)
  show ?thesis
    unfolding restore_remote_def Let_def fetch_to_try
    by (auto simp: kept upsert_file_def push_send_def finished
        intro!: ends_fetch_to ends_fs_rename_any ends_fs_metadata_any ends_db_any ends_db_calls split: sum.splits)
qed

lemma resolve_conflict_ends:
  assumes g: "fs_files (w_fs w) p = Some g" and fn: "path_file_name p = Some fn"
    and time: "\<And>n. CHR ''/'' \<notin> set (sv_local_time sv n)"
  shows "ends (resolve_conflict sv c t f p remote) w (\<lambda>res w'. local_kept sv p g (w_fs w') \<and>
    (is_ok res \<longrightarrow> both_kept sv c (d_id f) p g (w_fs w')))"
proof -
  note ne = conflict_path_fresh [OF fn time]
  have moved: "local_kept sv p g (s\<lparr>fs_files := (fs_files s)(p := None, conflict_path sv p now \<mapsto> g)\<rparr>)" for s now
    by (rule keptI(2) [where now = now]) simp
  show ?thesis
    unfolding resolve_conflict_def Let_def
    by (auto simp: g keptI(1) moved upsert_file_def
      intro!: ends_fs_rename_any ends_fs_read_any ends_ext_any ends_db_any ends_conflict_upload_any
        restore_remote_ends [OF _ ne] split: sum.splits)
qed

text \<open>C15: resolving a conflict never loses the user's version. Whatever fails and wherever the daemon
  is killed, the local file is still at its path or at a conflict path; and when the check reports a
  resolved conflict, the local file is at a conflict path and the original path holds a complete
  download of the remote file.\<close>

theorem conflict_keeps_both:
  assumes "run_state (check_and_resolve sv c t file_id p) w = (res, w')"
    and "fs_files (w_fs w) p = Some g" and "path_file_name p = Some fn"
    and "\<And>n. CHR ''/'' \<notin> set (sv_local_time sv n)"
  shows "local_kept sv p g (w_fs w') \<and> (res = Inr True \<longrightarrow> both_kept sv c file_id p g (w_fs w'))"
proof -
  let ?Q = "\<lambda>res w'. local_kept sv p g (w_fs w') \<and> (res = Inr True \<longrightarrow> both_kept sv c file_id p g (w_fs w'))"
  have key: "d_id f = file_id" if "f_get file_id acct d = Some f" for f acct d
    using files_map_key [of d "(file_id, acct)" f] that by (simp add: files_map_def db_file_key_def)
  have res: "ends (resolve_conflict sv c t f p remote) w1 (\<lambda>r w'. local_kept sv p g (w_fs w') \<and>
      (is_ok r \<longrightarrow> both_kept sv c (d_id f) p g (w_fs w')))" if "w_fs w1 = w_fs w" for w1 f remote
    by (rule resolve_conflict_ends [OF _ assms(3,4)]) (use that assms(2) in simp)
  have get: "ends (get_file_by_id file_id acct) w R"
    if "\<And>e w1. w_fs w1 = w_fs w \<Longrightarrow> R (Inl e) w1" "\<And>w1. w_fs w1 = w_fs w \<Longrightarrow> R (Inr None) w1"
      "\<And>f w1. d_id f = file_id \<Longrightarrow> w_fs w1 = w_fs w \<Longrightarrow> R (Inr (Some f)) w1" for acct R
    using that key by (cases "f_get file_id acct (w_db w)") (auto simp: get_file_by_id_def db_exec_def ends_def split: option.splits)
  have "ends (check_and_resolve sv c t file_id p) w ?Q"
    unfolding check_and_resolve_def
    by (auto simp: assms(2) keptI(1) intro!: get ends_fs_metadata_any ends_ext_any ends_mono [OF res] split: sum.splits option.splits)
  then show ?thesis using assms(1) by (simp add: ends_def)
qed

theorem conflict_keeps_both_witness:
  "let sv = null_services\<lparr>sv_files_get := \<lambda>c i x. (Inr sample_api_file, x),
         sv_files_download := \<lambda>c i x. (Inr [Inr [4, 5]], x)\<rparr>;
       out = run_state (check_and_resolve sv sample_client (task_from_row upload_row) ''f1'' ''/drive/a.bin'') (sample_world [] 20 ());
       g = \<lparr>f_bytes = [9], f_mtime = Some 30\<rparr>
   in local_kept sv ''/drive/a.bin'' g (w_fs (snd out)) \<and>
      (fst out = Inr True \<longrightarrow> both_kept sv sample_client ''f1'' ''/drive/a.bin'' g (w_fs (snd out)))"
  unfolding Let_def
  by (rule conflict_keeps_both [OF prod.collapse [symmetric], where fn = "''a.bin''"])
     (simp_all add: sample_fs_def path_file_name_def path_comps_def null_services_def)

end
