(* ===== verification/Changes_Props.thy ===== *)
theory Changes_Props
  imports Outcomes
begin

text \<open>
  The pollers: when the page token moves, what a change does to the file table and the queue, and how
  local paths are computed from the folder tree.
\<close>

section \<open>The page token\<close>

definition same_tokens :: "'x world \<Rightarrow> 'x world \<Rightarrow> bool" where
  "same_tokens w w' \<longleftrightarrow> sync_tokens (w_db w') = sync_tokens (w_db w)"

interpretation tk: poll_frame same_tokens
  by unfold_locales (auto simp: same_tokens_def f_mark_trashed_def q_insert_def)

lemma ends_same_tokens:
  assumes "state_io_rel same_tokens m" and "\<And>r w'. sync_tokens (w_db w') = sync_tokens (w_db w) \<Longrightarrow> Q r w'"
  shows "ends m w Q"
  using assms by (cases "run_state m w") (auto simp: state_io_rel_def ends_def same_tokens_def dest: spec [of _ w])

text \<open>C30: the page token moves last. When an incremental sync ends with an error, for whatever reason
  and at whatever point, the stored page tokens are those it started with, so the next poll sees
  the same changes again and none is lost.\<close>

theorem page_token_moves_last:
  assumes "run_state (incremental_sync sv acct c mode mp) w = (Inl e, w')"
  shows "sync_tokens (w_db w') = sync_tokens (w_db w)"
proof -
  let ?Q = "\<lambda>r w'. (\<exists>n. r = Inr n) \<or> sync_tokens (w_db w') = sync_tokens (w_db w)"
  have set: "ends (set_token acct tok) v (\<lambda>r v'. (\<exists>x. r = Inr x) \<or> sync_tokens (w_db v') = sync_tokens (w_db v))" for tok v
    by (auto simp: set_token_def db_exec_def tok_set_def split: option.splits if_splits)
  have "ends (incremental_sync sv acct c mode mp) w ?Q"
    unfolding incremental_sync_def remaining_ops_def
    by (auto simp del: changes_loop.simps intro!: ends_same_tokens [OF tk.io_queries(5)] ends_same_tokens [OF tk.io_changes_loop]
        ends_mono [OF set] split: sum.splits option.splits)
  then show ?thesis using assms by (simp add: ends_def)
qed

theorem page_token_moves_last_witness:
  "let w = (sample_world [] 9 ())\<lparr>w_db := sample_db\<lparr>sync_tokens := [\<lparr>k_account_id = ''alice'', k_page_token = ''7'', k_updated_at = 0\<rparr>]\<rparr>\<rparr>
   in sync_tokens (w_db (snd (run_state (incremental_sync null_services ''alice'' sample_client Stream ''/drive'') w))) = sync_tokens (w_db w)"
  unfolding Let_def
  by (rule page_token_moves_last [where e = "''offline''" and sv = null_services and acct = "''alice''" and c = sample_client
        and mode = Stream and mp = "''/drive''"])
     (simp add: incremental_sync_def get_token_def db_exec_def halted_def tok_get_def remaining_ops_def ext_call_def null_services_def
        sample_world_def tick_def)

section \<open>Relative paths\<close>

text \<open>A folder tree without cycles: going up decreases a rank.\<close>

definition acyclic_names :: "(string \<Rightarrow> nat) \<Rightarrow> name_map \<Rightarrow> bool" where
  "acyclic_names rank nm \<longleftrightarrow> (\<forall>i n pid. nm i = Some (n, Some pid) \<longrightarrow> rank pid < rank i)"

lemma walk_parents_some:
  assumes "acyclic_names rank nm"
  shows "\<exists>segs. walk_parents nm i acc = Some (acc @ segs) \<and> walk_parents nm i [] = Some segs"
proof (induction "rank i" arbitrary: i acc rule: less_induct)
  case less
  show ?case
  proof (cases "nm i")
    case (Some np)
    obtain n parent where np: "np = (n, parent)" by (cases np)
    show ?thesis
    proof (cases parent)
      case (Some pid)
      then have "rank pid < rank i" using \<open>nm i = Some np\<close> np assms by (auto simp: acyclic_names_def)
      then obtain s1 where s1: "walk_parents nm pid [] = Some s1" using less by blast
      have "walk_parents nm pid a = Some (a @ s1)" for a
        using less [OF \<open>rank pid < rank i\<close>, of a] s1 by auto
      then show ?thesis
        using \<open>nm i = Some np\<close> np Some by (auto simp: walk_parents.simps [of nm i])
    qed (use Some np in \<open>simp add: walk_parents.simps [of nm i]\<close>)
  qed (simp add: walk_parents.simps [of nm i])
qed

lemma walk_parents_nonempty:
  "acyclic_names rank nm \<Longrightarrow> walk_parents nm i [] = Some segs \<Longrightarrow> segs = [] \<longleftrightarrow> nm i = None"
  using walk_parents_some [of rank nm "the (snd (the (nm i)))" "[fst (the (nm i))]"]
  by (auto simp: walk_parents.simps [of nm i] split: option.splits prod.splits)

text \<open>In a folder tree without cycles the walk up the parents ends for every file, and the
  relative path is the path of its folder followed by its name, or its name alone when it has no
  listed folder.\<close>

theorem relative_path_of_tree:
  assumes "acyclic_names rank nm" and "nm i = Some (n, parent)"
  shows "\<exists>p. resolve_relative_path i nm = Some p \<and>
    (case parent of
       None \<Rightarrow> p = n
     | Some pid \<Rightarrow> if nm pid = None then p = n
         else \<exists>q. resolve_relative_path pid nm = Some q \<and> p = q @ ''/'' @ n)"
proof (cases parent)
  case None
  then show ?thesis using assms by (simp add: resolve_relative_path_def walk_parents.simps [of nm i])
next
  case (Some pid)
  obtain segs where segs: "walk_parents nm pid [n] = Some ([n] @ segs)" "walk_parents nm pid [] = Some segs"
    using walk_parents_some [OF assms(1)] by blast
  have "segs = [] \<longleftrightarrow> nm pid = None" using walk_parents_nonempty [OF assms(1) segs(2)] .
  then show ?thesis
    using Some assms(2) segs
    by (simp add: resolve_relative_path_def walk_parents.simps [of nm i] join_with_snoc)
qed

theorem relative_path_of_tree_witness:
  "let nm = [''d'' \<mapsto> (''docs'', None), ''f'' \<mapsto> (''a.txt'', Some ''d'')]
   in \<exists>p. resolve_relative_path ''f'' nm = Some p \<and> (\<exists>q. resolve_relative_path ''d'' nm = Some q \<and> p = q @ ''/'' @ ''a.txt'')"
  using relative_path_of_tree [where nm = "[''d'' \<mapsto> (''docs'', None), ''f'' \<mapsto> (''a.txt'', Some ''d'')]"
      and i = "''f''" and n = "''a.txt''" and parent = "Some ''d''" and rank = "\<lambda>i. if i = ''f'' then 1 else 0"]
  by (simp add: acyclic_names_def Let_def)

section \<open>Changes\<close>

lemma f_get_files_map: "f_get i acct d = files_map d (i, acct)"
  by (simp add: files_map_def)

lemma mark_trashed_queue [simp]: "sync_queue (f_mark_trashed i acct d) = sync_queue d" "queue_seq (f_mark_trashed i acct d) = queue_seq d"
  by (simp_all add: f_mark_trashed_def)

text \<open>A change that reports a removed file marks exactly that file as trashed and, when a local copy
  is recorded, appends exactly one pending delete task for it; otherwise the queue does not change.\<close>

theorem removed_change:
  assumes "no_faults w" and "can_run 3 w" and "ch_file_id ch = Some i" and "ch_removed ch = Some True"
  shows "\<exists>w'. run_state (process_change sv acct ch mode mp) w = (Inr (), w') \<and>
    files_map (w_db w') = (files_map (w_db w))((i, acct) := map_option (\<lambda>f. f\<lparr>d_is_trashed := True\<rparr>) (files_map (w_db w) (i, acct))) \<and>
    (case Option.bind (files_map (w_db w) (i, acct)) d_local_path of
       None \<Rightarrow> sync_queue (w_db w') = sync_queue (w_db w)
     | Some p \<Rightarrow> \<exists>r. sync_queue (w_db w') = sync_queue (w_db w) @ [r] \<and> q_operation r = ''delete'' \<and>
         q_file_id r = Some i \<and> q_account_id r = acct \<and> q_local_path r = Some p \<and> q_status r = ''pending'')"
proof -
  let ?Q = "\<lambda>u w'. u = Inr () \<and>
    files_map (w_db w') = (files_map (w_db w))((i, acct) := map_option (\<lambda>f. f\<lparr>d_is_trashed := True\<rparr>) (files_map (w_db w) (i, acct))) \<and>
    (case Option.bind (files_map (w_db w) (i, acct)) d_local_path of
       None \<Rightarrow> sync_queue (w_db w') = sync_queue (w_db w)
     | Some p \<Rightarrow> \<exists>r. sync_queue (w_db w') = sync_queue (w_db w) @ [r] \<and> q_operation r = ''delete'' \<and>
         q_file_id r = Some i \<and> q_account_id r = acct \<and> q_local_path r = Some p \<and> q_status r = ''pending'')"
  have trashed: "files_map (f_mark_trashed i acct d) = (files_map d)((i, acct) := map_option (\<lambda>f. f\<lparr>d_is_trashed := True\<rparr>) (files_map d (i, acct)))" for d
    using files_map_mark_trashed [of "(i, acct)"] by simp
  have "ends (process_change sv acct ch mode mp) w ?Q"
    using assms(1,3,4) can_run_left [OF assms(2)]
    by (cases "files_map (w_db w) (i, acct)")
       (auto simp: process_change_def mark_trashed_def get_file_by_id_def f_get_files_map trashed enqueue_task_def enqueue_def
          q_row_def intro!: ends_db, auto simp: q_insert_def q_row_def)
  then show ?thesis by (auto simp: ends_run)
qed

definition removed_sample :: change where
  "removed_sample = \<lparr>ch_kind = None, ch_type = None, ch_file_id = Some ''f1'', ch_removed = Some True, ch_time = None, ch_file = None\<rparr>"

theorem removed_change_witness:
  "\<exists>w' r. run_state (process_change null_services ''alice'' removed_sample Stream ''/drive'') (sample_world [] 3 ()) = (Inr (), w') \<and>
     sync_queue (w_db w') = [upload_row, download_row1, r] \<and> q_operation r = ''delete'' \<and> q_local_path r = Some ''/drive/a.bin''"
  using removed_change [where w = "sample_world [] 3 ()" and ch = removed_sample and i = "''f1''" and acct = "''alice''"
      and sv = null_services and mode = Stream and mp = "''/drive''"]
  by (auto simp: removed_sample_def files_map_def f_get_def sample_row_def file_key_def file_from_row_def)

text \<open>When a changed file is downloaded: always in mirror mode, in stream mode when an enabled folder of the account covers it.\<close>

definition wants_download :: "SyncMode \<Rightarrow> string \<Rightarrow> api_file \<Rightarrow> drive_file \<Rightarrow> database \<Rightarrow> bool" where
  "wants_download mode p g f d \<longleftrightarrow> g_trashed g \<noteq> Some True \<and> d_mime_type f \<noteq> ''application/vnd.google-apps.folder'' \<and>
     (mode = Mirror \<or> (\<exists>fo \<in> set (sync_folders d). sr_account_id fo = d_account_id f \<and> sr_is_enabled fo \<noteq> 0 \<and>
        starts_with (sr_local_path fo) p))"

lemma map_api_local [simp]: "d_local_path (map_api_file_to_db sv g acct) = None"
  "d_sync_state (map_api_file_to_db sv g acct) = ''cloud_only''" "d_account_id (map_api_file_to_db sv g acct) = acct"
  by (simp_all add: map_api_file_to_db_def)

lemma covered_iff:
  "list_ex (\<lambda>fo. s_is_enabled fo \<and> starts_with (s_local_path fo) p) (map folder_from_row (fold_by_account acct d)) \<longleftrightarrow>
   (\<exists>fo \<in> set (sync_folders d). sr_account_id fo = acct \<and> sr_is_enabled fo \<noteq> 0 \<and> starts_with (sr_local_path fo) p)"
  by (auto simp: list_ex_iff fold_by_account_def folder_from_row_def)

lemma fold_by_account_upsert [simp]: "fold_by_account acct (snd (f_upsert f d)) = fold_by_account acct d"
  using upsert_queue(4) [of d f] by (simp add: fold_by_account_def same_tables_def)

lemma q_row_task: "task_from_row (q_row j t) = t\<lparr>t_id := Some j\<rparr>" "q_id (q_row j t) = j"
  by (simp_all add: task_from_row_def q_row_def)

lemma download_row:
  "sync_queue (q_insert (download_task now acct i p) d) = sync_queue d @ [q_row (queue_seq d + 1) (download_task now acct i p)]"
  by (simp add: q_insert_def)

text \<open>A change that carries a file records exactly its metadata and enqueues one download, under the
  mount point, exactly when the file is to be synced (not trashed, not a folder, and in stream mode
  covered by an enabled folder). The recorded entry has no local path: whatever local copy was known
  for the file is forgotten, and a file moved to the trash gets no delete task.\<close>

theorem updated_change:
  assumes "no_faults w" and "can_run 4 w" and "ch_file_id ch = Some i" and "ch_removed ch \<noteq> Some True"
    and "ch_file ch = Some g" and "has_account (w_db w) acct"
    and f: "f = map_api_file_to_db sv g acct" and p: "p = under_mount mp (d_name f)"
  shows "\<exists>w'. run_state (process_change sv acct ch mode mp) w = (Inr (), w') \<and>
    files_map (w_db w') = (files_map (w_db w))(db_file_key f \<mapsto> f) \<and> d_local_path f = None \<and>
    (if wants_download mode p g f (w_db w)
     then \<exists>r now. sync_queue (w_db w') = sync_queue (w_db w) @ [r] \<and> task_from_row r = (download_task now acct (d_id f) p)\<lparr>t_id := Some (q_id r)\<rparr>
     else sync_queue (w_db w') = sync_queue (w_db w))"
proof -
  define wants where "wants = wants_download mode p g f (w_db w)"
  define Post where "Post w' \<longleftrightarrow> files_map (w_db w') = (files_map (w_db w))(db_file_key f \<mapsto> f) \<and>
    (if wants
     then \<exists>r now. sync_queue (w_db w') = sync_queue (w_db w) @ [r] \<and> task_from_row r = (download_task now acct (d_id f) p)\<lparr>t_id := Some (q_id r)\<rparr>
     else sync_queue (w_db w') = sync_queue (w_db w))" for w' :: "'a world"
  have loc: "d_local_path f = None" "d_sync_state f = ''cloud_only''" "d_account_id f = acct" by (simp_all add: f)
  have up: "files_map (snd (f_upsert f (w_db w))) = (files_map (w_db w))(db_file_key f \<mapsto> f)" "fst (f_upsert f (w_db w)) = Inr ()"
    using files_map_upsert [of f "w_db w"] upsert_ok_account [of "w_db w" f] assms(6) loc
    by (auto simp: upsert_ok_def is_ok_iff)
  have skip: "Post v" if "w_db v = snd (f_upsert f (w_db w))" "\<not> wants" for v
    using that up by (simp add: Post_def)
  have enq: "ends (enqueue (download_task now acct (d_id f) p)) v (\<lambda>_. Post)"
    if "no_faults v" "0 < left_ops v" "w_db v = snd (f_upsert f (w_db w))" "wants" for v now
    using that up
    by (auto simp: Post_def enqueue_def download_row q_row_task intro!: ends_db)
  have path: "change_path mp f = p" by (simp add: change_path_def loc p)
  let ?cov = "list_ex (\<lambda>fo. s_is_enabled fo \<and> starts_with (s_local_path fo) p) (map folder_from_row (fold_by_account acct (w_db w)))"
  have wants: "wants \<longleftrightarrow> g_trashed g \<noteq> Some True \<and> d_mime_type f \<noteq> ''application/vnd.google-apps.folder'' \<and> (mode = Mirror \<or> ?cov)"
    unfolding wants_def wants_download_def covered_iff loc ..
  have dl: "ends (enqueue_download_for_change acct f mode mp) v (\<lambda>_. Post)"
    if "no_faults v" "1 < left_ops v" "w_db v = snd (f_upsert f (w_db w))" "g_trashed g \<noteq> Some True" for v
  proof (cases wants)
    case True
    then show ?thesis
      using that wants
      by (auto simp: enqueue_download_for_change_def loc already_local_def list_by_account_def path Let_def
          intro!: ends_db ends_mono [OF enq])
  next
    case False
    then show ?thesis
      using that wants
      by (auto simp: enqueue_download_for_change_def loc already_local_def list_by_account_def path Let_def
          intro!: ends_db skip)
  qed
  have "ends (process_change sv acct ch mode mp) w (\<lambda>u w'. u = Inr () \<and> Post w')"
    using assms(1,3-5) can_run_left [OF assms(2)] up(2)
    by (auto simp: process_change_def Let_def f [symmetric] get_file_by_id_def upsert_file_def wants loc(1)
        intro!: ends_db ends_mono [OF dl] skip split: option.splits)
  then show ?thesis using loc by (auto simp: ends_run Post_def wants_def)
qed

definition updated_sample :: change where
  "updated_sample = \<lparr>ch_kind = None, ch_type = None, ch_file_id = Some ''f1'', ch_removed = None, ch_time = None,
     ch_file = Some (sample_api_file\<lparr>g_id := Some ''f1'', g_trashed := Some True\<rparr>)\<rparr>"

theorem updated_change_witness:
  "\<exists>w' f. run_state (process_change null_services ''alice'' updated_sample Mirror ''/drive'') (sample_world [] 4 ()) = (Inr (), w') \<and>
     files_map sample_db (''f1'', ''alice'') = Some (file_from_row sample_row) \<and>
     files_map (w_db w') (''f1'', ''alice'') = Some f \<and> d_local_path f = None \<and> sync_queue (w_db w') = sync_queue sample_db"
proof -
  let ?g = "sample_api_file\<lparr>g_id := Some ''f1'', g_trashed := Some True\<rparr>"
  have "files_map sample_db (''f1'', ''alice'') = Some (file_from_row sample_row)"
    by (simp add: files_map_def f_get_def sample_row_def file_key_def)
  moreover have "db_file_key (map_api_file_to_db (null_services :: unit services) ?g ''alice'') = (''f1'', ''alice'')"
    by (simp add: db_file_key_def map_api_file_to_db_def)
  ultimately show ?thesis
    using updated_change [where w = "sample_world [] 4 ()" and ch = updated_sample and i = "''f1''" and acct = "''alice''"
        and sv = null_services and mode = Mirror and mp = "''/drive''" and g = ?g, OF _ _ _ _ _ _ refl refl]
    by (auto simp: updated_sample_def wants_download_def)
qed

section \<open>Mirroring\<close>

text \<open>The files a switch to mirror mode downloads, and the columns of their tasks.\<close>

definition to_mirror :: "string set \<Rightarrow> drive_file \<Rightarrow> bool" where
  "to_mirror folders f \<longleftrightarrow> d_id f \<notin> folders \<and> \<not> already_local (d_sync_state f) \<and> d_local_path f = None"

definition mirror_columns :: "string \<Rightarrow> string \<Rightarrow> name_map \<Rightarrow> drive_file \<Rightarrow> string \<times> string option \<times> string \<times> string option \<times> string" where
  "mirror_columns acct mp nm f = (acct, Some (d_id f), ''download'',
     map_option (under_mount mp) (resolve_relative_path (d_id f) nm), ''pending'')"

definition task_columns :: "sync_task_row \<Rightarrow> string \<times> string option \<times> string \<times> string option \<times> string" where
  "task_columns r = (q_account_id r, q_file_id r, q_operation r, q_local_path r, q_status r)"

lemma mirror_loop_Cons:
  "mirror_loop now acct mp nm folders (f # fs) n =
     (if \<not> to_mirror folders f then mirror_loop now acct mp nm folders fs n
      else case resolve_relative_path (d_id f) nm of
             None \<Rightarrow> hang
           | Some rel \<Rightarrow> tryE (upsert_file (f\<lparr>d_local_path := Some (under_mount mp rel)\<rparr>)) (\<lambda>_. do {
               r \<leftarrow> enqueue (download_task now acct (d_id f) (under_mount mp rel));
               case r of
                 Inl _ \<Rightarrow> mirror_loop now acct mp nm folders fs n
               | Inr _ \<Rightarrow> mirror_loop now acct mp nm folders fs (n + 1)
             }))"
  by (auto simp: to_mirror_def Let_def split: option.splits)

lemma mirror_loop_ends:
  fixes w :: "'x world"
  assumes "\<And>f. f \<in> set fs \<Longrightarrow> to_mirror folders f \<Longrightarrow> resolve_relative_path (d_id f) nm \<noteq> None"
    and "no_faults w" and "2 * length fs \<le> left_ops w"
    and "\<And>f. f \<in> set fs \<Longrightarrow> files_map (w_db w) (db_file_key f) \<noteq> None"
  shows "ends (mirror_loop now acct mp nm folders fs n) w (\<lambda>r w'.
    r = Inr (n + length (filter (to_mirror folders) fs)) \<and>
    map task_columns (sync_queue (w_db w')) = map task_columns (sync_queue (w_db w)) @ map (mirror_columns acct mp nm) (filter (to_mirror folders) fs))"
  using assms
proof (induction fs arbitrary: n w)
  case (Cons f fs)
  show ?case
  proof (cases "to_mirror folders f")
    case False
    have "ends (mirror_loop now acct mp nm folders fs n) w (\<lambda>r w'.
      r = Inr (n + length (filter (to_mirror folders) fs)) \<and>
      map task_columns (sync_queue (w_db w')) = map task_columns (sync_queue (w_db w)) @ map (mirror_columns acct mp nm) (filter (to_mirror folders) fs))"
      using Cons.prems by (intro Cons.IH) auto
    then show ?thesis using False by (simp add: mirror_loop_Cons del: mirror_loop.simps)
  next
    case True
    obtain rel where rel: "resolve_relative_path (d_id f) nm = Some rel" using Cons.prems(1) [of f] True by auto
    let ?f = "f\<lparr>d_local_path := Some (under_mount mp rel)\<rparr>"
    let ?cols = "\<lambda>d. map task_columns (sync_queue d)"
    have key: "db_file_key ?f = db_file_key f" by (simp add: db_file_key_def)
    have ok: "upsert_ok ?f (w_db w)" using Cons.prems(4) [of f] upsert_ok_existing [of "w_db w" ?f] key by auto
    then have up: "fst (f_upsert ?f (w_db w)) = Inr ()" by (auto simp: upsert_ok_def is_ok_iff)
    have rec: "ends (mirror_loop now acct mp nm folders fs (Suc n)) v (\<lambda>r w'.
      r = Inr (Suc (n + length (filter (to_mirror folders) fs))) \<and>
      ?cols (w_db w') = ?cols (w_db w) @ mirror_columns acct mp nm f # map (mirror_columns acct mp nm) (filter (to_mirror folders) fs))"
      if "no_faults v" "left_ops w = left_ops v + 2" "w_db v = q_insert (download_task now acct (d_id f) (under_mount mp rel)) (snd (f_upsert ?f (w_db w)))" for v :: "'x world"
    proof (rule ends_mono [OF Cons.IH [of v "Suc n"]])
      have "?cols (w_db v) = ?cols (w_db w) @ [mirror_columns acct mp nm f]"
        using that(3) rel by (simp add: q_insert_def q_row_def download_task_def task_columns_def mirror_columns_def)
      then show "r = Inr (Suc (n + length (filter (to_mirror folders) fs))) \<and>
          ?cols (w_db w') = ?cols (w_db w) @ mirror_columns acct mp nm f # map (mirror_columns acct mp nm) (filter (to_mirror folders) fs)"
        if "r = Inr (Suc n + length (filter (to_mirror folders) fs)) \<and>
          ?cols (w_db w') = ?cols (w_db v) @ map (mirror_columns acct mp nm) (filter (to_mirror folders) fs)" for r and w' :: "'x world"
        using that by simp
      show "files_map (w_db v) (db_file_key h) \<noteq> None" if "h \<in> set fs" for h
        using that Cons.prems(4) [of h] files_map_upsert [OF ok] \<open>w_db v = _\<close> by simp
    qed (use that Cons.prems in auto)
    show ?thesis
      using True Cons.prems(2,3) rel up
      by (auto simp: mirror_loop_Cons upsert_file_def enqueue_def simp del: mirror_loop.simps intro!: ends_db rec)
  qed
qed simp

text \<open>Switching an account to mirror mode enqueues a download for every file that is live, not a
  folder and not local yet, exactly once and in table order, each at the path the folder tree gives
  it under the mount point, and reports their number.\<close>

theorem mirror_enqueues_all:
  assumes "wf_db (w_db w)" and "no_faults w" and "can_run (2 * length files + 1) w"
    and files: "files = f_live acct (w_db w)" and nm: "nm = build_name_map files"
    and "acyclic_names rank nm"
  shows "\<exists>w'. run_state (enqueue_mirror_downloads acct mp) w = (Inr (length (filter (to_mirror (build_folders files)) files)), w') \<and>
    map task_columns (sync_queue (w_db w')) = map task_columns (sync_queue (w_db w)) @
      map (mirror_columns acct mp nm) (filter (to_mirror (build_folders files)) files)"
proof -
  have known: "files_map (w_db w) (db_file_key f) \<noteq> None" if f: "f \<in> set files" for f
  proof -
    obtain r where "r \<in> set (drive_files (w_db w))" "f = file_from_row r"
      using f by (auto simp: files f_live_def)
    then have "list_ex (\<lambda>s. file_key s = db_file_key f) (drive_files (w_db w))"
      by (auto simp: list_ex_iff file_from_row_key db_file_key_def)
    then show ?thesis
      using find_list_ex [of "\<lambda>s. file_key s = db_file_key f" "drive_files (w_db w)"]
      by (simp add: files_map_def f_get_def)
  qed
  have path: "\<exists>y. resolve_relative_path i nm = Some y" for i
    using walk_parents_some [OF assms(6), of i "[]"] by (auto simp: resolve_relative_path_def)
  have "ends (enqueue_mirror_downloads acct mp) w (\<lambda>r w'.
      r = Inr (length (filter (to_mirror (build_folders files)) files)) \<and>
      map task_columns (sync_queue (w_db w')) = map task_columns (sync_queue (w_db w)) @
        map (mirror_columns acct mp nm) (filter (to_mirror (build_folders files)) files))"
    using assms(2) can_run_left [OF assms(3)] known
    by (auto simp: enqueue_mirror_downloads_def files [symmetric] nm [symmetric] path
        intro!: ends_db ends_mono [OF mirror_loop_ends])
  then show ?thesis by (auto simp: ends_run)
qed

theorem mirror_enqueues_all_witness:
  "let w = (sample_world [] 3 ())\<lparr>w_db := sample_db\<lparr>drive_files := [sample_row\<lparr>r_local_path := None, r_sync_state := ''cloud_only''\<rparr>]\<rparr>\<rparr>
   in \<exists>w'. run_state (enqueue_mirror_downloads ''alice'' ''/mnt/'') w = (Inr 1, w') \<and>
        map task_columns (sync_queue (w_db w')) = map task_columns (sync_queue (w_db w)) @
          [(''alice'', Some ''f1'', ''download'', Some ''/mnt/a.bin'', ''pending'')]"
proof -
  let ?row = "sample_row\<lparr>r_local_path := None, r_sync_state := ''cloud_only''\<rparr>"
  let ?w = "(sample_world [] 3 ())\<lparr>w_db := sample_db\<lparr>drive_files := [?row]\<rparr>\<rparr>"
  have nm: "build_name_map [file_from_row ?row] = [''f1'' \<mapsto> (''a.bin'', None)]"
    by (simp add: build_name_map_def file_from_row_def sample_row_def)
  have wf: "wf_db (w_db ?w)"
    by (simp add: wf_db_def sample_db_def empty_db_def has_account_def sample_account_def sample_row_def upload_row_def download_row1_def)
  have live: "[file_from_row ?row] = f_live ''alice'' (w_db ?w)"
    by (simp add: f_live_def sample_row_def)
  have ac: "acyclic_names (\<lambda>_. 0) [''f1'' \<mapsto> (''a.bin'', None)]" by (simp add: acyclic_names_def)
  have run: "no_faults ?w" "can_run (2 * length [file_from_row ?row] + 1) ?w" by (simp_all add: no_faults_def can_run_def)
  have fil: "filter (to_mirror (build_folders [file_from_row ?row])) [file_from_row ?row] = [file_from_row ?row]"
    by (simp add: to_mirror_def build_folders_def already_local_def file_from_row_def sample_row_def)
  have cols: "mirror_columns ''alice'' ''/mnt/'' [''f1'' \<mapsto> (''a.bin'', None)] (file_from_row ?row)
      = (''alice'', Some ''f1'', ''download'', Some ''/mnt/a.bin'', ''pending'')"
    by (simp add: mirror_columns_def resolve_relative_path_def walk_parents.simps [of _ "''f1''"] file_from_row_def sample_row_def
        under_mount_def trim_end_def)
  show ?thesis
    using mirror_enqueues_all [OF wf run live nm [symmetric] ac, of "''/mnt/''"]
    unfolding fil Let_def by (simp only: list.map list.size cols One_nat_def add_0 add_0_right)
qed

end
