(* ===== verification/Engine_Props.thy ===== *)
theory Engine_Props
  imports Outcomes
begin

text \<open>
  The state machine of the engine: which states it rests in between events, what clients are told,
  what a paused engine does, and how the queue behaves when an account cannot be served.
\<close>

section \<open>Announced states\<close>

fun status_of :: "push_event \<Rightarrow> SyncStatus option" where
  "status_of (SyncStatusChanged p) = Some (p_status p)"
| "status_of _ = None"

text \<open>The statuses clients have been sent, in order.\<close>

definition statuses :: "push_event list \<Rightarrow> SyncStatus list" where
  "statuses ps = List.map_filter status_of ps"

lemma statuses_simps [simp]:
  "statuses (ps @ [SyncStatusChanged p]) = statuses ps @ [p_status p]"
  "statuses (ps @ [SyncItemUpdated it]) = statuses ps"
  "statuses (ps @ [NotificationNew nt]) = statuses ps"
  by (simp_all add: statuses_def map_filter_def)

definition quiet :: "'x world \<Rightarrow> 'x world \<Rightarrow> bool" where
  "quiet w w' \<longleftrightarrow> (halted w \<longrightarrow> halted w') \<and> statuses (w_push w') = statuses (w_push w)"

interpretation qt: task_frame quiet tid "\<lambda>_. True"
  by unfold_locales (auto simp: quiet_def halted_def)

interpretation qw: work_frame quiet "sv :: 'x services"
proof unfold_locales
  show "quiet w (snd (run_state (process_task sv (task_from_row r)) w))" for w :: "'x world" and r
    by (rule qt.io_run [OF qt.io_process_task [where tid = "q_id r"]]) simp_all
qed (auto simp: quiet_def halted_def)

text \<open>The last status sent is the one of the engine state.\<close>

definition announced :: "SyncEngineState \<Rightarrow> 'x world \<Rightarrow> bool" where
  "announced st w \<longleftrightarrow> halted w \<or> (statuses (w_push w) \<noteq> [] \<and> last (statuses (w_push w)) = to_sync_status st)"

lemma announced_quiet: "announced st w \<Longrightarrow> quiet w w' \<Longrightarrow> announced st w'"
  by (auto simp: announced_def quiet_def)

lemma ends_quiet:
  assumes "state_io_rel quiet m" and "announced st w" and "\<And>r w'. announced st w' \<Longrightarrow> Q r w'"
  shows "ends m w Q"
proof (cases "run_state m w")
  case (Pair r w')
  then have "quiet w w'" using assms(1) by (auto simp: state_io_rel_def dest: spec [of _ w])
  then show ?thesis using Pair assms(3) [OF announced_quiet [OF assms(2)]] by (simp add: ends_def)
qed

lemma ends_transition:
  assumes "announced cur w" and "\<And>w'. announced new w' \<Longrightarrow> Q new w'"
  shows "ends (transition_to new cur) w Q"
  using assms
  by (auto simp: transition_to_def push_status_def push_send_def announced_def halted_def)

lemma ends_read_prefs [simp]: "ends read_prefs w Q = Q (w_mount_point w, w_sync_mode w) w"
  by (simp add: read_prefs_def)

text \<open>States the engine rests in, and that they are announced.\<close>

definition resting :: "SyncEngineState \<Rightarrow> bool" where
  "resting st \<longleftrightarrow> st = Idle \<or> st = Syncing \<or> st = Paused"

lemma handle_command_rests:
  assumes "announced st w" and "resting st"
  shows "ends (handle_command st cmd) w (\<lambda>st' w'. announced st' w' \<and> resting st')"
proof (cases cmd)
  case (SwitchMode m)
  have "ends (handle_mode_switch st m) w (\<lambda>st' w'. announced st' w' \<and> resting st')"
    using assms unfolding handle_mode_switch_def
    by (auto simp: resting_def intro!: ends_transition ends_quiet [OF qt.io_queries(4)]
        ends_quiet [OF qt.io_for_each [OF qw.io_switch_account]] split: sum.splits)
  then show ?thesis using SwitchMode by (simp add: handle_command_def)
qed (use assms in \<open>auto simp: handle_command_def resting_def intro!: ends_transition\<close>)

lemma handle_poll_rests:
  assumes "announced st w" and "resting st"
  shows "ends (handle_remote_poll sv st) w (\<lambda>st' w'. announced st' w' \<and> resting st')"
  using assms unfolding handle_remote_poll_def
  by (auto simp: resting_def intro!: ends_transition ends_quiet [OF qt.io_queries(4)]
      ends_quiet [OF qt.io_for_each [OF qw.io_poll_account]] ends_quiet [OF qw.io_process_pending] split: sum.splits)

lemma quiet_enqueue: "state_io_rel quiet (enqueue t)"
  unfolding enqueue_def by (intro qt.io_try qt.io_db qt.io_return) (simp add: quiet_def halted_def)

lemma handle_watcher_rests:
  assumes "announced st w" and "resting st"
  shows "ends (handle_watcher_task sv st t) w (\<lambda>st' w'. announced st' w' \<and> resting st')"
  using assms unfolding handle_watcher_task_def
  by (auto simp: resting_def intro!: ends_transition ends_quiet [OF quiet_enqueue]
      ends_quiet [OF qw.io_process_pending] split: sum.splits)

lemma handle_event_rests:
  assumes "announced (en_state en) w" and "resting (en_state en)"
  shows "ends (handle_event sv en ev) w (\<lambda>en' w'. announced (en_state en') w' \<and> resting (en_state en'))"
proof (cases ev)
  case (Command cmd)
  then show ?thesis using ends_mono [OF handle_command_rests [OF assms]] by fastforce
next
  case PollTick
  then show ?thesis using ends_mono [OF handle_poll_rests [OF assms]] by fastforce
next
  case (WatcherTask t)
  then show ?thesis using ends_mono [OF handle_watcher_rests [OF assms]] by fastforce
qed (use assms in auto)

text \<open>C29: in every reachable state of the event loop the engine rests in \<open>Idle\<close>, \<open>Syncing\<close> or
  \<open>Paused\<close> (never in \<open>Scanning\<close>), and the last status pushed to the clients is the one of the
  state it is in: clients are never left with a stale status.\<close>

theorem engine_rests_announced:
  assumes "engine_runs sv s0 s"
  shows "resting (en_state (fst s)) \<and> announced (en_state (fst s)) (snd s)"
  using assms
proof induction
  case (start watching w en w')
  then show ?case
    by (auto simp: engine_start_def push_status_def push_send_def now_ms_def announced_def resting_def split: if_splits)
next
  case (more s0 s s')
  from more.hyps(2) obtain en w ev en' w' where
    "s = (en, w)" "s' = (en', w')" "run_state (handle_event sv en ev) w = (en', w')"
    by (auto elim!: engine_stepE)
  then show ?case using more.IH handle_event_rests [of en w sv ev] by (simp add: ends_def)
qed

theorem engine_rests_announced_witness:
  "let s = (\<lparr>en_state = Idle, en_watching = True, en_running = True\<rparr>,
     (sample_world [] 5 ())\<lparr>w_push := [SyncStatusChanged \<lparr>p_status = UpToDate, p_ts = 1000, p_speed = None, p_pending = None\<rparr>]\<rparr>)
   in resting (en_state (fst s)) \<and> announced (en_state (fst s)) (snd s)"
  unfolding Let_def
  by (rule engine_rests_announced [OF engine_runs.start [where sv = null_services and watching = True and w = "sample_world [] 5 ()"]])
     (simp add: engine_start_def push_status_def push_send_def now_ms_def halted_def sample_world_def)

section \<open>Pausing\<close>

fun background_event :: "engine_event \<Rightarrow> bool" where
  "background_event PollTick = True"
| "background_event (WatcherTask t) = True"
| "background_event _ = False"

text \<open>A paused engine does nothing on its own. Any sequence of poll timer ticks and watcher tasks
  leaves the engine, the database, the file system, the services and the clients exactly as they were.\<close>

theorem paused_does_nothing:
  assumes "en_state en = Paused" and "list_all background_event evs"
  shows "run_state (run_events sv en evs) w = (en, w)"
  using assms
proof (induction evs)
  case (Cons ev evs)
  have "en\<lparr>en_state := Paused\<rparr> = en" using Cons.prems(1) by (cases en) simp
  then have "run_state (handle_event sv en ev) w = (en, w)"
    using Cons.prems by (cases ev) (simp_all add: handle_remote_poll_def handle_watcher_task_def)
  then show ?case using Cons by simp
qed simp

theorem paused_does_nothing_witness:
  "let en = \<lparr>en_state = Paused, en_watching = True, en_running = True\<rparr>
   in run_state (run_events null_services en [PollTick, WatcherTask (task_from_row upload_row), PollTick]) (sample_world [] 9 ())
      = (en, sample_world [] 9 ())"
  unfolding Let_def by (rule paused_does_nothing) simp_all

text \<open>A mode switch ends a pause. A paused engine that is asked for the other sync mode comes out
  \<open>Idle\<close>, in every run, so the next poll resumes syncing without a \<open>Resume\<close>.\<close>

theorem mode_switch_unpauses:
  assumes "w_sync_mode w \<noteq> m"
  shows "fst (run_state (handle_command Paused (SwitchMode m)) w) = Idle"
proof -
  have tr: "fst (run_state (transition_to st cur) v) = st" for st cur and v :: "'a world"
    by (simp add: transition_to_def split: prod.splits)
  show ?thesis
    using assms by (auto simp: handle_command_def handle_mode_switch_def read_prefs_def tr split: prod.splits sum.splits)
qed

section \<open>An account without credentials\<close>

definition client_operation :: "string \<Rightarrow> bool" where
  "client_operation oper \<longleftrightarrow> oper = ''upload'' \<or> oper = ''download'' \<or> oper = ''photos_backup'' \<or> oper = ''delete''"

definition no_credentials :: "'x services \<Rightarrow> string \<Rightarrow> 'x world \<Rightarrow> bool" where
  "no_credentials sv acct w \<longleftrightarrow> w_tokens w acct = None \<and>
     (\<forall>x rt. fst (sv_keyring_get sv (keyring_account acct) x) \<noteq> Inr (Some rt))"

lemma no_client:
  assumes "no_credentials sv acct w"
  shows "ends (build_client_for_account sv acct) w
    (\<lambda>r w'. r = None \<and> w_db w' = w_db w \<and> w_tokens w' = w_tokens w)"
proof -
  have "ends (ext_call (sv_keyring_get sv (keyring_account acct))) w
      (\<lambda>r w'. (\<forall>rt. r \<noteq> Inr (Some rt)) \<and> w_db w' = w_db w \<and> w_tokens w' = w_tokens w)"
    using assms by (auto simp: ends_def ext_call_def no_credentials_def split: prod.splits) (metis fst_conv)
  then show ?thesis
    using assms
    by (auto simp: build_client_for_account_def get_token_set_def read_oauth_def load_refresh_token_def no_credentials_def
        elim!: ends_mono split: sum.splits option.splits)
qed

lemma process_task_no_client:
  assumes "no_credentials sv (t_account_id t) w" and "client_operation (t_operation t)"
  shows "ends (process_task sv t) w (\<lambda>_ w'. w_db w' = w_db w \<and> w_tokens w' = w_tokens w)"
  using assms(2) ends_mono [OF no_client [OF assms(1)]]
  by (auto simp: process_task_def run_with_client_def client_operation_def)

text \<open>An account without credentials blocks the queue. When the first task in priority order
  needs a client and its account has no cached token and no stored refresh token, processing the queue
  changes nothing in the database: no other task, of any account, is processed.\<close>

theorem blocked_queue_stalls:
  assumes "q_next (w_db w) = Some r" and "client_operation (q_operation r)" and "no_credentials sv (q_account_id r) w"
  shows "w_db (snd (run_state (process_pending_tasks sv) w)) = w_db w"
proof -
  have "ends (process_tasks n sv) v (\<lambda>_ w'. w_db w' = w_db w)"
    if "w_db v = w_db w" "w_tokens v = w_tokens w" for n v
    using that
  proof (induction n arbitrary: v)
    case (Suc n)
    have nxt: "ends next_pending_task v (\<lambda>x v'. (x = Inr (Some (task_from_row r)) \<or> (\<exists>e. x = Inl e)) \<and>
        w_db v' = w_db w \<and> w_tokens v' = w_tokens w)"
      using Suc.prems assms(1)
      by (auto simp: next_pending_task_def db_exec_def split: option.splits)
    have step: "ends (process_task sv (task_from_row r)) v' (\<lambda>_ v''. ends (process_tasks n sv) v'' (\<lambda>_ w'. w_db w' = w_db w))"
      if "w_db v' = w_db w" "w_tokens v' = w_tokens w" for v'
      by (rule ends_mono [OF process_task_no_client])
         (use that assms(2,3) Suc.IH in \<open>auto simp: no_credentials_def\<close>)
    show ?case by (auto intro!: ends_mono [OF nxt] step)
  qed simp
  from this [of w 10] show ?thesis by (simp add: process_pending_tasks_def ends_def split: prod.splits)
qed

theorem blocked_queue_stalls_witness:
  "w_db (snd (run_state (process_pending_tasks null_services) (sample_world [] 40 ()))) = sample_db"
  using blocked_queue_stalls [where w = "sample_world [] 40 ()" and r = upload_row and sv = null_services]
  by (simp add: q_next_def q_pending_def q_key_def upload_row_def download_row1_def client_operation_def
      no_credentials_def null_services_def)

section \<open>Stranded tasks\<close>

text \<open>A download whose metadata lookup fails is stranded. The error leaves the task marked in
  progress, and no later sequence of events changes that row: nothing resumes tasks in progress.\<close>

theorem lookup_failure_strands_task:
  assumes "wf_db (w_db w)" and "queue_row (q_id r) (w_db w) = Some r" and "q_file_id r = Some i" and "q_local_path r = Some p"
    and "can_run 2 w" and "w_fault w (w_ops w) = None" and "w_fault w (Suc (w_ops w)) = Some e"
    and "list_all event_fresh evs" and "run_state (download_file sv c (task_from_row r)) w = (res, w')"
  shows "\<exists>r'. q_id r' = q_id r \<and> q_status r' = ''in_progress'' \<and>
    r' \<in> set (sync_queue (w_db (snd (run_state (run_events sv en evs) w'))))"
proof -
  let ?r = "r\<lparr>q_status := ''in_progress'', q_error_msg := None, q_updated_at := w_clock w (w_ops w)\<rparr>"
  have "ends (download_file sv c (task_from_row r)) w
      (\<lambda>_ w'. w_db w' = q_set_status (q_id r) ''in_progress'' None (w_clock w (w_ops w)) (w_db w))"
    using assms(3-7)
    by (simp add: download_file_def update_task_status_def get_file_by_id_def db_exec_def halted_def can_run_def)
  then have db: "w_db w' = q_set_status (q_id r) ''in_progress'' None (w_clock w (w_ops w)) (w_db w)"
    using assms(9) by (simp add: ends_def)
  then have "queue_row (q_id r) (w_db w') = Some ?r"
    using assms(2) by (simp add: find_rowD)
  then have "?r \<in> set (sync_queue (w_db w'))"
    by (auto simp: queue_row_def dest: find_SomeD)
  moreover have "keeps_settled w' (snd (run_state (run_events sv en evs) w'))"
    by (rule se.R_run_events [OF assms(8)])
  moreover have "wf_db (w_db w')" using assms(1) by (simp add: db wf_db_set_status)
  ultimately have "?r \<in> set (sync_queue (w_db (snd (run_state (run_events sv en evs) w'))))"
    by (simp add: keeps_settled_def)
  then show ?thesis by (intro exI [of _ ?r]) simp
qed

theorem lookup_failure_strands_task_witness:
  "let w = (sample_world [] 99 ())\<lparr>w_fault := \<lambda>n. if n = 1 then Some ''database is locked'' else None\<rparr>;
       w' = snd (run_state (download_file null_services sample_client (task_from_row download_row1)) w);
       en = \<lparr>en_state = Idle, en_watching = True, en_running = True\<rparr>
   in \<exists>r'. q_id r' = 2 \<and> q_status r' = ''in_progress'' \<and>
        r' \<in> set (sync_queue (w_db (snd (run_state (run_events null_services en [PollTick, PollTick]) w'))))"
  using lookup_failure_strands_task [where w = "(sample_world [] 99 ())\<lparr>w_fault := \<lambda>n. if n = 1 then Some ''database is locked'' else None\<rparr>"
      and r = download_row1 and i = "''f1''" and p = "''/drive/a.bin''" and evs = "[PollTick, PollTick]" and sv = null_services
      and c = sample_client and en = "\<lparr>en_state = Idle, en_watching = True, en_running = True\<rparr>" and e = "''database is locked''",
      OF _ _ _ _ _ _ _ _ prod.collapse [symmetric]]
  by (simp add: sample_wf queue_row_def upload_row_def download_row1_def can_run_def Let_def)

end
