(* ===== verification/Watcher.thy ===== *)
theory Watcher
  imports Db_Tables Paths
begin

text \<open>
  \<^verbatim>\<open>crates/gdriver-daemon/src/watcher/mod.rs\<close>: the watcher of the local folders. Events of the \<^verbatim>\<open>notify\<close>
  crate are debounced per path and turned into tasks for the engine. What \<^verbatim>\<open>notify\<close>, \<^verbatim>\<open>read_dir\<close> and the
  bounded channel answer are arguments: \<open>watch_ok\<close> says which directories can be watched, \<open>ls\<close> lists a
  directory, and \<open>chan n\<close> is the state of the channel at the \<open>n\<close>-th send.
\<close>

definition DEBOUNCE_MS :: int where "DEBOUNCE_MS = 300"
definition TICK_MS :: int where "TICK_MS = 100"

section \<open>Events\<close>

text \<open>The cases of \<^verbatim>\<open>notify::EventKind\<close> that the source tells apart.\<close>

datatype modify_kind = ModifyAny | ModifyData | ModifyMetadata | ModifyName | ModifyOther
datatype remove_kind = RemoveAny | RemoveFile | RemoveFolder | RemoveOther
datatype event_kind = AnyEvent | AccessEvent | CreateEvent | ModifyEvent modify_kind | RemoveEvent remove_kind | OtherEvent

record debounce_entry =
  de_first_seen :: int
  de_path :: string
  de_event :: event_kind

text \<open>\<^verbatim>\<open>HashMap<PathBuf, (String, String)>\<close>, in the order it is iterated; keys compare by components.\<close>

type_synonym folder_map = "(string \<times> (string \<times> string)) list"

definition path_eq :: "string \<Rightarrow> string \<Rightarrow> bool" where
  "path_eq p q \<longleftrightarrow> path_is_abs p = path_is_abs q \<and> path_comps p = path_comps q"

definition canonicalise_key :: "string \<Rightarrow> string" where
  "canonicalise_key p = p"

section \<open>Tasks\<close>

text \<open>\<^verbatim>\<open>Iterator::max_by_key\<close>: the last of the greatest.\<close>

fun last_max :: "('r \<Rightarrow> nat) \<Rightarrow> 'r list \<Rightarrow> 'r option" where
  "last_max key [] = None"
| "last_max key (r # rs) = (case last_max key rs of None \<Rightarrow> Some r | Some s \<Rightarrow> if key s < key r then Some r else Some s)"

definition find_owning_folder :: "string \<Rightarrow> folder_map \<Rightarrow> (string \<times> string) option" where
  "find_owning_folder path fm =
     map_option snd (last_max (\<lambda>(root, _). length root) (filter (\<lambda>(root, _). path_starts_with (canonicalise_key path) root) fm))"

definition backup_operation :: "bool \<Rightarrow> string" where
  "backup_operation is_photos = (if is_photos then ''photos_backup'' else ''upload'')"

fun event_operation :: "bool \<Rightarrow> event_kind \<Rightarrow> string option" where
  "event_operation is_photos CreateEvent = Some (backup_operation is_photos)"
| "event_operation is_photos (ModifyEvent m) = (if m = ModifyMetadata then None else Some (backup_operation is_photos))"
| "event_operation is_photos (RemoveEvent k) = (if k = RemoveFolder then None else Some ''delete'')"
| "event_operation is_photos _ = None"

definition watch_task :: "int \<Rightarrow> string \<Rightarrow> string \<Rightarrow> string \<Rightarrow> sync_task" where
  "watch_task now acct operation path = \<lparr>t_id = None, t_account_id = acct, t_file_id = None, t_operation = operation,
     t_local_path = Some path, t_priority = 5, t_status = ''pending'', t_retry_count = 0, t_error_msg = None,
     t_created_at = now, t_updated_at = now\<rparr>"

definition event_to_task :: "string \<Rightarrow> event_kind \<Rightarrow> folder_map \<Rightarrow> ('x world, sync_task option) state" where
  "event_to_task path kind fm = do {
     is_dir \<leftarrow> fs_query (\<lambda>s. path \<in> fs_dirs s);
     now \<leftarrow> now_ms;
     State_Monad.return
       (if is_dir then None
        else case find_owning_folder path fm of
               None \<Rightarrow> None
             | Some (acct, folder_type) \<Rightarrow>
                 map_option (\<lambda>oper. watch_task now acct oper path) (event_operation (folder_type = ''photos'') kind))
   }"

section \<open>Debouncing\<close>

text \<open>One path of an event, at the instant it is handled: the first instant stays, the kind is replaced.\<close>

definition note_path :: "event_kind \<Rightarrow> debounce_entry list \<Rightarrow> string \<times> int \<Rightarrow> debounce_entry list" where
  "note_path kind pending = (\<lambda>(path, now).
     (let key = canonicalise_key path
      in if list_ex (\<lambda>e. path_eq (de_path e) key) pending
         then update_where (\<lambda>e. path_eq (de_path e) key) (\<lambda>e. e\<lparr>de_event := kind\<rparr>) pending
         else pending @ [\<lparr>de_first_seen = now, de_path = key, de_event = kind\<rparr>]))"

definition expired :: "int \<Rightarrow> debounce_entry \<Rightarrow> bool" where
  "expired now e \<longleftrightarrow> now - de_first_seen e \<ge> DEBOUNCE_MS"

section \<open>The channel to the engine\<close>

datatype channel_state = Room | Full | Closed

record watcher =
  wt_folders :: folder_map
  wt_pending :: "debounce_entry list"
  wt_sent :: "sync_task list"
  wt_sends :: nat
  wt_running :: bool

text \<open>\<^verbatim>\<open>send(..).await\<close> waits for room, \<^verbatim>\<open>try_send\<close> does not.\<close>

definition send_task :: "(nat \<Rightarrow> channel_state) \<Rightarrow> sync_task \<Rightarrow> watcher \<Rightarrow> bool \<times> watcher" where
  "send_task chan t wt = (let wt' = wt\<lparr>wt_sends := wt_sends wt + 1\<rparr>
     in if chan (wt_sends wt) = Closed then (False, wt') else (True, wt'\<lparr>wt_sent := wt_sent wt @ [t]\<rparr>))"

definition try_send :: "(nat \<Rightarrow> channel_state) \<Rightarrow> sync_task \<Rightarrow> watcher \<Rightarrow> watcher" where
  "try_send chan t wt = (let wt' = wt\<lparr>wt_sends := wt_sends wt + 1\<rparr>
     in if chan (wt_sends wt) = Room then wt'\<lparr>wt_sent := wt_sent wt @ [t]\<rparr> else wt')"

section \<open>The first scan of a folder\<close>

text \<open>
  The walk follows directories, so its depth is the depth of the tree; \<open>n\<close> bounds it. A failed send ends
  the walk of the directory it happens in.
\<close>

function (sequential) walk_and_enqueue :: "(nat \<Rightarrow> channel_state) \<Rightarrow> (string \<Rightarrow> string list result) \<Rightarrow> filesystem \<Rightarrow>
      (string \<Rightarrow> sync_task) \<Rightarrow> nat \<Rightarrow> string \<Rightarrow> watcher \<Rightarrow> watcher"
  and walk_entries :: "(nat \<Rightarrow> channel_state) \<Rightarrow> (string \<Rightarrow> string list result) \<Rightarrow> filesystem \<Rightarrow>
      (string \<Rightarrow> sync_task) \<Rightarrow> nat \<Rightarrow> string list \<Rightarrow> watcher \<Rightarrow> watcher" where
  "walk_and_enqueue chan ls s task 0 dir wt = wt"
| "walk_and_enqueue chan ls s task (Suc n) dir wt =
     (case ls dir of Inl _ \<Rightarrow> wt | Inr entries \<Rightarrow> walk_entries chan ls s task n entries wt)"
| "walk_entries chan ls s task n [] wt = wt"
| "walk_entries chan ls s task n (path # paths) wt =
     (if path \<in> fs_dirs s then walk_entries chan ls s task n paths (walk_and_enqueue chan ls s task n path wt)
      else if fs_files s path = None then walk_entries chan ls s task n paths wt
      else case send_task chan (task path) wt of
             (False, wt') \<Rightarrow> wt'
           | (True, wt') \<Rightarrow> walk_entries chan ls s task n paths wt')"
  by pat_completeness auto

termination
  by (relation "measures [\<lambda>x. case x of Inl (_, _, _, _, n, _, _) \<Rightarrow> n | Inr (_, _, _, _, n, _, _) \<Rightarrow> n,
       \<lambda>x. case x of Inl _ \<Rightarrow> 0 | Inr (_, _, _, _, _, ps, _) \<Rightarrow> Suc (length ps)]") auto

text \<open>A folder is its path, its type and its account.\<close>

definition scan_folder :: "(nat \<Rightarrow> channel_state) \<Rightarrow> (string \<Rightarrow> string list result) \<Rightarrow> nat \<Rightarrow> filesystem \<Rightarrow> int \<Rightarrow>
    string \<times> string \<times> string \<Rightarrow> watcher \<Rightarrow> watcher" where
  "scan_folder chan ls depth s now = (\<lambda>(root, folder_type, acct) wt.
     walk_and_enqueue chan ls s (watch_task now acct (backup_operation (folder_type = ''photos''))) depth root wt)"

definition scan_existing_files :: "(nat \<Rightarrow> channel_state) \<Rightarrow> (filesystem \<Rightarrow> string \<Rightarrow> string list result) \<Rightarrow> nat \<Rightarrow>
    (string \<times> string \<times> string) list \<Rightarrow> watcher \<Rightarrow> ('x world, watcher) state" where
  "scan_existing_files chan ls depth folders wt = do {
     now \<leftarrow> now_ms;
     s \<leftarrow> fs_query (\<lambda>s. s);
     State_Monad.return (fold (scan_folder chan (ls s) depth s now) folders wt)
   }"

section \<open>Folders\<close>

primrec reload_loop :: "(string \<Rightarrow> bool) \<Rightarrow> sync_folder list \<Rightarrow> folder_map \<Rightarrow> ('x world, folder_map \<times> (string \<times> string \<times> string) list) state" where
  "reload_loop watch_ok [] fm = State_Monad.return (fm, [])"
| "reload_loop watch_ok (f # fs) fm =
     (if list_ex (\<lambda>(root, _). path_eq root (s_local_path f)) fm then reload_loop watch_ok fs fm
      else do {
        is_dir \<leftarrow> fs_query (\<lambda>s. s_local_path f \<in> fs_dirs s);
        if is_dir \<and> watch_ok (s_local_path f)
        then do {
          (fm', new) \<leftarrow> reload_loop watch_ok fs (fm @ [(s_local_path f, s_account_id f, s_folder_type f)]);
          State_Monad.return (fm', (s_local_path f, s_folder_type f, s_account_id f) # new)
        }
        else reload_loop watch_ok fs fm
      })"

definition reload_folders :: "(string \<Rightarrow> bool) \<Rightarrow> folder_map \<Rightarrow> ('x world, folder_map \<times> (string \<times> string \<times> string) list) state" where
  "reload_folders watch_ok fm = do {
     r \<leftarrow> list_enabled;
     case r of
       Inl _ \<Rightarrow> State_Monad.return (fm, [])
     | Inr folders \<Rightarrow> reload_loop watch_ok folders fm
   }"

section \<open>The loop\<close>

text \<open>What \<^verbatim>\<open>tokio::select!\<close> picks: a reload signal, a message of \<^verbatim>\<open>notify\<close>, or a tick at an instant.\<close>

datatype watch_event = Reload | FsEvent event_kind "(string \<times> int) list" | FsError | FsClosed | Tick int

fun debounce :: "watch_event \<Rightarrow> debounce_entry list \<Rightarrow> debounce_entry list" where
  "debounce (FsEvent kind paths) pending = foldl (note_path kind) pending paths"
| "debounce (Tick now) pending = filter (\<lambda>e. \<not> expired now e) pending"
| "debounce _ pending = pending"

fun flush_entries :: "debounce_entry list \<Rightarrow> folder_map \<Rightarrow> ('x world, sync_task list) state" where
  "flush_entries [] fm = State_Monad.return []"
| "flush_entries (e # es) fm = do {
     t \<leftarrow> event_to_task (de_path e) (de_event e) fm;
     ts \<leftarrow> flush_entries es fm;
     State_Monad.return (case t of None \<Rightarrow> ts | Some task \<Rightarrow> task # ts)
   }"

definition reload_and_scan :: "(string \<Rightarrow> bool) \<Rightarrow> (filesystem \<Rightarrow> string \<Rightarrow> string list result) \<Rightarrow> nat \<Rightarrow> (nat \<Rightarrow> channel_state) \<Rightarrow>
    watcher \<Rightarrow> ('x world, watcher) state" where
  "reload_and_scan watch_ok ls depth chan wt = do {
     (fm, new) \<leftarrow> reload_folders watch_ok (wt_folders wt);
     scan_existing_files chan ls depth new (wt\<lparr>wt_folders := fm\<rparr>)
   }"

fun watch_step :: "(string \<Rightarrow> bool) \<Rightarrow> (filesystem \<Rightarrow> string \<Rightarrow> string list result) \<Rightarrow> nat \<Rightarrow> (nat \<Rightarrow> channel_state) \<Rightarrow>
    watcher \<Rightarrow> watch_event \<Rightarrow> ('x world, watcher) state" where
  "watch_step watch_ok ls depth chan wt Reload = reload_and_scan watch_ok ls depth chan wt"
| "watch_step watch_ok ls depth chan wt FsClosed = State_Monad.return (wt\<lparr>wt_running := False\<rparr>)"
| "watch_step watch_ok ls depth chan wt (Tick now) = do {
     tasks \<leftarrow> flush_entries (filter (expired now) (wt_pending wt)) (wt_folders wt);
     State_Monad.return (fold (try_send chan) tasks (wt\<lparr>wt_pending := debounce (Tick now) (wt_pending wt)\<rparr>))
   }"
| "watch_step watch_ok ls depth chan wt ev = State_Monad.return (wt\<lparr>wt_pending := debounce ev (wt_pending wt)\<rparr>)"

fun watch_loop :: "(string \<Rightarrow> bool) \<Rightarrow> (filesystem \<Rightarrow> string \<Rightarrow> string list result) \<Rightarrow> nat \<Rightarrow> (nat \<Rightarrow> channel_state) \<Rightarrow>
    watcher \<Rightarrow> watch_event list \<Rightarrow> ('x world, watcher) state" where
  "watch_loop watch_ok ls depth chan wt [] = State_Monad.return wt"
| "watch_loop watch_ok ls depth chan wt (ev # evs) =
     (if wt_running wt then do {
        wt' \<leftarrow> watch_step watch_ok ls depth chan wt ev;
        watch_loop watch_ok ls depth chan wt' evs
      }
      else State_Monad.return wt)"

definition watcher_run :: "(string \<Rightarrow> bool) \<Rightarrow> (filesystem \<Rightarrow> string \<Rightarrow> string list result) \<Rightarrow> nat \<Rightarrow> (nat \<Rightarrow> channel_state) \<Rightarrow>
    watch_event list \<Rightarrow> ('x world, watcher) state" where
  "watcher_run watch_ok ls depth chan evs = do {
     wt \<leftarrow> reload_and_scan watch_ok ls depth chan \<lparr>wt_folders = [], wt_pending = [], wt_sent = [], wt_sends = 0, wt_running = True\<rparr>;
     watch_loop watch_ok ls depth chan wt evs
   }"

end
