(* ===== verification/Watcher_Props.thy ===== *)
theory Watcher_Props
  imports Watcher Samples
begin

text \<open>
  The watcher: a burst of events on a path becomes one task per debounce window and none is forgotten,
  the owner of a path is its nearest watched ancestor, and the first scan of a folder enqueues every file below it.
\<close>

section \<open>Debouncing\<close>

fun instants :: "watch_event \<Rightarrow> int list" where
  "instants (FsEvent kind paths) = map snd paths"
| "instants (Tick now) = [now]"
| "instants _ = []"

text \<open>The entries a sequence of events flushes, each with the instant of its tick.\<close>

fun flush_log :: "debounce_entry list \<Rightarrow> watch_event list \<Rightarrow> (int \<times> string) list" where
  "flush_log pending [] = []"
| "flush_log pending (ev # evs) =
     (case ev of Tick now \<Rightarrow> map (\<lambda>e. (now, de_path e)) (filter (expired now) pending) | _ \<Rightarrow> [])
     @ flush_log (debounce ev pending) evs"

definition spaced :: "int \<times> string \<Rightarrow> int \<times> string \<Rightarrow> bool" where
  "spaced a b \<longleftrightarrow> (path_eq (snd a) (snd b) \<longrightarrow> fst a + DEBOUNCE_MS \<le> fst b)"

definition keys_distinct :: "debounce_entry list \<Rightarrow> bool" where
  "keys_distinct = sorted_wrt (\<lambda>a b. \<not> path_eq (de_path a) (de_path b))"

lemma path_eq_simps [simp]: "path_eq p p"
  by (simp add: path_eq_def)

lemma path_eq_sym: "path_eq p q = path_eq q p"
  by (auto simp: path_eq_def)

lemma path_eq_trans: "path_eq p q \<Longrightarrow> path_eq q r \<Longrightarrow> path_eq p r"
  by (simp add: path_eq_def)

lemma note_path_entries:
  "e \<in> set (note_path kind pending (p, now)) \<Longrightarrow>
     (\<exists>e' \<in> set pending. de_path e' = de_path e \<and> de_first_seen e' = de_first_seen e) \<or>
     de_path e = p \<and> de_first_seen e = now"
  by (auto simp: note_path_def canonicalise_key_def Let_def set_update_where split: if_splits)

lemma foldl_note_entries:
  "e \<in> set (foldl (note_path kind) pending ps) \<Longrightarrow>
     (\<exists>e' \<in> set pending. de_path e' = de_path e \<and> de_first_seen e' = de_first_seen e) \<or> (de_path e, de_first_seen e) \<in> set ps"
proof (induction ps arbitrary: pending)
  case (Cons x ps)
  from Cons.IH [of "note_path kind pending x"] Cons.prems
  consider (old) e' where "e' \<in> set (note_path kind pending x)" "de_path e' = de_path e" "de_first_seen e' = de_first_seen e"
    | (new) "(de_path e, de_first_seen e) \<in> set ps" by auto
  then show ?case
  proof cases
    case old
    then show ?thesis using note_path_entries [of e' kind pending "fst x" "snd x"] by (cases x) auto
  qed simp
qed auto

lemma note_path_distinct: "keys_distinct pending \<Longrightarrow> keys_distinct (note_path kind pending x)"
proof -
  assume d: "keys_distinct pending"
  have "map de_path (update_where P (\<lambda>e. e\<lparr>de_event := kind\<rparr>) es) = map de_path es" for P es
    by (rule map_update_where) simp
  then have "sorted_wrt (\<lambda>a b. \<not> path_eq (de_path a) (de_path b)) (update_where P (\<lambda>e. e\<lparr>de_event := kind\<rparr>) es) =
      sorted_wrt (\<lambda>a b. \<not> path_eq (de_path a) (de_path b)) es" for P es
    using sorted_wrt_map [of "\<lambda>a b. \<not> path_eq a b" de_path] by metis
  then show ?thesis
    using d by (auto simp: keys_distinct_def note_path_def canonicalise_key_def Let_def sorted_wrt_append list_ex_iff split: prod.splits)
qed

lemma debounce_distinct: "keys_distinct pending \<Longrightarrow> keys_distinct (debounce ev pending)"
proof (cases ev)
  case (FsEvent kind ps)
  assume "keys_distinct pending"
  then have "keys_distinct (foldl (note_path kind) pending ps)"
    by (induction ps arbitrary: pending) (simp_all add: note_path_distinct)
  then show ?thesis by (simp add: FsEvent)
qed (simp_all add: keys_distinct_def sorted_wrt_filter)

lemma debounce_entries:
  "e \<in> set (debounce ev pending) \<Longrightarrow>
     (\<exists>e' \<in> set pending. de_path e' = de_path e \<and> de_first_seen e' = de_first_seen e) \<or> de_first_seen e \<in> set (instants ev)"
  by (cases ev) (auto dest!: foldl_note_entries intro: rev_image_eqI)

text \<open>When the entries of a path were first seen at \<open>t\<close> or later, no flush of it comes before the window is over.\<close>

lemma flush_log_late:
  assumes "\<And>e. e \<in> set pending \<Longrightarrow> path_eq (de_path e) p \<Longrightarrow> t \<le> de_first_seen e"
    and "\<And>i. i \<in> set (concat (map instants evs)) \<Longrightarrow> t \<le> i"
    and "(T, q) \<in> set (flush_log pending evs)" and "path_eq q p"
  shows "t + DEBOUNCE_MS \<le> T"
  using assms
proof (induction evs arbitrary: pending)
  case (Cons ev evs)
  have kept: "t \<le> de_first_seen e" if "e \<in> set (debounce ev pending)" "path_eq (de_path e) p" for e
    using debounce_entries [OF that(1)] that(2) Cons.prems(1,2) by fastforce
  show ?case
  proof (cases "(T, q) \<in> set (flush_log (debounce ev pending) evs)")
    case True
    then show ?thesis using Cons.IH [OF kept _ _ Cons.prems(4)] Cons.prems(2) by simp
  next
    case False
    then obtain e where "e \<in> set pending" "q = de_path e" "expired T e" using Cons.prems(3) by (auto split: watch_event.splits)
    then show ?thesis using Cons.prems(1) [of e] Cons.prems(4) by (simp add: expired_def)
  qed
qed simp

lemma flush_log_spaced:
  assumes "keys_distinct pending" and "sorted (concat (map instants evs))"
  shows "sorted_wrt spaced (flush_log pending evs)"
  using assms
proof (induction evs arbitrary: pending)
  case (Cons ev evs)
  have IH: "sorted_wrt spaced (flush_log (debounce ev pending) evs)"
    using Cons.IH [OF debounce_distinct [OF Cons.prems(1)]] Cons.prems(2) by (simp add: sorted_append)
  show ?case
  proof (cases ev)
    case (Tick now)
    let ?es = "filter (expired now) pending"
    have here: "sorted_wrt spaced (map (\<lambda>e. (now, de_path e)) ?es)"
      using sorted_wrt_filter [OF Cons.prems(1) [unfolded keys_distinct_def], of "expired now"]
      by (auto simp: sorted_wrt_map spaced_def elim!: sorted_wrt_mono_rel [rotated])
    have later: "spaced (now, de_path e) (T, q)" if e: "e \<in> set ?es" and T: "(T, q) \<in> set (flush_log (debounce ev pending) evs)" for e T q
    proof -
      have "now + DEBOUNCE_MS \<le> T" if eq: "path_eq (de_path e) q"
      proof (rule flush_log_late [OF _ _ T, where p = q])
        show "now \<le> de_first_seen e'" if "e' \<in> set (debounce ev pending)" "path_eq (de_path e') q" for e'
        proof -
          have "path_eq (de_path e) (de_path e')" using eq that(2) path_eq_sym path_eq_trans by blast
          moreover have "e \<noteq> e'" using that(1) e by (auto simp: Tick)
          ultimately show ?thesis
            using Cons.prems(1) e that(1) by (auto simp: keys_distinct_def Tick sorted_wrt_iff_nth_less in_set_conv_nth)
              (metis (no_types) linorder_neqE_nat path_eq_sym)
        qed
        show "now \<le> i" if "i \<in> set (concat (map instants evs))" for i using Cons.prems(2) that by (auto simp: Tick)
      qed simp
      then show ?thesis by (simp add: spaced_def)
    qed
    show ?thesis using IH here later by (auto simp: Tick sorted_wrt_append simp del: debounce.simps)
  qed (use IH in simp_all)
qed simp

text \<open>An entry stays, with its first instant, until it is flushed.\<close>

lemma note_path_keeps:
  assumes "e \<in> set pending"
  shows "\<exists>e' \<in> set (note_path kind pending x). de_path e' = de_path e \<and> de_first_seen e' = de_first_seen e"
proof (cases "list_ex (\<lambda>e. path_eq (de_path e) (fst x)) pending \<and> path_eq (de_path e) (fst x)")
  case True
  then have "e\<lparr>de_event := kind\<rparr> \<in> set (note_path kind pending x)"
    using assms by (cases x) (auto simp: note_path_def canonicalise_key_def Let_def update_where_def)
  then show ?thesis by (rule bexI [rotated]) simp
next
  case False
  then have "e \<in> set (note_path kind pending x)"
    using assms by (cases x) (auto simp: note_path_def canonicalise_key_def Let_def update_where_def list_ex_iff)
  then show ?thesis by blast
qed

lemma foldl_note_keeps:
  "e \<in> set pending \<Longrightarrow> \<exists>e' \<in> set (foldl (note_path kind) pending ps). de_path e' = de_path e \<and> de_first_seen e' = de_first_seen e"
proof (induction ps arbitrary: e pending)
  case (Cons x ps)
  obtain e' where "e' \<in> set (note_path kind pending x)" "de_path e' = de_path e" "de_first_seen e' = de_first_seen e"
    using note_path_keeps [OF Cons.prems] by blast
  then show ?case using Cons.IH [of e' "note_path kind pending x"] by simp
qed auto

lemma note_path_present: "\<exists>e \<in> set (note_path kind pending (p, t)). path_eq (de_path e) p"
proof (cases "list_ex (\<lambda>e. path_eq (de_path e) p) pending")
  case True
  then obtain e where "e \<in> set pending" "path_eq (de_path e) p" by (auto simp: list_ex_iff)
  then show ?thesis using note_path_keeps [of e pending kind "(p, t)"] by metis
qed (simp add: note_path_def canonicalise_key_def Let_def)

lemma debounce_keeps:
  assumes "e \<in> set pending" and "\<And>now. ev = Tick now \<Longrightarrow> \<not> expired now e"
  shows "\<exists>e' \<in> set (debounce ev pending). de_path e' = de_path e \<and> de_first_seen e' = de_first_seen e"
  using assms by (cases ev) (auto intro: foldl_note_keeps)

text \<open>An entry that waits is flushed by the first tick after its window, or earlier.\<close>

lemma flush_log_delivers:
  assumes "e \<in> set pending" and "path_eq (de_path e) p" and "de_first_seen e + DEBOUNCE_MS \<le> T"
    and "sorted (concat (map instants (evs @ [Tick T])))"
  shows "\<exists>T' q. (T', q) \<in> set (flush_log pending (evs @ [Tick T])) \<and> path_eq q p \<and> T' \<le> T"
  using assms
proof (induction evs arbitrary: pending e)
  case Nil
  then show ?case by (intro exI [of _ T] exI [of _ "de_path e"]) (auto simp: expired_def)
next
  case (Cons ev evs)
  have srt: "sorted (concat (map instants (evs @ [Tick T])))" using Cons.prems(4) by (simp add: sorted_append)
  show ?case
  proof (cases "\<exists>now. ev = Tick now \<and> expired now e")
    case True
    then obtain now where now: "ev = Tick now" "expired now e" by blast
    then have "now \<le> T" using Cons.prems(4) by (simp add: sorted_append)
    then show ?thesis using now Cons.prems(1,2) by (intro exI [of _ now] exI [of _ "de_path e"]) auto
  next
    case False
    then obtain e' where e': "e' \<in> set (debounce ev pending)" "de_path e' = de_path e" "de_first_seen e' = de_first_seen e"
      using debounce_keeps [OF Cons.prems(1)] by blast
    then show ?thesis using Cons.IH [OF e'(1) _ _ srt] Cons.prems(2,3) by auto
  qed
qed

lemma debounce_first_seen:
  "e \<in> set (fold debounce evs pending) \<Longrightarrow> (\<exists>e' \<in> set pending. de_first_seen e' = de_first_seen e) \<or> de_first_seen e \<in> set (concat (map instants evs))"
proof (induction evs arbitrary: pending)
  case (Cons ev evs)
  from Cons.IH [of "debounce ev pending"] Cons.prems
  consider (old) e' where "e' \<in> set (debounce ev pending)" "de_first_seen e' = de_first_seen e"
    | (new) "de_first_seen e \<in> set (concat (map instants evs))" by auto
  then show ?case
  proof cases
    case old
    then show ?thesis using debounce_entries [OF old(1)] by (metis UnI1 concat.simps(2) list.simps(9) set_append)
  qed simp
qed auto

lemma flush_log_append: "flush_log pending (evs @ evs') = flush_log pending evs @ flush_log (fold debounce evs pending) evs'"
  by (induction evs arbitrary: pending) simp_all

text \<open>Debouncing neither floods nor forgets. With a clock that does not go back, two flushes of the same
  path are at least 300 ms apart, and a path that an event names at \<open>t\<close> is flushed, after that event and no
  later than the first tick that comes 300 ms after it.\<close>

theorem debounce_coalesces:
  assumes "evs = before @ FsEvent kind paths # after @ [Tick T]" and "sorted (concat (map instants evs))"
    and "(p, t) \<in> set paths" and "t + DEBOUNCE_MS \<le> T"
  shows "sorted_wrt spaced (flush_log [] evs) \<and>
    (\<exists>T' q. (T', q) \<in> set (flush_log (fold debounce before []) (FsEvent kind paths # after @ [Tick T])) \<and>
      path_eq q p \<and> T' \<le> T)"
proof
  show "sorted_wrt spaced (flush_log [] evs)"
    by (rule flush_log_spaced [OF _ assms(2)]) (simp add: keys_distinct_def)
  obtain ps qs where paths: "paths = ps @ (p, t) # qs" using assms(3) by (auto simp: in_set_conv_decomp)
  let ?pending = "fold debounce before []"
  have sorted: "i \<le> t" if "i \<in> set (concat (map instants before)) \<or> i \<in> snd ` set ps" for i
    using assms(2) that unfolding assms(1) paths by (auto simp: sorted_append)
  obtain e where e: "e \<in> set (note_path kind (foldl (note_path kind) ?pending ps) (p, t))" "path_eq (de_path e) p"
    using note_path_present by blast
  have early: "de_first_seen e \<le> t"
    using note_path_entries [OF e(1)] foldl_note_entries [of _ kind ?pending ps] debounce_first_seen [of _ before "[]"] sorted
    by (metis empty_iff empty_set image_eqI order_refl snd_conv)
  have srt: "sorted (concat (map instants (after @ [Tick T])))"
    using assms(2) by (simp add: assms(1) sorted_append)
  obtain e' where e': "e' \<in> set (debounce (FsEvent kind paths) ?pending)" "de_path e' = de_path e" "de_first_seen e' = de_first_seen e"
    using foldl_note_keeps [OF e(1), of kind qs] by (auto simp: paths)
  show "\<exists>T' q. (T', q) \<in> set (flush_log ?pending (FsEvent kind paths # after @ [Tick T])) \<and> path_eq q p \<and> T' \<le> T"
    using flush_log_delivers [OF e'(1) _ _ srt, of p] e(2) e' early assms(4) by simp
qed

theorem debounce_coalesces_witness:
  "flush_log [] [FsEvent CreateEvent [(''/s/a'', 0)], FsEvent (ModifyEvent ModifyData) [(''/s/a'', 50)], Tick 100, Tick 200, Tick 300, Tick 400]
     = [(300, ''/s/a'')] \<and>
   sorted_wrt spaced (flush_log [] [FsEvent CreateEvent [(''/s/a'', 0)], FsEvent (ModifyEvent ModifyData) [(''/s/a'', 50)], Tick 100, Tick 200, Tick 300, Tick 400])"
proof
  show "sorted_wrt spaced (flush_log [] [FsEvent CreateEvent [(''/s/a'', 0)], FsEvent (ModifyEvent ModifyData) [(''/s/a'', 50)], Tick 100, Tick 200, Tick 300, Tick 400])"
    by (rule conjunct1 [OF debounce_coalesces [where before = "[]" and kind = CreateEvent and paths = "[(''/s/a'', 0)]" and after = "[FsEvent (ModifyEvent ModifyData) [(''/s/a'', 50)], Tick 100, Tick 200, Tick 300]"
      and p = "''/s/a''" and t = 0 and T = 400]]) (simp_all add: DEBOUNCE_MS_def)
qed (simp add: note_path_def canonicalise_key_def expired_def DEBOUNCE_MS_def)

section \<open>The first scan\<close>

inductive below :: "(string \<Rightarrow> string list result) \<Rightarrow> filesystem \<Rightarrow> string \<Rightarrow> string \<Rightarrow> bool" for ls s where
  entry: "ls dir = Inr es \<Longrightarrow> p \<in> set es \<Longrightarrow> below ls s dir p"
| deeper: "ls dir = Inr es \<Longrightarrow> d \<in> set es \<Longrightarrow> d \<in> fs_dirs s \<Longrightarrow> below ls s d p \<Longrightarrow> below ls s dir p"

inductive_cases belowE: "below ls s dir p"

definition regular :: "filesystem \<Rightarrow> string \<Rightarrow> bool" where
  "regular s p \<longleftrightarrow> p \<notin> fs_dirs s \<and> fs_files s p \<noteq> None"

definition files_below :: "(string \<Rightarrow> string list result) \<Rightarrow> filesystem \<Rightarrow> string \<Rightarrow> string set" where
  "files_below ls s dir = {p. below ls s dir p \<and> regular s p}"

definition files_at :: "(string \<Rightarrow> string list result) \<Rightarrow> filesystem \<Rightarrow> string \<Rightarrow> string set" where
  "files_at ls s p = (if p \<in> fs_dirs s then files_below ls s p else if regular s p then {p} else {})"

lemma files_below_entries: "ls dir = Inr es \<Longrightarrow> files_below ls s dir = (\<Union>p \<in> set es. files_at ls s p)"
  by (auto simp: files_below_def files_at_def regular_def elim: belowE intro: below.intros split: if_splits)

lemma files_below_error: "ls dir = Inl e \<Longrightarrow> files_below ls s dir = {}"
  by (auto simp: files_below_def elim: belowE)

lemma walk_sends:
  assumes "\<And>n. chan n \<noteq> Closed" and rank: "\<And>dir es d. ls dir = Inr es \<Longrightarrow> d \<in> set es \<Longrightarrow> d \<in> fs_dirs s \<Longrightarrow> rank d < (rank dir :: nat)"
  shows "rank dir < n \<Longrightarrow> \<exists>ps. wt_sent (walk_and_enqueue chan ls s task n dir wt) = wt_sent wt @ map task ps \<and> set ps = files_below ls s dir"
    and "(\<forall>d \<in> set es. d \<in> fs_dirs s \<longrightarrow> rank d < n) \<Longrightarrow>
      \<exists>ps. wt_sent (walk_entries chan ls s task n es wt) = wt_sent wt @ map task ps \<and> set ps = (\<Union>p \<in> set es. files_at ls s p)"
  using assms
proof (induction chan ls s task n dir wt and chan ls s task n es wt rule: walk_and_enqueue_walk_entries.induct)
  case (2 chan ls s task n dir wt)
  show ?case
  proof (cases "ls dir")
    case (Inr es)
    have "\<forall>d \<in> set es. d \<in> fs_dirs s \<longrightarrow> rank d < n" using "2.prems"(3) [OF Inr] "2.prems"(1) by fastforce
    then show ?thesis using "2.IH" [OF Inr] "2.prems"(2,3) by (simp add: Inr files_below_entries)
  qed (simp add: files_below_error)
next
  case (4 chan ls s task n path paths wt)
  have rest: "\<exists>ps. wt_sent (walk_entries chan ls s task n paths wt') = wt_sent wt' @ map task ps \<and> set ps = (\<Union>p \<in> set paths. files_at ls s p)"
    if "(path \<in> fs_dirs s \<and> wt' = walk_and_enqueue chan ls s task n path wt) \<or> (path \<notin> fs_dirs s \<and> fs_files s path = None \<and> wt' = wt) \<or>
      (path \<notin> fs_dirs s \<and> fs_files s path \<noteq> None \<and> send_task chan (task path) wt = (True, wt'))" for wt'
    using that "4.IH"(2,3,4) "4.prems" by auto
  consider (dir) "path \<in> fs_dirs s" | (none) "path \<notin> fs_dirs s" "fs_files s path = None" | (plain) "path \<notin> fs_dirs s" "fs_files s path \<noteq> None"
    by blast
  then show ?case
  proof cases
    case dir
    obtain ps where "wt_sent (walk_and_enqueue chan ls s task n path wt) = wt_sent wt @ map task ps" "set ps = files_below ls s path"
      using "4.IH"(1) [OF dir] "4.prems" dir by auto
    moreover obtain qs where "wt_sent (walk_entries chan ls s task n paths (walk_and_enqueue chan ls s task n path wt)) =
        wt_sent (walk_and_enqueue chan ls s task n path wt) @ map task qs" "set qs = (\<Union>p \<in> set paths. files_at ls s p)"
      using rest dir by blast
    ultimately show ?thesis using dir by (intro exI [of _ "ps @ qs"]) (simp add: files_at_def)
  next
    case none
    then have "files_at ls s path = {}" by (simp add: files_at_def regular_def)
    then show ?thesis using rest [of wt] none by simp
  next
    case plain
    obtain wt' where wt': "send_task chan (task path) wt = (True, wt')" "wt_sent wt' = wt_sent wt @ [task path]"
      using "4.prems"(2) by (simp add: send_task_def Let_def)
    obtain qs where "wt_sent (walk_entries chan ls s task n paths wt') = wt_sent wt' @ map task qs" "set qs = (\<Union>p \<in> set paths. files_at ls s p)"
      using rest plain wt'(1) by blast
    moreover have "files_at ls s path = {path}" using plain by (simp add: files_at_def regular_def)
    ultimately show ?thesis using plain wt' by (intro exI [of _ "path # qs"]) auto
  qed
qed simp_all

text \<open>C31: the first scan misses no file. When the folder tree has no cycles and the channel stays open,
  scanning a new folder sends, however full the channel gets, a pending backup task for every regular
  file below the folder and for nothing else: photo backups for a photos folder, uploads otherwise.\<close>

theorem scan_enqueues_every_file:
  assumes "\<And>n. chan n \<noteq> Closed" and "\<And>dir es d. ls dir = Inr es \<Longrightarrow> d \<in> set es \<Longrightarrow> d \<in> fs_dirs s \<Longrightarrow> rank d < (rank dir :: nat)"
    and "rank root < depth"
  shows "\<exists>ps. wt_sent (scan_folder chan ls depth s now (root, folder_type, acct) wt) =
      wt_sent wt @ map (watch_task now acct (if folder_type = ''photos'' then ''photos_backup'' else ''upload'')) ps \<and>
    set ps = {p. below ls s root p \<and> p \<notin> fs_dirs s \<and> fs_files s p \<noteq> None}"
proof -
  have "\<exists>ps. wt_sent (walk_and_enqueue chan ls s (watch_task now acct (backup_operation (folder_type = ''photos''))) depth root wt) =
      wt_sent wt @ map (watch_task now acct (backup_operation (folder_type = ''photos''))) ps \<and> set ps = files_below ls s root"
    by (rule walk_sends(1) [where rank = rank, OF assms(1) _ assms(3)]) (rule assms(2))
  then show ?thesis by (simp add: scan_folder_def backup_operation_def files_below_def regular_def)
qed

theorem scan_enqueues_every_file_witness:
  "let s = \<lparr>fs_files = [''/s/a'' \<mapsto> \<lparr>f_bytes = [], f_mtime = None\<rparr>, ''/s/d/b'' \<mapsto> \<lparr>f_bytes = [], f_mtime = None\<rparr>], fs_dirs = {''/s'', ''/s/d''}\<rparr>;
       ls = (\<lambda>p. if p = ''/s'' then Inr [''/s/a'', ''/s/d''] else if p = ''/s/d'' then Inr [''/s/d/b''] else Inl ''Not a directory'')
   in \<exists>ps. wt_sent (scan_folder (\<lambda>_. Full) ls 2 s 5 (''/s'', ''drive'', ''alice'') \<lparr>wt_folders = [], wt_pending = [], wt_sent = [], wt_sends = 0, wt_running = True\<rparr>)
        = map (watch_task 5 ''alice'' ''upload'') ps \<and> ''/s/d/b'' \<in> set ps"
proof -
  let ?s = "\<lparr>fs_files = [''/s/a'' \<mapsto> \<lparr>f_bytes = [], f_mtime = None\<rparr>, ''/s/d/b'' \<mapsto> \<lparr>f_bytes = [], f_mtime = None\<rparr>], fs_dirs = {''/s'', ''/s/d''}\<rparr>"
  let ?ls = "\<lambda>p. if p = ''/s'' then Inr [''/s/a'', ''/s/d''] else if p = ''/s/d'' then Inr [''/s/d/b''] else Inl ''Not a directory'' :: string list result"
  let ?wt = "\<lparr>wt_folders = [], wt_pending = [], wt_sent = [], wt_sends = 0, wt_running = True\<rparr>"
  have "\<exists>ps. wt_sent (scan_folder (\<lambda>_. Full) ?ls 2 ?s 5 (''/s'', ''drive'', ''alice'') ?wt) = wt_sent ?wt @
      map (watch_task 5 ''alice'' (if ''drive'' = ''photos'' then ''photos_backup'' else ''upload'')) ps \<and>
    set ps = {p. below ?ls ?s ''/s'' p \<and> p \<notin> fs_dirs ?s \<and> fs_files ?s p \<noteq> None}"
    by (rule scan_enqueues_every_file [where rank = "\<lambda>p. if p = ''/s'' then 1 else 0"]) (auto split: if_splits)
  moreover have "below ?ls ?s ''/s'' ''/s/d/b''"
    by (rule below.deeper [where d = "''/s/d''"]) (auto intro: below.entry)
  ultimately show ?thesis by (auto simp: Let_def)
qed

section \<open>The owner of a path\<close>

text \<open>The reference: walk up from the path and take the first ancestor that is watched.\<close>

fun nearest_watched :: "folder_map \<Rightarrow> bool \<Rightarrow> string list \<Rightarrow> (string \<times> string) option" where
  "nearest_watched fm rooted [] = map_of fm (path_render rooted [])"
| "nearest_watched fm rooted (c # cs) =
     (case map_of fm (path_render rooted (rev (c # cs))) of None \<Rightarrow> nearest_watched fm rooted cs | Some info \<Rightarrow> Some info)"

text \<open>A path in the form \<^verbatim>\<open>PathBuf\<close> prints when it is built from components.\<close>

definition normal_path :: "string \<Rightarrow> bool" where
  "normal_path p \<longleftrightarrow> p = path_render (path_is_abs p) (path_comps p)"

lemma last_max_None [simp]: "last_max key rs = None \<longleftrightarrow> rs = []"
  by (cases rs) (auto split: option.splits)

lemma last_max_SomeD: "last_max key rs = Some m \<Longrightarrow> m \<in> set rs \<and> (\<forall>r \<in> set rs. key r \<le> key m)"
proof (induction rs arbitrary: m)
  case (Cons r rs)
  then show ?case by (cases "last_max key rs") (fastforce split: if_splits)+
qed simp

lemma length_render_step:
  assumes "n < length cs" and "\<And>c. c \<in> set cs \<Longrightarrow> c \<noteq> []"
  shows "length (path_render a (take n cs)) < length (path_render a (take (Suc n) cs))"
  using assms by (auto simp: take_Suc_conv_app_nth path_render_def join_with_snoc)

lemma length_render_mono:
  assumes "m < n" and "n \<le> length cs" and "\<And>c. c \<in> set cs \<Longrightarrow> c \<noteq> []"
  shows "length (path_render a (take m cs)) < length (path_render a (take n cs))"
  using assms(1,2)
proof (induction n)
  case (Suc n)
  have step: "length (path_render a (take n cs)) < length (path_render a (take (Suc n) cs))"
    using Suc.prems(2) assms(3) by (intro length_render_step) auto
  show ?case
  proof (cases "m = n")
    case False
    then have "length (path_render a (take m cs)) < length (path_render a (take n cs))" using Suc by simp
    then show ?thesis using step by simp
  qed (use step in simp)
qed simp

lemma path_comps_piece: "c \<in> set (path_comps p) \<Longrightarrow> c \<noteq> [] \<and> c \<noteq> ''.'' \<and> CHR ''/'' \<notin> set c"
  using path_comps_no_slash [of c p] by (auto simp: path_comps_def)

lemma path_is_abs_render:
  assumes "\<And>c. c \<in> set cs \<Longrightarrow> c \<noteq> [] \<and> CHR ''/'' \<notin> set c"
  shows "path_is_abs (path_render a cs) = a"
proof (cases cs)
  case (Cons c cs')
  then obtain x c' where "c = x # c'" "x \<noteq> CHR ''/''" using assms [of c] by (cases c) auto
  then show ?thesis by (cases cs') (auto simp: Cons path_is_abs_def path_render_def)
qed (simp add: path_is_abs_def path_render_def)

text \<open>The watched ancestors of a path are the prefixes of its components.\<close>

lemma starts_with_prefix:
  assumes "normal_path root"
  shows "path_starts_with p root \<longleftrightarrow> (\<exists>n \<le> length (path_comps p). root = path_render (path_is_abs p) (take n (path_comps p)))"
proof
  assume "path_starts_with p root"
  then have "path_is_abs p = path_is_abs root" "take (length (path_comps root)) (path_comps p) = path_comps root"
    by (simp_all add: path_starts_with_def)
  moreover from this(2) have "length (path_comps root) \<le> length (path_comps p)" by (metis length_take min.cobounded1)
  ultimately show "\<exists>n \<le> length (path_comps p). root = path_render (path_is_abs p) (take n (path_comps p))"
    using assms by (intro exI [of _ "length (path_comps root)"]) (simp add: normal_path_def)
next
  assume "\<exists>n \<le> length (path_comps p). root = path_render (path_is_abs p) (take n (path_comps p))"
  then obtain n where n: "n \<le> length (path_comps p)" "root = path_render (path_is_abs p) (take n (path_comps p))" by blast
  have piece: "c \<noteq> [] \<and> c \<noteq> ''.'' \<and> CHR ''/'' \<notin> set c" if "c \<in> set (take n (path_comps p))" for c
    using path_comps_piece [OF in_set_takeD [OF that]] .
  then have "path_comps root = take n (path_comps p)" "path_is_abs root = path_is_abs p"
    unfolding n(2) by (intro path_comps_render path_is_abs_render; blast)+
  then show "path_starts_with p root" using n(1) by (simp add: path_starts_with_def)
qed

lemma nearest_watched_Some:
  assumes "n \<le> length cs" and "k \<le> n" and "map_of fm (path_render a (take k cs)) = Some i"
    and "\<And>j. k < j \<Longrightarrow> j \<le> n \<Longrightarrow> map_of fm (path_render a (take j cs)) = None"
  shows "nearest_watched fm a (rev (take n cs)) = Some i"
  using assms
proof (induction n)
  case (Suc n)
  have rv: "rev (take (Suc n) cs) = cs ! n # rev (take n cs)" using Suc.prems(1) by (simp add: take_Suc_conv_app_nth)
  have "rev (cs ! n # rev (take n cs)) = take (Suc n) cs" using Suc.prems(1) by (simp add: take_Suc_conv_app_nth)
  then show ?case unfolding rv
    using Suc by (cases "k = Suc n") (auto split: option.splits)
qed simp

lemma nearest_watched_None:
  assumes "n \<le> length cs" and "\<And>j. j \<le> n \<Longrightarrow> map_of fm (path_render a (take j cs)) = None"
  shows "nearest_watched fm a (rev (take n cs)) = None"
  using assms
proof (induction n)
  case 0
  then show ?case using "0.prems"(2) [of 0] by simp
next
  case (Suc n)
  have rv: "rev (take (Suc n) cs) = cs ! n # rev (take n cs)" "rev (cs ! n # rev (take n cs)) = take (Suc n) cs"
    using Suc.prems(1) by (simp_all add: take_Suc_conv_app_nth)
  then show ?case unfolding rv(1) using Suc by auto
qed

text \<open>C32: a path belongs to its nearest watched ancestor. The scan of the folder map for the longest root
  that is a prefix finds what walking up from the path finds, whatever the iteration order of the map.\<close>

theorem owner_is_nearest_ancestor:
  assumes "distinct (map fst fm)" and "list_all normal_path (map fst fm)"
  shows "find_owning_folder path fm = nearest_watched fm (path_is_abs path) (rev (path_comps path))"
proof -
  let ?cs = "path_comps path" and ?a = "path_is_abs path"
  let ?R = "\<lambda>n. path_render ?a (take n ?cs)" and ?owners = "filter (\<lambda>(root, _). path_starts_with path root) fm"
  have owner: "(root, info) \<in> set ?owners \<longleftrightarrow> (\<exists>n \<le> length ?cs. root = ?R n \<and> map_of fm root = Some info)" for root info
  proof (cases "(root, info) \<in> set fm")
    case True
    then have "normal_path root" "map_of fm root = Some info" using assms by (auto simp: list_all_iff)
    then show ?thesis using True starts_with_prefix [of root path] by simp
  qed (use assms(1) in auto)
  show ?thesis
  proof (cases "last_max (\<lambda>(root, _). length root) ?owners")
    case None
    have "map_of fm (?R j) = None" if "j \<le> length ?cs" for j
      using None owner [of "?R j"] that by (cases "map_of fm (?R j)") auto
    then show ?thesis
      using None nearest_watched_None [of "length ?cs" ?cs fm ?a] by (simp add: find_owning_folder_def canonicalise_key_def)
  next
    case (Some m)
    obtain root info where m: "m = (root, info)" by (cases m)
    have mem: "(root, info) \<in> set ?owners" and longest: "\<forall>r \<in> set ?owners. length (fst r) \<le> length root"
      using last_max_SomeD [OF Some] m by (simp_all add: split_def)
    obtain n where n: "n \<le> length ?cs" "root = ?R n" "map_of fm root = Some info" using owner mem by blast
    have "map_of fm (?R j) = None" if j: "n < j" "j \<le> length ?cs" for j
    proof (rule ccontr)
      assume "map_of fm (?R j) \<noteq> None"
      then obtain info' where "(?R j, info') \<in> set ?owners" using owner j(2) by blast
      then have "length (?R j) \<le> length root" using longest by fastforce
      then show False using length_render_mono [OF j, of ?a] path_comps_piece n(2) by (metis not_less)
    qed
    then have "nearest_watched fm ?a (rev (take (length ?cs) ?cs)) = Some info"
      using n by (intro nearest_watched_Some) auto
    then show ?thesis using Some m by (simp add: find_owning_folder_def canonicalise_key_def)
  qed
qed

theorem owner_is_nearest_ancestor_witness:
  "find_owning_folder ''/s/photos/a.jpg'' [(''/s/photos'', (''bob'', ''photos'')), (''/s'', (''alice'', ''drive''))] = Some (''bob'', ''photos'')"
proof -
  have "find_owning_folder ''/s/photos/a.jpg'' [(''/s/photos'', (''bob'', ''photos'')), (''/s'', (''alice'', ''drive''))] =
      nearest_watched [(''/s/photos'', (''bob'', ''photos'')), (''/s'', (''alice'', ''drive''))] (path_is_abs ''/s/photos/a.jpg'')
        (rev (path_comps ''/s/photos/a.jpg''))"
    by (rule owner_is_nearest_ancestor) (simp_all add: normal_path_def path_render_def path_is_abs_def path_comps_def)
  then show ?thesis by (simp add: path_is_abs_def path_comps_def path_render_def)
qed

end
