(* ===== verification/Lifecycle_Props.thy ===== *)
theory Lifecycle_Props
  imports Upload_Props Watcher_Props
begin

text \<open>
  A file over its life: created in a watched folder, uploaded, deleted. The watcher, the uploader and the
  deleter each do their part, and together they leave the file on Drive.
\<close>

text \<open>Steps that keep an invariant of the database, in every run.\<close>

lemma ends_db_inv:
  assumes "I (w_db w)" and "\<And>d. I d \<Longrightarrow> I (snd (f d))" and "\<And>r w'. I (w_db w') \<Longrightarrow> Q r w'"
  shows "ends (db_exec f) w Q"
  using assms(1) assms(2) [OF assms(1)] assms(3) by (auto simp: ends_def db_exec_def split: option.splits prod.splits)

lemma ends_fs_inv:
  assumes "I (w_db w)" and "\<And>r w'. I (w_db w') \<Longrightarrow> Q r w'"
  shows "ends (fs_exec f) w Q"
  using assms by (auto simp: ends_def fs_exec_def split: option.splits prod.splits)

lemma ends_ext_inv:
  assumes "I (w_db w)" and "\<And>r w'. I (w_db w') \<Longrightarrow> Q r w'"
  shows "ends (ext_call f) w Q"
  using assms by (auto simp: ends_def ext_call_def split: prod.splits)

text \<open>No row knows the local path.\<close>

definition unrecorded :: "string \<Rightarrow> database \<Rightarrow> bool" where
  "unrecorded p d \<longleftrightarrow> (\<forall>r \<in> set (drive_files d). r_local_path r \<noteq> Some p)"

lemma unrecorded_statements:
  "unrecorded p (q_set_status i st msg now d) = unrecorded p d"
  "unrecorded p (q_set_retry i st n msg now d) = unrecorded p d"
  "unrecorded p (err_insert e d) = unrecorded p d"
  by (simp_all add: unrecorded_def)

lemma unrecorded_upsert: "d_local_path f = None \<Longrightarrow> unrecorded p d \<Longrightarrow> unrecorded p (snd (f_upsert f d))"
  by (auto simp: unrecorded_def f_upsert_def set_update_where row_from_file_def Let_def split: if_splits)

lemma ends_record_failure_inv:
  assumes "unrecorded p (w_db w)" and "\<And>r w'. unrecorded p (w_db w') \<Longrightarrow> Q r w'"
  shows "ends (record_failure code n t i msg) w Q"
  using assms
  by (auto simp: record_failure_def Let_def insert_error_def update_task_status_def update_task_retry_def unrecorded_statements
      intro!: ends_db_inv [where I = "unrecorded p"] split: sum.splits)

lemma ends_resumable_inv:
  assumes "unrecorded p (w_db w)" and "\<And>r w'. unrecorded p (w_db w') \<Longrightarrow> Q r w'"
  shows "ends (resumable_loop n sv c uri content off) w Q"
  using assms(1)
proof (induction n arbitrary: w off)
  case 0
  then show ?case using assms(2) by (simp add: hang_def)
next
  case (Suc n)
  then show ?case
    by (auto simp: Let_def intro!: ends_ext_inv [where I = "unrecorded p"] assms(2) split: sum.splits upload_chunk_result.splits prod.splits)
qed

lemma ends_upload_inv:
  assumes "unrecorded p (w_db w)" and "\<And>r w'. unrecorded p (w_db w') \<Longrightarrow> Q r w'"
  shows "ends (upload_file sv c t) w Q"
proof -
  have none: "d_local_path (map_api_file_to_db sv f acct) = None" for f acct by (simp add: map_api_file_to_db_def)
  show ?thesis
    using assms
    by (auto simp: upload_file_def update_task_status_def fs_read_def handle_upload_failure_def do_multipart_upload_def
        do_resumable_upload_def upsert_file_def remaining_ops_def Let_def unrecorded_statements unrecorded_upsert none simp del: resumable_loop.simps
        intro!: ends_db_inv [where I = "unrecorded p"] ends_fs_inv [where I = "unrecorded p"] ends_ext_inv [where I = "unrecorded p"]
          ends_record_failure_inv [where p = p] ends_resumable_inv [where p = p] split: option.splits sum.splits)
qed

lemma unrecorded_lookup: "unrecorded p d \<Longrightarrow> f_get_by_local_path p d = None"
  by (auto simp: unrecorded_def f_get_by_local_path_def find_None_iff)

lemma ends_db_keep:
  assumes "\<And>d. snd (f d) = g d" and "\<And>e w'. w_db w' = w_db w \<Longrightarrow> w_ext w' = w_ext w \<Longrightarrow> Q (Inl e) w'"
    and "\<And>w'. w_db w' = g (w_db w) \<Longrightarrow> w_ext w' = w_ext w \<Longrightarrow> Q (fst (f (w_db w))) w'"
  shows "ends (db_exec f) w Q"
  using assms(2) [of w] assms(2) [of "tick w"] assms(3) [of "tick (w\<lparr>w_db := g (w_db w)\<rparr>)"] assms(1) [of "w_db w"]
  by (cases "f (w_db w)") (auto simp: ends_def db_exec_def split: option.splits)

lemma ends_local_delete_lost:
  assumes "unrecorded p (w_db w)" and "t_local_path t = Some p" and "t_file_id t = None"
  shows "ends (delete_file sv c t) w (\<lambda>_ w'. w_ext w' = w_ext w \<and> drive_files (w_db w') = drive_files (w_db w))"
  using assms
  by (auto simp: delete_file_def handle_local_delete_def update_task_status_def get_file_by_local_path_def unrecorded_lookup
      unrecorded_statements intro!: ends_db_keep [OF snd_conv] split: option.splits sum.splits)

text \<open>C33: deleting a watched file never reaches Drive after an upload. The upload records the file without its
  local path, so when the watcher's delete task for that path is processed, no request is made and no row
  of the file index changes: the file stays on Drive, in every run.\<close>

theorem uploaded_file_never_deleted:
  assumes "unrecorded p (w_db w)" and "t_local_path t = Some p" and "run_state (upload_file sv c t) w = (res, w1)"
    and "t_local_path t' = Some p" and "t_file_id t' = None" and "run_state (delete_file sv c' t') w1 = (res', w2)"
  shows "w_ext w2 = w_ext w1 \<and> drive_files (w_db w2) = drive_files (w_db w1)"
proof -
  have "ends (upload_file sv c t) w (\<lambda>_ w'. unrecorded p (w_db w'))"
    by (rule ends_upload_inv [OF assms(1)])
  then have "unrecorded p (w_db w1)" using assms(3) by (simp add: ends_def)
  from ends_local_delete_lost [OF this assms(4,5), of sv c'] show ?thesis using assms(6) by (simp add: ends_def)
qed

theorem uploaded_file_never_deleted_witness:
  "let sv = null_services\<lparr>sv_upload_multipart := \<lambda>c m bs mime n. (Inr sample_api_file, Suc n),
         sv_files_delete := \<lambda>c i n. (Inr (), 100)\<rparr>;
       w1 = snd (run_state (upload_file sv sample_client (task_from_row upload_row)) (sample_world [1, 2] 20 0));
       w2 = snd (run_state (delete_file sv sample_client (watch_task 9 ''alice'' ''delete'' ''/home/notes.txt''\<lparr>t_id := Some 7\<rparr>)) w1)
   in w_ext w2 = w_ext w1 \<and> drive_files (w_db w2) = drive_files (w_db w1)"
  unfolding Let_def
  by (rule uploaded_file_never_deleted [where p = "''/home/notes.txt''", OF _ _ prod.collapse [symmetric] _ _ prod.collapse [symmetric]])
     (simp_all add: unrecorded_def sample_row_def upload_row_def watch_task_def)

end
