(* ===== verification/Ipc_Types.thy ===== *)
theory Ipc_Types
  imports World
begin

text \<open>
  \<^verbatim>\<open>crates/gdriver-ipc/src/types.rs\<close>: the JSON-RPC messages between the daemon and its clients, the JSON
  form of the domain types, and the push events. Encoders are \<open>en_\<close>, decoders \<open>de_\<close>; a decoder
  yields \<open>None\<close> where \<^verbatim>\<open>serde\<close> reports an error. The conversions between \<^verbatim>\<open>f32\<close>, \<^verbatim>\<open>f64\<close> and integers are
  hardware operations and parameters.
\<close>

section \<open>JSON-RPC messages\<close>

datatype JsonRpcId = IdStr string | IdNum int

record json_rpc_request =
  jq_jsonrpc :: string
  jq_method :: string
  jq_params :: "json option"
  jq_id :: "JsonRpcId option"

definition request_new :: "string \<Rightarrow> json option \<Rightarrow> JsonRpcId \<Rightarrow> json_rpc_request" where
  "request_new meth params i = \<lparr>jq_jsonrpc = ''2.0'', jq_method = meth, jq_params = params, jq_id = Some i\<rparr>"

definition request_notification :: "string \<Rightarrow> json option \<Rightarrow> json_rpc_request" where
  "request_notification meth params = \<lparr>jq_jsonrpc = ''2.0'', jq_method = meth, jq_params = params, jq_id = None\<rparr>"

definition is_notification :: "json_rpc_request \<Rightarrow> bool" where
  "is_notification r \<longleftrightarrow> jq_id r = None"

record json_rpc_error =
  je_code :: int
  je_message :: string
  je_data :: "json option"

definition parse_error :: json_rpc_error where
  "parse_error = \<lparr>je_code = -32700, je_message = ''Parse error'', je_data = None\<rparr>"

definition method_not_found :: "string \<Rightarrow> json_rpc_error" where
  "method_not_found meth = \<lparr>je_code = -32601, je_message = ''Method not found'', je_data = Some (JStr meth)\<rparr>"

definition invalid_params :: "string \<Rightarrow> json_rpc_error" where
  "invalid_params detail = \<lparr>je_code = -32602, je_message = ''Invalid params'', je_data = Some (JStr detail)\<rparr>"

definition internal_error :: "string \<Rightarrow> json_rpc_error" where
  "internal_error detail = \<lparr>je_code = -32603, je_message = detail, je_data = None\<rparr>"

definition not_found :: "string \<Rightarrow> json_rpc_error" where
  "not_found detail = \<lparr>je_code = -32002, je_message = ''Not found'', je_data = Some (JStr detail)\<rparr>"

record json_rpc_response =
  jp_jsonrpc :: string
  jp_result :: "json option"
  jp_error :: "json_rpc_error option"
  jp_id :: "JsonRpcId option"

definition response_success :: "JsonRpcId option \<Rightarrow> json \<Rightarrow> json_rpc_response" where
  "response_success i v = \<lparr>jp_jsonrpc = ''2.0'', jp_result = Some v, jp_error = None, jp_id = i\<rparr>"

definition response_error :: "JsonRpcId option \<Rightarrow> json_rpc_error \<Rightarrow> json_rpc_response" where
  "response_error i e = \<lparr>jp_jsonrpc = ''2.0'', jp_result = None, jp_error = Some e, jp_id = i\<rparr>"

definition response_is_success :: "json_rpc_response \<Rightarrow> bool" where
  "response_is_success r \<longleftrightarrow> jp_error r = None"

text \<open>\<^verbatim>\<open>skip_serializing_if = "Option::is_none"\<close>.\<close>

definition unless_none :: "string \<Rightarrow> ('a \<Rightarrow> json) \<Rightarrow> 'a option \<Rightarrow> (string \<times> json) list" where
  "unless_none k f x = (case x of None \<Rightarrow> [] | Some y \<Rightarrow> [(k, f y)])"

fun en_id :: "JsonRpcId \<Rightarrow> json" where
  "en_id (IdStr s) = JStr s"
| "en_id (IdNum n) = JInt n"

definition de_id :: "json \<Rightarrow> JsonRpcId option" where
  "de_id j = (case as_str j of Some s \<Rightarrow> Some (IdStr s) | None \<Rightarrow> map_option IdNum (as_i64 j))"

definition en_request :: "json_rpc_request \<Rightarrow> json" where
  "en_request r = jobj ([(''jsonrpc'', JStr (jq_jsonrpc r)), (''method'', JStr (jq_method r))]
     @ unless_none ''params'' id (jq_params r) @ unless_none ''id'' en_id (jq_id r))"

definition de_request :: "json \<Rightarrow> json_rpc_request option" where
  "de_request j = do {
     fs \<leftarrow> struct_fields [''jsonrpc'', ''method'', ''params'', ''id''] j;
     v \<leftarrow> req_field as_str ''jsonrpc'' fs;
     m \<leftarrow> req_field as_str ''method'' fs;
     p \<leftarrow> default_field None (opt_value Some) ''params'' fs;
     i \<leftarrow> default_field None (opt_value de_id) ''id'' fs;
     Some \<lparr>jq_jsonrpc = v, jq_method = m, jq_params = p, jq_id = i\<rparr>
   }"

definition en_error :: "json_rpc_error \<Rightarrow> json" where
  "en_error e = jobj ([(''code'', JInt (je_code e)), (''message'', JStr (je_message e))] @ unless_none ''data'' id (je_data e))"

definition de_error :: "json \<Rightarrow> json_rpc_error option" where
  "de_error j = do {
     fs \<leftarrow> struct_fields [''code'', ''message'', ''data''] j;
     c \<leftarrow> req_field de_i32 ''code'' fs;
     m \<leftarrow> req_field as_str ''message'' fs;
     d \<leftarrow> default_field None (opt_value Some) ''data'' fs;
     Some \<lparr>je_code = c, je_message = m, je_data = d\<rparr>
   }"

definition en_response :: "json_rpc_response \<Rightarrow> json" where
  "en_response r = jobj ([(''jsonrpc'', JStr (jp_jsonrpc r))] @ unless_none ''result'' id (jp_result r)
     @ unless_none ''error'' en_error (jp_error r) @ [(''id'', jopt en_id (jp_id r))])"

definition de_response :: "json \<Rightarrow> json_rpc_response option" where
  "de_response j = do {
     fs \<leftarrow> struct_fields [''jsonrpc'', ''result'', ''error'', ''id''] j;
     v \<leftarrow> req_field as_str ''jsonrpc'' fs;
     r \<leftarrow> default_field None (opt_value Some) ''result'' fs;
     e \<leftarrow> default_field None (opt_value de_error) ''error'' fs;
     i \<leftarrow> opt_field de_id ''id'' fs;
     Some \<lparr>jp_jsonrpc = v, jp_result = r, jp_error = e, jp_id = i\<rparr>
   }"

section \<open>Enumerations\<close>

fun sync_status_name :: "SyncStatus \<Rightarrow> string" where
  "sync_status_name UpToDate = ''up-to-date''"
| "sync_status_name StatusSyncing = ''syncing''"
| "sync_status_name StatusPaused = ''paused''"
| "sync_status_name StatusError = ''error''"
| "sync_status_name StatusOffline = ''offline''"

fun sync_state_name :: "SyncState \<Rightarrow> string" where
  "sync_state_name CloudOnly = ''cloud_only''"
| "sync_state_name Downloading = ''downloading''"
| "sync_state_name Uploading = ''uploading''"
| "sync_state_name Cached = ''cached''"
| "sync_state_name OfflineFile = ''offline''"
| "sync_state_name Modified = ''modified''"
| "sync_state_name Synced = ''synced''"
| "sync_state_name FileError = ''error''"

fun sync_mode_name :: "SyncMode \<Rightarrow> string" where
  "sync_mode_name Stream = ''stream''"
| "sync_mode_name Mirror = ''mirror''"

definition enum_table :: "('a \<Rightarrow> string) \<Rightarrow> 'a list \<Rightarrow> (string \<times> 'a) list" where
  "enum_table name vs = map (\<lambda>v. (name v, v)) vs"

definition de_sync_status :: "json \<Rightarrow> SyncStatus option" where
  "de_sync_status = de_enum (enum_table sync_status_name [UpToDate, StatusSyncing, StatusPaused, StatusError, StatusOffline])"

definition de_sync_state :: "json \<Rightarrow> SyncState option" where
  "de_sync_state = de_enum (enum_table sync_state_name
     [CloudOnly, Downloading, Uploading, Cached, OfflineFile, Modified, Synced, FileError])"

definition de_sync_mode :: "json \<Rightarrow> SyncMode option" where
  "de_sync_mode = de_enum (enum_table sync_mode_name [Stream, Mirror])"

section \<open>Floating-point fields\<close>

record float_ops =
  fl_widen :: "f32 \<Rightarrow> 64 word"
  fl_narrow :: "64 word \<Rightarrow> f32"
  fl_of_int :: "int \<Rightarrow> f32"

text \<open>Infinities and NaN have no JSON form and become \<^verbatim>\<open>null\<close>.\<close>

definition finite_f32 :: "f32 \<Rightarrow> bool" where
  "finite_f32 x \<longleftrightarrow> take_bit 8 (drop_bit 23 x) \<noteq> 255"

definition en_f32 :: "float_ops \<Rightarrow> f32 \<Rightarrow> json" where
  "en_f32 fl x = (if finite_f32 x then JFloat (fl_widen fl x) else JNull)"

definition de_f32 :: "float_ops \<Rightarrow> json \<Rightarrow> f32 option" where
  "de_f32 fl j = (case j of JFloat b \<Rightarrow> Some (fl_narrow fl b) | JInt n \<Rightarrow> Some (fl_of_int fl n) | _ \<Rightarrow> None)"

section \<open>Domain types\<close>

definition en_account :: "account \<Rightarrow> json" where
  "en_account a = jobj [(''id'', JStr (a_id a)), (''email'', JStr (a_email a)), (''display_name'', jopt JStr (a_display_name a)),
     (''photo_url'', jopt JStr (a_photo_url a)), (''locale'', jopt JStr (a_locale a)),
     (''created_at'', JInt (a_created_at a)), (''last_used_at'', JInt (a_last_used_at a))]"

definition de_account :: "json \<Rightarrow> account option" where
  "de_account j = do {
     fs \<leftarrow> struct_fields [''id'', ''email'', ''display_name'', ''photo_url'', ''locale'', ''created_at'', ''last_used_at''] j;
     i \<leftarrow> req_field as_str ''id'' fs;
     em \<leftarrow> req_field as_str ''email'' fs;
     dn \<leftarrow> opt_field as_str ''display_name'' fs;
     ph \<leftarrow> opt_field as_str ''photo_url'' fs;
     lo \<leftarrow> opt_field as_str ''locale'' fs;
     cr \<leftarrow> req_field as_i64 ''created_at'' fs;
     lu \<leftarrow> req_field as_i64 ''last_used_at'' fs;
     Some \<lparr>a_id = i, a_email = em, a_display_name = dn, a_photo_url = ph, a_locale = lo, a_created_at = cr, a_last_used_at = lu\<rparr>
   }"

definition en_quota :: "storage_quota \<Rightarrow> json" where
  "en_quota q = jobj [(''limit'', jopt (\<lambda>x. JInt (uint x)) (sq_limit q)), (''usage'', JInt (uint (sq_usage q))),
     (''usage_in_drive'', JInt (uint (sq_usage_in_drive q))), (''usage_in_drive_trash'', JInt (uint (sq_usage_in_drive_trash q)))]"

definition de_quota :: "json \<Rightarrow> storage_quota option" where
  "de_quota j = do {
     fs \<leftarrow> struct_fields [''limit'', ''usage'', ''usage_in_drive'', ''usage_in_drive_trash''] j;
     l \<leftarrow> opt_field de_u64 ''limit'' fs;
     u \<leftarrow> req_field de_u64 ''usage'' fs;
     d \<leftarrow> req_field de_u64 ''usage_in_drive'' fs;
     t \<leftarrow> req_field de_u64 ''usage_in_drive_trash'' fs;
     Some \<lparr>sq_limit = l, sq_usage = u, sq_usage_in_drive = d, sq_usage_in_drive_trash = t\<rparr>
   }"

definition en_sync_item :: "float_ops \<Rightarrow> sync_item \<Rightarrow> json" where
  "en_sync_item fl i = jobj [(''file_id'', jopt JStr (i_file_id i)), (''name'', JStr (i_name i)), (''mime_type'', jopt JStr (i_mime_type i)),
     (''local_path'', jopt JStr (i_local_path i)), (''sync_state'', JStr (sync_state_name (i_sync_state i))),
     (''progress'', jopt (en_f32 fl) (i_progress i)), (''file_size'', jopt (\<lambda>x. JInt (uint x)) (i_file_size i)),
     (''error_msg'', jopt JStr (i_error_msg i)), (''drive_url'', jopt JStr (i_drive_url i)), (''updated_at'', JInt (i_updated_at i))]"

definition de_sync_item :: "float_ops \<Rightarrow> json \<Rightarrow> sync_item option" where
  "de_sync_item fl j = do {
     fs \<leftarrow> struct_fields [''file_id'', ''name'', ''mime_type'', ''local_path'', ''sync_state'', ''progress'', ''file_size'',
            ''error_msg'', ''drive_url'', ''updated_at''] j;
     fid \<leftarrow> opt_field as_str ''file_id'' fs;
     n \<leftarrow> req_field as_str ''name'' fs;
     mt \<leftarrow> opt_field as_str ''mime_type'' fs;
     lp \<leftarrow> opt_field as_str ''local_path'' fs;
     st \<leftarrow> req_field de_sync_state ''sync_state'' fs;
     pr \<leftarrow> opt_field (de_f32 fl) ''progress'' fs;
     sz \<leftarrow> opt_field de_u64 ''file_size'' fs;
     er \<leftarrow> opt_field as_str ''error_msg'' fs;
     ur \<leftarrow> opt_field as_str ''drive_url'' fs;
     up \<leftarrow> req_field as_i64 ''updated_at'' fs;
     Some \<lparr>i_file_id = fid, i_name = n, i_mime_type = mt, i_local_path = lp, i_sync_state = st, i_progress = pr,
       i_file_size = sz, i_error_msg = er, i_drive_url = ur, i_updated_at = up\<rparr>
   }"

definition en_status_payload :: "sync_status_payload \<Rightarrow> json" where
  "en_status_payload p = jobj [(''status'', JStr (sync_status_name (p_status p))), (''ts'', JInt (p_ts p)),
     (''speed'', jopt (\<lambda>x. JInt (uint x)) (p_speed p)), (''pending'', jopt (\<lambda>x. JInt (uint x)) (p_pending p))]"

definition de_status_payload :: "json \<Rightarrow> sync_status_payload option" where
  "de_status_payload j = do {
     fs \<leftarrow> struct_fields [''status'', ''ts'', ''speed'', ''pending''] j;
     st \<leftarrow> req_field de_sync_status ''status'' fs;
     t \<leftarrow> req_field as_i64 ''ts'' fs;
     sp \<leftarrow> opt_field de_u64 ''speed'' fs;
     pe \<leftarrow> opt_field de_u32 ''pending'' fs;
     Some \<lparr>p_status = st, p_ts = t, p_speed = sp, p_pending = pe\<rparr>
   }"

definition en_sync_error :: "ipc_sync_error \<Rightarrow> json" where
  "en_sync_error e = jobj [(''id'', JInt (se_id e)), (''account_id'', jopt JStr (se_account_id e)), (''file_id'', jopt JStr (se_file_id e)),
     (''file_name'', jopt JStr (se_file_name e)), (''error_code'', JStr (se_error_code e)), (''error_msg'', JStr (se_error_msg e)),
     (''is_resolved'', JBool (se_is_resolved e)), (''created_at'', JInt (se_created_at e))]"

definition de_sync_error :: "json \<Rightarrow> ipc_sync_error option" where
  "de_sync_error j = do {
     fs \<leftarrow> struct_fields [''id'', ''account_id'', ''file_id'', ''file_name'', ''error_code'', ''error_msg'', ''is_resolved'', ''created_at''] j;
     i \<leftarrow> req_field as_i64 ''id'' fs;
     ac \<leftarrow> opt_field as_str ''account_id'' fs;
     fid \<leftarrow> opt_field as_str ''file_id'' fs;
     fn \<leftarrow> opt_field as_str ''file_name'' fs;
     co \<leftarrow> req_field as_str ''error_code'' fs;
     ms \<leftarrow> req_field as_str ''error_msg'' fs;
     re \<leftarrow> req_field as_bool ''is_resolved'' fs;
     cr \<leftarrow> req_field as_i64 ''created_at'' fs;
     Some \<lparr>se_id = i, se_account_id = ac, se_file_id = fid, se_file_name = fn, se_error_code = co, se_error_msg = ms,
       se_is_resolved = re, se_created_at = cr\<rparr>
   }"

section \<open>Notifications\<close>

text \<open>
  \<^verbatim>\<open>NotificationKind\<close> is tagged by \<^verbatim>\<open>type\<close> and flattened into the notification. The tag is read as a
  variant name or as a variant index.
\<close>

fun kind_entries :: "float_ops \<Rightarrow> NotificationKind \<Rightarrow> (string \<times> json) list" where
  "kind_entries fl (ConflictFound fid name copy) =
     [(''type'', JStr ''conflict''), (''file_id'', jopt JStr fid), (''file_name'', JStr name), (''conflict_copy_name'', JStr copy)]"
| "kind_entries fl (StorageWarning pc) = [(''type'', JStr ''storage_warning''), (''usage_percent'', en_f32 fl pc)]"
| "kind_entries fl (SyncErrorNoted i name msg) =
     [(''type'', JStr ''sync_error''), (''error_id'', JInt i), (''file_name'', jopt JStr name), (''error_msg'', JStr msg)]"

definition kind_tag :: "json \<Rightarrow> nat option" where
  "kind_tag j =
     (if j = JStr ''conflict'' \<or> j = JInt 0 then Some 0
      else if j = JStr ''storage_warning'' \<or> j = JInt 1 then Some 1
      else if j = JStr ''sync_error'' \<or> j = JInt 2 then Some 2
      else None)"

definition de_kind :: "float_ops \<Rightarrow> bool \<times> (string \<Rightarrow> json option) \<Rightarrow> NotificationKind option" where
  "de_kind fl fs = Option.bind (req_field kind_tag ''type'' fs) (\<lambda>tag.
     if tag = 0 then do {
       fid \<leftarrow> opt_field as_str ''file_id'' fs;
       n \<leftarrow> req_field as_str ''file_name'' fs;
       c \<leftarrow> req_field as_str ''conflict_copy_name'' fs;
       Some (ConflictFound fid n c)
     }
     else if tag = 1 then map_option StorageWarning (req_field (de_f32 fl) ''usage_percent'' fs)
     else do {
       i \<leftarrow> req_field as_i64 ''error_id'' fs;
       n \<leftarrow> opt_field as_str ''file_name'' fs;
       m \<leftarrow> req_field as_str ''error_msg'' fs;
       Some (SyncErrorNoted i n m)
     })"

definition en_notification :: "float_ops \<Rightarrow> notification \<Rightarrow> json" where
  "en_notification fl n = jobj ([(''id'', JInt (no_id n)), (''account_id'', jopt JStr (no_account_id n)),
     (''is_read'', JBool (no_is_read n)), (''created_at'', JInt (no_created_at n))] @ kind_entries fl (no_kind n))"

definition de_notification :: "float_ops \<Rightarrow> json \<Rightarrow> notification option" where
  "de_notification fl j =
     (case j of
        JObj m \<Rightarrow> (let fs = (False, map_of m) in do {
          i \<leftarrow> req_field as_i64 ''id'' fs;
          ac \<leftarrow> opt_field as_str ''account_id'' fs;
          rd \<leftarrow> req_field as_bool ''is_read'' fs;
          cr \<leftarrow> req_field as_i64 ''created_at'' fs;
          k \<leftarrow> de_kind fl fs;
          Some \<lparr>no_id = i, no_account_id = ac, no_is_read = rd, no_created_at = cr, no_kind = k\<rparr>
        })
      | _ \<Rightarrow> None)"

section \<open>Push events\<close>

fun event_method :: "push_event \<Rightarrow> string" where
  "event_method (SyncStatusChanged p) = ''sync:status-changed''"
| "event_method (SyncItemUpdated i) = ''sync:item-updated''"
| "event_method (SyncErrorPushed e) = ''sync:error''"
| "event_method (NotificationNew n) = ''notification:new''"
| "event_method (AccountChanged as) = ''account:changed''"
| "event_method (AccountQuotaUpdated acct q) = ''account:quota-updated''"
| "event_method (OauthComplete acct) = ''onboarding:oauth-complete''"
| "event_method (UnknownEvent meth params) = meth"

fun to_notification :: "float_ops \<Rightarrow> push_event \<Rightarrow> json_rpc_request" where
  "to_notification fl (SyncStatusChanged p) = request_notification ''sync:status-changed'' (Some (en_status_payload p))"
| "to_notification fl (SyncItemUpdated i) = request_notification ''sync:item-updated'' (Some (en_sync_item fl i))"
| "to_notification fl (SyncErrorPushed e) = request_notification ''sync:error'' (Some (en_sync_error e))"
| "to_notification fl (NotificationNew n) = request_notification ''notification:new'' (Some (en_notification fl n))"
| "to_notification fl (AccountChanged as) = request_notification ''account:changed'' (Some (jobj [(''accounts'', JArr (map en_account as))]))"
| "to_notification fl (AccountQuotaUpdated acct q) = request_notification ''account:quota-updated''
     (Some (jobj [(''account_id'', JStr acct), (''quota'', en_quota q)]))"
| "to_notification fl (OauthComplete acct) = request_notification ''onboarding:oauth-complete'' (Some (jobj [(''account_id'', JStr acct)]))"
| "to_notification fl (UnknownEvent meth params) = request_notification meth params"

definition de_accounts_payload :: "json \<Rightarrow> account list option" where
  "de_accounts_payload j = Option.bind (struct_fields [''accounts''] j) (req_field (de_list de_account) ''accounts'')"

definition de_quota_payload :: "json \<Rightarrow> (string \<times> storage_quota) option" where
  "de_quota_payload j = do {
     fs \<leftarrow> struct_fields [''account_id'', ''quota''] j;
     acct \<leftarrow> req_field as_str ''account_id'' fs;
     q \<leftarrow> req_field de_quota ''quota'' fs;
     Some (acct, q)
   }"

definition de_oauth_payload :: "json \<Rightarrow> string option" where
  "de_oauth_payload j = Option.bind (struct_fields [''account_id''] j) (req_field as_str ''account_id'')"

definition from_notification :: "float_ops \<Rightarrow> string \<Rightarrow> json option \<Rightarrow> push_event option" where
  "from_notification fl meth params =
     (let j = (case params of None \<Rightarrow> JNull | Some v \<Rightarrow> v)
      in if meth = ''sync:status-changed'' then map_option SyncStatusChanged (de_status_payload j)
         else if meth = ''sync:item-updated'' then map_option SyncItemUpdated (de_sync_item fl j)
         else if meth = ''sync:error'' then map_option SyncErrorPushed (de_sync_error j)
         else if meth = ''notification:new'' then map_option NotificationNew (de_notification fl j)
         else if meth = ''account:changed'' then map_option AccountChanged (de_accounts_payload j)
         else if meth = ''account:quota-updated'' then map_option (\<lambda>(acct, q). AccountQuotaUpdated acct q) (de_quota_payload j)
         else if meth = ''onboarding:oauth-complete'' then map_option OauthComplete (de_oauth_payload j)
         else Some (UnknownEvent meth params))"

end
