(* ===== verification/Config.thy ===== *)
theory Config
  imports Ipc_Types
begin

text \<open>
  The preferences (\<^verbatim>\<open>crates/gdriver-ipc/src/types.rs\<close>) and their file,
  \<^verbatim>\<open>crates/gdriver-daemon/src/config/mod.rs\<close>. The TOML reader and printer are parameters.
\<close>

section \<open>Preferences\<close>

datatype Appearance = Light | Dark | FollowSystem

record general_prefs =
  gp_launch_on_login :: bool
  gp_appearance :: Appearance
  gp_language :: string
  gp_prompt_backup_devices :: bool

record network_prefs =
  np_proxy :: string
  np_download_rate_limit :: "32 word"
  np_upload_rate_limit :: "32 word"

record hotkey_prefs =
  hp_search_enabled :: bool
  hp_search_key :: string

record telemetry_prefs =
  tp_auto_send_diagnostics :: bool

record vfs_prefs =
  vp_mount_point :: string
  vp_sync_mode :: SyncMode

record preferences =
  pf_general :: general_prefs
  pf_network :: network_prefs
  pf_hotkeys :: hotkey_prefs
  pf_telemetry :: telemetry_prefs
  pf_vfs :: vfs_prefs

definition default_prefs :: preferences where
  "default_prefs = \<lparr>
     pf_general = \<lparr>gp_launch_on_login = True, gp_appearance = FollowSystem, gp_language = ''follow_account'',
       gp_prompt_backup_devices = True\<rparr>,
     pf_network = \<lparr>np_proxy = ''auto'', np_download_rate_limit = 0, np_upload_rate_limit = 0\<rparr>,
     pf_hotkeys = \<lparr>hp_search_enabled = True, hp_search_key = ''Ctrl+Alt+G''\<rparr>,
     pf_telemetry = \<lparr>tp_auto_send_diagnostics = True\<rparr>,
     pf_vfs = \<lparr>vp_mount_point = ''~/GoogleDrive'', vp_sync_mode = Stream\<rparr>\<rparr>"

section \<open>Their JSON form\<close>

fun appearance_name :: "Appearance \<Rightarrow> string" where
  "appearance_name Light = ''light''"
| "appearance_name Dark = ''dark''"
| "appearance_name FollowSystem = ''follow_system''"

definition de_appearance :: "json \<Rightarrow> Appearance option" where
  "de_appearance = de_enum (enum_table appearance_name [Light, Dark, FollowSystem])"

definition en_general :: "general_prefs \<Rightarrow> json" where
  "en_general g = jobj [(''launch_on_login'', JBool (gp_launch_on_login g)), (''appearance'', JStr (appearance_name (gp_appearance g))),
     (''language'', JStr (gp_language g)), (''prompt_backup_devices'', JBool (gp_prompt_backup_devices g))]"

definition de_general :: "json \<Rightarrow> general_prefs option" where
  "de_general j = do {
     fs \<leftarrow> struct_fields [''launch_on_login'', ''appearance'', ''language'', ''prompt_backup_devices''] j;
     l \<leftarrow> req_field as_bool ''launch_on_login'' fs;
     a \<leftarrow> req_field de_appearance ''appearance'' fs;
     g \<leftarrow> req_field as_str ''language'' fs;
     p \<leftarrow> req_field as_bool ''prompt_backup_devices'' fs;
     Some \<lparr>gp_launch_on_login = l, gp_appearance = a, gp_language = g, gp_prompt_backup_devices = p\<rparr>
   }"

definition en_network :: "network_prefs \<Rightarrow> json" where
  "en_network n = jobj [(''proxy'', JStr (np_proxy n)), (''download_rate_limit'', JInt (uint (np_download_rate_limit n))),
     (''upload_rate_limit'', JInt (uint (np_upload_rate_limit n)))]"

definition de_network :: "json \<Rightarrow> network_prefs option" where
  "de_network j = do {
     fs \<leftarrow> struct_fields [''proxy'', ''download_rate_limit'', ''upload_rate_limit''] j;
     p \<leftarrow> req_field as_str ''proxy'' fs;
     d \<leftarrow> req_field de_u32 ''download_rate_limit'' fs;
     u \<leftarrow> req_field de_u32 ''upload_rate_limit'' fs;
     Some \<lparr>np_proxy = p, np_download_rate_limit = d, np_upload_rate_limit = u\<rparr>
   }"

definition en_hotkeys :: "hotkey_prefs \<Rightarrow> json" where
  "en_hotkeys h = jobj [(''search_enabled'', JBool (hp_search_enabled h)), (''search_key'', JStr (hp_search_key h))]"

definition de_hotkeys :: "json \<Rightarrow> hotkey_prefs option" where
  "de_hotkeys j = do {
     fs \<leftarrow> struct_fields [''search_enabled'', ''search_key''] j;
     e \<leftarrow> req_field as_bool ''search_enabled'' fs;
     k \<leftarrow> req_field as_str ''search_key'' fs;
     Some \<lparr>hp_search_enabled = e, hp_search_key = k\<rparr>
   }"

definition en_telemetry :: "telemetry_prefs \<Rightarrow> json" where
  "en_telemetry t = jobj [(''auto_send_diagnostics'', JBool (tp_auto_send_diagnostics t))]"

definition de_telemetry :: "json \<Rightarrow> telemetry_prefs option" where
  "de_telemetry j = do {
     fs \<leftarrow> struct_fields [''auto_send_diagnostics''] j;
     a \<leftarrow> req_field as_bool ''auto_send_diagnostics'' fs;
     Some \<lparr>tp_auto_send_diagnostics = a\<rparr>
   }"

definition en_vfs_prefs :: "vfs_prefs \<Rightarrow> json" where
  "en_vfs_prefs v = jobj [(''mount_point'', JStr (vp_mount_point v)), (''sync_mode'', JStr (sync_mode_name (vp_sync_mode v)))]"

text \<open>\<^verbatim>\<open>sync_mode\<close> has a default: a missing one is \<^verbatim>\<open>stream\<close>.\<close>

definition de_vfs_prefs :: "json \<Rightarrow> vfs_prefs option" where
  "de_vfs_prefs j = do {
     fs \<leftarrow> struct_fields [''mount_point'', ''sync_mode''] j;
     m \<leftarrow> req_field as_str ''mount_point'' fs;
     s \<leftarrow> default_field Stream de_sync_mode ''sync_mode'' fs;
     Some \<lparr>vp_mount_point = m, vp_sync_mode = s\<rparr>
   }"

definition en_prefs :: "preferences \<Rightarrow> json" where
  "en_prefs p = jobj [(''general'', en_general (pf_general p)), (''network'', en_network (pf_network p)),
     (''hotkeys'', en_hotkeys (pf_hotkeys p)), (''telemetry'', en_telemetry (pf_telemetry p)), (''vfs'', en_vfs_prefs (pf_vfs p))]"

definition de_prefs :: "json \<Rightarrow> preferences option" where
  "de_prefs j = do {
     fs \<leftarrow> struct_fields [''general'', ''network'', ''hotkeys'', ''telemetry'', ''vfs''] j;
     g \<leftarrow> req_field de_general ''general'' fs;
     n \<leftarrow> req_field de_network ''network'' fs;
     h \<leftarrow> req_field de_hotkeys ''hotkeys'' fs;
     t \<leftarrow> req_field de_telemetry ''telemetry'' fs;
     v \<leftarrow> req_field de_vfs_prefs ''vfs'' fs;
     Some \<lparr>pf_general = g, pf_network = n, pf_hotkeys = h, pf_telemetry = t, pf_vfs = v\<rparr>
   }"

section \<open>The preferences file\<close>

record toml_codec =
  tm_print :: "preferences \<Rightarrow> bytes result"
  tm_parse :: "bytes \<Rightarrow> preferences option"
  tm_utf8 :: "bytes \<Rightarrow> bool"

text \<open>\<^verbatim>\<open>Path::with_extension\<close> and \<^verbatim>\<open>std::fs::write\<close>.\<close>

definition path_with_extension :: "string \<Rightarrow> string \<Rightarrow> string" where
  "path_with_extension ext p =
     (case (path_file_stem p, path_parent p) of
        (Some st, Some d) \<Rightarrow> path_join d (st @ ''.'' @ ext)
      | _ \<Rightarrow> p)"

definition fs_write :: "string \<Rightarrow> bytes \<Rightarrow> ('x world, unit result) state" where
  "fs_write p bs = tryE (fs_create p) (\<lambda>_. fs_append p bs)"

definition config_path :: "string option \<Rightarrow> ('x world, string result) state" where
  "config_path data_dir =
     (case data_dir of
        None \<Rightarrow> State_Monad.return (Inl ''cannot determine data directory'')
      | Some dd \<Rightarrow> (let dir = path_join dd ''gdriver''
          in tryE (fs_create_dir_all dir) (\<lambda>_. State_Monad.return (Inr (path_join dir ''preferences.toml'')))))"

definition load_from :: "toml_codec \<Rightarrow> string \<Rightarrow> ('x world, preferences result) state" where
  "load_from tm p = do {
     there \<leftarrow> fs_query (\<lambda>s. fs_exists s p);
     if \<not> there then State_Monad.return (Inr default_prefs)
     else tryE (fs_read p) (\<lambda>content.
       if \<not> tm_utf8 tm content then State_Monad.return (Inl ''stream did not contain valid UTF-8'')
       else State_Monad.return (Inr (case tm_parse tm content of None \<Rightarrow> default_prefs | Some prefs \<Rightarrow> prefs)))
   }"

definition save_to :: "toml_codec \<Rightarrow> string \<Rightarrow> preferences \<Rightarrow> ('x world, unit result) state" where
  "save_to tm p prefs =
     (case tm_print tm prefs of
        Inl e \<Rightarrow> State_Monad.return (Inl (''failed to serialise preferences: '' @ e))
      | Inr content \<Rightarrow> (let tmp = path_with_extension ''toml.tmp'' p
          in tryE (fs_write tmp content) (\<lambda>_. fs_rename tmp p)))"

definition load_config :: "toml_codec \<Rightarrow> string option \<Rightarrow> ('x world, preferences result) state" where
  "load_config tm data_dir = tryE (config_path data_dir) (load_from tm)"

definition save_config :: "toml_codec \<Rightarrow> string option \<Rightarrow> preferences \<Rightarrow> ('x world, unit result) state" where
  "save_config tm data_dir prefs = tryE (config_path data_dir) (\<lambda>p. save_to tm p prefs)"

end
