(* ===== verification/Vfs_Db.thy ===== *)
theory Vfs_Db
  imports Services "HOL-Library.Word"
begin

text \<open>
  \<^verbatim>\<open>crates/gdriver-vfs/src/db.rs\<close>: the queries of the virtual file system. An inode is the rowid of a
  file as an unsigned 64-bit number; 0 is the root, which has no row.
\<close>

type_synonym inode = "64 word"

definition ROOT_INODE :: inode where "ROOT_INODE = 0"

record file_meta =
  fm_inode :: inode
  fm_file_id :: string
  fm_name :: string
  fm_mime_type :: string
  fm_size :: int
  fm_modified_time :: int

record file_details =
  fd_inode :: inode
  fd_file_id :: string
  fd_account_id :: string
  fd_name :: string
  fd_mime_type :: string
  fd_size :: int
  fd_modified_time :: int
  fd_sync_state :: string
  fd_local_path :: "string option"

text \<open>\<^verbatim>\<open>rowid as u64\<close> and \<^verbatim>\<open>inode as i64\<close>.\<close>

definition row_inode :: "drive_file_row \<Rightarrow> inode" where
  "row_inode r = word_of_int (r_rowid r)"

definition has_inode :: "inode \<Rightarrow> drive_file_row \<Rightarrow> bool" where
  "has_inode ino r \<longleftrightarrow> r_rowid r = sint ino"

definition or_zero :: "int option \<Rightarrow> int" where
  "or_zero v = (case v of None \<Rightarrow> 0 | Some n \<Rightarrow> n)"

definition meta_from_row :: "drive_file_row \<Rightarrow> file_meta" where
  "meta_from_row r = \<lparr>fm_inode = row_inode r, fm_file_id = r_id r, fm_name = r_name r, fm_mime_type = r_mime_type r,
     fm_size = or_zero (r_size r), fm_modified_time = or_zero (r_modified_time r)\<rparr>"

definition details_from_row :: "drive_file_row \<Rightarrow> file_details" where
  "details_from_row r = \<lparr>fd_inode = row_inode r, fd_file_id = r_id r, fd_account_id = r_account_id r, fd_name = r_name r,
     fd_mime_type = r_mime_type r, fd_size = or_zero (r_size r), fd_modified_time = or_zero (r_modified_time r),
     fd_sync_state = r_sync_state r, fd_local_path = r_local_path r\<rparr>"

section \<open>Statements\<close>

definition live :: "drive_file_row \<Rightarrow> bool" where
  "live r \<longleftrightarrow> r_is_trashed r = 0"

definition v_by_inode :: "inode \<Rightarrow> database \<Rightarrow> drive_file_row option" where
  "v_by_inode ino d = find (\<lambda>r. has_inode ino r \<and> live r) (drive_files d)"

text \<open>
  The condition of the two child queries: at the root, no parent; elsewhere, the join with a row that
  has the inode and the parent's id in the same account. The join does not ask for a live parent.
\<close>

definition child_of :: "database \<Rightarrow> inode \<Rightarrow> drive_file_row \<Rightarrow> bool" where
  "child_of d parent r \<longleftrightarrow>
     (if parent = ROOT_INODE then r_parent_id r = None
      else list_ex (\<lambda>p. has_inode parent p \<and> Some (r_id p) = r_parent_id r \<and> r_account_id p = r_account_id r) (drive_files d))"

definition v_lookup :: "inode \<Rightarrow> string \<Rightarrow> database \<Rightarrow> drive_file_row option" where
  "v_lookup parent name d = find (\<lambda>r. child_of d parent r \<and> r_name r = name \<and> live r) (drive_files d)"

definition v_children :: "inode \<Rightarrow> database \<Rightarrow> drive_file_row list" where
  "v_children parent d = sort_key r_name (filter (\<lambda>r. child_of d parent r \<and> live r) (drive_files d))"

definition v_insert :: "drive_file \<Rightarrow> database \<Rightarrow> int result \<times> database" where
  "v_insert f d =
     (if list_ex (\<lambda>r. file_key r = (d_id f, d_account_id f)) (drive_files d)
      then (Inl ''UNIQUE constraint failed: drive_files.id, drive_files.account_id'', d)
      else if has_account d (d_account_id f)
      then (Inr (next_rowid d), d\<lparr>drive_files := drive_files d @ [row_from_file (next_rowid d) f]\<rparr>)
      else (Inl ''FOREIGN KEY constraint failed'', d))"

definition v_update :: "inode \<Rightarrow> (drive_file_row \<Rightarrow> drive_file_row) \<Rightarrow> database \<Rightarrow> database" where
  "v_update ino g d = d\<lparr>drive_files := update_where (has_inode ino) g (drive_files d)\<rparr>"

definition v_any_child :: "string option \<Rightarrow> database \<Rightarrow> bool" where
  "v_any_child parent d = list_ex (\<lambda>r. r_parent_id r = parent \<and> live r) (drive_files d)"

section \<open>Queries\<close>

definition get_file_by_inode :: "inode \<Rightarrow> ('x world, file_meta option result) state" where
  "get_file_by_inode ino = db_exec (\<lambda>d. (Inr (map_option meta_from_row (v_by_inode ino d)), d))"

definition lookup_by_parent_and_name :: "inode \<Rightarrow> string \<Rightarrow> ('x world, file_meta option result) state" where
  "lookup_by_parent_and_name parent name = db_exec (\<lambda>d. (Inr (map_option meta_from_row (v_lookup parent name d)), d))"

definition list_children_by_inode :: "inode \<Rightarrow> ('x world, file_meta list result) state" where
  "list_children_by_inode parent = db_exec (\<lambda>d. (Inr (map meta_from_row (v_children parent d)), d))"

definition get_file_details_by_inode :: "inode \<Rightarrow> ('x world, file_details option result) state" where
  "get_file_details_by_inode ino = db_exec (\<lambda>d. (Inr (map_option details_from_row (v_by_inode ino d)), d))"

text \<open>The four \<^verbatim>\<open>INSERT INTO sync_queue\<close> statements: priority 1, pending, no retries.\<close>

definition vfs_task :: "int \<Rightarrow> string \<Rightarrow> string \<Rightarrow> string \<Rightarrow> string option \<Rightarrow> sync_task" where
  "vfs_task now acct file_id operation p = \<lparr>t_id = None, t_account_id = acct, t_file_id = Some file_id, t_operation = operation,
     t_local_path = p, t_priority = 1, t_status = ''pending'', t_retry_count = 0, t_error_msg = None,
     t_created_at = now, t_updated_at = now\<rparr>"

definition vfs_enqueue_task :: "string \<Rightarrow> string \<Rightarrow> string \<Rightarrow> string option \<Rightarrow> ('x world, int result) state" where
  "vfs_enqueue_task acct file_id operation p = do {
     now \<leftarrow> now_ms;
     db_exec (\<lambda>d. (Inr (queue_seq d + 1), q_insert (vfs_task now acct file_id operation p) d))
   }"

definition enqueue_download_task :: "string \<Rightarrow> string \<Rightarrow> string \<Rightarrow> ('x world, int result) state" where
  "enqueue_download_task acct file_id p = vfs_enqueue_task acct file_id ''download'' (Some p)"

definition enqueue_upload_task :: "string \<Rightarrow> string \<Rightarrow> string \<Rightarrow> ('x world, int result) state" where
  "enqueue_upload_task acct file_id p = vfs_enqueue_task acct file_id ''upload'' (Some p)"

definition get_sync_state :: "string \<Rightarrow> string \<Rightarrow> ('x world, string option result) state" where
  "get_sync_state file_id acct =
     db_exec (\<lambda>d. (Inr (map_option r_sync_state (find (\<lambda>r. file_key r = (file_id, acct)) (drive_files d))), d))"

text \<open>
  The polling loop. \<open>others\<close> is what the rest of the daemon does while it sleeps. The loop makes a
  database query per round, so the operations left bound the rounds.
\<close>

fun wait_loop :: "nat \<Rightarrow> ('x world, unit) state \<Rightarrow> string \<Rightarrow> string \<Rightarrow> int \<Rightarrow> int \<Rightarrow> ('x world, bool result) state" where
  "wait_loop 0 others file_id acct start timeout_ms = hang"
| "wait_loop (Suc n) others file_id acct start timeout_ms =
     tryE (get_sync_state file_id acct) (\<lambda>st.
       if st = Some ''cached'' \<or> st = Some ''synced'' \<or> st = Some ''offline'' then State_Monad.return (Inr True)
       else if st = Some ''error'' then State_Monad.return (Inr False)
       else do {
         now \<leftarrow> now_ms;
         if now - start \<ge> timeout_ms then State_Monad.return (Inr False)
         else do {
           _ \<leftarrow> others;
           wait_loop n others file_id acct start timeout_ms
         }
       })"

definition wait_for_download :: "('x world, unit) state \<Rightarrow> string \<Rightarrow> string \<Rightarrow> int \<Rightarrow> ('x world, bool result) state" where
  "wait_for_download others file_id acct timeout_ms = do {
     start \<leftarrow> now_ms;
     fuel \<leftarrow> remaining_ops;
     wait_loop (Suc fuel) others file_id acct start timeout_ms
   }"

section \<open>Write path\<close>

definition get_parent_info :: "inode \<Rightarrow> ('x world, (string \<times> string option) option result) state" where
  "get_parent_info parent =
     (if parent = ROOT_INODE then State_Monad.return (Inr None)
      else db_exec (\<lambda>d. (Inr (map_option (\<lambda>r. (r_account_id r, Some (r_id r))) (v_by_inode parent d)), d)))"

definition get_first_account_id :: "('x world, string option result) state" where
  "get_first_account_id = db_exec (\<lambda>d. (Inr (map_option a_id (first_min (\<lambda>a. - a_last_used_at a) (accounts d))), d))"

definition local_row :: "int \<Rightarrow> string \<Rightarrow> string \<Rightarrow> string \<Rightarrow> string \<Rightarrow> string option \<Rightarrow> string option \<Rightarrow> string \<Rightarrow> drive_file" where
  "local_row now file_id acct name mime parent p st = \<lparr>d_id = file_id, d_account_id = acct, d_name = name, d_mime_type = mime,
     d_parent_id = parent, d_size = Some 0, d_etag = None, d_version = None, d_modified_time = Some now, d_is_trashed = False,
     d_is_shared = False, d_local_path = p, d_sync_state = st, d_local_mtime = None\<rparr>"

definition insert_local_file :: "string \<Rightarrow> string \<Rightarrow> string \<Rightarrow> string \<Rightarrow> string option \<Rightarrow> string \<Rightarrow> ('x world, inode result) state" where
  "insert_local_file file_id acct name mime parent p = do {
     now \<leftarrow> now_ms;
     tryE (db_exec (v_insert (local_row now file_id acct name mime parent (Some p) ''modified'')))
       (\<lambda>rowid. State_Monad.return (Inr (word_of_int rowid)))
   }"

definition insert_local_folder :: "string \<Rightarrow> string \<Rightarrow> string \<Rightarrow> string option \<Rightarrow> ('x world, inode result) state" where
  "insert_local_folder file_id acct name parent = do {
     now \<leftarrow> now_ms;
     tryE (db_exec (v_insert (local_row now file_id acct name ''application/vnd.google-apps.folder'' parent None ''cloud_only'')))
       (\<lambda>rowid. State_Monad.return (Inr (word_of_int rowid)))
   }"

definition update_file_size_mtime :: "inode \<Rightarrow> int \<Rightarrow> int \<Rightarrow> ('x world, unit result) state" where
  "update_file_size_mtime ino sz mt = db_exec (\<lambda>d. (Inr (),
     v_update ino (\<lambda>r. r\<lparr>r_size := Some sz, r_modified_time := Some mt, r_sync_state := ''modified''\<rparr>) d))"

definition soft_delete_by_inode :: "inode \<Rightarrow> ('x world, unit result) state" where
  "soft_delete_by_inode ino = db_exec (\<lambda>d. (Inr (), v_update ino (\<lambda>r. r\<lparr>r_is_trashed := 1\<rparr>) d))"

definition rename_file :: "inode \<Rightarrow> string \<Rightarrow> string option \<Rightarrow> ('x world, unit result) state" where
  "rename_file ino new_name new_parent = do {
     now \<leftarrow> now_ms;
     db_exec (\<lambda>d. (Inr (), v_update ino
       (\<lambda>r. r\<lparr>r_name := new_name, r_parent_id := new_parent, r_modified_time := Some now, r_sync_state := ''modified''\<rparr>) d))
   }"

definition has_children :: "inode \<Rightarrow> ('x world, bool result) state" where
  "has_children ino =
     (if ino = ROOT_INODE then db_exec (\<lambda>d. (Inr (v_any_child None d), d))
      else tryE (db_exec (\<lambda>d. (Inr (map_option r_id (find (has_inode ino) (drive_files d))), d))) (\<lambda>dir_id.
        case dir_id of
          None \<Rightarrow> State_Monad.return (Inr False)
        | Some i \<Rightarrow> db_exec (\<lambda>d. (Inr (v_any_child (Some i) d), d))))"

section \<open>Facts\<close>

lemma sint_word_of_rowid:
  assumes "0 < i" and "i < 2 ^ 63"
  shows "sint (word_of_int i :: 64 word) = i"
proof -
  have "signed_take_bit 63 i = i" using assms by (simp add: signed_take_bit_int_eq_self)
  then show ?thesis by (simp add: signed_of_int)
qed

end
