(* ===== verification/Ipc_Handlers.thy ===== *)
theory Ipc_Handlers
  imports Config Api_Client Api_Files Initial Vfs_Db
begin

text \<open>
  \<^verbatim>\<open>crates/gdriver-daemon/src/ipc/handlers.rs\<close> and \<^verbatim>\<open>api/mod.rs\<close>: the JSON-RPC methods of the daemon. A handler is a
  program over the router state that returns a JSON value or a JSON-RPC error. The preferences are one
  record in the code; here the two fields the engine reads stay in the world and the rest in the router.
\<close>

section \<open>Router context\<close>

record 'x router =
  rt_world :: "'x world"
  rt_general :: general_prefs
  rt_network :: network_prefs
  rt_hotkeys :: hotkey_prefs
  rt_telemetry :: telemetry_prefs
  rt_commands :: "SyncCommand list"
  rt_engine_up :: bool
  rt_reloads :: nat

text \<open>What the handlers take from outside: services, codecs, directories, the login flow, and the nanosecond clock at each operation.\<close>

record 'x ipc_env =
  ie_services :: "'x services"
  ie_about :: "drive_client \<Rightarrow> 'x \<Rightarrow> about_response result \<times> 'x"
  ie_begin_auth :: "'x \<Rightarrow> string result \<times> 'x"
  ie_parse :: "string \<Rightarrow> json option"
  ie_serde_error :: "json \<Rightarrow> string"
  ie_toml :: toml_codec
  ie_data_dir :: "string option"
  ie_home_dir :: "string option"
  ie_cache_dir :: "string option"
  ie_nanos :: "nat \<Rightarrow> nat"

type_synonym ('x, 'a) handler = "('x router, json_rpc_error + 'a) state"

definition in_world :: "('x world, 'a) state \<Rightarrow> ('x router, 'a) state" where
  "in_world m = State (\<lambda>r. case run_state m (rt_world r) of (x, w) \<Rightarrow> (x, r\<lparr>rt_world := w\<rparr>))"

definition ok :: "'a \<Rightarrow> ('x, 'a) handler" where
  "ok v = State_Monad.return (Inr v)"

definition fail :: "json_rpc_error \<Rightarrow> ('x, 'a) handler" where
  "fail e = State_Monad.return (Inl e)"

definition and_then :: "('x, 'a) handler \<Rightarrow> ('a \<Rightarrow> ('x, 'b) handler) \<Rightarrow> ('x, 'b) handler" where
  "and_then m k = State_Monad.bind m (\<lambda>r. case r of Inl e \<Rightarrow> fail e | Inr x \<Rightarrow> k x)"

text \<open>\<^verbatim>\<open>.map_err(|e| JsonRpcError::internal_error(e.to_string()))?\<close> and \<^verbatim>\<open>.ok_or_else(..)?\<close>.\<close>

definition or_internal :: "('x world, 'a result) state \<Rightarrow> ('a \<Rightarrow> ('x, 'b) handler) \<Rightarrow> ('x, 'b) handler" where
  "or_internal m k = State_Monad.bind (in_world m) (\<lambda>r. case r of Inl e \<Rightarrow> fail (internal_error e) | Inr x \<Rightarrow> k x)"

definition required :: "'a option \<Rightarrow> json_rpc_error \<Rightarrow> ('a \<Rightarrow> ('x, 'b) handler) \<Rightarrow> ('x, 'b) handler" where
  "required v e k = (case v of None \<Rightarrow> fail e | Some x \<Rightarrow> k x)"

text \<open>Reading and replacing the preferences, sending to the engine, waking the watcher.\<close>

definition prefs_of :: "'x router \<Rightarrow> preferences" where
  "prefs_of r = \<lparr>pf_general = rt_general r, pf_network = rt_network r, pf_hotkeys = rt_hotkeys r, pf_telemetry = rt_telemetry r,
     pf_vfs = \<lparr>vp_mount_point = w_mount_point (rt_world r), vp_sync_mode = w_sync_mode (rt_world r)\<rparr>\<rparr>"

definition with_prefs :: "preferences \<Rightarrow> 'x router \<Rightarrow> 'x router" where
  "with_prefs p r = r\<lparr>rt_general := pf_general p, rt_network := pf_network p, rt_hotkeys := pf_hotkeys p,
     rt_telemetry := pf_telemetry p,
     rt_world := (rt_world r)\<lparr>w_mount_point := vp_mount_point (pf_vfs p), w_sync_mode := vp_sync_mode (pf_vfs p)\<rparr>\<rparr>"

definition config_read :: "('x router, preferences) state" where
  "config_read = State (\<lambda>r. (prefs_of r, r))"

definition config_write :: "preferences \<Rightarrow> ('x router, unit) state" where
  "config_write p = State (\<lambda>r. ((), if halted (rt_world r) then r else with_prefs p r))"

definition send_command :: "SyncCommand \<Rightarrow> ('x, unit) handler" where
  "send_command c = State (\<lambda>r.
     if halted (rt_world r) then (Inl (internal_error ''halted''), r)
     else if rt_engine_up r then (Inr (), r\<lparr>rt_commands := rt_commands r @ [c]\<rparr>)
     else (Inl (internal_error ''channel closed''), r))"

definition RELOAD_CAPACITY :: nat where "RELOAD_CAPACITY = 4"

definition signal_reload :: "('x router, unit) state" where
  "signal_reload = State (\<lambda>r. ((), if halted (rt_world r) \<or> RELOAD_CAPACITY \<le> rt_reloads r then r
     else r\<lparr>rt_reloads := Suc (rt_reloads r)\<rparr>))"

definition push_account_changed :: "('x router, unit) state" where
  "push_account_changed = do {
     r \<leftarrow> in_world list_accounts;
     case r of Inl _ \<Rightarrow> State_Monad.return () | Inr as \<Rightarrow> in_world (push_send (AccountChanged as))
   }"

section \<open>Parameters and paths\<close>

definition expand_tilde :: "string option \<Rightarrow> string \<Rightarrow> string" where
  "expand_tilde home p =
     (case strip_prefix ''~/'' p of
        Some rest \<Rightarrow> (case home of None \<Rightarrow> p | Some h \<Rightarrow> h @ ''/'' @ rest)
      | None \<Rightarrow> if p = ''~'' then (case home of None \<Rightarrow> p | Some h \<Rightarrow> h) else p)"

definition param :: "(json \<Rightarrow> 'a option) \<Rightarrow> string \<Rightarrow> json option \<Rightarrow> 'a option" where
  "param f k params = Option.bind (Option.bind params (jget k)) f"

definition extract_string_param :: "json option \<Rightarrow> string \<Rightarrow> (string \<Rightarrow> ('x, 'b) handler) \<Rightarrow> ('x, 'b) handler" where
  "extract_string_param params k = required (param as_str k params) (invalid_params (k @ '' is required''))"

text \<open>\<^verbatim>\<open>params.and_then(|v| v.as_object().cloned())\<close>.\<close>

definition object_param :: "json option \<Rightarrow> json option" where
  "object_param params = Option.bind params (\<lambda>j. case j of JObj m \<Rightarrow> Some (JObj m) | _ \<Rightarrow> None)"

definition resolve_path_under_mount :: "'x ipc_env \<Rightarrow> string \<Rightarrow> ('x, drive_file option) handler" where
  "resolve_path_under_mount env p = do {
     prefs \<leftarrow> config_read;
     let mount = trim_end (CHR ''/'') (expand_tilde (ie_home_dir env) (vp_mount_point (pf_vfs prefs)));
         abs_path = (if starts_with ''/'' p then p else ''/'' @ p);
         relative = dropWhile (\<lambda>c. c = CHR ''/'') (drop (length mount) abs_path)
     in if \<not> starts_with mount abs_path \<and> \<not> starts_with (mount @ ''/'') abs_path then ok None
        else if relative = [] then ok None
        else or_internal (find_file_by_relative_suffix relative) ok
   }"

definition resolve_file_for_path :: "'x ipc_env \<Rightarrow> string \<Rightarrow> (drive_file \<Rightarrow> ('x, 'b) handler) \<Rightarrow> ('x, 'b) handler" where
  "resolve_file_for_path env p k = or_internal (get_file_by_local_path p) (\<lambda>found.
     case found of
       Some f \<Rightarrow> k f
     | None \<Rightarrow> and_then (resolve_path_under_mount env p)
         (\<lambda>f. required f (not_found ''file not found for path'') k))"

text \<open>\<^verbatim>\<open>i64::to_string\<close>.\<close>

definition show_i64 :: "int \<Rightarrow> string" where
  "show_i64 n = (if n < 0 then ''-'' @ show_nat (nat (- n)) else show_nat (nat n))"

definition drive_url :: "string \<Rightarrow> string" where
  "drive_url i = ''https://drive.google.com/file/d/'' @ i @ ''/view''"

definition FOLDER_TYPE :: string where "FOLDER_TYPE = ''application/vnd.google-apps.folder''"

section \<open>Preferences and sync control\<close>

definition handle_prefs_get :: "('x, json) handler" where
  "handle_prefs_get = do {
     p \<leftarrow> config_read;
     ok (en_prefs p)
   }"

definition handle_prefs_save :: "'x ipc_env \<Rightarrow> json option \<Rightarrow> ('x, json) handler" where
  "handle_prefs_save env params =
     (let j = (case params of None \<Rightarrow> JNull | Some v \<Rightarrow> v)
      in required (de_prefs j) (invalid_params (ie_serde_error env j)) (\<lambda>new_prefs.
         or_internal (save_config (ie_toml env) (ie_data_dir env) new_prefs) (\<lambda>_. do {
           _ \<leftarrow> config_write new_prefs;
           ok JNull
         })))"

definition handle_sync_get_status :: "('x, json) handler" where
  "handle_sync_get_status = do {
     now \<leftarrow> in_world now_ms;
     ok (en_status_payload \<lparr>p_status = UpToDate, p_ts = now, p_speed = None, p_pending = None\<rparr>)
   }"

definition handle_sync_pause :: "('x, json) handler" where
  "handle_sync_pause = and_then (send_command Pause) (\<lambda>_. ok (jobj [(''paused'', JBool True)]))"

definition handle_sync_resume :: "('x, json) handler" where
  "handle_sync_resume = and_then (send_command Resume) (\<lambda>_. ok (jobj [(''resumed'', JBool True)]))"

text \<open>\<^verbatim>\<open>serde_json::from_str(&format!("\"{}\"", s)).unwrap_or(CloudOnly)\<close>.\<close>

definition state_from_column :: "'x ipc_env \<Rightarrow> string \<Rightarrow> SyncState" where
  "state_from_column env s =
     (case Option.bind (ie_parse env (CHR 0x22 # s @ [CHR 0x22])) de_sync_state of None \<Rightarrow> CloudOnly | Some st \<Rightarrow> st)"

definition item_of_file :: "'x ipc_env \<Rightarrow> drive_file \<Rightarrow> sync_item" where
  "item_of_file env f = \<lparr>i_file_id = Some (d_id f), i_name = d_name f, i_mime_type = Some (d_mime_type f), i_local_path = d_local_path f,
     i_sync_state = state_from_column env (d_sync_state f), i_progress = None,
     i_file_size = Option.bind (d_size f) (\<lambda>s. if 0 \<le> s then Some (word_of_int s) else None), i_error_msg = None,
     i_drive_url = Some (drive_url (d_id f)), i_updated_at = (case d_modified_time f of None \<Rightarrow> 0 | Some t \<Rightarrow> t)\<rparr>"

text \<open>A numeric parameter: \<^verbatim>\<open>as_u64().unwrap_or(d) as u32\<close>. The items carry no rate, so the float operations are never used.\<close>

definition u32_param :: "string \<Rightarrow> nat \<Rightarrow> json option \<Rightarrow> nat" where
  "u32_param k d params = (case param as_u64 k params of None \<Rightarrow> d | Some n \<Rightarrow> n) mod 2 ^ 32"

definition no_floats :: float_ops where
  "no_floats = \<lparr>fl_widen = (\<lambda>_. 0), fl_narrow = (\<lambda>_. 0), fl_of_int = (\<lambda>_. 0)\<rparr>"

definition handle_sync_get_recent_items :: "'x ipc_env \<Rightarrow> json option \<Rightarrow> ('x, json) handler" where
  "handle_sync_get_recent_items env params = or_internal (list_recent_files (u32_param ''limit'' 10 params)) (\<lambda>files.
     ok (JArr (map (\<lambda>f. en_sync_item no_floats (item_of_file env f)) files)))"

definition ACTIVITY_PAGE_SIZE :: nat where "ACTIVITY_PAGE_SIZE = 50"

definition handle_sync_get_activity :: "'x ipc_env \<Rightarrow> json option \<Rightarrow> ('x, json) handler" where
  "handle_sync_get_activity env params =
     (let page = u32_param ''page'' 0 params
      in or_internal (list_files_paginated page ACTIVITY_PAGE_SIZE) (\<lambda>files.
         ok (jobj [(''items'', JArr (map (\<lambda>f. en_sync_item no_floats (item_of_file env f)) files)),
           (''page'', JInt (int page)), (''has_more'', JBool (length files = ACTIVITY_PAGE_SIZE))])))"

definition handle_sync_retry_error :: "json option \<Rightarrow> ('x, json) handler" where
  "handle_sync_retry_error params = required (param as_i64 ''errorId'' params) (invalid_params ''errorId is required'') (\<lambda>i.
     or_internal (resolve_error i) (\<lambda>_. ok (jobj [(''resolved'', JBool True)])))"

definition ipc_error_of :: "sync_error \<Rightarrow> ipc_sync_error" where
  "ipc_error_of e = \<lparr>se_id = (case e_id e of None \<Rightarrow> 0 | Some i \<Rightarrow> i), se_account_id = e_account_id e, se_file_id = e_file_id e,
     se_file_name = e_file_name e, se_error_code = e_error_code e, se_error_msg = e_error_msg e,
     se_is_resolved = e_is_resolved e, se_created_at = e_created_at e\<rparr>"

definition handle_sync_get_errors :: "('x, json) handler" where
  "handle_sync_get_errors = or_internal list_unresolved (\<lambda>es. ok (JArr (map (en_sync_error \<circ> ipc_error_of) es)))"

definition handle_set_sync_mode :: "'x ipc_env \<Rightarrow> json option \<Rightarrow> ('x, json) handler" where
  "handle_set_sync_mode env params = required (Option.bind params (jget ''mode'')) (invalid_params ''mode is required'') (\<lambda>j.
     required (de_sync_mode j) (invalid_params (ie_serde_error env j)) (\<lambda>new_mode. do {
       p \<leftarrow> config_read;
       _ \<leftarrow> config_write (p\<lparr>pf_vfs := (pf_vfs p)\<lparr>vp_sync_mode := new_mode\<rparr>\<rparr>);
       and_then (send_command (SwitchMode new_mode)) (\<lambda>_. do {
         prefs \<leftarrow> config_read;
         _ \<leftarrow> in_world (save_config (ie_toml env) (ie_data_dir env) prefs);
         ok (jobj [(''sync_mode'', JStr (sync_mode_name new_mode))])
       })
     }))"

section \<open>Notifications\<close>

definition notification_json :: "'x ipc_env \<Rightarrow> notification_db \<Rightarrow> json" where
  "notification_json env n =
     (let obj = obj_extend [(''id'', jopt JInt (n_id n)), (''account_id'', jopt JStr (n_account_id n)),
            (''is_read'', JBool (n_is_read n)), (''created_at'', JInt (n_created_at n)), (''type'', JStr (n_kind n))] []
      in JObj (case ie_parse env (n_payload n) of Some (JObj m) \<Rightarrow> obj_extend m obj | _ \<Rightarrow> obj))"

definition handle_notification_list :: "'x ipc_env \<Rightarrow> json option \<Rightarrow> ('x, json) handler" where
  "handle_notification_list env params =
     (let unread_only = (case param as_bool ''unreadOnly'' params of None \<Rightarrow> False | Some b \<Rightarrow> b)
      in or_internal (list_notifications unread_only (u32_param ''limit'' 50 params)) (\<lambda>rows.
         ok (JArr (map (notification_json env) rows))))"

definition handle_notification_dismiss :: "json option \<Rightarrow> ('x, json) handler" where
  "handle_notification_dismiss params = required (param as_i64 ''id'' params) (invalid_params ''id is required'') (\<lambda>i.
     or_internal (dismiss_notification i) (\<lambda>_. ok (jobj [(''dismissed'', JInt i)])))"

definition handle_notification_mark_read :: "json option \<Rightarrow> ('x, json) handler" where
  "handle_notification_mark_read params = required (param as_i64 ''id'' params) (invalid_params ''id is required'') (\<lambda>i.
     or_internal (mark_read i) (\<lambda>_. ok (jobj [(''marked_read'', JInt i)])))"

definition handle_notification_mark_all_read :: "('x, json) handler" where
  "handle_notification_mark_all_read = or_internal mark_all_read (\<lambda>_. ok (jobj [(''marked_all_read'', JBool True)]))"

section \<open>Folders\<close>

text \<open>\<^verbatim>\<open>Path::new(&p).file_name().and_then(to_str).unwrap_or(&p)\<close>.\<close>

definition display_name :: "string \<Rightarrow> string" where
  "display_name p = (case path_file_name p of None \<Rightarrow> p | Some n \<Rightarrow> n)"

definition all_folders :: "('x world, sync_folder_row list result) state" where
  "all_folders = db_exec (\<lambda>d. (Inr (sort_key sr_id (sync_folders d)), d))"

definition folder_json :: "sync_folder_row \<Rightarrow> json" where
  "folder_json r = jobj [(''id'', JStr (show_i64 (sr_id r))), (''name'', JStr (display_name (sr_local_path r))),
     (''path'', JStr (sr_local_path r)), (''type'', JStr (sr_folder_type r)), (''is_enabled'', JBool (sr_is_enabled r \<noteq> 0))]"

definition handle_folder_list :: "('x, json) handler" where
  "handle_folder_list = or_internal all_folders (\<lambda>rows. ok (JArr (map folder_json rows)))"

definition handle_folder_add :: "json option \<Rightarrow> ('x, json) handler" where
  "handle_folder_add params = required (object_param params) (invalid_params ''expected object'') (\<lambda>obj.
     required (param as_str ''path'' (Some obj)) (invalid_params ''path is required'') (\<lambda>local_path.
       let folder_type = (case param as_str ''type'' (Some obj) of None \<Rightarrow> ''drive'' | Some t \<Rightarrow> t)
       in or_internal get_first_account_id (\<lambda>first.
          required first (internal_error ''no account connected'') (\<lambda>account_id.
          or_internal (add_folder \<lparr>s_id = None, s_account_id = account_id, s_local_path = local_path,
              s_folder_type = folder_type, s_is_enabled = True\<rparr>) (\<lambda>saved. do {
            _ \<leftarrow> signal_reload;
            ok (jobj [(''id'', JStr (show_i64 (case s_id saved of None \<Rightarrow> 0 | Some i \<Rightarrow> i))),
              (''name'', JStr (display_name local_path)), (''path'', JStr local_path), (''type'', JStr folder_type)])
          })))))"

text \<open>A folder id travels as a decimal string.\<close>

definition folder_id_param :: "json option \<Rightarrow> (int \<Rightarrow> ('x, 'b) handler) \<Rightarrow> ('x, 'b) handler" where
  "folder_id_param params k = required (param as_str ''id'' params) (invalid_params ''id is required'') (\<lambda>s.
     required (parse_i64 s) (invalid_params ''id must be a numeric string'') k)"

definition handle_folder_remove :: "json option \<Rightarrow> ('x, json) handler" where
  "handle_folder_remove params = folder_id_param params (\<lambda>i.
     or_internal (delete_folder i) (\<lambda>_. do {
       _ \<leftarrow> signal_reload;
       ok (jobj [(''removed'', JInt i)])
     }))"

definition folder_path_of :: "int \<Rightarrow> ('x world, string option result) state" where
  "folder_path_of i = db_exec (\<lambda>d. (Inr (map_option sr_local_path (find (\<lambda>r. sr_id r = i) (sync_folders d))), d))"

definition size_like :: "string \<Rightarrow> database \<Rightarrow> int" where
  "size_like pat d = sum_list (map (\<lambda>r. case r_size r of None \<Rightarrow> 0 | Some n \<Rightarrow> n)
     (filter (\<lambda>r. case r_local_path r of None \<Rightarrow> False | Some p \<Rightarrow> sql_like pat p) (drive_files d)))"

definition handle_folder_get_size :: "json option \<Rightarrow> ('x, json) handler" where
  "handle_folder_get_size params = folder_id_param params (\<lambda>i.
     or_internal (folder_path_of i) (\<lambda>row.
       case row of
         None \<Rightarrow> ok (jobj [(''bytes'', JInt 0)])
       | Some p \<Rightarrow> or_internal (db_exec (\<lambda>d. (Inr (size_like (p @ ''%'') d), d))) (\<lambda>total.
           ok (jobj [(''bytes'', JInt total)]))))"

definition suggestion :: "string \<Rightarrow> string \<Rightarrow> string \<Rightarrow> string \<Rightarrow> json" where
  "suggestion home i name t = jobj [(''id'', JStr i), (''name'', JStr name), (''path'', JStr (home @ ''/'' @ name)), (''type'', JStr t)]"

definition handle_folder_get_suggested :: "'x ipc_env \<Rightarrow> ('x, json) handler" where
  "handle_folder_get_suggested env =
     (let home = (case ie_home_dir env of None \<Rightarrow> ''~'' | Some h \<Rightarrow> h)
      in ok (JArr [suggestion home ''desktop'' ''Desktop'' ''drive'', suggestion home ''documents'' ''Documents'' ''drive'',
           suggestion home ''downloads'' ''Downloads'' ''drive'', suggestion home ''pictures'' ''Pictures'' ''photos'',
           suggestion home ''movies'' ''Movies'' ''photos'']))"

section \<open>System and offline files\<close>

definition handle_submit_feedback :: "json option \<Rightarrow> ('x, json) handler" where
  "handle_submit_feedback params =
     (let txt = (case param as_str ''text'' params of None \<Rightarrow> [] | Some s \<Rightarrow> s);
          include_logs = (case param as_bool ''includeLogs'' params of None \<Rightarrow> False | Some b \<Rightarrow> b)
      in do {
        now \<leftarrow> in_world now_ms;
        _ \<leftarrow> in_world (insert_feedback \<lparr>fb_id = None, fb_text = txt, fb_include_logs = include_logs, fb_created_at = now\<rparr>);
        ok (jobj [(''submitted'', JBool True)])
      })"

text \<open>The Linux branch of \<^verbatim>\<open>cfg(target_os)\<close>.\<close>

definition handle_get_platform :: "('x, json) handler" where
  "handle_get_platform = ok (JStr ''Linux'')"

definition handle_system_get_drive_stats :: "('x, json) handler" where
  "handle_system_get_drive_stats = or_internal count_files_and_folders (\<lambda>(file_count, folder_count).
     ok (jobj [(''file_count'', JInt (int file_count)), (''folder_count'', JInt (int folder_count))]))"

definition handle_offline_get_stats :: "('x, json) handler" where
  "handle_offline_get_stats = or_internal sum_bytes_by_sync_state (\<lambda>(offline, cache).
     ok (jobj [(''offline_bytes'', JInt (uint (word_of_int offline :: u64))), (''cache_bytes'', JInt (uint (word_of_int cache :: u64)))]))"

definition f_unpin_all :: "database \<Rightarrow> database" where
  "f_unpin_all d = d\<lparr>drive_files := update_where (\<lambda>r. r_sync_state r = ''offline'' \<and> r_is_trashed r = 0)
     (\<lambda>r. r\<lparr>r_sync_state := ''cached''\<rparr>) (drive_files d)\<rparr>"

definition handle_offline_clear_cache :: "('x, json) handler" where
  "handle_offline_clear_cache = or_internal (db_exec (\<lambda>d. (Inr (), f_unpin_all d))) (\<lambda>_. ok (jobj [(''cleared'', JBool True)]))"

section \<open>Queries of the file-manager extensions\<close>

definition handle_fs_get_sync_state :: "'x ipc_env \<Rightarrow> json option \<Rightarrow> ('x, json) handler" where
  "handle_fs_get_sync_state env params = extract_string_param params ''path'' (\<lambda>p.
     resolve_file_for_path env p (\<lambda>f.
       ok (jobj [(''state'', JStr (sync_state_name (state_from_column env (d_sync_state f)))), (''file_id'', JStr (d_id f)),
         (''name'', JStr (d_name f)), (''is_folder'', JBool (d_mime_type f = FOLDER_TYPE)), (''drive_url'', JStr (drive_url (d_id f)))])))"

definition handle_fs_set_offline :: "'x ipc_env \<Rightarrow> json option \<Rightarrow> ('x, json) handler" where
  "handle_fs_set_offline env params = extract_string_param params ''path'' (\<lambda>p.
     required (param as_bool ''enabled'' params) (invalid_params ''enabled (bool) is required'') (\<lambda>enabled.
       resolve_file_for_path env p (\<lambda>f.
         let new_state = (if enabled then ''offline'' else ''cached'')
         in or_internal (set_sync_state (d_id f) (d_account_id f) new_state) (\<lambda>_.
              ok (jobj [(''state'', JStr new_state)])))))"

definition handle_fs_get_share_link :: "'x ipc_env \<Rightarrow> json option \<Rightarrow> ('x, json) handler" where
  "handle_fs_get_share_link env params = extract_string_param params ''path'' (\<lambda>p.
     resolve_file_for_path env p (\<lambda>f. ok (jobj [(''url'', JStr (drive_url (d_id f)))])))"

section \<open>File provider\<close>

text \<open>The entry of a file, with the local path the caller reports.\<close>

definition fp_entry :: "drive_file \<Rightarrow> string option \<Rightarrow> json" where
  "fp_entry f lp = jobj [(''name'', JStr (d_name f)), (''file_id'', JStr (d_id f)), (''account_id'', JStr (d_account_id f)),
     (''mime_type'', JStr (d_mime_type f)), (''size'', jopt JInt (d_size f)), (''modified_time'', jopt JInt (d_modified_time f)),
     (''sync_state'', JStr (d_sync_state f)), (''is_shared'', JBool (d_is_shared f)), (''is_folder'', JBool (d_mime_type f = FOLDER_TYPE)),
     (''parent_file_id'', jopt JStr (d_parent_id f)), (''local_path'', jopt JStr lp)]"

definition handle_fp_get_item :: "'x ipc_env \<Rightarrow> json option \<Rightarrow> ('x, json) handler" where
  "handle_fp_get_item env params = extract_string_param params ''path'' (\<lambda>p.
     resolve_file_for_path env p (\<lambda>f. ok (fp_entry f (d_local_path f))))"

definition fp_children :: "string option \<Rightarrow> string \<Rightarrow> ('x, json) handler" where
  "fp_children parent acct = or_internal (list_children parent acct) (\<lambda>cs.
     ok (jobj [(''items'', JArr (map (\<lambda>c. fp_entry c (d_local_path c)) cs))]))"

definition handle_fp_list_children :: "'x ipc_env \<Rightarrow> json option \<Rightarrow> ('x, json) handler" where
  "handle_fp_list_children env params = extract_string_param params ''path'' (\<lambda>p.
     if p = ''/'' then or_internal get_first_account_id (\<lambda>first.
       required first (not_found ''no accounts configured'') (\<lambda>acct. fp_children None acct))
     else resolve_file_for_path env p (\<lambda>f. fp_children (Some (d_id f)) (d_account_id f)))"

text \<open>\<^verbatim>\<open>INSERT INTO sync_queue\<close> with the time the handler read.\<close>

definition fp_enqueue :: "int \<Rightarrow> string \<Rightarrow> string \<Rightarrow> string \<Rightarrow> string option \<Rightarrow> ('x world, unit result) state" where
  "fp_enqueue now acct file_id operation p = db_exec (\<lambda>d. (Inr (), q_insert (vfs_task now acct file_id operation p) d))"

definition handle_fp_fetch_contents :: "'x ipc_env \<Rightarrow> json option \<Rightarrow> ('x, json) handler" where
  "handle_fp_fetch_contents env params = extract_string_param params ''path'' (\<lambda>p.
     resolve_file_for_path env p (\<lambda>f.
       let local_path = (case d_local_path f of
             Some lp \<Rightarrow> lp
           | None \<Rightarrow> (case ie_cache_dir env of None \<Rightarrow> [] | Some c \<Rightarrow> c) @ ''/'' @ d_account_id f @ ''/'' @ d_id f)
       in do {
         now \<leftarrow> in_world now_ms;
         or_internal (fp_enqueue now (d_account_id f) (d_id f) ''download'' (Some local_path)) (\<lambda>_.
           ok (fp_entry f (Some local_path)))
       }))"

text \<open>\<^verbatim>\<open>crate::vfs::guess_mime\<close>; \<^verbatim>\<open>rsplit('.').next()\<close> is the last piece, the whole name when it has no dot.\<close>

definition FP_MIME_TYPES :: "(string \<times> string) list" where
  "FP_MIME_TYPES = [
     (''jpg'', ''image/jpeg''), (''jpeg'', ''image/jpeg''), (''png'', ''image/png''), (''gif'', ''image/gif''),
     (''webp'', ''image/webp''), (''svg'', ''image/svg+xml''), (''mp4'', ''video/mp4''), (''webm'', ''video/webm''),
     (''mp3'', ''audio/mpeg''), (''wav'', ''audio/wav''), (''pdf'', ''application/pdf''), (''json'', ''application/json''),
     (''xml'', ''application/xml''), (''zip'', ''application/zip''), (''gz'', ''application/gzip''), (''txt'', ''text/plain''),
     (''md'', ''text/plain''), (''csv'', ''text/plain''), (''html'', ''text/html''), (''htm'', ''text/html''), (''css'', ''text/css''),
     (''js'', ''application/javascript''), (''mjs'', ''application/javascript''), (''ts'', ''application/typescript''),
     (''doc'', ''application/msword''), (''docx'', ''application/msword''), (''xls'', ''application/vnd.ms-excel''),
     (''xlsx'', ''application/vnd.ms-excel''), (''ppt'', ''application/vnd.ms-powerpoint''), (''pptx'', ''application/vnd.ms-powerpoint'')]"

definition fp_guess_mime :: "string \<Rightarrow> string" where
  "fp_guess_mime name =
     (case map_of FP_MIME_TYPES (map ascii_lower (last (split_on (CHR ''.'') name))) of
        None \<Rightarrow> ''application/octet-stream'' | Some m \<Rightarrow> m)"

definition handle_fp_create_item :: "'x ipc_env \<Rightarrow> json option \<Rightarrow> ('x, json) handler" where
  "handle_fp_create_item env params = required (object_param params) (invalid_params ''expected object'') (\<lambda>obj.
     required (param as_str ''name'' (Some obj)) (invalid_params ''name is required'') (\<lambda>name.
       let is_folder = (case param as_bool ''is_folder'' (Some obj) of None \<Rightarrow> False | Some b \<Rightarrow> b)
       in or_internal get_first_account_id (\<lambda>first.
          required first (internal_error ''no account connected'') (\<lambda>acct.
            do {
              ops \<leftarrow> in_world (State (\<lambda>w. (w_ops w, w)));
              now \<leftarrow> in_world now_ms;
              let temp_id = ''local-'' @ show_nat (ie_nanos env ops);
                  mime_type = (if is_folder then FOLDER_TYPE else fp_guess_mime name);
                  local_path = param as_str ''local_path'' (Some obj);
                  reply = ok (jobj [(''name'', JStr name), (''file_id'', JStr temp_id), (''account_id'', JStr acct),
                    (''mime_type'', JStr mime_type), (''is_folder'', JBool is_folder), (''size'', JInt 0), (''modified_time'', JInt now),
                    (''sync_state'', JStr (if is_folder then ''cloud_only'' else ''modified''))])
              in if is_folder
                 then or_internal (db_exec (v_insert (local_row now temp_id acct name mime_type None None ''cloud_only''))) (\<lambda>_. reply)
                 else or_internal (db_exec (v_insert (local_row now temp_id acct name mime_type None local_path ''modified''))) (\<lambda>_.
                   case local_path of
                     None \<Rightarrow> reply
                   | Some lp \<Rightarrow> or_internal (fp_enqueue now acct temp_id ''upload'' (Some lp)) (\<lambda>_. reply))
            }))))"

definition f_update :: "drive_file \<Rightarrow> (drive_file_row \<Rightarrow> drive_file_row) \<Rightarrow> ('x world, unit result) state" where
  "f_update f g = db_exec (\<lambda>d. (Inr (), d\<lparr>drive_files := update_where (\<lambda>r. file_key r = (d_id f, d_account_id f)) g (drive_files d)\<rparr>))"

definition fp_rename :: "int \<Rightarrow> drive_file \<Rightarrow> string option \<Rightarrow> (unit \<Rightarrow> ('x, 'b) handler) \<Rightarrow> ('x, 'b) handler" where
  "fp_rename now f new_name k =
     (case new_name of
        None \<Rightarrow> k ()
      | Some n \<Rightarrow> or_internal (f_update f (\<lambda>r. r\<lparr>r_name := n, r_modified_time := Some now\<rparr>)) (\<lambda>_.
          or_internal (fp_enqueue now (d_account_id f) (d_id f) ''rename'' (d_local_path f)) k))"

definition fp_rewrite :: "int \<Rightarrow> drive_file \<Rightarrow> string option \<Rightarrow> (unit \<Rightarrow> ('x, 'b) handler) \<Rightarrow> ('x, 'b) handler" where
  "fp_rewrite now f local_path k =
     (case local_path of
        None \<Rightarrow> k ()
      | Some lp \<Rightarrow> or_internal (f_update f (\<lambda>r. r\<lparr>r_local_path := Some lp, r_sync_state := ''modified'', r_modified_time := Some now\<rparr>)) (\<lambda>_.
          or_internal (fp_enqueue now (d_account_id f) (d_id f) ''upload'' (Some lp)) k))"

definition handle_fp_modify_item :: "'x ipc_env \<Rightarrow> json option \<Rightarrow> ('x, json) handler" where
  "handle_fp_modify_item env params = required (object_param params) (invalid_params ''expected object'') (\<lambda>obj.
     required (param as_str ''path'' (Some obj)) (invalid_params ''path is required'') (\<lambda>p.
     resolve_file_for_path env p (\<lambda>f. do {
       now \<leftarrow> in_world now_ms;
       fp_rename now f (param as_str ''new_name'' (Some obj)) (\<lambda>_.
       fp_rewrite now f (param as_str ''local_path'' (Some obj)) (\<lambda>_.
         ok (jobj [(''name'', JStr (d_name f)), (''file_id'', JStr (d_id f)), (''account_id'', JStr (d_account_id f)),
           (''mime_type'', JStr (d_mime_type f)), (''sync_state'', JStr ''modified''), (''modified_time'', JInt now)])))
     })))"

definition handle_fp_delete_item :: "'x ipc_env \<Rightarrow> json option \<Rightarrow> ('x, json) handler" where
  "handle_fp_delete_item env params = extract_string_param params ''path'' (\<lambda>p.
     resolve_file_for_path env p (\<lambda>f. do {
       now \<leftarrow> in_world now_ms;
       or_internal (f_update f (\<lambda>r. r\<lparr>r_is_trashed := 1, r_modified_time := Some now\<rparr>)) (\<lambda>_.
       or_internal (fp_enqueue now (d_account_id f) (d_id f) ''delete'' (d_local_path f)) (\<lambda>_.
         ok (jobj [(''deleted'', JBool True)])))
     }))"

section \<open>Accounts\<close>

text \<open>The login flow goes on in a task of its own, \<open>complete_oauth_flow\<close> below.\<close>

definition handle_auth_start_flow :: "'x ipc_env \<Rightarrow> ('x, json) handler" where
  "handle_auth_start_flow env = or_internal (ext_call (ie_begin_auth env)) (\<lambda>url. ok (jobj [(''auth_url'', JStr url)]))"

definition handle_auth_get_accounts :: "('x, json) handler" where
  "handle_auth_get_accounts = or_internal list_accounts (\<lambda>as. ok (JArr (map en_account as)))"

definition handle_auth_disconnect :: "'x ipc_env \<Rightarrow> json option \<Rightarrow> ('x, json) handler" where
  "handle_auth_disconnect env params = required (object_param params) (invalid_params ''expected { account_id: string }'') (\<lambda>obj.
     required (param as_str ''account_id'' (Some obj)) (invalid_params ''account_id is required'') (\<lambda>account_id. do {
       _ \<leftarrow> in_world (delete_all_tokens (ie_services env) account_id);
       or_internal (delete_account account_id) (\<lambda>_. do {
         _ \<leftarrow> push_account_changed;
         ok (jobj [(''disconnected'', JStr account_id)])
       })
     }))"

definition handle_auth_get_locale :: "json option \<Rightarrow> ('x, json) handler" where
  "handle_auth_get_locale params =
     (let account_id = (case Option.bind params as_str of None \<Rightarrow> [] | Some s \<Rightarrow> s)
      in or_internal (get_account account_id) (\<lambda>a. ok (jobj [(''locale'', jopt JStr (Option.bind a a_locale))])))"

definition handle_auth_get_quota :: "('x, json) handler" where
  "handle_auth_get_quota = ok (jobj [(''quota'', JNull)])"

definition quota_or_zero :: "string option \<Rightarrow> u64" where
  "quota_or_zero s = (case parse_quota_number s of Inl _ \<Rightarrow> 0 | Inr n \<Rightarrow> of_nat n)"

definition fetch_and_store_account :: "'x ipc_env \<Rightarrow> drive_client \<Rightarrow> ('x world, (account \<times> storage_quota) result) state" where
  "fetch_and_store_account env c = tryE (ext_call (ie_about env c)) (\<lambda>about. do {
     now \<leftarrow> now_ms;
     let u = ab_user about; q = ab_storage_quota about;
         acct = \<lparr>a_id = au_email_address u, a_email = au_email_address u, a_display_name = Some (au_display_name u),
           a_photo_url = au_photo_link u, a_locale = None, a_created_at = now, a_last_used_at = now\<rparr>;
         quota = \<lparr>sq_limit = (case parse_quota_number (aq_limit q) of Inl _ \<Rightarrow> None | Inr n \<Rightarrow> Some (of_nat n)),
           sq_usage = quota_or_zero (Some (aq_usage q)), sq_usage_in_drive = quota_or_zero (aq_usage_in_drive q),
           sq_usage_in_drive_trash = quota_or_zero (aq_usage_in_drive_trash q)\<rparr>
     in tryE (insert_account acct) (\<lambda>_. State_Monad.return (Inr (acct, quota)))
   })"

definition complete_oauth_flow :: "'x ipc_env \<Rightarrow> token_set \<Rightarrow> ('x router, unit) state" where
  "complete_oauth_flow env ts =
     (let c = \<lparr>c_token = ts_access_token ts, c_refresher = None\<rparr>
      in do {
        stored \<leftarrow> in_world (fetch_and_store_account env c);
        case stored of
          Inl _ \<Rightarrow> State_Monad.return ()
        | Inr (acct, quota) \<Rightarrow> do {
            _ \<leftarrow> (case ts_refresh_token ts of
                   None \<Rightarrow> State_Monad.return (Inr ())
                 | Some rt \<Rightarrow> in_world (save_refresh_token (ie_services env) (a_id acct) rt));
            _ \<leftarrow> in_world (cache_access_token (a_id acct) ts);
            _ \<leftarrow> in_world (push_send (OauthComplete (a_id acct)));
            _ \<leftarrow> push_account_changed;
            prefs \<leftarrow> config_read;
            _ \<leftarrow> in_world (initial_sync (ie_services env) (a_id acct) c (vp_sync_mode (pf_vfs prefs)) (vp_mount_point (pf_vfs prefs)));
            State_Monad.return ()
          }
      })"

section \<open>Dispatch\<close>

text \<open>The method table of \<^verbatim>\<open>Router::dispatch\<close>, with the names of \<^verbatim>\<open>crates/gdriver-ipc/src/methods.rs\<close>.\<close>

definition method_table :: "'x ipc_env \<Rightarrow> json option \<Rightarrow> (string \<times> ('x, json) handler) list" where
  "method_table env params = [
     (''ping'', ok (JStr ''pong'')),
     (''prefs.get'', handle_prefs_get),
     (''prefs.save'', handle_prefs_save env params),
     (''auth.start_flow'', handle_auth_start_flow env),
     (''auth.get_accounts'', handle_auth_get_accounts),
     (''auth.disconnect'', handle_auth_disconnect env params),
     (''auth.get_locale'', handle_auth_get_locale params),
     (''auth.get_quota'', handle_auth_get_quota),
     (''sync.get_status'', handle_sync_get_status),
     (''sync.pause'', handle_sync_pause),
     (''sync.resume'', handle_sync_resume),
     (''sync.get_recent_items'', handle_sync_get_recent_items env params),
     (''sync.get_activity'', handle_sync_get_activity env params),
     (''sync.retry_error'', handle_sync_retry_error params),
     (''sync.get_errors'', handle_sync_get_errors),
     (''notification.list'', handle_notification_list env params),
     (''notification.dismiss'', handle_notification_dismiss params),
     (''notification.mark_read'', handle_notification_mark_read params),
     (''notification.mark_all_read'', handle_notification_mark_all_read),
     (''folder.list'', handle_folder_list),
     (''folder.add'', handle_folder_add params),
     (''folder.remove'', handle_folder_remove params),
     (''folder.get_size'', handle_folder_get_size params),
     (''folder.get_suggested'', handle_folder_get_suggested env),
     (''system.set_sync_mode'', handle_set_sync_mode env params),
     (''system.get_drive_stats'', handle_system_get_drive_stats),
     (''system.submit_feedback'', handle_submit_feedback params),
     (''system.get_platform'', handle_get_platform),
     (''offline.get_stats'', handle_offline_get_stats),
     (''offline.clear_cache'', handle_offline_clear_cache),
     (''fs.get_sync_state'', handle_fs_get_sync_state env params),
     (''fs.set_offline'', handle_fs_set_offline env params),
     (''fs.get_share_link'', handle_fs_get_share_link env params),
     (''fp.get_item'', handle_fp_get_item env params),
     (''fp.list_children'', handle_fp_list_children env params),
     (''fp.fetch_contents'', handle_fp_fetch_contents env params),
     (''fp.create_item'', handle_fp_create_item env params),
     (''fp.modify_item'', handle_fp_modify_item env params),
     (''fp.delete_item'', handle_fp_delete_item env params)
   ]"

definition dispatch :: "'x ipc_env \<Rightarrow> string \<Rightarrow> json option \<Rightarrow> ('x, json) handler" where
  "dispatch env meth params =
     (case map_of (method_table env params) meth of None \<Rightarrow> fail (method_not_found meth) | Some h \<Rightarrow> h)"

definition router_handle :: "'x ipc_env \<Rightarrow> json_rpc_request \<Rightarrow> ('x router, json_rpc_response option) state" where
  "router_handle env req = do {
     result \<leftarrow> dispatch env (jq_method req) (jq_params req);
     State_Monad.return (if is_notification req then None
       else Some (case result of Inr v \<Rightarrow> response_success (jq_id req) v | Inl e \<Rightarrow> response_error (jq_id req) e))
   }"

end
