(* ===== verification/Ipc_Server.thy ===== *)
theory Ipc_Server
  imports Ipc_Handlers
begin

text \<open>
  The connection between a client and the daemon: \<^verbatim>\<open>crates/gdriver-daemon/src/ipc/server.rs\<close> and the blocking client of
  \<^verbatim>\<open>crates/gdriver-ipc/src/client.rs\<close>. Messages are JSON texts, one per line. The text form of JSON belongs to
  \<^verbatim>\<open>serde_json\<close> and is a parameter; its reader rejects what \<^verbatim>\<open>from_str\<close> rejects.
\<close>

record text_codec =
  tc_print :: "json \<Rightarrow> string"
  tc_parse :: "string \<Rightarrow> json option"
  tc_error :: "string \<Rightarrow> string"

definition NL :: char where "NL = CHR 0x0A"

section \<open>One connection of the daemon\<close>

text \<open>
  \<open>cn_inbox\<close> holds bytes that have arrived, \<open>cn_line\<close> the part of a line the pending \<^verbatim>\<open>read_line\<close> has taken from them,
  \<open>cn_out\<close> what has been written. \<open>wr n\<close> says whether write number \<open>n\<close> succeeds.
\<close>

record 'x conn =
  cn_router :: "'x router"
  cn_inbox :: string
  cn_line :: string
  cn_out :: "string list"
  cn_writes :: nat
  cn_open :: bool

definition conn_new :: "'x router \<Rightarrow> 'x conn" where
  "conn_new r = \<lparr>cn_router = r, cn_inbox = [], cn_line = [], cn_out = [], cn_writes = 0, cn_open = True\<rparr>"

definition write_out :: "(nat \<Rightarrow> bool) \<Rightarrow> string \<Rightarrow> 'x conn \<Rightarrow> bool \<times> 'x conn" where
  "write_out wr s c =
     (let c' = c\<lparr>cn_writes := Suc (cn_writes c)\<rparr>
      in if wr (cn_writes c) then (True, c'\<lparr>cn_out := cn_out c @ [s]\<rparr>) else (False, c'))"

definition write_or_close :: "(nat \<Rightarrow> bool) \<Rightarrow> string \<Rightarrow> 'x conn \<Rightarrow> 'x conn" where
  "write_or_close wr s c = (case write_out wr s c of (fine, c') \<Rightarrow> if fine then c' else c'\<lparr>cn_open := False\<rparr>)"

text \<open>\<^verbatim>\<open>send_message\<close>.\<close>

definition message_line :: "text_codec \<Rightarrow> json_rpc_response \<Rightarrow> string" where
  "message_line tc resp = tc_print tc (en_response resp) @ [NL]"

definition serve_line :: "'x ipc_env \<Rightarrow> text_codec \<Rightarrow> (nat \<Rightarrow> bool) \<Rightarrow> string \<Rightarrow> 'x conn \<Rightarrow> 'x conn" where
  "serve_line env tc wr line c =
     (let trimmed = trim line
      in if trimmed = [] then c
         else case Option.bind (tc_parse tc trimmed) de_request of
                None \<Rightarrow> snd (write_out wr (message_line tc (response_error None parse_error)) c)
              | Some req \<Rightarrow>
                  (case run_state (router_handle env req) (cn_router c) of
                     (None, r) \<Rightarrow> c\<lparr>cn_router := r\<rparr>
                   | (Some resp, r) \<Rightarrow> write_or_close wr (message_line tc resp) (c\<lparr>cn_router := r\<rparr>)))"

text \<open>
  What the loop sees: bytes arriving, a poll of the read branch, the end of the input, a read error, and a result of the
  push channel. When the push branch of \<^verbatim>\<open>select!\<close> wins, the pending \<^verbatim>\<open>read_line\<close> is dropped with the part of the line it
  had taken; bytes it had not polled stay.
\<close>

datatype push_result = PushText string | PushLagged nat | PushClosed

datatype conn_event = Arrive string | PollRead | ReadEof | ReadFail | PushReady push_result

definition poll_read :: "'x ipc_env \<Rightarrow> text_codec \<Rightarrow> (nat \<Rightarrow> bool) \<Rightarrow> 'x conn \<Rightarrow> 'x conn" where
  "poll_read env tc wr c =
     (let (l, rest) = (takeWhile (\<lambda>x. x \<noteq> NL) (cn_inbox c), dropWhile (\<lambda>x. x \<noteq> NL) (cn_inbox c))
      in case rest of
           [] \<Rightarrow> c\<lparr>cn_line := cn_line c @ l, cn_inbox := []\<rparr>
         | _ # unread \<Rightarrow> serve_line env tc wr (cn_line c @ l @ [NL]) (c\<lparr>cn_line := [], cn_inbox := unread\<rparr>))"

definition read_eof :: "'x ipc_env \<Rightarrow> text_codec \<Rightarrow> (nat \<Rightarrow> bool) \<Rightarrow> 'x conn \<Rightarrow> 'x conn" where
  "read_eof env tc wr c =
     (if NL \<in> set (cn_inbox c) then poll_read env tc wr c
      else if cn_line c @ cn_inbox c = [] then c\<lparr>cn_open := False\<rparr>
      else serve_line env tc wr (cn_line c @ cn_inbox c) (c\<lparr>cn_line := [], cn_inbox := []\<rparr>))"

definition push_ready :: "(nat \<Rightarrow> bool) \<Rightarrow> push_result \<Rightarrow> 'x conn \<Rightarrow> 'x conn" where
  "push_ready wr p c =
     (let c' = c\<lparr>cn_line := []\<rparr>
      in case p of
           PushText msg \<Rightarrow> write_or_close wr (msg @ [NL]) c'
         | PushLagged n \<Rightarrow> c'
         | PushClosed \<Rightarrow> c'\<lparr>cn_open := False\<rparr>)"

definition conn_step :: "'x ipc_env \<Rightarrow> text_codec \<Rightarrow> (nat \<Rightarrow> bool) \<Rightarrow> conn_event \<Rightarrow> 'x conn \<Rightarrow> 'x conn" where
  "conn_step env tc wr ev c =
     (if \<not> cn_open c then c
      else case ev of
             Arrive s \<Rightarrow> c\<lparr>cn_inbox := cn_inbox c @ s\<rparr>
           | PollRead \<Rightarrow> poll_read env tc wr c
           | ReadEof \<Rightarrow> read_eof env tc wr c
           | ReadFail \<Rightarrow> c\<lparr>cn_open := False\<rparr>
           | PushReady p \<Rightarrow> push_ready wr p c)"

definition handle_connection :: "'x ipc_env \<Rightarrow> text_codec \<Rightarrow> (nat \<Rightarrow> bool) \<Rightarrow> conn_event list \<Rightarrow> 'x conn \<Rightarrow> 'x conn" where
  "handle_connection env tc wr evs c = fold (conn_step env tc wr) evs c"

section \<open>The client\<close>

text \<open>What the reader of the client delivers: a line, or an error such as a time-out. After the list the input has ended.\<close>

datatype read_result = GotLine string | GotError string

fun await_reply :: "text_codec \<Rightarrow> read_result list \<Rightarrow> (json_rpc_error + json) \<times> read_result list" where
  "await_reply tc [] = (Inl (internal_error ''daemon disconnected''), [])"
| "await_reply tc (GotError e # rs) = (Inl (internal_error e), rs)"
| "await_reply tc (GotLine l # rs) =
     (case Option.bind (tc_parse tc (trim l)) de_response of
        None \<Rightarrow> (Inl (internal_error (tc_error tc (trim l))), rs)
      | Some resp \<Rightarrow>
          if jp_id resp = None then await_reply tc rs
          else if response_is_success resp then (Inr (case jp_result resp of None \<Rightarrow> JNull | Some v \<Rightarrow> v), rs)
          else (Inl (case jp_error resp of None \<Rightarrow> internal_error ''unknown error'' | Some e \<Rightarrow> e), rs))"

record ipc_client =
  cl_next_id :: "64 word"
  cl_reads :: "read_result list"

definition request_line :: "text_codec \<Rightarrow> json_rpc_request \<Rightarrow> string" where
  "request_line tc req = tc_print tc (en_request req) @ [NL]"

text \<open>A call: the line it sends, when the write succeeds, and its result.\<close>

definition client_call :: "text_codec \<Rightarrow> string option \<Rightarrow> string \<Rightarrow> json option \<Rightarrow> ipc_client \<Rightarrow>
    string option \<times> (json_rpc_error + json) \<times> ipc_client" where
  "client_call tc write_error meth params cl =
     (let i = cl_next_id cl;
          cl' = cl\<lparr>cl_next_id := i + 1\<rparr>
      in case write_error of
           Some e \<Rightarrow> (None, Inl (internal_error e), cl')
         | None \<Rightarrow> (case await_reply tc (cl_reads cl') of
             (result, rest) \<Rightarrow> (Some (request_line tc (request_new meth params (IdNum (sint i)))), result, cl'\<lparr>cl_reads := rest\<rparr>)))"

end
