(* ===== verification/Ipc_Samples.thy ===== *)
theory Ipc_Samples
  imports Ipc_Server Samples
begin

text \<open>Concrete values for the witnesses of the JSON-RPC layer.\<close>

definition sample_router :: "'x world \<Rightarrow> 'x router" where
  "sample_router w = \<lparr>rt_world = w, rt_general = pf_general default_prefs, rt_network = pf_network default_prefs,
     rt_hotkeys = pf_hotkeys default_prefs, rt_telemetry = pf_telemetry default_prefs, rt_commands = [], rt_engine_up = True,
     rt_reloads = 0\<rparr>"

lemma sample_router_simps [simp]: "rt_world (sample_router w) = w" "rt_commands (sample_router w) = []"
  "rt_engine_up (sample_router w)" "rt_reloads (sample_router w) = 0"
  by (simp_all add: sample_router_def)

definition sample_toml :: toml_codec where
  "sample_toml = \<lparr>tm_print = (\<lambda>p. Inr (if vp_sync_mode (pf_vfs p) = Mirror then [77] else [83])),
     tm_parse = (\<lambda>bs. if bs = [77] then Some (default_prefs\<lparr>pf_vfs := (pf_vfs default_prefs)\<lparr>vp_sync_mode := Mirror\<rparr>\<rparr>)
       else if bs = [83] then Some default_prefs else None),
     tm_utf8 = (\<lambda>_. True)\<rparr>"

definition sample_env :: "'x ipc_env" where
  "sample_env = \<lparr>ie_services = null_services, ie_about = (\<lambda>_ x. (Inl ''offline'', x)), ie_begin_auth = (\<lambda>x. (Inl ''no flow'', x)),
     ie_parse = (\<lambda>_. None), ie_serde_error = (\<lambda>_. ''bad value''), ie_toml = sample_toml, ie_data_dir = Some ''/home'',
     ie_home_dir = Some ''/home'', ie_cache_dir = Some ''/cache'', ie_nanos = (\<lambda>n. n)\<rparr>"

text \<open>A text form for one exchange: a ping, its reply and a push.\<close>

definition ping_request :: json_rpc_request where
  "ping_request = request_new ''ping'' None (IdNum 1)"

definition ping_reply :: json_rpc_response where
  "ping_reply = response_success (Some (IdNum 1)) (JStr ''pong'')"

definition login_push :: push_event where
  "login_push = OauthComplete ''alice''"

definition sample_codec :: text_codec where
  "sample_codec = \<lparr>
     tc_print = (\<lambda>j. if j = en_request ping_request then ''q'' else if j = en_response ping_reply then ''r''
       else if j = en_request (to_notification no_floats login_push) then ''e'' else ''x''),
     tc_parse = map_of [(''q'', en_request ping_request), (''r'', en_response ping_reply),
       (''e'', en_request (to_notification no_floats login_push))],
     tc_error = (\<lambda>_. ''bad json'')\<rparr>"

lemma sample_texts [simp]:
  "tc_print sample_codec (en_request ping_request) = ''q''" "tc_print sample_codec (en_response ping_reply) = ''r''"
  "tc_print sample_codec (en_request (to_notification no_floats login_push)) = ''e''"
  "tc_parse sample_codec ''q'' = Some (en_request ping_request)" "tc_parse sample_codec ''r'' = Some (en_response ping_reply)"
  "tc_parse sample_codec ''e'' = Some (en_request (to_notification no_floats login_push))"
  by (simp_all add: sample_codec_def en_request_def en_response_def ping_request_def ping_reply_def login_push_def request_new_def
      response_success_def request_notification_def unless_none_def jobj_def obj_extend_def)

text \<open>The ping arrives in two pieces, after a push.\<close>

definition ping_events :: "conn_event list" where
  "ping_events = [PushReady (PushText ''e''), Arrive ''q'', PollRead, Arrive [NL], PollRead]"

end
