(* ===== verification/Ipc_Codec_Props.thy ===== *)
theory Ipc_Codec_Props
  imports Ipc_Types
begin

text \<open>
  What is written as JSON is read back: the JSON-RPC messages, the domain types and the push events.
\<close>

section \<open>Fields\<close>

text \<open>The decoders look fields up in the list the encoder wrote; these rules evaluate them one field at a time.\<close>

lemma field_lookups [simp]:
  "req_field f k (b, m) = Option.bind (m k) f"
  "opt_field f k (b, m) = (case m k of None \<Rightarrow> if b then None else Some None | Some j \<Rightarrow> opt_value f j)"
  "default_field d f k (b, m) = (case m k of None \<Rightarrow> Some d | Some j \<Rightarrow> f j)"
  by (simp_all add: req_field_def opt_field_def default_field_def)

lemma unless_none_simps [simp]:
  "unless_none k f None = []" "unless_none k f (Some y) = [(k, f y)]"
  by (simp_all add: unless_none_def)

lemma sync_state_read [simp]: "de_sync_state (JStr (sync_state_name st)) = Some st"
  by (cases st) (simp_all add: de_sync_state_def de_enum_def enum_table_def)

lemma sync_status_read [simp]: "de_sync_status (JStr (sync_status_name st)) = Some st"
  by (cases st) (simp_all add: de_sync_status_def de_enum_def enum_table_def)

lemma sync_mode_read [simp]: "de_sync_mode (JStr (sync_mode_name m)) = Some m"
  by (cases m) (simp_all add: de_sync_mode_def de_enum_def enum_table_def)

section \<open>Messages\<close>

definition id_ok :: "JsonRpcId \<Rightarrow> bool" where
  "id_ok i \<longleftrightarrow> (case i of IdStr s \<Rightarrow> True | IdNum n \<Rightarrow> i64_ok n)"

lemma id_read [simp]: "id_ok i \<Longrightarrow> de_id (en_id i) = Some i"
  by (cases i) (simp_all add: id_ok_def de_id_def as_str_def)

lemma en_id_not_null [simp]: "en_id i \<noteq> JNull"
  by (cases i) simp_all

lemma request_read:
  assumes "jq_params r \<noteq> Some JNull" and "\<And>i. jq_id r = Some i \<Longrightarrow> id_ok i"
  shows "de_request (en_request r) = Some r"
  using assms
  by (cases "jq_params r"; cases "jq_id r") (simp_all add: de_request_def en_request_def opt_value_def)

definition error_ok :: "json_rpc_error \<Rightarrow> bool" where
  "error_ok e \<longleftrightarrow> - (2 ^ 31) \<le> je_code e \<and> je_code e < 2 ^ 31 \<and> je_data e \<noteq> Some JNull"

lemma error_read: "error_ok e \<Longrightarrow> de_error (en_error e) = Some e"
  by (cases "je_data e") (simp_all add: de_error_def en_error_def de_i32_def as_i64_def i64_ok_def opt_value_def error_ok_def)

lemma success_read:
  "(\<And>i. ri = Some i \<Longrightarrow> id_ok i) \<Longrightarrow>
   de_response (en_response (response_success ri v)) = Some ((response_success ri v)\<lparr>jp_result := if v = JNull then None else Some v\<rparr>)"
  by (cases ri) (simp_all add: de_response_def en_response_def response_success_def jopt_def opt_value_def)

lemma failure_read:
  assumes "error_ok e" and "\<And>i. ri = Some i \<Longrightarrow> id_ok i"
  shows "de_response (en_response (response_error ri e)) = Some (response_error ri e)"
  using assms error_read [OF assms(1)]
  by (cases ri) (simp_all add: de_response_def en_response_def response_error_def jopt_def opt_value_def en_error_def)

text \<open>A push notification read as a response has no id, no result and no error.\<close>

lemma notification_as_response:
  "jq_id r = None \<Longrightarrow> de_response (en_request r) = Some \<lparr>jp_jsonrpc = jq_jsonrpc r, jp_result = None, jp_error = None, jp_id = None\<rparr>"
  by (cases "jq_params r") (simp_all add: de_response_def en_request_def)

section \<open>Domain types\<close>

definition account_ok :: "account \<Rightarrow> bool" where
  "account_ok a \<longleftrightarrow> i64_ok (a_created_at a) \<and> i64_ok (a_last_used_at a)"

lemma account_read: "account_ok a \<Longrightarrow> de_account (en_account a) = Some a"
  by (simp add: de_account_def en_account_def account_ok_def)

lemma quota_read: "de_quota (en_quota q) = Some q"
  by (simp add: de_quota_def en_quota_def)

lemma status_payload_read: "i64_ok (p_ts p) \<Longrightarrow> de_status_payload (en_status_payload p) = Some p"
  by (simp add: de_status_payload_def en_status_payload_def)

lemma sync_error_read: "i64_ok (se_id e) \<Longrightarrow> i64_ok (se_created_at e) \<Longrightarrow> de_sync_error (en_sync_error e) = Some e"
  by (simp add: de_sync_error_def en_sync_error_def)

text \<open>A rate survives when it is finite and the hardware widens and narrows it back.\<close>

definition float_ok :: "float_ops \<Rightarrow> f32 \<Rightarrow> bool" where
  "float_ok fl x \<longleftrightarrow> finite_f32 x \<and> fl_narrow fl (fl_widen fl x) = x"

lemma float_read [simp]: "float_ok fl x \<Longrightarrow> de_f32 fl (en_f32 fl x) = Some x" "float_ok fl x \<Longrightarrow> en_f32 fl x \<noteq> JNull"
  by (simp_all add: float_ok_def de_f32_def en_f32_def)

definition item_ok :: "float_ops \<Rightarrow> sync_item \<Rightarrow> bool" where
  "item_ok fl i \<longleftrightarrow> i64_ok (i_updated_at i) \<and> (case i_progress i of None \<Rightarrow> True | Some x \<Rightarrow> float_ok fl x)"

lemma sync_item_read: "item_ok fl i \<Longrightarrow> de_sync_item fl (en_sync_item fl i) = Some i"
proof -
  assume i: "item_ok fl i"
  then have "opt_value (de_f32 fl) (jopt (en_f32 fl) (i_progress i)) = Some (i_progress i)"
    by (intro opt_value_jopt) (simp add: item_ok_def)
  with i show ?thesis by (simp add: de_sync_item_def en_sync_item_def item_ok_def)
qed

definition kind_ok :: "float_ops \<Rightarrow> NotificationKind \<Rightarrow> bool" where
  "kind_ok fl k \<longleftrightarrow> (case k of StorageWarning pc \<Rightarrow> float_ok fl pc | SyncErrorNoted i n m \<Rightarrow> i64_ok i | _ \<Rightarrow> True)"

definition notification_ok :: "float_ops \<Rightarrow> notification \<Rightarrow> bool" where
  "notification_ok fl n \<longleftrightarrow> i64_ok (no_id n) \<and> i64_ok (no_created_at n) \<and> kind_ok fl (no_kind n)"

lemma notification_read: "notification_ok fl n \<Longrightarrow> de_notification fl (en_notification fl n) = Some n"
  by (cases "no_kind n")
     (simp_all add: de_notification_def en_notification_def jobj_def de_kind_def kind_tag_def notification_ok_def kind_ok_def)

section \<open>Push events\<close>

fun event_ok :: "float_ops \<Rightarrow> push_event \<Rightarrow> bool" where
  "event_ok fl (SyncStatusChanged p) = i64_ok (p_ts p)"
| "event_ok fl (SyncItemUpdated i) = item_ok fl i"
| "event_ok fl (SyncErrorPushed e) = (i64_ok (se_id e) \<and> i64_ok (se_created_at e))"
| "event_ok fl (NotificationNew n) = notification_ok fl n"
| "event_ok fl (AccountChanged as) = list_all account_ok as"
| "event_ok fl (AccountQuotaUpdated acct q) = True"
| "event_ok fl (OauthComplete acct) = True"
| "event_ok fl (UnknownEvent meth params) \<longleftrightarrow> params \<noteq> Some JNull \<and> meth \<notin> {''sync:status-changed'', ''sync:item-updated'',
     ''sync:error'', ''notification:new'', ''account:changed'', ''account:quota-updated'', ''onboarding:oauth-complete''}"

lemma to_notification_simps [simp]:
  "jq_id (to_notification fl e) = None" "jq_jsonrpc (to_notification fl e) = ''2.0''" "jq_method (to_notification fl e) = event_method e"
  by (cases e; simp add: request_notification_def)+

lemma notification_params: "event_ok fl e \<Longrightarrow> jq_params (to_notification fl e) \<noteq> Some JNull"
  by (cases e) (simp_all add: request_notification_def en_status_payload_def en_sync_item_def en_sync_error_def en_notification_def)

lemma event_read: "event_ok fl e \<Longrightarrow> from_notification fl (event_method e) (jq_params (to_notification fl e)) = Some e"
proof (cases e)
  case (AccountChanged as)
  moreover assume "event_ok fl e"
  ultimately have "list_values de_account (map en_account as) = Some as"
    by (intro list_values_map account_read) (simp add: list_all_iff)
  then show ?thesis
    by (simp add: AccountChanged from_notification_def request_notification_def de_accounts_payload_def de_list_def)
qed (simp_all add: from_notification_def request_notification_def status_payload_read sync_item_read sync_error_read
    notification_read quota_read de_quota_payload_def de_oauth_payload_def)

text \<open>C36: every push event survives the wire. The notification built from an event, written as JSON and read as a request, gives
  the same event back, whatever its payload; numbers are in the \<^verbatim>\<open>i64\<close> range and rates finite.\<close>

theorem push_event_round_trip:
  assumes "event_ok fl e"
  shows "Option.bind (de_request (en_request (to_notification fl e))) (\<lambda>r. from_notification fl (jq_method r) (jq_params r)) = Some e"
  using request_read [of "to_notification fl e"] notification_params [OF assms] event_read [OF assms] by simp

theorem push_event_round_trip_witness:
  "Option.bind (de_request (en_request (to_notification \<lparr>fl_widen = (\<lambda>x. ucast x), fl_narrow = (\<lambda>x. ucast x), fl_of_int = (\<lambda>_. 0)\<rparr>
     (NotificationNew \<lparr>no_id = 7, no_account_id = Some ''alice'', no_is_read = False, no_created_at = 5, no_kind = StorageWarning 66\<rparr>))))
     (\<lambda>r. from_notification \<lparr>fl_widen = (\<lambda>x. ucast x), fl_narrow = (\<lambda>x. ucast x), fl_of_int = (\<lambda>_. 0)\<rparr> (jq_method r) (jq_params r))
   = Some (NotificationNew \<lparr>no_id = 7, no_account_id = Some ''alice'', no_is_read = False, no_created_at = 5, no_kind = StorageWarning 66\<rparr>)"
  by (rule push_event_round_trip) (simp add: notification_ok_def kind_ok_def float_ok_def finite_f32_def i64_ok_def)

end
