(* ===== verification/Ipc_Errors.thy ===== *)
theory Ipc_Errors
  imports Ipc_Samples Ipc_Codec_Props
begin

text \<open>
  The errors of the JSON-RPC handlers. \<open>error_class\<close> is the interface of a class of errors that holds the internal and the
  not-found ones; one interpretation says every error can be sent, the other that a handler past its parameter
  checks never refuses the request.
\<close>

section \<open>Refused requests\<close>

text \<open>The errors a program can return, and programs that change nothing when they refuse a request.\<close>

definition errs_in :: "(json_rpc_error \<Rightarrow> bool) \<Rightarrow> ('x, 'a) handler \<Rightarrow> bool" where
  "errs_in P m \<longleftrightarrow> (\<forall>r. case fst (run_state m r) of Inl e \<Rightarrow> P e | Inr _ \<Rightarrow> True)"

definition refuses :: "json_rpc_error \<Rightarrow> bool" where
  "refuses e \<longleftrightarrow> je_code e = -32601 \<or> je_code e = -32602"

definition clean_refusal :: "('x, 'a) handler \<Rightarrow> bool" where
  "clean_refusal m \<longleftrightarrow> (\<forall>r e r'. run_state m r = (Inl e, r') \<longrightarrow> refuses e \<longrightarrow> r' = r)"

named_theorems errs "rules for errs_in"

locale error_class =
  fixes P :: "json_rpc_error \<Rightarrow> bool"
  assumes P_internal: "P (internal_error s)"
    and P_not_found: "P (not_found s)"
begin

lemma errs_simple [errs]: "errs_in P (ok v)" "P e \<Longrightarrow> errs_in P (fail e)"
  by (simp_all add: errs_in_def ok_def fail_def)

lemma errs_bind [errs]: "(\<And>x. errs_in P (k x)) \<Longrightarrow> errs_in P (State_Monad.bind m k)"
  by (simp add: errs_in_def split: prod.splits)

lemma errs_and_then [errs]: "errs_in P m \<Longrightarrow> (\<And>x. errs_in P (k x)) \<Longrightarrow> errs_in P (and_then m k)"
  by (auto simp: errs_in_def and_then_def fail_def split: prod.splits sum.splits) (metis fst_conv sum.sel(1))+

lemma errs_or_internal [errs]: "(\<And>x. errs_in P (k x)) \<Longrightarrow> errs_in P (or_internal m k)"
  by (simp add: or_internal_def errs_in_def fail_def P_internal split: prod.splits sum.splits)

lemma errs_required [errs]: "P e \<Longrightarrow> (\<And>x. errs_in P (k x)) \<Longrightarrow> errs_in P (required v e k)"
  by (simp add: required_def errs_simple split: option.split)

lemma errs_if [errs]: "errs_in P m \<Longrightarrow> errs_in P n \<Longrightarrow> errs_in P (if b then m else n)"
  by simp

lemma errs_option [errs]: "errs_in P m \<Longrightarrow> (\<And>x. errs_in P (f x)) \<Longrightarrow> errs_in P (case v of None \<Rightarrow> m | Some x \<Rightarrow> f x)"
  by (simp split: option.split)

lemma errs_pair [errs]: "(\<And>a b. errs_in P (f a b)) \<Longrightarrow> errs_in P (case x of (a, b) \<Rightarrow> f a b)"
  by (simp split: prod.split)

lemma errs_send [errs]: "errs_in P (send_command c)"
  by (simp add: errs_in_def send_command_def P_internal)

lemma errs_resolve [errs]: "(\<And>f. errs_in P (k f)) \<Longrightarrow> errs_in P (resolve_file_for_path env p k)"
  unfolding resolve_file_for_path_def resolve_path_under_mount_def Let_def by (intro errs P_not_found)

lemmas errs_all = errs P_internal P_not_found

end

lemma error_kinds [simp]:
  "error_ok (internal_error s)" "error_ok (not_found s)" "error_ok (invalid_params s)" "error_ok (method_not_found s)" "error_ok parse_error"
  "\<not> refuses (internal_error s)" "\<not> refuses (not_found s)" "refuses (invalid_params s)" "refuses (method_not_found s)"
  by (simp_all add: error_ok_def refuses_def internal_error_def not_found_def invalid_params_def method_not_found_def parse_error_def)

interpretation sent: error_class error_ok
  by unfold_locales simp_all

interpretation late: error_class "\<lambda>e. \<not> refuses e"
  by unfold_locales simp_all

lemma clean_required: "(\<And>x. clean_refusal (k x)) \<Longrightarrow> clean_refusal (required v e k)"
  by (auto simp: clean_refusal_def required_def fail_def split: option.split)

lemma clean_late: "errs_in (\<lambda>e. \<not> refuses e) m \<Longrightarrow> clean_refusal m"
  unfolding clean_refusal_def errs_in_def by (metis fst_conv sum.simps(5))

lemmas handler_defs = handle_prefs_get_def handle_prefs_save_def handle_sync_get_status_def handle_sync_pause_def
  handle_sync_resume_def handle_sync_get_recent_items_def handle_sync_get_activity_def handle_sync_retry_error_def
  handle_sync_get_errors_def handle_set_sync_mode_def handle_notification_list_def handle_notification_dismiss_def
  handle_notification_mark_read_def handle_notification_mark_all_read_def handle_folder_list_def handle_folder_add_def
  handle_folder_remove_def handle_folder_get_size_def handle_folder_get_suggested_def handle_submit_feedback_def
  handle_get_platform_def handle_system_get_drive_stats_def handle_offline_get_stats_def handle_offline_clear_cache_def
  handle_fs_get_sync_state_def handle_fs_set_offline_def handle_fs_get_share_link_def handle_fp_get_item_def
  handle_fp_list_children_def handle_fp_fetch_contents_def handle_fp_create_item_def handle_fp_modify_item_def
  handle_fp_delete_item_def handle_auth_start_flow_def handle_auth_get_accounts_def handle_auth_disconnect_def
  handle_auth_get_locale_def handle_auth_get_quota_def extract_string_param_def folder_id_param_def fp_children_def
  fp_rename_def fp_rewrite_def Let_def

text \<open>To show something of every method, look at the entries of the table.\<close>

lemma every_method:
  assumes "list_all (\<lambda>(n, h). Q h) (method_table env params)" and "Q (fail (method_not_found meth))"
  shows "Q (dispatch env meth params)"
  using assms by (auto simp: dispatch_def list_all_iff split: option.split dest!: map_of_SomeD)

lemma list_all_Nil: "list_all Q []"
  by simp

lemma dispatch_errors_ok: "errs_in error_ok (dispatch env meth params)"
proof (rule every_method)
  show "list_all (\<lambda>(n, h). errs_in error_ok h) (method_table env params)"
    unfolding method_table_def list.pred_inject prod.case handler_defs
    by (intro conjI list_all_Nil sent.errs_all error_kinds)
qed (simp add: sent.errs_all)

lemma dispatch_clean: "clean_refusal (dispatch env meth params)"
proof (rule every_method)
  show "list_all (\<lambda>(n, h). clean_refusal h) (method_table env params)"
    unfolding method_table_def list.pred_inject prod.case handler_defs
    by (intro conjI list_all_Nil; (intro clean_required)?; rule clean_late; intro late.errs_all error_kinds)
qed (simp add: clean_refusal_def fail_def)

text \<open>C22: a request that is refused, because its method is unknown or its parameters are invalid, has changed nothing: not the
  database, the files, the preferences, the tokens or the queues to the engine and the watcher.\<close>

theorem refused_request_changes_nothing:
  assumes "run_state (dispatch env meth params) r = (Inl e, r')" and "je_code e = -32601 \<or> je_code e = -32602"
  shows "r' = r"
  using dispatch_clean [of env meth params] assms unfolding clean_refusal_def refuses_def by blast

theorem refused_request_changes_nothing_witness:
  "snd (run_state (dispatch sample_env ''folder.remove'' (Some (jobj [(''id'', JStr ''seven'')]))) (sample_router (sample_world [1] 9 ())))
   = sample_router (sample_world [1] 9 ())"
proof -
  have run: "run_state (dispatch sample_env ''folder.remove'' (Some (jobj [(''id'', JStr ''seven'')]))) (sample_router (sample_world [1] 9 ()))
      = (Inl (invalid_params ''id must be a numeric string''), sample_router (sample_world [1] 9 ()))"
    by (simp add: dispatch_def method_table_def handle_folder_remove_def folder_id_param_def required_def param_def fail_def
        parse_i64_def parse_nat_def digit_val_def)
  show ?thesis
    using refused_request_changes_nothing [OF run] by (simp add: run invalid_params_def)
qed

end
