(* ===== verification/Config_Props.thy ===== *)
theory Config_Props
  imports Ipc_Errors Outcomes
begin

text \<open>
  Stepping through handlers, and what they do to the preferences: the JSON form is read back, a file once saved is
  what the next start reads, and a save that fails or is cut off leaves the old file.
\<close>

section \<open>Stepping through a handler\<close>

lemma ends_in_world [simp]: "ends (in_world m) r Q = ends m (rt_world r) (\<lambda>x w. Q x (r\<lparr>rt_world := w\<rparr>))"
  by (simp add: ends_def in_world_def split: prod.splits)

lemma ends_ok [simp]: "ends (ok v) r Q = Q (Inr v) r" and ends_fail [simp]: "ends (fail e) r Q = Q (Inl e) r"
  by (simp_all add: ok_def fail_def)

lemma ends_and_then [simp]:
  "ends (and_then m k) r Q = ends m r (\<lambda>x s. case x of Inl e \<Rightarrow> Q (Inl e) s | Inr v \<Rightarrow> ends (k v) s Q)"
  by (auto simp: and_then_def intro!: arg_cong [where f = "ends m r"] split: sum.split)

lemma ends_or_internal [simp]:
  "ends (or_internal m k) r Q = ends m (rt_world r) (\<lambda>x w. case x of Inl e \<Rightarrow> Q (Inl (internal_error e)) (r\<lparr>rt_world := w\<rparr>)
     | Inr v \<Rightarrow> ends (k v) (r\<lparr>rt_world := w\<rparr>) Q)"
  by (auto simp: or_internal_def intro!: arg_cong [where f = "ends m (rt_world r)"] split: sum.split)

lemma required_simps [simp]: "required None e k = fail e" "required (Some v) e k = k v"
  by (simp_all add: required_def)

lemma ends_config_read [simp]: "ends config_read r Q = Q (prefs_of r) r"
  and ends_config_write [simp]: "ends (config_write p) r Q' = Q' () (if halted (rt_world r) then r else with_prefs p r)"
  by (simp_all add: config_read_def config_write_def)

text \<open>A database statement that does not fail, exactly.\<close>

lemma ends_db_exact:
  assumes "no_faults w" and "0 < left_ops w"
  shows "ends (db_exec f) w Q = Q (fst (f (w_db w))) (tick (w\<lparr>w_db := snd (f (w_db w))\<rparr>))"
  using assms by (cases "f (w_db w)") (auto simp: ends_def db_exec_def halted_def no_faults_def left_ops_def)

text \<open>A database statement in every run: it fails and changes nothing, or it does what it says.\<close>

lemma ends_db_full:
  assumes "\<And>e w'. w_db w' = w_db w \<Longrightarrow> Q (Inl e) w'" and "\<And>w'. w_db w' = snd (f (w_db w)) \<Longrightarrow> Q (fst (f (w_db w))) w'"
  shows "ends (db_exec f) w Q"
  using assms(1) [of w] assms(1) [of "tick w"] assms(2) [of "tick (w\<lparr>w_db := snd (f (w_db w))\<rparr>)"]
  by (cases "f (w_db w)") (auto simp: ends_def db_exec_def split: option.splits)

lemma runnable_tick [simp]: "no_faults (tick w) = no_faults w" "left_ops (tick w) = left_ops w - 1"
  "no_faults (w\<lparr>w_db := d\<rparr>) = no_faults w" "left_ops (w\<lparr>w_db := d\<rparr>) = left_ops w"
  "no_faults (w\<lparr>w_push := ps\<rparr>) = no_faults w" "left_ops (w\<lparr>w_push := ps\<rparr>) = left_ops w"
  "no_faults (w\<lparr>w_tokens := ts\<rparr>) = no_faults w" "left_ops (w\<lparr>w_tokens := ts\<rparr>) = left_ops w"
  "no_faults (w\<lparr>w_fs := s\<rparr>) = no_faults w" "can_run n (w\<lparr>w_fs := s\<rparr>) = can_run n w"
  "halted (w\<lparr>w_db := d\<rparr>) = halted w" "halted (w\<lparr>w_push := ps\<rparr>) = halted w"
  by (simp_all add: no_faults_def left_ops_def tick_def halted_def can_run_def)

lemma with_prefs_simps [simp]: "prefs_of (with_prefs p r) = p" "halted (rt_world (with_prefs p r)) = halted (rt_world r)"
  "w_fs (rt_world (with_prefs p r)) = w_fs (rt_world r)" "w_db (rt_world (with_prefs p r)) = w_db (rt_world r)"
  "w_sync_mode (rt_world (with_prefs p r)) = vp_sync_mode (pf_vfs p)" "rt_commands (with_prefs p r) = rt_commands r"
  "rt_engine_up (with_prefs p r) = rt_engine_up r"
  by (cases p; cases "pf_vfs p"; simp add: prefs_of_def with_prefs_def halted_def)+

lemma not_halted: "0 < left_ops w \<Longrightarrow> \<not> halted w"
  by (simp add: left_ops_def halted_def)

lemma ends_send:
  "ends (send_command c) r Q = (if halted (rt_world r) then Q (Inl (internal_error ''halted'')) r
     else if rt_engine_up r then Q (Inr ()) (r\<lparr>rt_commands := rt_commands r @ [c]\<rparr>)
     else Q (Inl (internal_error ''channel closed'')) r)"
  by (simp add: send_command_def)

section \<open>The JSON form of the preferences\<close>

lemma appearance_read [simp]: "de_appearance (JStr (appearance_name a)) = Some a"
  by (cases a) (simp_all add: de_appearance_def de_enum_def enum_table_def)

lemma prefs_read [simp]: "de_prefs (en_prefs p) = Some p"
  by (simp add: de_prefs_def en_prefs_def de_general_def en_general_def de_network_def en_network_def de_hotkeys_def en_hotkeys_def
      de_telemetry_def en_telemetry_def de_vfs_prefs_def en_vfs_prefs_def)

section \<open>The preferences file\<close>

definition prefs_dir :: "string \<Rightarrow> string" where "prefs_dir dd = path_join dd ''gdriver''"

definition prefs_file :: "string \<Rightarrow> string" where "prefs_file dd = path_join (prefs_dir dd) ''preferences.toml''"

definition prefs_tmp :: "string \<Rightarrow> string" where "prefs_tmp dd = path_with_extension ''toml.tmp'' (prefs_file dd)"

text \<open>Joining a plain name adds one component.\<close>

lemma path_comps_join:
  assumes "CHR ''/'' \<notin> set n" and "n \<noteq> []" and "n \<noteq> ''.''"
  shows "path_comps (path_join d n) = path_comps d @ [n]"
proof -
  have comps: "path_comps (s @ ''/'' @ n) = path_comps s @ [n]" for s
    using assms split_on_append [OF assms(1), of "s @ ''/''"] by (simp add: path_comps_def split_on_snoc)
  have slash: "path_comps (s @ ''/'') = path_comps s" for s
    by (simp add: path_comps_def split_on_snoc)
  have rel: "\<not> path_is_abs n" using assms by (cases n) (auto simp: path_is_abs_def)
  show ?thesis
  proof (cases "d = [] \<or> last d \<noteq> CHR ''/''")
    case True
    then show ?thesis using comps [of d] rel assms
      by (auto simp: path_join_def path_comps_def split_on_free)
  next
    case False
    then obtain e where "d = e @ ''/''" using append_butlast_last_id [of d] by metis
    then show ?thesis using comps [of e] slash [of e] rel by (simp add: path_join_def)
  qed
qed

lemma prefixes_shorter:
  assumes "q \<in> set (path_prefixes d)"
  shows "length (path_comps q) \<le> length (path_comps d)"
proof -
  obtain n where n: "n < length (path_comps d)" "q = path_render (path_is_abs d) (take (Suc n) (path_comps d))"
    using assms by (auto simp: path_prefixes_def)
  have "CHR ''/'' \<notin> set c \<and> c \<noteq> [] \<and> c \<noteq> ''.''" if "c \<in> set (take (Suc n) (path_comps d))" for c
    using in_set_takeD [OF that] path_comps_no_slash [of c d] by (auto simp: path_comps_def)
  then show ?thesis using n by (simp add: path_comps_render)
qed

lemma path_comps_parent: "path_comps (path_render b (take n (path_comps p))) = take n (path_comps p)"
proof (rule path_comps_render)
  show "CHR ''/'' \<notin> set c \<and> c \<noteq> [] \<and> c \<noteq> ''.''" if "c \<in> set (take n (path_comps p))" for c
    using in_set_takeD [OF that] path_comps_no_slash [of c p] by (auto simp: path_comps_def)
qed

lemma prefs_paths: "path_comps (prefs_file dd) = path_comps (prefs_dir dd) @ [''preferences.toml'']"
  "path_comps (prefs_tmp dd) = path_comps (prefs_dir dd) @ [''preferences.toml.tmp'']"
proof -
  show f: "path_comps (prefs_file dd) = path_comps (prefs_dir dd) @ [''preferences.toml'']"
    by (simp add: prefs_file_def path_comps_join)
  have st: "path_file_stem (prefs_file dd) = Some ''preferences''"
    by (simp add: path_file_stem_def path_file_name_def f split_last_dot_def)
  have "path_parent (prefs_file dd) = Some (path_render (path_is_abs (prefs_file dd)) (path_comps (prefs_dir dd)))"
    by (simp add: path_parent_def f)
  then show "path_comps (prefs_tmp dd) = path_comps (prefs_dir dd) @ [''preferences.toml.tmp'']"
    using path_comps_parent [of "path_is_abs (prefs_file dd)" "length (path_comps (prefs_dir dd))" "prefs_dir dd"]
    by (simp add: prefs_tmp_def path_with_extension_def st path_comps_join)
qed

lemma prefs_paths_apart: "prefs_tmp dd \<noteq> prefs_file dd" "prefs_file dd \<notin> set (path_prefixes (prefs_dir dd))"
  "prefs_tmp dd \<notin> set (path_prefixes (prefs_dir dd))"
  using prefixes_shorter [of "prefs_file dd" "prefs_dir dd"] prefixes_shorter [of "prefs_tmp dd" "prefs_dir dd"]
  by (auto simp: prefs_paths dest: arg_cong [where f = path_comps])

text \<open>What a start reads, as a function of the file system.\<close>

definition dir_blocked :: "string \<Rightarrow> filesystem \<Rightarrow> bool" where
  "dir_blocked dd s = list_ex (\<lambda>q. fs_files s q \<noteq> None) (path_prefixes (prefs_dir dd))"

definition stored_prefs :: "toml_codec \<Rightarrow> string \<Rightarrow> filesystem \<Rightarrow> preferences result" where
  "stored_prefs tm dd s =
     (if dir_blocked dd s then Inl ''Not a directory''
      else case fs_files s (prefs_file dd) of
             None \<Rightarrow> if prefs_file dd \<in> fs_dirs s then Inl ''No such file or directory'' else Inr default_prefs
           | Some f \<Rightarrow> if \<not> tm_utf8 tm (f_bytes f) then Inl ''stream did not contain valid UTF-8''
               else Inr (case tm_parse tm (f_bytes f) of None \<Rightarrow> default_prefs | Some p \<Rightarrow> p))"

lemma load_config_value:
  assumes "no_faults v" and "can_run 2 v"
  shows "fst (run_state (load_config tm (Some dd)) v) = stored_prefs tm dd (w_fs v)"
proof -
  have "ends (load_config tm (Some dd)) v (\<lambda>x _. x = stored_prefs tm dd (w_fs v))"
    using assms(1) can_run_left [OF assms(2)] prefs_paths_apart(2) [of dd]
    by (auto simp: load_config_def config_path_def Let_def load_from_def fs_exists_def fs_read_def fs_create_dir_all_def stored_prefs_def
        dir_blocked_def prefs_dir_def prefs_file_def intro!: ends_fs split: option.splits)
  then show ?thesis by (simp add: ends_def split: prod.splits)
qed

lemma ends_fs_append_any:
  assumes "\<And>e w'. w_fs w' = w_fs w \<Longrightarrow> Q (Inl e) w'"
    and "\<And>w' f t. fs_files (w_fs w) p = Some f \<Longrightarrow>
      w_fs w' = (w_fs w)\<lparr>fs_files := (fs_files (w_fs w))(p \<mapsto> \<lparr>f_bytes = f_bytes f @ bs, f_mtime = Some t\<rparr>)\<rparr> \<Longrightarrow> Q (Inr ()) w'"
  shows "ends (fs_append p bs) w Q"
  unfolding fs_append_def by (rule ends_fs_any) (auto intro: assms split: option.splits)

text \<open>A step that touches neither the file nor what decides whether its directory can be made.\<close>

definition prefs_kept :: "string \<Rightarrow> filesystem \<Rightarrow> filesystem \<Rightarrow> bool" where
  "prefs_kept dd s t \<longleftrightarrow> dir_blocked dd t = dir_blocked dd s \<and> fs_files t (prefs_file dd) = fs_files s (prefs_file dd) \<and>
     (prefs_file dd \<in> fs_dirs t \<longleftrightarrow> prefs_file dd \<in> fs_dirs s)"

lemma prefs_kept_steps:
  "prefs_kept dd s s"
  "prefs_kept dd s t \<Longrightarrow> prefs_kept dd s (t\<lparr>fs_dirs := fs_dirs t \<union> set (path_prefixes (prefs_dir dd))\<rparr>)"
  "prefs_kept dd s t \<Longrightarrow> prefs_kept dd s (t\<lparr>fs_files := (fs_files t)(prefs_tmp dd := x)\<rparr>)"
proof -
  have "map (\<lambda>q. ((fs_files t)(prefs_tmp dd := x)) q \<noteq> None) (path_prefixes (prefs_dir dd))
      = map (\<lambda>q. fs_files t q \<noteq> None) (path_prefixes (prefs_dir dd))"
    using prefs_paths_apart(3) [of dd] by (intro map_cong) auto
  then have "list_ex (\<lambda>q. ((fs_files t)(prefs_tmp dd := x)) q \<noteq> None) (path_prefixes (prefs_dir dd))
      = list_ex (\<lambda>q. fs_files t q \<noteq> None) (path_prefixes (prefs_dir dd))"
    using prefs_paths_apart(3) [of dd] by (auto simp: list_ex_iff)
  then show "prefs_kept dd s t \<Longrightarrow> prefs_kept dd s (t\<lparr>fs_files := (fs_files t)(prefs_tmp dd := x)\<rparr>)"
    using prefs_paths_apart(1) [of dd] by (simp add: prefs_kept_def dir_blocked_def)
qed (use prefs_paths_apart(2) [of dd] in \<open>auto simp: prefs_kept_def dir_blocked_def\<close>)

lemma dir_blocked_replace:
  "dir_blocked dd (t\<lparr>fs_files := (fs_files t)(prefs_tmp dd := x, prefs_file dd := y)\<rparr>) = dir_blocked dd t"
  using prefs_paths_apart(2,3) [of dd] by (auto simp: dir_blocked_def list_ex_iff intro!: bex_cong)

lemma save_config_any:
  assumes "run_state (save_config tm (Some dd) prefs) w = (res, w')"
  shows "case res of Inl e \<Rightarrow> prefs_kept dd (w_fs w) (w_fs w')
     | Inr _ \<Rightarrow> \<not> dir_blocked dd (w_fs w') \<and> (\<exists>f. fs_files (w_fs w') (prefs_file dd) = Some f \<and> tm_print tm prefs = Inr (f_bytes f))"
  (is "?Q res w'")
proof (cases "dir_blocked dd (w_fs w)")
  case True
  have "ends (save_config tm (Some dd) prefs) w ?Q"
    using True prefs_kept_steps(1) [of dd "w_fs w"]
    by (auto simp: save_config_def config_path_def Let_def fs_create_dir_all_def prefs_dir_def [symmetric] dir_blocked_def intro!: ends_fs_any)
  then show ?thesis using assms by (simp add: ends_def)
next
  case False
  let ?tmp = "prefs_tmp dd" and ?p = "prefs_file dd"
  have moves: "ends (fs_rename ?tmp ?p) u Q"
    if "prefs_kept dd (w_fs w) (w_fs u)" "fs_files (w_fs u) ?tmp = Some f"
      "\<And>v e. prefs_kept dd (w_fs w) (w_fs v) \<Longrightarrow> Q (Inl e) v"
      "\<And>v. \<not> dir_blocked dd (w_fs v) \<Longrightarrow> fs_files (w_fs v) ?p = Some f \<Longrightarrow> Q (Inr ()) v" for u f Q
    using that False by (auto simp: dir_blocked_replace prefs_kept_def intro!: ends_fs_rename_any)
  have saves: "ends (save_to tm ?p prefs) u ?Q" if "prefs_kept dd (w_fs w) (w_fs u)" for u
    using prefs_kept_steps(3) [OF that] that
    by (auto simp: save_to_def fs_write_def Let_def prefs_tmp_def [symmetric] split: sum.split
        intro!: ends_fs_create_any ends_fs_append_any moves)
  have "ends (save_config tm (Some dd) prefs) w ?Q"
    using prefs_kept_steps(1,2) [of dd "w_fs w"]
    by (auto simp: save_config_def config_path_def Let_def fs_create_dir_all_def prefs_dir_def [symmetric] prefs_file_def [symmetric]
        intro!: ends_fs_any saves)
  then show ?thesis using assms by (simp add: ends_def)
qed

text \<open>The sample file system and codec.\<close>

lemma left_ops_sample [simp]: "left_ops (sample_world bs n x) = n"
  by (simp add: left_ops_def)

lemma sample_paths: "path_join ''/home'' ''gdriver'' = ''/home/gdriver''" "path_join ''/home/gdriver'' ''preferences.toml'' = ''/home/gdriver/preferences.toml''"
  "path_prefixes ''/home/gdriver'' = [''/home'', ''/home/gdriver'']"
  "path_with_extension ''toml.tmp'' ''/home/gdriver/preferences.toml'' = ''/home/gdriver/preferences.toml.tmp''"
  "path_parent ''/home/gdriver/preferences.toml.tmp'' = Some ''/home/gdriver''" "path_parent ''/home/gdriver/preferences.toml'' = Some ''/home/gdriver''"
  by code_simp+

definition mirror_prefs :: preferences where
  "mirror_prefs = default_prefs\<lparr>pf_vfs := (pf_vfs default_prefs)\<lparr>vp_sync_mode := Mirror\<rparr>\<rparr>"

lemma sample_toml_reads [simp]: "tm_utf8 sample_toml c" "tm_print sample_toml mirror_prefs = Inr [77]"
  "tm_parse sample_toml [77] = Some mirror_prefs" "vp_sync_mode (pf_vfs mirror_prefs) = Mirror"
  by (simp_all add: sample_toml_def mirror_prefs_def)

lemmas sample_save_defs = save_config_def config_path_def save_to_def fs_write_def fs_create_def fs_append_def fs_rename_def
  fs_create_dir_all_def fs_exec_def halted_def Let_def sample_paths sample_fs_def tick_def parent_ok_def

lemma sample_save_stops: "fst (run_state (save_config sample_toml (Some ''/home'') mirror_prefs) (sample_world [1] 2 ())) = Inl ''halted''"
  by (simp add: sample_save_defs sample_world_def)

lemma sample_save_ends:
  "\<exists>w. run_state (save_config sample_toml (Some ''/home'') mirror_prefs) (sample_world [1] 9 x) = (Inr (), w) \<and> \<not> halted w"
  by (simp add: sample_save_defs sample_world_def)

text \<open>C19: saving the preferences is all or nothing in every run, whatever operation fails and wherever the process stops. When the
  save succeeds, the next start reads the saved preferences; when it does not, the next start reads what a start before the
  save would have read.\<close>

theorem saved_preferences_survive:
  assumes save: "run_state (save_config tm (Some dd) prefs) w = (res, w')"
    and codec: "\<And>c. tm_print tm prefs = Inr c \<Longrightarrow> tm_utf8 tm c \<and> tm_parse tm c = Some prefs"
    and restart: "no_faults v" "can_run 2 v" "w_fs v = w_fs w'" "no_faults u" "can_run 2 u" "w_fs u = w_fs w"
  shows "fst (run_state (load_config tm (Some dd)) v) =
    (case res of Inl _ \<Rightarrow> fst (run_state (load_config tm (Some dd)) u) | Inr _ \<Rightarrow> Inr prefs)"
  using save_config_any [OF save] codec restart
  by (cases res) (auto simp: load_config_value stored_prefs_def prefs_kept_def split: option.splits)

text \<open>A process killed after it has created the temporary file: the next start reads the default preferences.\<close>

theorem saved_preferences_survive_witness:
  "fst (run_state (load_config sample_toml (Some ''/home''))
     ((sample_world [1] 2 ())\<lparr>w_fs := w_fs (snd (run_state (save_config sample_toml (Some ''/home'') mirror_prefs) (sample_world [1] 2 ())))\<rparr>))
   = Inr default_prefs"
proof -
  have old: "fst (run_state (load_config sample_toml (Some ''/home'')) (sample_world [1] 2 ())) = Inr default_prefs"
    by (simp add: load_config_value stored_prefs_def dir_blocked_def prefs_dir_def prefs_file_def sample_paths sample_fs_def)
  show ?thesis
    by (rule trans [OF saved_preferences_survive [where u = "sample_world [1] 2 ()" and w = "sample_world [1] 2 ()", OF surjective_pairing]])
       (simp_all, simp_all add: sample_save_stops old)
qed

text \<open>Preferences saved through the interface are the ones in force, the ones \<^verbatim>\<open>prefs.get\<close> answers, and the ones the next start
  reads.\<close>

theorem prefs_save_then_get:
  assumes run: "run_state (dispatch env ''prefs.save'' (Some (en_prefs p))) r = (Inr v, r')" and "\<not> halted (rt_world r')"
    and "ie_data_dir env = Some dd"
    and "\<And>c. tm_print (ie_toml env) p = Inr c \<Longrightarrow> tm_utf8 (ie_toml env) c \<and> tm_parse (ie_toml env) c = Some p"
    and "no_faults u" and "can_run 2 u" and "w_fs u = w_fs (rt_world r')"
  shows "prefs_of r' = p \<and> run_state (dispatch env ''prefs.get'' None) r' = (Inr (en_prefs p), r') \<and>
    fst (run_state (load_config (ie_toml env) (ie_data_dir env)) u) = Inr p"
proof -
  have save: "ends (save_config (ie_toml env) (Some dd) p) (rt_world r) (\<lambda>x w. \<forall>y. x = Inr y \<longrightarrow> stored_prefs (ie_toml env) dd (w_fs w) = Inr p)"
    using save_config_any [of "ie_toml env" dd p "rt_world r"] assms(4)
    by (auto simp: ends_def stored_prefs_def split: prod.split)
  have "ends (dispatch env ''prefs.save'' (Some (en_prefs p))) r
      (\<lambda>x s. (\<exists>y. x = Inr y) \<longrightarrow> \<not> halted (rt_world s) \<longrightarrow> prefs_of s = p \<and> stored_prefs (ie_toml env) dd (w_fs (rt_world s)) = Inr p)"
    by (auto simp: dispatch_def method_table_def handle_prefs_save_def assms(3) intro!: ends_mono [OF save] split: sum.split)
  then have "prefs_of r' = p" "stored_prefs (ie_toml env) dd (w_fs (rt_world r')) = Inr p"
    using assms(1,2) by (auto simp: ends_def)
  then show ?thesis using assms(3,5-7)
    by (simp add: load_config_value dispatch_def method_table_def handle_prefs_get_def config_read_def ok_def)
qed

theorem prefs_save_then_get_witness:
  "prefs_of (snd (run_state (dispatch sample_env ''prefs.save'' (Some (en_prefs mirror_prefs))) (sample_router (sample_world [1] 9 ())))) = mirror_prefs"
proof -
  let ?r = "sample_router (sample_world [1] 9 ())"
  obtain w where w: "run_state (save_config sample_toml (Some ''/home'') mirror_prefs) (sample_world [1] 9 ()) = (Inr (), w)" "\<not> halted w"
    by (rule exE [OF sample_save_ends [of "()"]]) simp
  have save: "run_state (dispatch env ''prefs.save'' (Some (en_prefs p))) r = (case run_state (save_config (ie_toml env) (ie_data_dir env) p) (rt_world r) of
      (Inl e, u) \<Rightarrow> (Inl (internal_error e), r\<lparr>rt_world := u\<rparr>)
    | (Inr _, u) \<Rightarrow> (Inr JNull, if halted u then r\<lparr>rt_world := u\<rparr> else with_prefs p (r\<lparr>rt_world := u\<rparr>)))" for env :: "unit ipc_env" and p r
    by (simp add: dispatch_def method_table_def handle_prefs_save_def or_internal_def in_world_def config_write_def ok_def fail_def
        split: prod.split sum.split)
  from w have run: "run_state (dispatch sample_env ''prefs.save'' (Some (en_prefs mirror_prefs))) ?r
      = (Inr JNull, with_prefs mirror_prefs (?r\<lparr>rt_world := w\<rparr>))"
    by (simp add: save) (simp add: sample_env_def sample_router_def)
  have "prefs_of (with_prefs mirror_prefs (?r\<lparr>rt_world := w\<rparr>)) = mirror_prefs \<and>
      run_state (dispatch sample_env ''prefs.get'' None) (with_prefs mirror_prefs (?r\<lparr>rt_world := w\<rparr>))
        = (Inr (en_prefs mirror_prefs), with_prefs mirror_prefs (?r\<lparr>rt_world := w\<rparr>)) \<and>
      fst (run_state (load_config (ie_toml (sample_env :: unit ipc_env)) (ie_data_dir (sample_env :: unit ipc_env))) ((sample_world [] 9 ())\<lparr>w_fs := w_fs w\<rparr>)) = Inr mirror_prefs"
    by (rule prefs_save_then_get [OF run]) (use w(2) in \<open>simp_all add: sample_env_def\<close>)
  then show ?thesis by (simp only: run snd_conv)
qed

end
