(* ===== verification/Ipc_Walk.thy ===== *)
theory Ipc_Walk
  imports Ipc_Handlers
begin

text \<open>
  Relational reasoning about the handlers. \<open>router_walk\<close> is the interface of a relation on routers that lifts one on
  worlds: it composes along the combinators the handlers are written with.
\<close>

locale router_walk = w: io_preorder R + s: io_preorder S
  for R :: "'x world \<Rightarrow> 'x world \<Rightarrow> bool" and S :: "'x router \<Rightarrow> 'x router \<Rightarrow> bool" +
  assumes R_count: "w_ops w \<le> n \<Longrightarrow> R w (w\<lparr>w_ops := n\<rparr>)"
    and S_lift: "R (rt_world r) w \<Longrightarrow> S r (r\<lparr>rt_world := w\<rparr>)"
begin

lemma io_in_world [io_rel]: "state_io_rel R m \<Longrightarrow> state_io_rel S (in_world m)"
  by (auto simp: state_io_rel_def in_world_def split: prod.splits intro!: S_lift) (metis snd_conv)

lemma io_config_read [io_rel]: "state_io_rel S config_read"
  by (simp add: state_io_rel_def config_read_def s.R_refl)

lemma io_ok [io_rel]: "state_io_rel S (ok v)" "state_io_rel S (fail e)"
  by (simp_all add: ok_def fail_def s.io_return)

lemma io_and_then [io_rel]: "state_io_rel S m \<Longrightarrow> (\<And>x. state_io_rel S (k x)) \<Longrightarrow> state_io_rel S (and_then m k)"
  unfolding and_then_def by (intro io_rel)

lemma io_or_internal [io_rel]: "state_io_rel R m \<Longrightarrow> (\<And>x. state_io_rel S (k x)) \<Longrightarrow> state_io_rel S (or_internal m k)"
  unfolding or_internal_def by (intro io_rel)

lemma io_required [io_rel]: "(\<And>x. state_io_rel S (k x)) \<Longrightarrow> state_io_rel S (required v e k)"
  unfolding required_def by (intro io_rel)

lemma io_params [io_rel]:
  "(\<And>s. state_io_rel S (k s)) \<Longrightarrow> state_io_rel S (extract_string_param params key k)"
  "(\<And>i. state_io_rel S (k' i)) \<Longrightarrow> state_io_rel S (folder_id_param params k')"
  by (auto simp: extract_string_param_def folder_id_param_def intro!: io_rel)

text \<open>Statements that only read.\<close>

lemma io_query:
  assumes "\<And>d. snd (f d) = d"
  shows "state_io_rel R (db_exec f)"
proof -
  have "snd (run_state (db_exec f) w) = w \<or> snd (run_state (db_exec f) w) = w\<lparr>w_ops := Suc (w_ops w)\<rparr>" for w :: "'x world"
    using assms [of "w_db w"] by (cases "f (w_db w)") (simp add: db_exec_def tick_def split: option.split)
  then have "R w (snd (run_state (db_exec f) w))" for w
    using R_count [of w "Suc (w_ops w)"] w.R_refl [of w] by (metis le_SucI order_refl)
  then show ?thesis by (simp add: state_io_rel_def)
qed

lemma io_pure_reads [io_rel]: "state_io_rel R (State (\<lambda>w. (f w, w)))" "state_io_rel R now_ms"
  by (simp_all add: state_io_rel_def now_ms_def w.R_refl)

lemma io_selects [io_rel]:
  "state_io_rel R (list_recent_files n)" "state_io_rel R (list_files_paginated n m)" "state_io_rel R list_unresolved"
  "state_io_rel R (list_notifications b n)" "state_io_rel R all_folders" "state_io_rel R (folder_path_of j)"
  "state_io_rel R count_files_and_folders" "state_io_rel R sum_bytes_by_sync_state" "state_io_rel R (list_children pa acct)"
  "state_io_rel R (find_file_by_relative_suffix p)" "state_io_rel R get_first_account_id" "state_io_rel R (get_account acct)"
  "state_io_rel R (get_file_by_local_path p)" "state_io_rel R list_accounts" "state_io_rel R (db_exec (\<lambda>d. (Inr (size_like pat d), d)))"
  unfolding list_recent_files_def list_files_paginated_def list_unresolved_def list_notifications_def all_folders_def
    folder_path_of_def count_files_and_folders_def sum_bytes_by_sync_state_def list_children_def find_file_by_relative_suffix_def
    get_first_account_id_def get_account_def get_file_by_local_path_def list_accounts_def Let_def
  by (rule io_query; simp)+

lemma io_resolve [io_rel]: "(\<And>f. state_io_rel S (k f)) \<Longrightarrow> state_io_rel S (resolve_file_for_path env p k)"
  unfolding resolve_file_for_path_def resolve_path_under_mount_def Let_def by (intro io_rel)

end

end
