(* ===== verification/Vfs_Linux.thy ===== *)
theory Vfs_Linux
  imports Vfs_Db Downloader
begin

text \<open>
  \<^verbatim>\<open>crates/gdriver-vfs/src/linux.rs\<close>: the FUSE file system. A callback takes the handle table and the
  world and replies with a value or an \<^verbatim>\<open>errno\<close>. A name is \<open>None\<close> when it is not valid UTF-8. Where a
  callback waits for a download, \<open>others\<close> is what the rest of the daemon does meanwhile.
\<close>

datatype errno = ENOENT | EIO | EISDIR | ENOTDIR | EEXIST | EBADF | EOPNOTSUPP | ENOTSUP | ENOTEMPTY

datatype file_kind = Directory | RegularFile

record file_attr =
  fa_ino :: inode
  fa_size :: u64
  fa_blocks :: u64
  fa_mtime :: int
  fa_kind :: file_kind
  fa_perm :: nat
  fa_nlink :: nat

record open_handle =
  oh_ino :: inode
  oh_flags :: int
  oh_local_path :: string

record gfs =
  vf_cache_dir :: string
  vf_open_files :: "u64 \<rightharpoonup> open_handle"
  vf_next_fh :: u64

definition gfs_new :: "string \<Rightarrow> gfs" where
  "gfs_new cache_dir = \<lparr>vf_cache_dir = cache_dir, vf_open_files = Map.empty, vf_next_fh = 1\<rparr>"

definition DIR_TTL :: nat where "DIR_TTL = 5"
definition FILE_TTL :: nat where "FILE_TTL = 1"
definition DOWNLOAD_TIMEOUT_MS :: int where "DOWNLOAD_TIMEOUT_MS = 30000"

definition FOLDER_MIME :: string where "FOLDER_MIME = ''application/vnd.google-apps.folder''"

section \<open>Attributes\<close>

definition root_attr :: "int \<Rightarrow> file_attr" where
  "root_attr now = \<lparr>fa_ino = ROOT_INODE, fa_size = 0, fa_blocks = 0, fa_mtime = now, fa_kind = Directory,
     fa_perm = 493, fa_nlink = 2\<rparr>"

text \<open>The modification time is milliseconds since the epoch, cast to \<^verbatim>\<open>u64\<close>.\<close>

definition file_to_attr :: "file_meta \<Rightarrow> file_attr" where
  "file_to_attr m =
     (if fm_mime_type m = FOLDER_MIME
      then \<lparr>fa_ino = fm_inode m, fa_size = 0, fa_blocks = div_ceil 0 512, fa_mtime = uint (word_of_int (fm_modified_time m) :: u64),
             fa_kind = Directory, fa_perm = 493, fa_nlink = 2\<rparr>
      else \<lparr>fa_ino = fm_inode m, fa_size = word_of_int (fm_size m), fa_blocks = div_ceil (word_of_int (fm_size m)) 512,
             fa_mtime = uint (word_of_int (fm_modified_time m) :: u64), fa_kind = RegularFile, fa_perm = 420, fa_nlink = 1\<rparr>)"

definition attr_ttl :: "file_attr \<Rightarrow> nat" where
  "attr_ttl a = (if fa_kind a = Directory then DIR_TTL else FILE_TTL)"

definition cache_path :: "gfs \<Rightarrow> string \<Rightarrow> string \<Rightarrow> string" where
  "cache_path g acct file_id = path_join (path_join (vf_cache_dir g) acct) file_id"

definition vfs_is_google_workspace_mime :: "string \<Rightarrow> bool" where
  "vfs_is_google_workspace_mime m \<longleftrightarrow> m \<in> set [''application/vnd.google-apps.document'', ''application/vnd.google-apps.spreadsheet'',
     ''application/vnd.google-apps.presentation'', ''application/vnd.google-apps.drawing'', ''application/vnd.google-apps.script'']"

definition guess_mime_from_name :: "string \<Rightarrow> string" where
  "guess_mime_from_name name = mime_of_ext (path_extension name)"

section \<open>Results\<close>

text \<open>\<^verbatim>\<open>match r { Ok(x) => .., Err(_) => { reply.error(e); return } }\<close>.\<close>

definition or_fail :: "errno \<Rightarrow> ('x world, 'a result) state \<Rightarrow> ('a \<Rightarrow> ('x world, errno + 'b) state) \<Rightarrow> ('x world, errno + 'b) state" where
  "or_fail e m k = do {
     r \<leftarrow> m;
     case r of Inl _ \<Rightarrow> State_Monad.return (Inl e) | Inr x \<Rightarrow> k x
   }"

definition with_name :: "string option \<Rightarrow> (string \<Rightarrow> ('x world, errno + 'b) state) \<Rightarrow> ('x world, errno + 'b) state" where
  "with_name name k = (case name of None \<Rightarrow> State_Monad.return (Inl ENOENT) | Some s \<Rightarrow> k s)"

text \<open>A row that must exist.\<close>

definition must_find :: "('x world, 'a option result) state \<Rightarrow> ('a \<Rightarrow> ('x world, errno + 'b) state) \<Rightarrow> ('x world, errno + 'b) state" where
  "must_find m k = or_fail EIO m (\<lambda>r. case r of None \<Rightarrow> State_Monad.return (Inl ENOENT) | Some x \<Rightarrow> k x)"

section \<open>Reading the tree\<close>

definition vfs_lookup :: "inode \<Rightarrow> string option \<Rightarrow> ('x world, errno + (nat \<times> file_attr)) state" where
  "vfs_lookup parent name = with_name name (\<lambda>s.
     must_find (lookup_by_parent_and_name parent s) (\<lambda>m.
       State_Monad.return (Inr (attr_ttl (file_to_attr m), file_to_attr m))))"

definition vfs_getattr :: "inode \<Rightarrow> ('x world, errno + (nat \<times> file_attr)) state" where
  "vfs_getattr ino =
     (if ino = ROOT_INODE then do {
        now \<leftarrow> now_ms;
        State_Monad.return (Inr (DIR_TTL, root_attr now))
      }
      else must_find (get_file_by_inode ino) (\<lambda>m.
        State_Monad.return (Inr (attr_ttl (file_to_attr m), file_to_attr m))))"

text \<open>A directory entry carries the offset of the next one; \<open>fits\<close> says whether the reply buffer takes one more.\<close>

record dirent =
  de_ino :: inode
  de_next :: nat
  de_kind :: file_kind
  de_name :: string

definition dir_entries :: "inode \<Rightarrow> file_meta list \<Rightarrow> dirent list" where
  "dir_entries ino children =
     \<lparr>de_ino = ino, de_next = 1, de_kind = Directory, de_name = ''.''\<rparr> #
     \<lparr>de_ino = ROOT_INODE, de_next = 2, de_kind = Directory, de_name = ''..''\<rparr> #
     map (\<lambda>(i, m). \<lparr>de_ino = fm_inode m, de_next = i + 1,
          de_kind = (if fm_mime_type m = FOLDER_MIME then Directory else RegularFile), de_name = fm_name m\<rparr>)
       (enumerate 2 children)"

fun fill_reply :: "(dirent list \<Rightarrow> dirent \<Rightarrow> bool) \<Rightarrow> dirent list \<Rightarrow> dirent list \<Rightarrow> dirent list" where
  "fill_reply fits taken [] = taken"
| "fill_reply fits taken (e # es) = (if fits taken e then fill_reply fits (taken @ [e]) es else taken)"

definition vfs_readdir :: "(dirent list \<Rightarrow> dirent \<Rightarrow> bool) \<Rightarrow> inode \<Rightarrow> nat \<Rightarrow> ('x world, errno + dirent list) state" where
  "vfs_readdir fits ino offset = or_fail EIO (list_children_by_inode ino) (\<lambda>children.
     State_Monad.return (Inr (fill_reply fits [] (drop offset (dir_entries ino children)))))"

section \<open>Handles\<close>

definition details_path :: "gfs \<Rightarrow> file_details \<Rightarrow> string" where
  "details_path g d = (case fd_local_path d of Some p \<Rightarrow> p | None \<Rightarrow> cache_path g (fd_account_id d) (fd_file_id d))"

text \<open>\<^verbatim>\<open>next_fh += 1\<close> wraps in a release build.\<close>

definition new_handle :: "gfs \<Rightarrow> open_handle \<Rightarrow> u64 \<times> gfs" where
  "new_handle g h = (vf_next_fh g, g\<lparr>vf_next_fh := vf_next_fh g + 1, vf_open_files := (vf_open_files g)(vf_next_fh g \<mapsto> h)\<rparr>)"

definition vfs_open :: "gfs \<Rightarrow> inode \<Rightarrow> int \<Rightarrow> ('x world, errno + (u64 \<times> gfs)) state" where
  "vfs_open g ino flags =
     (if ino = ROOT_INODE then State_Monad.return (Inl EISDIR)
      else must_find (get_file_details_by_inode ino) (\<lambda>d.
        if fd_mime_type d = FOLDER_MIME then State_Monad.return (Inl EISDIR)
        else if vfs_is_google_workspace_mime (fd_mime_type d) then State_Monad.return (Inl EOPNOTSUPP)
        else State_Monad.return (Inr (new_handle g \<lparr>oh_ino = ino, oh_flags = flags, oh_local_path = details_path g d\<rparr>))))"

definition vfs_release :: "gfs \<Rightarrow> u64 \<Rightarrow> gfs" where
  "vfs_release g fh = g\<lparr>vf_open_files := (vf_open_files g)(fh := None)\<rparr>"

definition valid_handle :: "gfs \<Rightarrow> u64 \<Rightarrow> inode \<Rightarrow> open_handle option" where
  "valid_handle g fh ino =
     (case vf_open_files g fh of None \<Rightarrow> None | Some h \<Rightarrow> if oh_ino h = ino then Some h else None)"

section \<open>Reading and writing\<close>

text \<open>\<^verbatim>\<open>File::open\<close> for reading: a directory can be opened, but not read.\<close>

definition fs_open :: "string \<Rightarrow> ('x world, unit result) state" where
  "fs_open p = fs_exec (\<lambda>_ s. (if fs_exists s p then Inr () else Inl ''No such file or directory'', s))"

text \<open>A positioned write through an open handle; the gap behind the end is filled with zeros.\<close>

definition pwrite :: "bytes \<Rightarrow> nat \<Rightarrow> bytes \<Rightarrow> bytes" where
  "pwrite old off new =
     (if new = [] then old
      else take off (old @ replicate (off - length old) 0) @ new @ drop (off + length new) old)"

definition fs_pwrite :: "string \<Rightarrow> nat \<Rightarrow> bytes \<Rightarrow> ('x world, unit result) state" where
  "fs_pwrite p off new = fs_exec (\<lambda>t s.
     case fs_files s p of
       None \<Rightarrow> (Inl ''Bad file descriptor'', s)
     | Some f \<Rightarrow> (Inr (), s\<lparr>fs_files := (fs_files s)(p \<mapsto> \<lparr>f_bytes = pwrite (f_bytes f) off new, f_mtime = Some t\<rparr>)\<rparr>))"

text \<open>Ask the sync engine for the file and wait for it.\<close>

definition fetch_on_demand :: "('x world, unit) state \<Rightarrow> file_details \<Rightarrow> string \<Rightarrow> ('x world, errno + unit) state" where
  "fetch_on_demand others d p =
     or_fail EIO (ensure_parent p) (\<lambda>_.
     or_fail EIO (enqueue_download_task (fd_account_id d) (fd_file_id d) p) (\<lambda>_.
     or_fail EIO (wait_for_download others (fd_file_id d) (fd_account_id d) DOWNLOAD_TIMEOUT_MS) (\<lambda>ready.
       State_Monad.return (if ready then Inr () else Inl EIO))))"

text \<open>\<^verbatim>\<open>open\<close>, \<^verbatim>\<open>seek\<close>, \<^verbatim>\<open>read\<close>; a negative offset becomes a position beyond the range of \<^verbatim>\<open>lseek\<close>.\<close>

definition read_slice :: "string \<Rightarrow> int \<Rightarrow> nat \<Rightarrow> ('x world, errno + bytes) state" where
  "read_slice p offset len =
     or_fail EIO (fs_open p) (\<lambda>_.
       if offset < 0 then State_Monad.return (Inl EIO)
       else or_fail EIO (fs_read p) (\<lambda>bs. State_Monad.return (Inr (take len (drop (nat offset) bs)))))"

definition vfs_read :: "('x world, unit) state \<Rightarrow> gfs \<Rightarrow> inode \<Rightarrow> u64 \<Rightarrow> int \<Rightarrow> nat \<Rightarrow> ('x world, errno + bytes) state" where
  "vfs_read others g ino fh offset len =
     (case valid_handle g fh ino of
        None \<Rightarrow> State_Monad.return (Inl EBADF)
      | Some _ \<Rightarrow> must_find (get_file_details_by_inode ino) (\<lambda>d. do {
          ex \<leftarrow> fs_query (\<lambda>s. fs_exists s (details_path g d));
          ready \<leftarrow> (if fd_sync_state d = ''cloud_only'' \<or> \<not> ex then fetch_on_demand others d (details_path g d)
                    else State_Monad.return (Inr ()));
          case ready of
            Inl e \<Rightarrow> State_Monad.return (Inl e)
          | Inr _ \<Rightarrow> read_slice (details_path g d) offset len
        }))"

text \<open>Every write opens the file with \<^verbatim>\<open>truncate(true)\<close>.\<close>

definition vfs_write :: "gfs \<Rightarrow> inode \<Rightarrow> u64 \<Rightarrow> int \<Rightarrow> bytes \<Rightarrow> ('x world, errno + nat) state" where
  "vfs_write g ino fh offset content =
     (case valid_handle g fh ino of
        None \<Rightarrow> State_Monad.return (Inl EBADF)
      | Some h \<Rightarrow>
          or_fail EIO (fs_create (oh_local_path h)) (\<lambda>_.
            if offset < 0 then State_Monad.return (Inl EIO)
            else or_fail EIO (fs_pwrite (oh_local_path h) (nat offset) content) (\<lambda>_. do {
              now \<leftarrow> now_ms;
              _ \<leftarrow> update_file_size_mtime ino (offset + int (length content)) now;
              State_Monad.return (Inr (length content))
            })))"

text \<open>\<^verbatim>\<open>flush\<close> and \<^verbatim>\<open>fsync\<close> are the same code.\<close>

definition push_modified :: "gfs \<Rightarrow> inode \<Rightarrow> u64 \<Rightarrow> ('x world, errno + unit) state" where
  "push_modified g ino fh =
     (case valid_handle g fh ino of
        None \<Rightarrow> State_Monad.return (Inl EBADF)
      | Some h \<Rightarrow> do {
          r \<leftarrow> get_file_details_by_inode ino;
          case r of
            Inr (Some d) \<Rightarrow>
              if fd_sync_state d = ''modified''
              then or_fail EIO (enqueue_upload_task (fd_account_id d) (fd_file_id d) (oh_local_path h))
                     (\<lambda>_. State_Monad.return (Inr ()))
              else State_Monad.return (Inr ())
          | _ \<Rightarrow> State_Monad.return (Inl EBADF)
        })"

definition vfs_flush :: "gfs \<Rightarrow> inode \<Rightarrow> u64 \<Rightarrow> ('x world, errno + unit) state" where
  "vfs_flush = push_modified"

definition vfs_fsync :: "gfs \<Rightarrow> inode \<Rightarrow> u64 \<Rightarrow> ('x world, errno + unit) state" where
  "vfs_fsync = push_modified"

section \<open>Changing the tree\<close>

text \<open>The account and the parent id of a new entry.\<close>

definition owner_of :: "inode \<Rightarrow> ('x world, errno + (string \<times> string option)) state" where
  "owner_of parent = do {
     r \<leftarrow> get_parent_info parent;
     case r of
       Inl _ \<Rightarrow> State_Monad.return (Inl EIO)
     | Inr (Some info) \<Rightarrow> State_Monad.return (Inr info)
     | Inr None \<Rightarrow>
         if parent = ROOT_INODE
         then or_fail EIO get_first_account_id (\<lambda>a. State_Monad.return
                (case a of None \<Rightarrow> Inl EIO | Some acct \<Rightarrow> Inr (acct, None)))
         else State_Monad.return (Inl ENOENT)
   }"

definition then_do :: "('x world, errno + 'a) state \<Rightarrow> ('a \<Rightarrow> ('x world, errno + 'b) state) \<Rightarrow> ('x world, errno + 'b) state" where
  "then_do m k = do {
     r \<leftarrow> m;
     case r of Inl e \<Rightarrow> State_Monad.return (Inl e) | Inr x \<Rightarrow> k x
   }"

text \<open>\<open>ns\<close> is the reading of the system clock in nanoseconds that names the new entry.\<close>

definition vfs_create :: "gfs \<Rightarrow> inode \<Rightarrow> string option \<Rightarrow> int \<Rightarrow> nat \<Rightarrow> ('x world, errno + (file_attr \<times> u64 \<times> gfs)) state" where
  "vfs_create g parent name flags ns = with_name name (\<lambda>s.
     then_do (owner_of parent) (\<lambda>(acct, parent_id).
       (let temp_id = ''local-'' @ show_nat ns; p = cache_path g acct temp_id
        in or_fail EIO (ensure_parent p) (\<lambda>_.
           or_fail EIO (insert_local_file temp_id acct s (guess_mime_from_name s) parent_id p) (\<lambda>ino.
           or_fail EIO (fs_create p) (\<lambda>_. do {
             now \<leftarrow> now_ms;
             State_Monad.return (Inr (\<lparr>fa_ino = ino, fa_size = 0, fa_blocks = 0, fa_mtime = now, fa_kind = RegularFile,
               fa_perm = 420, fa_nlink = 1\<rparr>, new_handle g \<lparr>oh_ino = ino, oh_flags = flags, oh_local_path = p\<rparr>))
           }))))))"

definition vfs_unlink :: "inode \<Rightarrow> string option \<Rightarrow> ('x world, errno + unit) state" where
  "vfs_unlink parent name = with_name name (\<lambda>s.
     must_find (lookup_by_parent_and_name parent s) (\<lambda>m.
       if fm_mime_type m = FOLDER_MIME then State_Monad.return (Inl EISDIR)
       else do {
         r \<leftarrow> get_file_details_by_inode (fm_inode m);
         _ \<leftarrow> (case r of
                Inr (Some d) \<Rightarrow> do {
                  _ \<leftarrow> vfs_enqueue_task (fd_account_id d) (fd_file_id d) ''delete'' (fd_local_path d);
                  (case fd_local_path d of
                     None \<Rightarrow> State_Monad.return (Inr ())
                   | Some p \<Rightarrow> fs_remove p)
                }
              | _ \<Rightarrow> State_Monad.return (Inr ()));
         or_fail EIO (soft_delete_by_inode (fm_inode m)) (\<lambda>_. State_Monad.return (Inr ()))
       }))"

text \<open>The cached copy keeps its directory and gets the new name; failures of that are ignored.\<close>

definition move_cached :: "file_details \<Rightarrow> string \<Rightarrow> ('x world, unit result) state" where
  "move_cached d new_name =
     (case fd_local_path d of
        None \<Rightarrow> State_Monad.return (Inr ())
      | Some old \<Rightarrow> do {
          ex \<leftarrow> fs_query (\<lambda>s. fs_exists s old);
          if ex then (case path_parent old of
                        None \<Rightarrow> State_Monad.return (Inr ())
                      | Some dir \<Rightarrow> fs_rename old (path_join dir new_name))
          else State_Monad.return (Inr ())
        })"

definition new_parent_id :: "inode \<Rightarrow> ('x world, errno + string option) state" where
  "new_parent_id parent =
     (if parent = ROOT_INODE then State_Monad.return (Inr None)
      else do {
        r \<leftarrow> get_parent_info parent;
        State_Monad.return (case r of Inr (Some (_, i)) \<Rightarrow> Inr i | _ \<Rightarrow> Inl ENOENT)
      })"

definition vfs_rename :: "inode \<Rightarrow> string option \<Rightarrow> inode \<Rightarrow> string option \<Rightarrow> ('x world, errno + unit) state" where
  "vfs_rename parent name new_parent new_name = with_name name (\<lambda>s. with_name new_name (\<lambda>s'.
     must_find (lookup_by_parent_and_name parent s) (\<lambda>m. do {
       target \<leftarrow> lookup_by_parent_and_name new_parent s';
       case target of
         Inr (Some _) \<Rightarrow> State_Monad.return (Inl EEXIST)
       | _ \<Rightarrow>
           then_do (new_parent_id new_parent) (\<lambda>pid.
           or_fail EIO (rename_file (fm_inode m) s' pid) (\<lambda>_. do {
             r \<leftarrow> get_file_details_by_inode (fm_inode m);
             _ \<leftarrow> (case r of
                    Inr (Some d) \<Rightarrow> do {
                      _ \<leftarrow> vfs_enqueue_task (fd_account_id d) (fd_file_id d) ''rename'' (fd_local_path d);
                      move_cached d s'
                    }
                  | _ \<Rightarrow> State_Monad.return (Inr ()));
             State_Monad.return (Inr ())
           }))
     })))"

definition vfs_mkdir :: "inode \<Rightarrow> string option \<Rightarrow> nat \<Rightarrow> ('x world, errno + (nat \<times> file_attr)) state" where
  "vfs_mkdir parent name ns = with_name name (\<lambda>s. do {
     target \<leftarrow> lookup_by_parent_and_name parent s;
     case target of
       Inr (Some _) \<Rightarrow> State_Monad.return (Inl EEXIST)
     | _ \<Rightarrow>
         then_do (owner_of parent) (\<lambda>(acct, parent_id).
         or_fail EIO (insert_local_folder (''local-folder-'' @ show_nat ns) acct s parent_id) (\<lambda>ino. do {
           now \<leftarrow> now_ms;
           State_Monad.return (Inr (DIR_TTL, \<lparr>fa_ino = ino, fa_size = 0, fa_blocks = 0, fa_mtime = now, fa_kind = Directory,
             fa_perm = 493, fa_nlink = 2\<rparr>))
         }))
   })"

definition vfs_rmdir :: "inode \<Rightarrow> string option \<Rightarrow> ('x world, errno + unit) state" where
  "vfs_rmdir parent name = with_name name (\<lambda>s.
     must_find (lookup_by_parent_and_name parent s) (\<lambda>m.
       if fm_mime_type m \<noteq> FOLDER_MIME then State_Monad.return (Inl ENOTDIR)
       else or_fail EIO (has_children (fm_inode m)) (\<lambda>full.
         if full then State_Monad.return (Inl ENOTEMPTY)
         else do {
           r \<leftarrow> get_file_details_by_inode (fm_inode m);
           _ \<leftarrow> (case r of
                  Inr (Some d) \<Rightarrow> vfs_enqueue_task (fd_account_id d) (fd_file_id d) ''delete'' (fd_local_path d)
                | _ \<Rightarrow> State_Monad.return (Inr 0));
           or_fail EIO (soft_delete_by_inode (fm_inode m)) (\<lambda>_. State_Monad.return (Inr ()))
         })))"

section \<open>The session\<close>

datatype vfs_request =
    Lookup inode "string option"
  | Getattr inode
  | Readdir inode nat
  | Open inode int
  | Read inode u64 int nat
  | Create inode "string option" int nat
  | Write inode u64 int bytes
  | Flush inode u64
  | Fsync inode u64
  | Unlink inode "string option"
  | Rename inode "string option" inode "string option"
  | Mkdir inode "string option" nat
  | Rmdir inode "string option"
  | Release u64

datatype vfs_reply =
    ReError errno
  | ReEntry nat file_attr
  | ReDirectory "dirent list"
  | ReOpened u64
  | ReCreated file_attr u64
  | ReData bytes
  | ReWritten nat
  | ReOk

definition reply_with :: "gfs \<Rightarrow> ('x world, errno + 'a) state \<Rightarrow> ('a \<Rightarrow> vfs_reply) \<Rightarrow> ('x world, vfs_reply \<times> gfs) state" where
  "reply_with g m f = do {
     r \<leftarrow> m;
     State_Monad.return (case r of Inl e \<Rightarrow> ReError e | Inr x \<Rightarrow> f x, g)
   }"

text \<open>The kernel's requests, one after the other: \<^verbatim>\<open>fuser\<close> serves a session on one thread.\<close>

fun vfs_serve :: "('x world, unit) state \<Rightarrow> (dirent list \<Rightarrow> dirent \<Rightarrow> bool) \<Rightarrow> gfs \<Rightarrow> vfs_request \<Rightarrow> ('x world, vfs_reply \<times> gfs) state" where
  "vfs_serve others fits g (Lookup i n) = reply_with g (vfs_lookup i n) (\<lambda>(ttl, a). ReEntry ttl a)"
| "vfs_serve others fits g (Getattr i) = reply_with g (vfs_getattr i) (\<lambda>(ttl, a). ReEntry ttl a)"
| "vfs_serve others fits g (Readdir i off) = reply_with g (vfs_readdir fits i off) ReDirectory"
| "vfs_serve others fits g (Open i flags) = do {
     r \<leftarrow> vfs_open g i flags;
     State_Monad.return (case r of Inl e \<Rightarrow> (ReError e, g) | Inr (fh, g') \<Rightarrow> (ReOpened fh, g'))
   }"
| "vfs_serve others fits g (Read i fh off len) = reply_with g (vfs_read others g i fh off len) ReData"
| "vfs_serve others fits g (Create i n flags ns) = do {
     r \<leftarrow> vfs_create g i n flags ns;
     State_Monad.return (case r of Inl e \<Rightarrow> (ReError e, g) | Inr (a, fh, g') \<Rightarrow> (ReCreated a fh, g'))
   }"
| "vfs_serve others fits g (Write i fh off bs) = reply_with g (vfs_write g i fh off bs) ReWritten"
| "vfs_serve others fits g (Flush i fh) = reply_with g (vfs_flush g i fh) (\<lambda>_. ReOk)"
| "vfs_serve others fits g (Fsync i fh) = reply_with g (vfs_fsync g i fh) (\<lambda>_. ReOk)"
| "vfs_serve others fits g (Unlink i n) = reply_with g (vfs_unlink i n) (\<lambda>_. ReOk)"
| "vfs_serve others fits g (Rename i n j m) = reply_with g (vfs_rename i n j m) (\<lambda>_. ReOk)"
| "vfs_serve others fits g (Mkdir i n ns) = reply_with g (vfs_mkdir i n ns) (\<lambda>(ttl, a). ReEntry ttl a)"
| "vfs_serve others fits g (Rmdir i n) = reply_with g (vfs_rmdir i n) (\<lambda>_. ReOk)"
| "vfs_serve others fits g (Release fh) = State_Monad.return (ReOk, vfs_release g fh)"

fun vfs_session :: "('x world, unit) state \<Rightarrow> (dirent list \<Rightarrow> dirent \<Rightarrow> bool) \<Rightarrow> gfs \<Rightarrow> vfs_request list \<Rightarrow> ('x world, vfs_reply list \<times> gfs) state" where
  "vfs_session others fits g [] = State_Monad.return ([], g)"
| "vfs_session others fits g (q # qs) = do {
     (r, g') \<leftarrow> vfs_serve others fits g q;
     (rs, g'') \<leftarrow> vfs_session others fits g' qs;
     State_Monad.return (r # rs, g'')
   }"

end
