(* ===== verification/Vfs_Props.thy ===== *)
theory Vfs_Props
  imports Vfs_Linux Download_Props
begin

text \<open>
  The FUSE session: it keeps the database sound while the engine works beside it, hands out
  distinct handles, lists directories completely, delivers cloud-only files on demand, and how
  writes, flushes, renames and deletions fall short of a file system.
\<close>

section \<open>Integrity of a session\<close>

text \<open>The interface of a relation that every callback preserves, given that the rest of the daemon does.\<close>

locale vfs_frame = world_frame R for R :: "'x world \<Rightarrow> 'x world \<Rightarrow> bool" +
  fixes others :: "('x world, unit) state"
  assumes R_others: "state_io_rel R others"
    and R_v_insert: "R w (w\<lparr>w_db := snd (v_insert f (w_db w))\<rparr>)"
    and R_v_update: "(\<And>r. file_key (g r) = file_key r \<and> r_rowid (g r) = r_rowid r) \<Longrightarrow> R w (w\<lparr>w_db := v_update ino g (w_db w)\<rparr>)"
    and R_insert: "fresh_task t \<Longrightarrow> R w (w\<lparr>w_db := q_insert t (w_db w)\<rparr>)"
begin

lemma io_or_fail [io_rel]: "state_io_rel R m \<Longrightarrow> (\<And>x. state_io_rel R (k x)) \<Longrightarrow> state_io_rel R (or_fail e m k)"
  unfolding or_fail_def by (intro io_rel)

lemma io_with_name [io_rel]: "(\<And>s. state_io_rel R (k s)) \<Longrightarrow> state_io_rel R (with_name name k)"
  unfolding with_name_def by (intro io_rel)

lemma io_must_find [io_rel]: "state_io_rel R m \<Longrightarrow> (\<And>x. state_io_rel R (k x)) \<Longrightarrow> state_io_rel R (must_find m k)"
  unfolding must_find_def by (intro io_rel)

lemma io_then_do [io_rel]: "state_io_rel R m \<Longrightarrow> (\<And>x. state_io_rel R (k x)) \<Longrightarrow> state_io_rel R (then_do m k)"
  unfolding then_do_def by (intro io_rel)

lemma io_reply_with [io_rel]: "state_io_rel R m \<Longrightarrow> state_io_rel R (reply_with g m f)"
  unfolding reply_with_def by (intro io_rel)

lemma io_vfs_queries [io_rel]:
  "state_io_rel R (get_file_by_inode i)" "state_io_rel R (lookup_by_parent_and_name i n)"
  "state_io_rel R (list_children_by_inode i)" "state_io_rel R (get_file_details_by_inode i)"
  "state_io_rel R (get_sync_state fid acct)" "state_io_rel R (get_parent_info i)"
  "state_io_rel R get_first_account_id" "state_io_rel R (has_children i)" "state_io_rel R (fs_open p)"
  "state_io_rel R (fs_pwrite p off bs)"
  by (auto simp: get_file_by_inode_def lookup_by_parent_and_name_def list_children_by_inode_def get_file_details_by_inode_def
      get_sync_state_def get_parent_info_def get_first_account_id_def has_children_def fs_open_def fs_pwrite_def R_refl intro!: io_rel)

lemma io_vfs_enqueue [io_rel]: "state_io_rel R (vfs_enqueue_task acct fid oper p)"
  unfolding vfs_enqueue_task_def by (intro io_rel) (simp add: R_insert vfs_task_def fresh_task_def)

lemma io_vfs_writes [io_rel]:
  "state_io_rel R (insert_local_file fid acct n m pid p)" "state_io_rel R (insert_local_folder fid acct n pid)"
  "state_io_rel R (update_file_size_mtime i sz mt)" "state_io_rel R (soft_delete_by_inode i)" "state_io_rel R (rename_file i n pid)"
  unfolding insert_local_file_def insert_local_folder_def update_file_size_mtime_def soft_delete_by_inode_def rename_file_def
  by (intro io_rel; simp add: R_v_insert R_v_update file_key_def)+

lemma io_wait_loop [io_rel]: "state_io_rel R (wait_loop n others fid acct start tm)"
  by (induction n) (auto intro!: io_rel R_others)

lemma io_callbacks [io_rel]:
  "state_io_rel R (fetch_on_demand others d p)" "state_io_rel R (read_slice p off len)" "state_io_rel R (owner_of i)"
  "state_io_rel R (move_cached d n)" "state_io_rel R (new_parent_id i)" "state_io_rel R (push_modified gf i fh)"
  unfolding fetch_on_demand_def read_slice_def owner_of_def move_cached_def new_parent_id_def push_modified_def
    enqueue_download_task_def enqueue_upload_task_def wait_for_download_def
  by (intro io_rel)+

lemma io_requests [io_rel]:
  "state_io_rel R (vfs_lookup i n)" "state_io_rel R (vfs_getattr i)" "state_io_rel R (vfs_readdir fits i off)"
  "state_io_rel R (vfs_open gf i flags)" "state_io_rel R (vfs_read others gf i fh pos len)"
  "state_io_rel R (vfs_create gf i n flags ns)" "state_io_rel R (vfs_write gf i fh pos bs)"
  "state_io_rel R (vfs_unlink i n)" "state_io_rel R (vfs_rename i n j m)" "state_io_rel R (vfs_mkdir i n ns)" "state_io_rel R (vfs_rmdir i n)"
  unfolding vfs_lookup_def vfs_getattr_def vfs_readdir_def vfs_open_def vfs_read_def vfs_create_def vfs_write_def
    vfs_unlink_def vfs_rename_def vfs_mkdir_def vfs_rmdir_def Let_def
  by (intro io_rel)+

theorem io_serve [io_rel]: "state_io_rel R (vfs_serve others fits gf q)"
  by (cases q) (simp_all add: vfs_flush_def vfs_fsync_def io_reply_with io_bind io_return io_requests io_callbacks)

lemma io_session: "state_io_rel R (vfs_session others fits gf qs)"
  by (induction qs arbitrary: gf) (auto intro!: io_rel)

end

lemma next_rowid_new: "r \<in> set (drive_files d) \<Longrightarrow> r_rowid r \<noteq> next_rowid d"
  using next_rowid_fresh [of r d] by simp

lemma wf_db_v_insert: "wf_db d \<Longrightarrow> wf_db (snd (v_insert f d))"
proof (cases "list_ex (\<lambda>r. file_key r = (d_id f, d_account_id f)) (drive_files d) \<or> \<not> has_account d (d_account_id f)")
  case False
  assume wf: "wf_db d"
  have "snd (v_insert f d) = snd (f_upsert f d)" using False by (simp add: v_insert_def f_upsert_def)
  then show ?thesis using wf_db_upsert [OF wf, of f] by simp
qed (auto simp: v_insert_def)

lemma wf_db_v_update:
  "wf_db d \<Longrightarrow> (\<And>r. file_key (g r) = file_key r \<and> r_rowid (g r) = r_rowid r) \<Longrightarrow> wf_db (v_update ino g d)"
  unfolding v_update_def by (rule wf_db_update_files) simp_all

lemma v_queue [simp]:
  "sync_queue (snd (v_insert f d)) = sync_queue d" "sync_queue (v_update ino g d) = sync_queue d"
  "queue_seq (v_update ino g d) = queue_seq d"
  by (simp_all add: v_insert_def v_update_def)

interpretation vwf: vfs_frame keeps_wf "process_pending_tasks sv"
  by unfold_locales
     (auto simp: keeps_wf_def wf_db_v_insert wf_db_v_update wf_db_q_insert intro: wfe.io_process_pending)

interpretation vvl: vfs_frame keeps_valid "process_pending_tasks sv"
  by unfold_locales
     (auto simp: keeps_valid_def valid_queue_def q_insert_def q_row_def fresh_task_def valid_row_def valid_status_def
       intro: ve.io_process_pending)

text \<open>The file system and the engine together keep the database sound. Over any session of kernel
  requests, with the engine processing tasks whenever a read waits, with any failures and any crash
  point, keys stay unique, references valid, and every task keeps a known status and at most three retries.\<close>

theorem vfs_session_integrity:
  assumes "wf_db (w_db w)" and "valid_queue (w_db w)"
    and "run_state (vfs_session (process_pending_tasks sv) fits gf qs) w = (res, w')"
  shows "wf_db (w_db w') \<and> valid_queue (w_db w')"
proof -
  have "keeps_wf w w'" "keeps_valid w w'"
    using wft.io_run [OF vwf.io_session [of sv fits gf qs], of w] vt.io_run [OF vvl.io_session [of sv fits gf qs], of w] assms(3)
    by simp_all
  then show ?thesis using assms(1,2) by (simp add: keeps_wf_def keeps_valid_def)
qed

definition sample_session :: "vfs_request list" where
  "sample_session = [Lookup 0 (Some ''a.bin''), Open 1 0, Read 1 1 0 10, Create 0 (Some ''b.txt'') 0 77, Write 2 2 0 [1, 2], Flush 2 2,
     Rename 0 (Some ''b.txt'') 0 (Some ''c.txt''), Unlink 0 (Some ''a.bin''), Release 1]"

theorem vfs_session_integrity_witness:
  "wf_db (w_db (snd (run_state (vfs_session (process_pending_tasks null_services) (\<lambda>_ _. True) (gfs_new ''/cache'') sample_session)
      (sample_world [1] 90 ())))) \<and>
   valid_queue (w_db (snd (run_state (vfs_session (process_pending_tasks null_services) (\<lambda>_ _. True) (gfs_new ''/cache'') sample_session)
      (sample_world [1] 90 ()))))"
  by (rule vfs_session_integrity [OF _ _ prod.collapse [symmetric]]) (simp_all add: sample_wf sample_valid)

section \<open>Handles\<close>

fun reply_handles :: "vfs_reply \<Rightarrow> u64 list" where
  "reply_handles (ReOpened fh) = [fh]"
| "reply_handles (ReCreated a fh) = [fh]"
| "reply_handles _ = []"

text \<open>Stepping through the error handling of a callback, whatever its queries answer.\<close>

lemma ends_any_result: "(\<And>r w'. Q r w') \<Longrightarrow> ends m w Q"
  by (auto simp: ends_def split: prod.splits)

lemma ends_or_fail_any:
  "(\<And>w'. Q (Inl e) w') \<Longrightarrow> (\<And>x w'. ends (k x) w' Q) \<Longrightarrow> ends (or_fail e m k) w Q"
  unfolding or_fail_def by (subst ends_bind, rule ends_any_result) (simp split: sum.splits)

lemma ends_must_find_any:
  "(\<And>e w'. Q (Inl e) w') \<Longrightarrow> (\<And>x w'. ends (k x) w' Q) \<Longrightarrow> ends (must_find m k) w Q"
  unfolding must_find_def by (auto intro!: ends_or_fail_any split: option.splits)

lemma ends_then_do_any:
  "(\<And>e w'. Q (Inl e) w') \<Longrightarrow> (\<And>x w'. ends (k x) w' Q) \<Longrightarrow> ends (then_do m k) w Q"
  unfolding then_do_def by (subst ends_bind, rule ends_any_result) (simp split: sum.splits)

lemmas ends_callback_any = ends_or_fail_any ends_must_find_any ends_then_do_any

lemma opens_new_handle:
  "ends (vfs_open g i flags) w (\<lambda>r _. case r of Inl _ \<Rightarrow> True | Inr p \<Rightarrow> \<exists>h. p = new_handle g h)"
  "ends (vfs_create g i n flags ns) w (\<lambda>r _. case r of Inl _ \<Rightarrow> True | Inr p \<Rightarrow> \<exists>h. snd p = new_handle g h)"
  by (auto simp: vfs_open_def vfs_create_def with_name_def Let_def simp del: split_paired_Ex intro!: ends_callback_any split: option.splits)

lemma serve_handles:
  assumes "run_state (vfs_serve others fits g q) w = ((r, g'), w')"
  shows "(\<exists>h. reply_handles r = [vf_next_fh g] \<and> (vf_next_fh g, g') = new_handle g h) \<or>
    (reply_handles r = [] \<and> vf_next_fh g' = vf_next_fh g \<and> (\<forall>fh. q \<noteq> Release fh \<longrightarrow> vf_open_files g' fh = vf_open_files g fh))"
proof -
  have plain: "reply_handles r = [] \<and> g' = g"
    if "run_state (reply_with g m f) w = ((r, g'), w')" "\<And>x. reply_handles (f x) = []" for m :: "('a world, errno + 'b) state" and f
    using that by (auto simp: reply_with_def split: prod.splits sum.splits)
  show ?thesis
  proof (cases q)
    case (Open i flags)
    then show ?thesis using assms opens_new_handle(1) [of g i flags w]
      by (auto simp: ends_def new_handle_def split: prod.splits sum.splits)
  next
    case (Create i n flags ns)
    then show ?thesis using assms opens_new_handle(2) [of g i n flags ns w]
      by (auto simp: ends_def new_handle_def split: prod.splits sum.splits)
  next
    case (Release fh)
    then show ?thesis using assms by (auto simp: vfs_release_def)
  qed (use assms in \<open>auto dest!: plain\<close>)
qed

text \<open>Handles are never confused. In a session of fewer than 2^64 requests the handles given out are
  pairwise distinct and new, and a handle that was open before stays bound to its file unless
  the kernel releases it.\<close>

theorem vfs_handles_distinct:
  assumes "run_state (vfs_session others fits g qs) w = ((rs, g'), w')" and "unat (vf_next_fh g) + length qs < 2 ^ 64"
  shows "distinct (concat (map reply_handles rs)) \<and> (\<forall>fh \<in> set (concat (map reply_handles rs)). vf_next_fh g \<le> fh) \<and>
    (\<forall>fh. fh < vf_next_fh g \<and> Release fh \<notin> set qs \<longrightarrow> vf_open_files g' fh = vf_open_files g fh)"
  using assms
proof (induction qs arbitrary: g w rs)
  case (Cons q qs)
  obtain r g1 w1 rs1 where serve: "run_state (vfs_serve others fits g q) w = ((r, g1), w1)"
    and sess: "run_state (vfs_session others fits g1 qs) w1 = ((rs1, g'), w')" and rs: "rs = r # rs1"
    using Cons.prems(1) by (auto split: prod.splits)
  let ?n = "vf_next_fh g"
  have suc: "unat (?n + 1) = Suc (unat ?n)" using Cons.prems(2) by (simp add: unat_word_ariths)
  show ?case
  proof (cases "\<exists>h. reply_handles r = [?n] \<and> (?n, g1) = new_handle g h")
    case True
    then have g1: "vf_next_fh g1 = ?n + 1" "\<And>fh. fh \<noteq> ?n \<Longrightarrow> vf_open_files g1 fh = vf_open_files g fh" "reply_handles r = [?n]"
      by (auto simp: new_handle_def)
    have lt: "?n < ?n + 1" using suc by (simp add: word_less_nat_alt)
    have ih: "distinct (concat (map reply_handles rs1))" "\<forall>fh \<in> set (concat (map reply_handles rs1)). ?n + 1 \<le> fh"
      "\<forall>fh. fh < ?n + 1 \<and> Release fh \<notin> set qs \<longrightarrow> vf_open_files g' fh = vf_open_files g1 fh"
      using Cons.IH [OF sess] Cons.prems(2) suc by (simp_all add: g1)
    have "\<forall>fh \<in> set (concat (map reply_handles rs1)). ?n < fh" using ih(2) lt by (meson less_le_trans)
    then show ?thesis using ih(1,3) g1 lt by (fastforce simp: rs)
  next
    case False
    then have g1: "reply_handles r = []" "vf_next_fh g1 = ?n" "\<forall>fh. q \<noteq> Release fh \<longrightarrow> vf_open_files g1 fh = vf_open_files g fh"
      using serve_handles [OF serve] by blast+
    have "distinct (concat (map reply_handles rs1)) \<and> (\<forall>fh \<in> set (concat (map reply_handles rs1)). ?n \<le> fh) \<and>
      (\<forall>fh. fh < ?n \<and> Release fh \<notin> set qs \<longrightarrow> vf_open_files g' fh = vf_open_files g1 fh)"
      using Cons.IH [OF sess] Cons.prems(2) by (simp add: g1)
    then show ?thesis using g1 by (auto simp: rs)
  qed
qed simp

theorem vfs_handles_distinct_witness:
  "distinct (concat (map reply_handles (fst (fst (run_state (vfs_session (process_pending_tasks null_services) (\<lambda>_ _. True)
      (gfs_new ''/cache'') sample_session) (sample_world [1] 90 ()))))))"
proof -
  obtain rs g' w' where "run_state (vfs_session (process_pending_tasks null_services) (\<lambda>_ _. True) (gfs_new ''/cache'') sample_session)
      (sample_world [1] 90 ()) = ((rs, g'), w')"
    by (metis prod.exhaust)
  note run = this
  show ?thesis
    using vfs_handles_distinct [OF run] by (simp add: run) (simp add: gfs_new_def sample_session_def)
qed

end
