(* ===== verification/Ipc_Frames.thy ===== *)
theory Ipc_Frames
  imports Ipc_Server Ipc_Walk Vfs_Props
begin

text \<open>
  What clients can change. \<open>router_frame\<close> is the interface of a relation on worlds that is closed under the statements
  the JSON-RPC handlers and the end of a login issue; the handlers are walked through once, and the two interpretations
  give the integrity of the database and the safety of the task queue for whatever a client sends.
\<close>

definition on_worlds :: "('x world \<Rightarrow> 'x world \<Rightarrow> bool) \<Rightarrow> 'x router \<Rightarrow> 'x router \<Rightarrow> bool" where
  "on_worlds R r r' \<longleftrightarrow> R (rt_world r) (rt_world r')"

locale router_frame = poll_frame R for R :: "'x world \<Rightarrow> 'x world \<Rightarrow> bool" +
  assumes R_token: "R w (w\<lparr>w_db := snd (tok_set acct tok now (w_db w))\<rparr>)"
    and R_push: "R w (w\<lparr>w_push := w_push w @ [e]\<rparr>)"
    and R_prefs: "R w (w\<lparr>w_mount_point := mp, w_sync_mode := mode\<rparr>)"
    and R_files: "(\<And>r. file_key (h r) = file_key r \<and> r_rowid (h r) = r_rowid r) \<Longrightarrow>
      R w (w\<lparr>w_db := (w_db w)\<lparr>drive_files := update_where p h (drive_files (w_db w))\<rparr>\<rparr>)"
    and R_new_file: "R w (w\<lparr>w_db := snd (v_insert f (w_db w))\<rparr>)"
    and R_account: "R w (w\<lparr>w_db := snd (acc_insert a (w_db w))\<rparr>)"
    and R_disconnect: "R w (w\<lparr>w_db := acc_delete i (w_db w)\<rparr>)"
    and R_folder_add: "R w (w\<lparr>w_db := snd (fold_add fo (w_db w))\<rparr>)"
    and R_folder_remove: "R w (w\<lparr>w_db := (w_db w)\<lparr>sync_folders := filter q (sync_folders (w_db w))\<rparr>\<rparr>)"
    and R_errors: "R w (w\<lparr>w_db := (w_db w)\<lparr>sync_errors := es\<rparr>\<rparr>)"
    and R_notes: "R w (w\<lparr>w_db := (w_db w)\<lparr>notifications := ns\<rparr>\<rparr>)"
    and R_feedback: "R w (w\<lparr>w_db := (w_db w)\<lparr>feedbacks := fs, feedback_seq := k\<rparr>\<rparr>)"

sublocale router_frame \<subseteq> rr: io_preorder "on_worlds R"
  by unfold_locales (auto simp: on_worlds_def R_refl intro: R_trans)

sublocale router_frame \<subseteq> rw: router_walk R "on_worlds R"
  by unfold_locales (simp_all add: on_worlds_def R_ops)

context router_frame
begin

section \<open>Primitives\<close>

lemma io_router_steps [io_rel]:
  "state_io_rel (on_worlds R) (config_write p)"
  "state_io_rel (on_worlds R) (send_command c)" "state_io_rel (on_worlds R) signal_reload"
  by (simp_all add: state_io_rel_def on_worlds_def config_write_def with_prefs_def send_command_def
      signal_reload_def R_refl R_prefs)

lemma io_push_any [io_rel]: "state_io_rel R (push_send e)"
  by (simp add: state_io_rel_def push_send_def R_refl R_push)

section \<open>Statements\<close>

lemma io_statements [io_rel]:
  "state_io_rel R (set_token acct tok)" "state_io_rel R (insert_account a)" "state_io_rel R (delete_account i)"
  "state_io_rel R (add_folder fo)" "state_io_rel R (delete_folder n)" "state_io_rel R (resolve_error n)"
  "state_io_rel R (dismiss_notification n)" "state_io_rel R (mark_read n)" "state_io_rel R mark_all_read"
  "state_io_rel R (set_sync_state j acct st)"
  unfolding set_token_def insert_account_def delete_account_def add_folder_def delete_folder_def resolve_error_def
    dismiss_notification_def mark_read_def mark_all_read_def set_sync_state_def f_set_sync_state_def
  by (intro io_rel, (simp add: R_token R_account R_disconnect R_folder_add R_folder_remove R_errors R_notes)?)+
     (auto simp: file_key_def intro!: R_files)

lemma io_insert_feedback [io_rel]: "state_io_rel R (insert_feedback fb)"
  unfolding insert_feedback_def Let_def by (rule io_try) (auto simp: R_feedback intro!: io_db io_return)

lemma io_file_writes [io_rel]:
  "state_io_rel R (db_exec (v_insert f))" "state_io_rel R (fp_enqueue now acct i operation p)"
  "(\<And>r. file_key (h r) = file_key r \<and> r_rowid (h r) = r_rowid r) \<Longrightarrow> state_io_rel R (f_update f h)"
  "state_io_rel R (db_exec (\<lambda>d. (Inr (), f_unpin_all d)))"
  by (auto simp: fp_enqueue_def f_update_def f_unpin_all_def fresh_task_def vfs_task_def file_key_def R_refl
      intro!: io_db R_new_file R_insert R_files)

lemma io_save_config [io_rel]: "state_io_rel R (save_config tm dd p)"
  unfolding save_config_def config_path_def save_to_def fs_write_def Let_def by (intro io_rel)

lemma io_tokens [io_rel]: "state_io_rel R (delete_all_tokens sv acct)" "state_io_rel R (save_refresh_token sv acct rt)"
  "state_io_rel R (cache_access_token acct ts)"
  by (auto simp: delete_all_tokens_def delete_refresh_token_def save_refresh_token_def cache_access_token_def clear_access_token_def
      state_io_rel_def [of R "State _"] R_refl R_tokens intro!: io_rel)

section \<open>Handlers\<close>

lemma io_account_changed [io_rel]: "state_io_rel (on_worlds R) push_account_changed"
  unfolding push_account_changed_def by (intro io_rel)

lemma io_config_handlers [io_rel]:
  "state_io_rel (on_worlds R) handle_prefs_get" "state_io_rel (on_worlds R) (handle_prefs_save env params)"
  "state_io_rel (on_worlds R) handle_sync_get_status" "state_io_rel (on_worlds R) handle_sync_pause"
  "state_io_rel (on_worlds R) handle_sync_resume" "state_io_rel (on_worlds R) (handle_set_sync_mode env params)"
  unfolding handle_prefs_get_def handle_prefs_save_def handle_sync_get_status_def handle_sync_pause_def handle_sync_resume_def
    handle_set_sync_mode_def Let_def
  by (intro io_rel)+

lemma io_sync_handlers [io_rel]:
  "state_io_rel (on_worlds R) (handle_sync_get_recent_items env params)" "state_io_rel (on_worlds R) (handle_sync_get_activity env params)"
  "state_io_rel (on_worlds R) (handle_sync_retry_error params)" "state_io_rel (on_worlds R) handle_sync_get_errors"
  "state_io_rel (on_worlds R) (handle_notification_list env params)" "state_io_rel (on_worlds R) (handle_notification_dismiss params)"
  "state_io_rel (on_worlds R) (handle_notification_mark_read params)" "state_io_rel (on_worlds R) handle_notification_mark_all_read"
  unfolding handle_sync_get_recent_items_def handle_sync_get_activity_def handle_sync_retry_error_def handle_sync_get_errors_def
    handle_notification_list_def handle_notification_dismiss_def handle_notification_mark_read_def
    handle_notification_mark_all_read_def Let_def
  by (intro io_rel)+

lemma io_folder_handlers [io_rel]:
  "state_io_rel (on_worlds R) handle_folder_list" "state_io_rel (on_worlds R) (handle_folder_add params)"
  "state_io_rel (on_worlds R) (handle_folder_remove params)" "state_io_rel (on_worlds R) (handle_folder_get_size params)"
  "state_io_rel (on_worlds R) (handle_folder_get_suggested env)" "state_io_rel (on_worlds R) (handle_submit_feedback params)"
  "state_io_rel (on_worlds R) handle_get_platform" "state_io_rel (on_worlds R) handle_system_get_drive_stats"
  "state_io_rel (on_worlds R) handle_offline_get_stats" "state_io_rel (on_worlds R) handle_offline_clear_cache"
  unfolding handle_folder_list_def handle_folder_add_def handle_folder_remove_def handle_folder_get_size_def
    handle_folder_get_suggested_def handle_submit_feedback_def handle_get_platform_def handle_system_get_drive_stats_def
    handle_offline_get_stats_def handle_offline_clear_cache_def Let_def
  by (intro io_rel)+

lemma io_fs_handlers [io_rel]:
  "state_io_rel (on_worlds R) (handle_fs_get_sync_state env params)" "state_io_rel (on_worlds R) (handle_fs_set_offline env params)"
  "state_io_rel (on_worlds R) (handle_fs_get_share_link env params)" "state_io_rel (on_worlds R) (handle_fp_get_item env params)"
  "state_io_rel (on_worlds R) (handle_fp_list_children env params)" "state_io_rel (on_worlds R) (handle_fp_fetch_contents env params)"
  unfolding handle_fs_get_sync_state_def handle_fs_set_offline_def handle_fs_get_share_link_def handle_fp_get_item_def
    handle_fp_list_children_def handle_fp_fetch_contents_def fp_children_def Let_def
  by (intro io_rel)+

lemma io_fp_create [io_rel]: "state_io_rel (on_worlds R) (handle_fp_create_item env params)"
  unfolding handle_fp_create_item_def Let_def by (intro io_rel R_new_file)

lemma io_fp_changes [io_rel]:
  "state_io_rel (on_worlds R) (handle_fp_modify_item env params)" "state_io_rel (on_worlds R) (handle_fp_delete_item env params)"
  unfolding handle_fp_modify_item_def fp_rename_def fp_rewrite_def handle_fp_delete_item_def
  by (intro io_rel, auto simp: file_key_def)+

lemma io_auth_handlers [io_rel]:
  "state_io_rel (on_worlds R) (handle_auth_start_flow env)" "state_io_rel (on_worlds R) handle_auth_get_accounts"
  "state_io_rel (on_worlds R) (handle_auth_disconnect env params)" "state_io_rel (on_worlds R) (handle_auth_get_locale params)"
  "state_io_rel (on_worlds R) handle_auth_get_quota"
  unfolding handle_auth_start_flow_def handle_auth_get_accounts_def handle_auth_disconnect_def handle_auth_get_locale_def
    handle_auth_get_quota_def Let_def
  by (intro io_rel)+

lemma io_login [io_rel]: "state_io_rel (on_worlds R) (complete_oauth_flow env ts)"
  unfolding complete_oauth_flow_def fetch_and_store_account_def initial_sync_def Let_def
  by (intro io_rel)

theorem io_dispatch [io_rel]: "state_io_rel (on_worlds R) (dispatch env meth params)"
proof -
  have "list_all (\<lambda>(n, h). state_io_rel (on_worlds R) h) (method_table env params)"
    by (simp add: method_table_def rw.io_ok io_config_handlers io_sync_handlers io_folder_handlers io_fs_handlers io_fp_create io_fp_changes
        io_auth_handlers)
  then show ?thesis
    by (auto simp: dispatch_def list_all_iff rw.io_ok split: option.split dest!: map_of_SomeD)
qed

theorem io_router_handle [io_rel]: "state_io_rel (on_worlds R) (router_handle env q)"
  unfolding router_handle_def by (intro io_rel)

section \<open>Connections\<close>

lemma R_serve_line: "on_worlds R (cn_router c) (cn_router (serve_line env tc wr line c))"
proof -
  have "on_worlds R (cn_router c) (snd (run_state (router_handle env q) (cn_router c)))" for q
    by (rule rr.io_run [OF io_router_handle])
  then show ?thesis
    by (auto simp: serve_line_def Let_def write_or_close_def write_out_def rr.R_refl split: option.split prod.split)
      (metis snd_conv)+
qed

lemma R_conn_step: "on_worlds R (cn_router c) (cn_router (conn_step env tc wr ev c))"
proof -
  have serve: "on_worlds R (cn_router c) (cn_router (serve_line env tc wr line (c\<lparr>cn_line := l, cn_inbox := i\<rparr>)))" for line l i
    using R_serve_line [of "c\<lparr>cn_line := l, cn_inbox := i\<rparr>" env tc wr line] by simp
  then show ?thesis
    by (auto simp: conn_step_def poll_read_def read_eof_def push_ready_def Let_def write_or_close_def write_out_def rr.R_refl
        split: conn_event.split push_result.split list.split)
qed

theorem R_connection: "on_worlds R (cn_router c) (cn_router (handle_connection env tc wr evs c))"
  by (induction evs arbitrary: c) (auto simp: handle_connection_def rr.R_refl intro: rr.R_trans R_conn_step)

end

end
