(* ===== verification/Ipc_Connection.thy ===== *)
theory Ipc_Connection
  imports Ipc_Errors
begin

text \<open>
  A connection against its specification by lines: every complete line is answered once, in order, and pushes are mixed in
  as whole lines. On top of it, a call of the client is the handler's result.
\<close>

section \<open>The specification by lines\<close>

definition reply_to :: "'x ipc_env \<Rightarrow> text_codec \<Rightarrow> string \<Rightarrow> 'x router \<Rightarrow> string list \<times> 'x router" where
  "reply_to env tc line r =
     (let trimmed = trim (line @ [NL])
      in if trimmed = [] then ([], r)
         else case Option.bind (tc_parse tc trimmed) de_request of
                None \<Rightarrow> ([message_line tc (response_error None parse_error)], r)
              | Some req \<Rightarrow> (case run_state (router_handle env req) r of
                  (None, r') \<Rightarrow> ([], r') | (Some resp, r') \<Rightarrow> ([message_line tc resp], r')))"

fun serve_lines :: "'x ipc_env \<Rightarrow> text_codec \<Rightarrow> string list \<Rightarrow> 'x router \<Rightarrow> string list \<times> 'x router" where
  "serve_lines env tc [] r = ([], r)"
| "serve_lines env tc (l # ls) r =
     (case reply_to env tc l r of (out, r') \<Rightarrow> (case serve_lines env tc ls r' of (outs, r'') \<Rightarrow> (out @ outs, r'')))"

fun arrived :: "conn_event list \<Rightarrow> string" where
  "arrived [] = []"
| "arrived (Arrive s # evs) = s @ arrived evs"
| "arrived (_ # evs) = arrived evs"

fun pushed :: "conn_event list \<Rightarrow> string list" where
  "pushed [] = []"
| "pushed (PushReady (PushText m) # evs) = (m @ [NL]) # pushed evs"
| "pushed (_ # evs) = pushed evs"

text \<open>Events of a connection that stays open, with no push while a line is partly read.\<close>

definition calm :: "conn_event \<Rightarrow> 'x conn \<Rightarrow> bool" where
  "calm ev c = (case ev of Arrive _ \<Rightarrow> True | PollRead \<Rightarrow> True | PushReady p \<Rightarrow> p \<noteq> PushClosed \<and> cn_line c = [] | _ \<Rightarrow> False)"

fun calm_run :: "'x ipc_env \<Rightarrow> text_codec \<Rightarrow> conn_event list \<Rightarrow> 'x conn \<Rightarrow> bool" where
  "calm_run env tc [] c = True"
| "calm_run env tc (ev # evs) c = (calm ev c \<and> calm_run env tc evs (conn_step env tc (\<lambda>_. True) ev c))"

section \<open>The invariant\<close>

lemma shuffles_concat: "as @ bs \<in> shuffles as bs" "bs @ as \<in> shuffles as bs"
proof -
  show "as @ bs \<in> shuffles as bs" for as bs :: "'a list"
    by (induction as) (simp_all add: Cons_in_shuffles_leftI)
  from this [of bs as] show "bs @ as \<in> shuffles as bs" by (simp add: shuffles_commutes)
qed

lemma shuffles_append:
  "xs \<in> shuffles as bs \<Longrightarrow> xs @ zs \<in> shuffles (as @ zs) bs"
  "xs \<in> shuffles as bs \<Longrightarrow> xs @ zs \<in> shuffles as (bs @ zs)"
proof -
  show left: "xs \<in> shuffles as bs \<Longrightarrow> xs @ zs \<in> shuffles (as @ zs) bs" for xs as bs :: "'a list"
    by (induction as bs arbitrary: xs rule: shuffles.induct) (auto simp: Cons_in_shuffles_iff shuffles_concat)
  show "xs \<in> shuffles as bs \<Longrightarrow> xs @ zs \<in> shuffles as (bs @ zs)"
    using left [of xs bs as] by (simp add: shuffles_commutes)
qed

text \<open>After any prefix of a calm run: the lines served so far, what is left of the input, and the output.\<close>

definition served :: "'x ipc_env \<Rightarrow> text_codec \<Rightarrow> 'x router \<Rightarrow> string \<Rightarrow> string list \<Rightarrow> 'x conn \<Rightarrow> string list \<Rightarrow> bool" where
  "served env tc r input pushes c ls \<longleftrightarrow>
     input = concat (map (\<lambda>l. l @ [NL]) ls) @ cn_line c @ cn_inbox c \<and> list_all (\<lambda>l. NL \<notin> set l) (cn_line c # ls) \<and> cn_open c \<and>
     cn_router c = snd (serve_lines env tc ls r) \<and> cn_out c \<in> shuffles (fst (serve_lines env tc ls r)) pushes"

lemma serve_lines_snoc:
  "serve_lines env tc (ls @ [l]) r =
     (case serve_lines env tc ls r of (outs, r') \<Rightarrow> (case reply_to env tc l r' of (out, r'') \<Rightarrow> (outs @ out, r'')))"
  by (induction ls arbitrary: r) (simp_all split: prod.splits)

lemma serve_line_reply:
  "serve_line env tc (\<lambda>_. True) (l @ [NL]) c =
     (case reply_to env tc l (cn_router c) of (out, r') \<Rightarrow>
        c\<lparr>cn_router := r', cn_out := cn_out c @ out, cn_writes := cn_writes c + length out\<rparr>)"
  by (simp add: serve_line_def reply_to_def Let_def write_or_close_def write_out_def split: option.split prod.split)

lemma served_step:
  assumes "served env tc r input pushes c ls" and "calm ev c"
  shows "\<exists>ls'. served env tc r (input @ arrived [ev]) (pushes @ pushed [ev]) (conn_step env tc (\<lambda>_. True) ev c) ls'"
proof (cases ev)
  case PollRead
  define l where "l = takeWhile (\<lambda>x. x \<noteq> NL) (cn_inbox c)"
  define rest where "rest = dropWhile (\<lambda>x. x \<noteq> NL) (cn_inbox c)"
  have inbox: "cn_inbox c = l @ rest" and l: "NL \<notin> set l"
    by (auto simp: l_def rest_def dest: set_takeWhileD)
  have step: "conn_step env tc (\<lambda>_. True) PollRead c = (case rest of [] \<Rightarrow> c\<lparr>cn_line := cn_line c @ l, cn_inbox := []\<rparr>
      | _ # unread \<Rightarrow> serve_line env tc (\<lambda>_. True) ((cn_line c @ l) @ [NL]) (c\<lparr>cn_line := [], cn_inbox := unread\<rparr>))"
    using assms(1) by (cases rest) (simp_all add: served_def conn_step_def poll_read_def Let_def flip: l_def rest_def)
  show ?thesis
  proof (cases rest)
    case Nil
    then have "served env tc r input pushes (conn_step env tc (\<lambda>_. True) PollRead c) ls"
      using assms(1) l inbox unfolding step by (simp add: served_def)
    then show ?thesis using PollRead by auto
  next
    case (Cons x unread)
    then have "x = NL" using hd_dropWhile [of "\<lambda>x. x \<noteq> NL" "cn_inbox c"] by (auto simp: rest_def)
    obtain outs r1 where outs: "serve_lines env tc ls r = (outs, r1)" by fastforce
    obtain out r2 where out: "reply_to env tc (cn_line c @ l) r1 = (out, r2)" by fastforce
    have "conn_step env tc (\<lambda>_. True) PollRead c
        = c\<lparr>cn_line := [], cn_inbox := unread, cn_router := r2, cn_out := cn_out c @ out, cn_writes := cn_writes c + length out\<rparr>"
      unfolding step Cons list.case serve_line_reply using assms(1) outs out by (simp add: served_def)
    then have "served env tc r input pushes (conn_step env tc (\<lambda>_. True) PollRead c) (ls @ [cn_line c @ l])"
      using assms(1) inbox l Cons \<open>x = NL\<close> outs out by (simp add: served_def serve_lines_snoc shuffles_append(1))
    then show ?thesis using PollRead by auto
  qed
next
  case (PushReady p)
  then show ?thesis
    using assms
    by (cases p)
       (auto simp: served_def calm_def conn_step_def push_ready_def write_or_close_def write_out_def shuffles_append(2) intro!: exI [of _ ls])
qed (use assms in \<open>auto simp: served_def calm_def conn_step_def intro!: exI [of _ ls]\<close>)

lemma arrived_Cons: "arrived (ev # evs) = arrived [ev] @ arrived evs"
  by (cases ev) simp_all

lemma pushed_Cons: "pushed (ev # evs) = pushed [ev] @ pushed evs"
proof (cases ev)
  case (PushReady p)
  then show ?thesis by (cases p) simp_all
qed simp_all

lemma served_run:
  assumes "served env tc r input pushes c ls" and "calm_run env tc evs c"
  shows "\<exists>ls'. served env tc r (input @ arrived evs) (pushes @ pushed evs) (handle_connection env tc (\<lambda>_. True) evs c) ls'"
  using assms
proof (induction evs arbitrary: input pushes c ls)
  case Nil
  then show ?case by (auto simp: handle_connection_def)
next
  case (Cons ev evs)
  then have now: "served env tc r input pushes c ls" "calm ev c" by simp_all
  obtain ls' where "served env tc r (input @ arrived [ev]) (pushes @ pushed [ev]) (conn_step env tc (\<lambda>_. True) ev c) ls'"
    using served_step [OF now] by blast
  from Cons.IH [OF this] Cons.prems(2) show ?case
    by (simp only: handle_connection_def arrived_Cons [of ev evs] pushed_Cons [of ev evs] append_assoc fold_simps calm_run.simps)
qed

lemma served_new: "served env tc r [] [] (conn_new r) []"
  by (simp add: served_def conn_new_def)


lemma ping_calm: "calm_run sample_env sample_codec ping_events (conn_new r)"
  by (simp add: ping_events_def calm_def conn_new_def conn_step_def push_ready_def poll_read_def write_or_close_def write_out_def
      Let_def NL_def)


section \<open>A call from end to end\<close>

text \<open>The text form of a value is one line and is read back.\<close>

definition readable :: "text_codec \<Rightarrow> json \<Rightarrow> bool" where
  "readable tc j \<longleftrightarrow> tc_parse tc (tc_print tc j) = Some j \<and> NL \<notin> set (tc_print tc j) \<and> tc_print tc j \<noteq> [] \<and>
     trim (tc_print tc j @ [NL]) = tc_print tc j"

definition push_line :: "text_codec \<Rightarrow> float_ops \<Rightarrow> push_event \<Rightarrow> string" where
  "push_line tc fl e = tc_print tc (en_request (to_notification fl e)) @ [NL]"

lemma await_push:
  "readable tc (en_request (to_notification fl e)) \<Longrightarrow> await_reply tc (GotLine (push_line tc fl e) # rs) = await_reply tc rs"
  by (simp add: readable_def push_line_def notification_as_response)

lemma await_pushes:
  "list_all (\<lambda>e. readable tc (en_request (to_notification fl e))) es \<Longrightarrow>
   await_reply tc (map (GotLine \<circ> push_line tc fl) es @ rs) = await_reply tc rs"
  by (induction es) (simp_all add: await_push del: await_reply.simps)

definition response_for :: "JsonRpcId \<Rightarrow> json_rpc_error + json \<Rightarrow> json_rpc_response" where
  "response_for i res = (case res of Inr v \<Rightarrow> response_success (Some i) v | Inl e \<Rightarrow> response_error (Some i) e)"

lemma await_response:
  assumes "readable tc (en_response (response_for i res))" and "id_ok i" and "\<And>e. res = Inl e \<Longrightarrow> error_ok e"
  shows "await_reply tc (GotLine (message_line tc (response_for i res)) # rs) = (res, rs)"
proof (cases res)
  case (Inl e)
  then show ?thesis
    using assms failure_read [of e "Some i"]
    by (simp add: readable_def message_line_def response_for_def response_error_def response_is_success_def)
next
  case (Inr v)
  then show ?thesis
    using assms success_read [of "Some i" v]
    by (simp add: readable_def message_line_def response_for_def response_success_def response_is_success_def)
qed

lemma reply_to_request:
  assumes "readable tc (en_request req)" and "de_request (en_request req) = Some req" and "jq_id req = Some i"
  shows "reply_to env tc (tc_print tc (en_request req)) r =
    (case run_state (dispatch env (jq_method req) (jq_params req)) r of (res, r') \<Rightarrow> ([message_line tc (response_for i res)], r'))"
  using assms
  by (simp add: reply_to_def readable_def router_handle_def is_notification_def response_for_def split: prod.split sum.split)

text \<open>One line and nothing else has arrived: it is the only one served.\<close>

lemma single_line:
  assumes "l @ [NL] = concat (map (\<lambda>l. l @ [NL]) ls)" and "NL \<notin> set l" and "list_all (\<lambda>l. NL \<notin> set l) ls"
  shows "ls = [l]"
proof -
  from assms(1) obtain k ks where ls: "ls = k # ks" by (cases ls) auto
  have k: "NL \<notin> set k" using assms(3) ls by simp
  have "takeWhile (\<lambda>x. x \<noteq> NL) (l @ [NL]) = l" "takeWhile (\<lambda>x. x \<noteq> NL) (k @ NL # xs) = k" for xs
    using assms(2) k by (subst takeWhile_append2; auto)+
  then have "l = k" using assms(1) ls by (metis (no_types, lifting) append.assoc append_Cons append_Nil concat.simps(2) list.simps(9))
  with assms(1) ls have "concat (map (\<lambda>l. l @ [NL]) ks) = []" by simp
  then have "ks = []" by (cases ks) simp_all
  with \<open>l = k\<close> ls show ?thesis by simp
qed

lemma single_shuffle: "xs \<in> shuffles [a] bs \<Longrightarrow> \<exists>us vs. xs = us @ a # vs \<and> bs = us @ vs"
proof (induction bs arbitrary: xs)
  case (Cons b bs)
  then show ?case by (auto simp: Cons_eq_append_conv) (metis append_Cons append_Nil)+
qed (auto intro: exI [of _ "[]"])


text \<open>C35: the client does not look at the id of a reply. After a call that timed out, the next call on the connection returns the
  late reply to the first one, whatever it asks for.\<close>

theorem late_reply_answers_next_call:
  assumes "cl_reads cl = GotError e # GotLine (message_line tc (response_for i res)) # rs"
    and "i = IdNum (sint (cl_next_id cl))" and "readable tc (en_response (response_for i res))"
    and "\<And>err. res = Inl err \<Longrightarrow> error_ok err"
    and "one = client_call tc None meth params cl" and "two = client_call tc None next_meth next_params (snd (snd one))"
  shows "fst (snd one) = Inl (internal_error e) \<and> fst (snd two) = res \<and>
    fst two = Some (request_line tc (request_new next_meth next_params (IdNum (sint (cl_next_id cl + 1)))))"
proof -
  have i: "id_ok i"
    using sint_greater_eq [of "cl_next_id cl"] sint_less [of "cl_next_id cl"] by (simp add: id_ok_def i64_ok_def assms(2))
  have first: "fst (snd one) = Inl (internal_error e)"
      "snd (snd one) = cl\<lparr>cl_next_id := cl_next_id cl + 1, cl_reads := GotLine (message_line tc (response_for i res)) # rs\<rparr>"
    using assms(1,5) by (simp_all add: client_call_def Let_def)
  have "await_reply tc (cl_reads (snd (snd one))) = (res, rs)"
    using await_response [OF assms(3) i assms(4)] by (simp add: first(2) del: await_reply.simps)
  then show ?thesis
    using first by (simp add: assms(6) client_call_def Let_def del: await_reply.simps)
qed

lemma ping_readable:
  "readable sample_codec (en_request ping_request)" "readable sample_codec (en_response ping_reply)"
  "readable sample_codec (en_request (to_notification no_floats login_push))"
  by (simp_all add: readable_def trim_def is_white_def NL_def)

definition ping_conn :: "unit conn" where
  "ping_conn = handle_connection sample_env sample_codec (\<lambda>_. True) ping_events (conn_new (sample_router (sample_world [1] 9 ())))"

lemma ping_dispatch: "run_state (dispatch sample_env ''ping'' None) r = (Inr (JStr ''pong''), r)"
  by (simp add: dispatch_def method_table_def ok_def)

lemma ping_conn_state: "cn_line ping_conn = []" "cn_inbox ping_conn = []"
  by (simp_all add: ping_conn_def ping_events_def handle_connection_def conn_new_def conn_step_def push_ready_def poll_read_def
      write_or_close_def write_out_def serve_line_def trim_def is_white_def NL_def Let_def split: option.split prod.split)


theorem late_reply_answers_next_call_witness:
  "fst (snd (client_call sample_codec None ''fs.get_share_link'' None
      (snd (snd (client_call sample_codec None ''ping'' None
        \<lparr>cl_next_id = 1, cl_reads = [GotError ''timed out'', GotLine (message_line sample_codec ping_reply)]\<rparr>)))))
   = Inr (JStr ''pong'')"
proof -
  have reply: "response_for (IdNum 1) (Inr (JStr ''pong'')) = ping_reply"
    by (simp add: response_for_def ping_reply_def)
  define cl where "cl = \<lparr>cl_next_id = 1, cl_reads = [GotError ''timed out'', GotLine (message_line sample_codec ping_reply)]\<rparr>"
  have "cl_reads cl = GotError ''timed out'' # GotLine (message_line sample_codec (response_for (IdNum 1) (Inr (JStr ''pong'')))) # []"
      "IdNum 1 = IdNum (sint (cl_next_id cl))"
    by (simp_all add: cl_def reply)
  from late_reply_answers_next_call [OF this _ _ refl refl, where meth = "''ping''" and params = None
      and next_meth = "''fs.get_share_link''" and next_params = None]
  show ?thesis using ping_readable(2) by (simp only: reply cl_def) (simp only: simp_thms sum.simps)
qed

section \<open>A push in the middle of a line\<close>

text \<open>A push that is ready while a request is arriving destroys the request. What the pending read had already taken of the line is
  dropped with it, and the rest of the line is served as if it were the whole: the client that sent \<open>a @ b\<close> is answered for
  \<open>b\<close>, a parse error without an id that its call skips, so that the call waits until it times out.\<close>

theorem push_cuts_request:
  assumes "NL \<notin> set a" and "NL \<notin> set b" and "wr 0"
    and c': "c' = handle_connection env tc wr [Arrive a, PollRead, PushReady (PushText m), Arrive (b @ [NL]), PollRead] (conn_new r)"
  shows "c' = serve_line env tc wr (b @ [NL]) ((conn_new r)\<lparr>cn_out := [m @ [NL]], cn_writes := 1\<rparr>) \<and>
    (trim (b @ [NL]) \<noteq> [] \<and> tc_parse tc (trim (b @ [NL])) = None \<longrightarrow>
       cn_router c' = r \<and> (wr 1 \<longrightarrow> cn_out c' = [m @ [NL], message_line tc (response_error None parse_error)]))"
proof -
  have "takeWhile (\<lambda>x. x \<noteq> NL) (b @ [NL]) = b" "dropWhile (\<lambda>x. x \<noteq> NL) (b @ [NL]) = [NL]"
    using assms(2) by (induction b) auto
  moreover have "takeWhile (\<lambda>x. x \<noteq> NL) a = a" "dropWhile (\<lambda>x. x \<noteq> NL) a = []"
    using assms(1) by (auto simp: takeWhile_eq_all_conv)
  moreover note whole = calculation
  have "c' = serve_line env tc wr (b @ [NL]) ((conn_new r)\<lparr>cn_out := [m @ [NL]], cn_writes := 1\<rparr>)"
    using assms(3) by (simp add: c' handle_connection_def conn_step_def poll_read_def push_ready_def write_or_close_def write_out_def conn_new_def whole Let_def)
  then show ?thesis
    by (auto simp: serve_line_def write_out_def conn_new_def Let_def)
qed

theorem push_cuts_request_witness:
  "cn_out (handle_connection sample_env sample_codec (\<lambda>_. True) [Arrive ''q'', PollRead, PushReady (PushText ''e''), Arrive (''}'' @ [NL]), PollRead]
     (conn_new (sample_router (sample_world [1] 9 ())))) = [''e'' @ [NL], message_line sample_codec (response_error None parse_error)]"
proof -
  have rest: "trim (''}'' @ [NL]) = ''}''" by (simp add: trim_def is_white_def NL_def)
  have unknown: "tc_parse sample_codec ''}'' = None" by (simp add: sample_codec_def)
  have "NL \<notin> set ''q''" "NL \<notin> set ''}''" by (simp_all add: NL_def)
  from conjunct2 [OF push_cuts_request [OF this _ refl, of "\<lambda>_. True" sample_env sample_codec "''e''" "sample_router (sample_world [1] 9 ())"]]
  have "trim (''}'' @ [NL]) \<noteq> [] \<and> tc_parse sample_codec (trim (''}'' @ [NL])) = None \<longrightarrow> ?thesis" by simp
  then show ?thesis using rest unknown by simp
qed

end
