(* ===== verification/Ipc_Props.thy ===== *)
theory Ipc_Props
  imports Ipc_Frames Ipc_Connection
begin

text \<open>
  What a client can rely on: integrity under any traffic, requests that are refused change nothing, every complete line is
  served in order, and a remote call yields what the handler returned.
\<close>

section \<open>Whatever a client sends\<close>

lemma has_account_ids: "has_account d x \<longleftrightarrow> x \<in> set (map a_id (accounts d))"
  by (auto simp: has_account_def list_ex_iff)

text \<open>Replacing the accounts keeps the database sound when every referenced one stays.\<close>

lemma wf_db_accounts:
  assumes "wf_db d" and "distinct (map a_id as)" and "distinct (map a_email as)"
    and "set (map a_id (accounts d)) \<subseteq> set (map a_id as)"
  shows "wf_db (d\<lparr>accounts := as\<rparr>)"
  using assms by (auto simp: wf_db_def list_all_iff has_account_ids)

lemma wf_db_acc_insert:
  assumes "wf_db d"
  shows "wf_db (snd (acc_insert a d))"
proof (cases "list_ex (\<lambda>b. a_email b = a_email a \<and> a_id b \<noteq> a_id a) (accounts d)")
  case False
  let ?h = "\<lambda>b. b\<lparr>a_email := a_email a, a_display_name := a_display_name a, a_photo_url := a_photo_url a,
    a_locale := a_locale a, a_last_used_at := a_last_used_at a\<rparr>"
  let ?as = "update_where (\<lambda>b. a_id b = a_id a) ?h (accounts d)"
  have ids: "map a_id ?as = map a_id (accounts d)" by (simp add: map_update_where)
  have email: "distinct (map a_email (update_where (\<lambda>b. a_id b = a_id a) ?h as))"
    if "distinct (map a_email as)" "distinct (map a_id as)" "\<not> list_ex (\<lambda>b. a_email b = a_email a \<and> a_id b \<noteq> a_id a) as" for as
    using that by (induction as) (auto simp: set_update_where image_iff list_ex_iff split: if_splits)
  have upd: "wf_db (d\<lparr>accounts := ?as\<rparr>)"
    by (rule wf_db_accounts [OF assms]) (use assms ids email [of "accounts d"] False in \<open>auto simp: wf_db_def\<close>)
  have add: "wf_db (d\<lparr>accounts := accounts d @ [a]\<rparr>)" if new: "\<not> has_account d (a_id a)"
  proof (rule wf_db_accounts [OF assms])
    show "distinct (map a_id (accounts d @ [a]))" "set (map a_id (accounts d)) \<subseteq> set (map a_id (accounts d @ [a]))"
      using assms new by (auto simp: wf_db_def has_account_ids)
    have "a_email b \<noteq> a_email a" if "b \<in> set (accounts d)" for b
      using that new False by (auto simp: has_account_def list_ex_iff)
    then show "distinct (map a_email (accounts d @ [a]))"
      using assms by (fastforce simp: wf_db_def)
  qed
  show ?thesis using False upd add by (simp add: acc_insert_def)
qed (simp add: acc_insert_def assms)

lemma wf_db_acc_delete:
  assumes "wf_db d"
  shows "wf_db (acc_delete i d)"
proof -
  have "has_account (acc_delete i d) x \<longleftrightarrow> has_account d x \<and> x \<noteq> i" for x
    by (auto simp: has_account_ids acc_delete_def)
  then show ?thesis using assms by (auto simp: wf_db_def list_all_iff) (auto simp: acc_delete_def distinct_map_filter)
qed

lemma wf_db_folders:
  assumes "wf_db d"
  shows "wf_db (snd (fold_add f d))" "wf_db (d\<lparr>sync_folders := filter q (sync_folders d)\<rparr>)"
proof -
  show "wf_db (d\<lparr>sync_folders := filter q (sync_folders d)\<rparr>)"
    using assms by (auto simp: wf_db_def distinct_map_filter list_all_iff has_account_def)
  show "wf_db (snd (fold_add f d))"
    using assms
    by (fastforce simp: wf_db_def fold_add_def fold_row_def Let_def list_all_iff list_ex_iff has_account_def)
qed

interpretation rwf: router_frame keeps_wf
  by unfold_locales
     (auto simp: keeps_wf_def wf_db_upsert wf_db_mark_trashed wf_db_q_insert wf_db_tok_set wf_db_v_insert wf_db_acc_insert
       wf_db_acc_delete wf_db_folders intro: wf_db_update_files wf_db_sub)

text \<open>Tasks are only ever appended, pending and not yet tried.\<close>

definition queue_grows :: "'x world \<Rightarrow> 'x world \<Rightarrow> bool" where
  "queue_grows w w' \<longleftrightarrow> (\<exists>new. sync_queue (w_db w') = sync_queue (w_db w) @ new \<and>
     list_all (\<lambda>r. q_status r = ''pending'' \<and> q_retry_count r = 0) new)"

lemma queue_grows_same: "sync_queue (w_db w') = sync_queue (w_db w) \<Longrightarrow> queue_grows w w'"
  by (simp add: queue_grows_def)

interpretation rqg: router_frame queue_grows
proof unfold_locales
  show "queue_grows w u" if "queue_grows w v" "queue_grows v u" for w v u :: "'x world"
    using that by (fastforce simp: queue_grows_def)
  show "queue_grows w (w\<lparr>w_db := q_insert t (w_db w)\<rparr>)" if "fresh_task t" for w :: "'x world" and t
    using that by (simp add: queue_grows_def q_insert_def q_row_def fresh_task_def)
qed (rule queue_grows_same; simp add: f_mark_trashed_def acc_insert_def acc_delete_def fold_add_def Let_def)+

text \<open>C18: whatever bytes a client sends, in whatever chunks, and whatever fails, the database stays sound and the queue
  keeps every task it had, unchanged and in order; what the client adds are pending tasks that have not been tried.\<close>

theorem connection_keeps_integrity:
  assumes "c' = handle_connection env tc wr evs c" and "wf_db (w_db (rt_world (cn_router c)))"
  shows "wf_db (w_db (rt_world (cn_router c'))) \<and> (\<exists>new. sync_queue (w_db (rt_world (cn_router c'))) = sync_queue (w_db (rt_world (cn_router c))) @ new \<and>
      list_all (\<lambda>t. q_status t = ''pending'' \<and> q_retry_count t = 0) new)"
  using rwf.R_connection [of c env tc wr evs] rqg.R_connection [of c env tc wr evs] assms
  by (simp_all add: on_worlds_def keeps_wf_def queue_grows_def)

theorem connection_keeps_integrity_witness:
  "wf_db (w_db (rt_world (cn_router (handle_connection sample_env sample_codec (\<lambda>_. True) ping_events
     (conn_new (sample_router (sample_world [1] 9 ())))))))"
proof -
  have "wf_db (w_db (rt_world (cn_router (conn_new (sample_router (sample_world [1] 9 ()))))))"
    by (simp add: conn_new_def sample_router_def sample_wf)
  from connection_keeps_integrity [OF refl this] show ?thesis by blast
qed

end
