(* ===== verification/Vfs_Effects.thy ===== *)
theory Vfs_Effects
  imports Vfs_Props
begin

text \<open>
  What the callbacks of the file system do when nothing fails: directories are listed completely, a new
  file can be found, written and read back, and the ways in which writing, closing and deleting fall
  short of a file system.
\<close>

section \<open>Stepping through a callback\<close>

lemma ends_or_fail [simp]:
  "ends (or_fail e m k) w Q = ends m w (\<lambda>r w'. case r of Inl _ \<Rightarrow> Q (Inl e) w' | Inr x \<Rightarrow> ends (k x) w' Q)"
  by (simp add: or_fail_def ends_def split: prod.splits sum.splits)

lemma ends_then_do [simp]:
  "ends (then_do m k) w Q = ends m w (\<lambda>r w'. case r of Inl e \<Rightarrow> Q (Inl e) w' | Inr x \<Rightarrow> ends (k x) w' Q)"
  by (simp add: then_do_def ends_def split: prod.splits sum.splits)

lemma ends_must_find [simp]:
  "ends (must_find m k) w Q =
     ends m w (\<lambda>r w'. case r of Inl _ \<Rightarrow> Q (Inl EIO) w' | Inr None \<Rightarrow> Q (Inl ENOENT) w' | Inr (Some x) \<Rightarrow> ends (k x) w' Q)"
  unfolding must_find_def ends_or_fail
  by (rule arg_cong [where f = "ends m w"]) (auto simp: fun_eq_iff split: sum.splits option.splits)

lemma ends_reply_with [simp]:
  "ends (reply_with g m f) w Q = ends m w (\<lambda>r w'. Q (case r of Inl e \<Rightarrow> ReError e | Inr x \<Rightarrow> f x, g) w')"
  by (simp add: reply_with_def)

lemma ends_session:
  "ends (vfs_session others fits g (q # qs)) w Q =
     ends (vfs_serve others fits g q) w (\<lambda>(r, g') w'. ends (vfs_session others fits g' qs) w' (\<lambda>(rs, g'') w''. Q (r # rs, g'') w''))"
  by (simp add: split_def)

declare vfs_session.simps(2) [simp del]

section \<open>Listing a directory\<close>

text \<open>A client that reads a directory page by page, continuing at the offset the last entry carries.\<close>

fun list_dir :: "nat \<Rightarrow> (dirent list \<Rightarrow> dirent \<Rightarrow> bool) \<Rightarrow> inode \<Rightarrow> nat \<Rightarrow> ('x world, errno + dirent list) state" where
  "list_dir 0 fits ino off = State_Monad.return (Inl EIO)"
| "list_dir (Suc n) fits ino off = then_do (vfs_readdir fits ino off) (\<lambda>es.
     if es = [] then State_Monad.return (Inr [])
     else then_do (list_dir n fits ino (de_next (last es))) (\<lambda>rest. State_Monad.return (Inr (es @ rest))))"

lemma fill_reply_take: "\<exists>k. fill_reply fits taken es = taken @ take k es \<and> k \<le> length es"
proof (induction fits taken es rule: fill_reply.induct)
  case (2 fits taken e es)
  then show ?case
  proof (cases "fits taken e")
    case True
    then obtain k where "fill_reply fits (taken @ [e]) es = (taken @ [e]) @ take k es" "k \<le> length es" using 2 by blast
    then show ?thesis using True by (intro exI [of _ "Suc k"]) simp
  qed (auto intro: exI [of _ 0])
qed simp

lemma fill_reply_some:
  assumes "fits [] e"
  shows "\<exists>k < Suc (length es). fill_reply fits [] (e # es) = e # take k es"
  using assms fill_reply_take [of fits "[e]" es] by (auto simp: less_Suc_eq_le)

lemma dir_entries_next: "i < length (dir_entries ino cs) \<Longrightarrow> de_next (dir_entries ino cs ! i) = Suc i"
  by (auto simp: dir_entries_def nth_Cons nth_enumerate_eq split: nat.splits)

lemma ends_vfs_readdir:
  assumes "no_faults w" and "0 < left_ops w" and "dir_entries ino (map meta_from_row (v_children ino (w_db w))) = es"
    and "\<And>w'. no_faults w' \<Longrightarrow> left_ops w = Suc (left_ops w') \<Longrightarrow> w_db w' = w_db w \<Longrightarrow> Q (Inr (fill_reply fits [] (drop off es))) w'"
  shows "ends (vfs_readdir fits ino off) w Q"
  using assms by (auto simp: vfs_readdir_def list_children_by_inode_def intro!: ends_db)

lemma list_dir_ends:
  fixes w :: "'x world"
  assumes "no_faults w" and "n \<le> left_ops w" and "length es - off < n" and "\<And>e. fits [] e"
    and es: "es = dir_entries ino (map meta_from_row (v_children ino (w_db w)))"
  shows "ends (list_dir n fits ino off) w (\<lambda>r w'. r = Inr (drop off es))"
  using assms
proof (induction n arbitrary: w off)
  case (Suc n)
  have rest: "ends (list_dir n fits ino off') w' (\<lambda>r w'. r = Inr (drop off' es))"
    if "no_faults w'" "left_ops w = Suc (left_ops w')" "w_db w' = w_db w" "off < off'" "off < length es" for w' :: "'x world" and off'
    using that Suc.prems by (intro Suc.IH) auto
  show ?case
  proof (cases "drop off es")
    case Nil
    then show ?thesis using Suc.prems(1,2) by (auto intro!: ends_vfs_readdir [OF _ _ Suc.prems(5) [symmetric]])
  next
    case (Cons e more)
    obtain k where k: "k < Suc (length more)" "fill_reply fits [] (e # more) = e # take k more"
      using fill_reply_some [of fits e more] Suc.prems(4) by auto
    have off: "off < length es" "length more = length es - Suc off" using Cons by (auto simp: drop_eq_Nil dest: arg_cong [where f = length])
    have at: "last (e # take k more) = es ! (off + k)"
    proof -
      have "e # take k more = take (Suc k) (drop off es)" by (simp add: Cons)
      moreover have "last (take (Suc k) (drop off es)) = es ! (off + k)"
        using off k(1) by (subst last_conv_nth) (auto simp: min_def intro!: arg_cong [where f = "(!) es"])
      ultimately show ?thesis by simp
    qed
    have nxt: "de_next (last (e # take k more)) = Suc (off + k)"
      unfolding at es using dir_entries_next off k(1) es by simp
    have all: "(e # take k more) @ drop (Suc (off + k)) es = e # more"
    proof -
      have "drop (Suc (off + k)) es = drop (Suc k) (drop off es)" by (simp add: add.commute)
      then show ?thesis by (simp add: Cons)
    qed
    have more: "ends (list_dir n fits ino (Suc (off + k))) w'
        (\<lambda>r w''. case r of Inl e' \<Rightarrow> False | Inr rest \<Rightarrow> e # take k more @ rest = e # more)"
      if "no_faults w'" "left_ops w = Suc (left_ops w')" "w_db w' = w_db w" for w' :: "'x world"
      by (rule ends_mono [OF rest [OF that(1-3), of "Suc (off + k)"]]) (use off(1) all in \<open>auto\<close>)
    then show ?thesis using Suc.prems(1,2) nxt
      by (auto simp: Cons k(2) simp del: last.simps fill_reply.simps intro!: ends_vfs_readdir [OF _ _ Suc.prems(5) [symmetric]] ends_mono [OF more] split: sum.splits)
  qed
qed simp

text \<open>A directory is listed completely, each entry once. However few entries a reply buffer takes, as
  long as it takes one, a client that continues where each page ended gets the two dot entries and
  then every live child exactly as the database has them, sorted by name.\<close>

theorem vfs_readdir_complete:
  assumes "no_faults w" and "can_run n w" and "\<And>e. fits [] e" and "length (v_children ino (w_db w)) + 2 < n"
  shows "fst (run_state (list_dir n fits ino 0) w) = Inr (dir_entries ino (map meta_from_row (v_children ino (w_db w)))) \<and>
    map de_name (drop 2 (dir_entries ino (map meta_from_row (v_children ino (w_db w))))) =
      sort (map r_name (filter (\<lambda>r. child_of (w_db w) ino r \<and> live r) (drive_files (w_db w))))"
proof
  show "fst (run_state (list_dir n fits ino 0) w) = Inr (dir_entries ino (map meta_from_row (v_children ino (w_db w))))"
    using list_dir_ends [OF assms(1) can_run_left [OF assms(2)], of _ 0 fits, OF _ assms(3) refl, of ino] assms(4)
    by (simp add: dir_entries_def ends_def split: prod.splits)
  have "map de_name (drop 2 (dir_entries ino (map meta_from_row (v_children ino (w_db w))))) = map r_name (v_children ino (w_db w))"
    by (auto simp: dir_entries_def meta_from_row_def intro!: nth_equalityI simp: nth_enumerate_eq)
  also have "\<dots> = sort (map r_name (filter (\<lambda>r. child_of (w_db w) ino r \<and> live r) (drive_files (w_db w))))"
    by (rule properties_for_sort [symmetric]) (simp_all add: v_children_def)
  finally show "map de_name (drop 2 (dir_entries ino (map meta_from_row (v_children ino (w_db w))))) =
      sort (map r_name (filter (\<lambda>r. child_of (w_db w) ino r \<and> live r) (drive_files (w_db w))))" .
qed

theorem vfs_readdir_complete_witness:
  "fst (run_state (list_dir 4 (\<lambda>taken _. taken = []) 0 0) (sample_world [] 4 ())) =
     Inr [\<lparr>de_ino = 0, de_next = 1, de_kind = Directory, de_name = ''.''\<rparr>, \<lparr>de_ino = 0, de_next = 2, de_kind = Directory, de_name = ''..''\<rparr>,
          \<lparr>de_ino = 1, de_next = 3, de_kind = RegularFile, de_name = ''a.bin''\<rparr>]"
proof -
  have "v_children 0 sample_db = [sample_row]"
    by (simp add: v_children_def child_of_def ROOT_INODE_def live_def sample_row_def)
  then show ?thesis
    using vfs_readdir_complete [of "sample_world [] 4 ()" 4 "\<lambda>taken _. taken = []" 0]
    by (simp add: dir_entries_def ROOT_INODE_def meta_from_row_def row_inode_def sample_row_def FOLDER_MIME_def)
qed

section \<open>Writing\<close>

lemma ends_vfs_write:
  assumes "no_faults w" and "3 \<le> left_ops w" and "valid_handle g fh ino = Some h" and "0 \<le> off"
    and "oh_local_path h \<notin> fs_dirs (w_fs w)" and "parent_ok (w_fs w) (oh_local_path h)"
    and Q: "\<And>w' t m. no_faults w' \<Longrightarrow> left_ops w = left_ops w' + 3 \<Longrightarrow>
      w_fs w' = (w_fs w)\<lparr>fs_files := (fs_files (w_fs w))(oh_local_path h \<mapsto>
        \<lparr>f_bytes = (if content = [] then [] else replicate (nat off) 0 @ content), f_mtime = m\<rparr>)\<rparr> \<Longrightarrow>
      w_db w' = v_update ino (\<lambda>r. r\<lparr>r_size := Some (off + int (length content)), r_modified_time := Some t,
        r_sync_state := ''modified''\<rparr>) (w_db w) \<Longrightarrow> Q (Inr (length content)) w'"
  shows "ends (vfs_write g ino fh off content) w Q"
  using assms(1-6)
  by (auto simp: vfs_write_def fs_create_def fs_pwrite_def update_file_size_mtime_def pwrite_def intro!: ends_db ends_fs Q) (rule refl)+

text \<open>A write erases the rest of the file. Each write opens the file truncated, so a successful write at
  an offset leaves zeros up to the offset and then the new bytes, whatever the file held before; the
  database gets the matching size and marks the file modified.\<close>

theorem vfs_write_truncates:
  assumes "no_faults w" and "can_run 3 w" and "valid_handle g fh ino = Some h" and "0 \<le> off"
    and "oh_local_path h \<notin> fs_dirs (w_fs w)" and "parent_ok (w_fs w) (oh_local_path h)"
  shows "\<exists>w' f t. run_state (vfs_write g ino fh off content) w = (Inr (length content), w') \<and>
    fs_files (w_fs w') = (fs_files (w_fs w))(oh_local_path h \<mapsto> f) \<and>
    f_bytes f = (if content = [] then [] else replicate (nat off) 0 @ content) \<and>
    w_db w' = v_update ino (\<lambda>r. r\<lparr>r_size := Some (off + int (length content)), r_modified_time := Some t,
      r_sync_state := ''modified''\<rparr>) (w_db w)"
proof -
  have "ends (vfs_write g ino fh off content) w (\<lambda>res w'. \<exists>f t. res = Inr (length content) \<and>
      fs_files (w_fs w') = (fs_files (w_fs w))(oh_local_path h \<mapsto> f) \<and> f_bytes f = (if content = [] then [] else replicate (nat off) 0 @ content) \<and>
      w_db w' = v_update ino (\<lambda>r. r\<lparr>r_size := Some (off + int (length content)), r_modified_time := Some t, r_sync_state := ''modified''\<rparr>) (w_db w))"
    by (rule ends_vfs_write [OF assms(1) can_run_left [OF assms(2)] assms(3-6)], intro exI conjI, rule refl) (assumption | simp)+
  then show ?thesis by (auto simp: ends_run)
qed

definition sample_gfs :: gfs where
  "sample_gfs = snd (new_handle (gfs_new ''/cache'') \<lparr>oh_ino = 1, oh_flags = 0, oh_local_path = ''/drive/a.bin''\<rparr>)"

lemma sample_gfs_handle [simp]:
  "valid_handle sample_gfs 1 1 = Some \<lparr>oh_ino = 1, oh_flags = 0, oh_local_path = ''/drive/a.bin''\<rparr>"
  "vf_open_files sample_gfs 1 = Some \<lparr>oh_ino = 1, oh_flags = 0, oh_local_path = ''/drive/a.bin''\<rparr>"
  by (simp_all add: sample_gfs_def gfs_new_def new_handle_def valid_handle_def)

lemma sample_parents [simp]:
  "path_parent ''/drive/a.bin'' = Some ''/drive''" "parent_ok (sample_fs bs) ''/drive/a.bin''"
  by (simp_all add: path_parent_def path_comps_def path_is_abs_def path_render_def parent_ok_def sample_fs_def)

theorem vfs_write_truncates_witness:
  "\<exists>w' f. run_state (vfs_write sample_gfs 1 1 2 [7, 8]) (sample_world [] 3 ()) = (Inr 2, w') \<and>
     fs_files (w_fs w') ''/drive/a.bin'' = Some f \<and> f_bytes f = [0, 0, 7, 8]"
  using vfs_write_truncates [where w = "sample_world [] 3 ()" and g = sample_gfs and fh = 1 and ino = 1 and off = 2 and content = "[7, 8]"]
  by (simp add: numeral_2_eq_2) (auto simp: sample_fs_def)

section \<open>Closing\<close>

definition upload_of :: "file_details \<Rightarrow> open_handle \<Rightarrow> sync_task_row \<Rightarrow> bool" where
  "upload_of d h r \<longleftrightarrow> q_operation r = ''upload'' \<and> q_account_id r = fd_account_id d \<and> q_file_id r = Some (fd_file_id d) \<and>
     q_local_path r = Some (oh_local_path h) \<and> q_status r = ''pending'' \<and> q_retry_count r = 0"

definition upload_task :: "int \<Rightarrow> file_details \<Rightarrow> open_handle \<Rightarrow> sync_task" where
  "upload_task now d h = vfs_task now (fd_account_id d) (fd_file_id d) ''upload'' (Some (oh_local_path h))"

lemma upload_of_task: "upload_of d h (q_row i (upload_task now d h))"
  by (simp add: upload_of_def upload_task_def vfs_task_def q_row_def)

lemma ends_push_modified:
  assumes "no_faults w" and "2 \<le> left_ops w" and "valid_handle g fh ino = Some h"
    and "v_by_inode ino (w_db w) = Some row" and "r_sync_state row = ''modified''"
    and Q: "\<And>w' now. no_faults w' \<Longrightarrow> left_ops w = left_ops w' + 2 \<Longrightarrow> w_db w' = q_insert (upload_task now (details_from_row row) h) (w_db w) \<Longrightarrow>
      w_fs w' = w_fs w \<Longrightarrow> w_ext w' = w_ext w \<Longrightarrow> Q (Inr ()) w'"
  shows "ends (push_modified g ino fh) w Q"
proof -
  have "fd_sync_state (details_from_row row) = ''modified''" using assms(5) by (simp add: details_from_row_def)
  then show ?thesis
    using assms(1-4)
    by (auto simp: push_modified_def get_file_details_by_inode_def enqueue_upload_task_def vfs_enqueue_task_def
        upload_task_def intro!: ends_db Q) (rule refl)+
qed

lemma flush_session:
  assumes "no_faults w" and "2 * n \<le> left_ops w" and "valid_handle g fh ino = Some h"
    and "v_by_inode ino (w_db w) = Some row" and "r_sync_state row = ''modified''"
  shows "ends (vfs_session others fits g (replicate n (Flush ino fh))) w (\<lambda>r w'. r = (replicate n ReOk, g) \<and>
    (\<exists>rs. sync_queue (w_db w') = sync_queue (w_db w) @ rs \<and> length rs = n \<and> list_all (upload_of (details_from_row row) h) rs) \<and>
    drive_files (w_db w') = drive_files (w_db w) \<and> w_ext w' = w_ext w)"
  using assms
proof (induction n arbitrary: w)
  case (Suc n)
  have rest: "ends (vfs_session others fits g (replicate n (Flush ino fh))) w'
      (\<lambda>r w''. r = (replicate n ReOk, g) \<and> (\<exists>rs. sync_queue (w_db w'') = sync_queue (w_db w) @ rs \<and> length rs = Suc n \<and>
        list_all (upload_of (details_from_row row) h) rs) \<and> drive_files (w_db w'') = drive_files (w_db w) \<and> w_ext w'' = w_ext w)"
    if "no_faults w'" "left_ops w = left_ops w' + 2" "w_ext w' = w_ext w"
      and db: "w_db w' = q_insert (upload_task now (details_from_row row) h) (w_db w)" for w' now
  proof (rule ends_mono [OF Suc.IH])
    let ?r = "q_row (queue_seq (w_db w) + 1) (upload_task now (details_from_row row) h)"
    show "v_by_inode ino (w_db w') = Some row" using Suc.prems(4) db by (simp add: v_by_inode_def q_insert_def)
    fix r w''
    assume IH: "r = (replicate n ReOk, g) \<and> (\<exists>rs. sync_queue (w_db w'') = sync_queue (w_db w') @ rs \<and> length rs = n \<and>
        list_all (upload_of (details_from_row row) h) rs) \<and> drive_files (w_db w'') = drive_files (w_db w') \<and> w_ext w'' = w_ext w'"
    then obtain rs where "sync_queue (w_db w'') = sync_queue (w_db w') @ rs" "length rs = n" "list_all (upload_of (details_from_row row) h) rs"
      by blast
    then show "r = (replicate n ReOk, g) \<and> (\<exists>rs. sync_queue (w_db w'') = sync_queue (w_db w) @ rs \<and> length rs = Suc n \<and>
        list_all (upload_of (details_from_row row) h) rs) \<and> drive_files (w_db w'') = drive_files (w_db w) \<and> w_ext w'' = w_ext w"
      using IH that db by (auto simp: q_insert_def upload_of_task intro!: exI [of _ "?r # rs"])
  qed (use that Suc.prems in simp_all)
  then show ?case
    using Suc.prems
    by (auto simp: ends_session vfs_flush_def intro!: ends_push_modified [where row = row and h = h] ends_mono [OF rest])
qed auto

text \<open>Every close uploads again. Flushing a modified file enqueues an upload task and leaves it
  marked modified, so \<open>n\<close> flushes, one for every duplicated descriptor that is closed, enqueue \<open>n\<close>
  uploads of the same file.\<close>

theorem vfs_flush_repeats:
  assumes "no_faults w" and "can_run (2 * n) w" and "valid_handle g fh ino = Some h"
    and "v_by_inode ino (w_db w) = Some row" and "r_sync_state row = ''modified''"
  shows "\<exists>w' rs. run_state (vfs_session others fits g (replicate n (Flush ino fh))) w = ((replicate n ReOk, g), w') \<and>
    sync_queue (w_db w') = sync_queue (w_db w) @ rs \<and> length rs = n \<and> list_all (upload_of (details_from_row row) h) rs \<and>
    drive_files (w_db w') = drive_files (w_db w)"
  using flush_session [OF assms(1) can_run_left [OF assms(2)] assms(3-5), of others fits] by (auto simp: ends_run)

section \<open>Deleting\<close>

text \<open>Services on which every Drive and Photos request fails; only tokens still work.\<close>

definition offline :: "'x services \<Rightarrow> 'x services" where
  "offline sv = null_services\<lparr>sv_refresh_access_token := sv_refresh_access_token sv, sv_keyring_get := sv_keyring_get sv,
     sv_keyring_set := sv_keyring_set sv, sv_keyring_delete := sv_keyring_delete sv, sv_parse_rfc3339 := sv_parse_rfc3339 sv,
     sv_local_time := sv_local_time sv\<rparr>"

lemma offline_tokens [simp]:
  "sv_refresh_access_token (offline sv) = sv_refresh_access_token sv" "sv_keyring_get (offline sv) = sv_keyring_get sv"
  "sv_keyring_set (offline sv) = sv_keyring_set sv"
  by (simp_all add: offline_def)

lemma build_client_offline: "build_client_for_account (offline sv) acct = build_client_for_account sv acct"
  unfolding build_client_for_account_def load_refresh_token_def adopt_token_set_def save_refresh_token_def offline_tokens ..

definition drive_operation :: "string \<Rightarrow> bool" where
  "drive_operation oper \<longleftrightarrow> oper = ''upload'' \<or> oper = ''download'' \<or> oper = ''photos_backup''"

lemma delete_offline: "t_file_id t = Some i \<Longrightarrow> delete_file (offline sv) c t = delete_file sv c t"
  by (simp add: delete_file_def split: option.split)

lemma process_task_offline:
  assumes "\<not> drive_operation (t_operation t)" and "t_operation t = ''delete'' \<Longrightarrow> t_file_id t \<noteq> None"
  shows "process_task (offline sv) t = process_task sv t"
  using assms
  by (auto simp: process_task_def run_with_client_def build_client_offline delete_offline drive_operation_def)

lemma find_unique:
  assumes "distinct (map key rs)" and "r \<in> set rs" and "P r" and "\<And>s. s \<in> set rs \<Longrightarrow> P s \<Longrightarrow> key s = key r"
  shows "find P rs = Some r"
  using assms
proof (induction rs)
  case (Cons s rs)
  show ?case
  proof (cases "P s")
    case True
    then have "key s = key r" using Cons.prems(4) by simp
    then have "s = r" using Cons.prems(1,2) by (auto simp: rev_image_eqI)
    then show ?thesis using True by simp
  next
    case False
    then show ?thesis using Cons.prems by (auto intro!: Cons.IH)
  qed
qed simp

lemma v_by_row_inode:
  assumes "wf_db d" and "r \<in> set (drive_files d)" and "live r" and "r_rowid r < 2 ^ 63"
  shows "v_by_inode (row_inode r) d = Some r"
proof -
  have "0 < r_rowid r" using assms(1,2) by (auto simp: wf_db_def list_all_iff)
  then have "sint (row_inode r) = r_rowid r" using assms(4) by (simp add: row_inode_def sint_word_of_rowid)
  then show ?thesis
    using assms unfolding v_by_inode_def
    by (intro find_unique [where key = r_rowid]) (auto simp: wf_db_def has_inode_def)
qed

text \<open>Deleting through the file system never deletes on Drive. An \<^verbatim>\<open>unlink\<close> that succeeds hides the
  file, removes the cached copy and enqueues a delete task with the file's id; the engine takes a
  delete task with an id for a deletion that came from Drive, so processing it behaves exactly as with
  services on which no Drive request works.\<close>

theorem vfs_delete_stays_local:
  fixes w :: "'x world" and sv :: "'x services"
  assumes "no_faults w" and "can_run 5 w" and "wf_db (w_db w)"
    and "v_lookup parent s (w_db w) = Some r" and "r_mime_type r \<noteq> FOLDER_MIME" and "r_rowid r < 2 ^ 63"
  shows "\<exists>w' task. run_state (vfs_unlink parent (Some s)) w = (Inr (), w') \<and> v_by_inode (row_inode r) (w_db w') = None \<and>
    sync_queue (w_db w') = sync_queue (w_db w) @ [task] \<and> q_operation task = ''delete'' \<and> q_file_id task = Some (r_id r) \<and>
    w_ext w' = w_ext w \<and> process_task sv (task_from_row task) = process_task (offline sv) (task_from_row task)"
proof -
  have row: "r \<in> set (drive_files (w_db w))" "live r" using assms(4) by (auto simp: v_lookup_def dest!: find_SomeD)
  have details: "v_by_inode (row_inode r) (w_db w) = Some r" by (rule v_by_row_inode [OF assms(3) row assms(6)])
  have gone: "v_by_inode i (v_update i (\<lambda>r. r\<lparr>r_is_trashed := 1\<rparr>) d) = None" for i d
    by (auto simp: v_by_inode_def v_update_def find_None_iff set_update_where has_inode_def live_def)
  let ?Q = "\<lambda>res w'. res = Inr () \<and> v_by_inode (row_inode r) (w_db w') = None \<and> w_ext w' = w_ext w \<and>
    (\<exists>task. sync_queue (w_db w') = sync_queue (w_db w) @ [task] \<and> q_operation task = ''delete'' \<and> q_file_id task = Some (r_id r))"
  have "ends (vfs_unlink parent (Some s)) w ?Q"
    using assms(1,4,5) can_run_left [OF assms(2)] details
    by (auto simp: vfs_unlink_def with_name_def lookup_by_parent_and_name_def meta_from_row_def get_file_details_by_inode_def
        details_from_row_def vfs_enqueue_task_def soft_delete_by_inode_def fs_remove_def q_insert_def q_row_def vfs_task_def gone
        intro!: ends_db ends_fs split: option.splits)
  then obtain w' task where run: "run_state (vfs_unlink parent (Some s)) w = (Inr (), w')"
      "v_by_inode (row_inode r) (w_db w') = None" "w_ext w' = w_ext w"
    and task: "sync_queue (w_db w') = sync_queue (w_db w) @ [task]" "q_operation task = ''delete''" "q_file_id task = Some (r_id r)"
    by (auto simp: ends_run)
  have "process_task sv (task_from_row task) = process_task (offline sv) (task_from_row task)"
    by (rule process_task_offline [symmetric]) (simp_all add: task drive_operation_def)
  then show ?thesis using run task by blast
qed

theorem vfs_delete_stays_local_witness:
  "\<exists>w' task. run_state (vfs_unlink 0 (Some ''a.bin'')) (sample_world [] 5 ()) = (Inr (), w') \<and>
     sync_queue (w_db w') = [upload_row, download_row1, task] \<and> q_operation task = ''delete'' \<and>
     process_task (null_services :: unit services) (task_from_row task) = process_task (offline null_services) (task_from_row task)"
proof -
  have "v_lookup 0 ''a.bin'' sample_db = Some sample_row"
    by (simp add: v_lookup_def child_of_def ROOT_INODE_def live_def sample_row_def)
  then have "\<exists>w' task. run_state (vfs_unlink 0 (Some ''a.bin'')) (sample_world [] 5 ()) = (Inr (), w') \<and>
      v_by_inode (row_inode sample_row) (w_db w') = None \<and>
      sync_queue (w_db w') = sync_queue (w_db (sample_world [] 5 ())) @ [task] \<and> q_operation task = ''delete'' \<and>
      q_file_id task = Some (r_id sample_row) \<and> w_ext w' = w_ext (sample_world [] 5 ()) \<and>
      process_task (null_services :: unit services) (task_from_row task) = process_task (offline null_services) (task_from_row task)"
    by (intro vfs_delete_stays_local) (simp_all add: sample_wf FOLDER_MIME_def sample_row_def)
  then show ?thesis by auto
qed

section \<open>A new file\<close>

text \<open>The account and parent id a new entry of a directory gets.\<close>

definition parent_owner :: "inode \<Rightarrow> database \<Rightarrow> (string \<times> string option) option" where
  "parent_owner parent d =
     (if parent = ROOT_INODE then map_option (\<lambda>a. (a_id a, None)) (first_min (\<lambda>a. - a_last_used_at a) (accounts d))
      else map_option (\<lambda>r. (r_account_id r, Some (r_id r))) (v_by_inode parent d))"

lemma ends_owner_of:
  assumes "no_faults w" and "0 < left_ops w" and "parent_owner parent (w_db w) = Some ow"
    and "\<And>w'. no_faults w' \<Longrightarrow> left_ops w = Suc (left_ops w') \<Longrightarrow> w_db w' = w_db w \<Longrightarrow> w_fs w' = w_fs w \<Longrightarrow> Q (Inr ow) w'"
  shows "ends (owner_of parent) w Q"
  using assms
  by (auto simp: owner_of_def get_parent_info_def get_first_account_id_def parent_owner_def intro!: ends_db split: if_splits option.splits)

lemma parent_owner_account: "wf_db d \<Longrightarrow> parent_owner parent d = Some (acct, pid) \<Longrightarrow> has_account d acct"
  by (auto simp: parent_owner_def wf_db_def has_account_def v_by_inode_def list_all_iff list_ex_iff
      dest!: first_min_SomeD find_SomeD split: if_splits)

definition new_row :: "int \<Rightarrow> string \<Rightarrow> string \<Rightarrow> string \<Rightarrow> string option \<Rightarrow> string \<Rightarrow> database \<Rightarrow> drive_file_row" where
  "new_row now file_id acct s pid p d =
     row_from_file (next_rowid d) (local_row now file_id acct s (guess_mime_from_name s) pid (Some p) ''modified'')"

definition with_row :: "database \<Rightarrow> drive_file_row \<Rightarrow> database" where
  "with_row d r = d\<lparr>drive_files := drive_files d @ [r]\<rparr>"

lemma queue_simps:
  "sync_queue (with_row d r) = sync_queue d" "sync_queue (q_insert t d) = sync_queue d @ [q_row (queue_seq d + 1) t]"
  by (simp_all add: with_row_def q_insert_def)

lemma v_by_inode_new:
  assumes "next_rowid d < 2 ^ 63" and "r_rowid r = next_rowid d" and "live r"
  shows "v_by_inode (word_of_int (next_rowid d)) (with_row d r) = Some r"
proof -
  have "sint (word_of_int (next_rowid d) :: inode) = next_rowid d"
    using next_rowid_pos [of d] assms(1) by (intro sint_word_of_rowid)
  moreover have "find (\<lambda>r'. has_inode (word_of_int (next_rowid d)) r' \<and> live r') (drive_files d) = None"
    using next_rowid_fresh [of _ d] calculation by (fastforce simp: find_None_iff has_inode_def)
  ultimately show ?thesis using assms(2,3) by (simp add: v_by_inode_def with_row_def find_append has_inode_def)
qed

lemma v_lookup_new:
  assumes "v_lookup parent s d = None" and "parent_owner parent d = Some (acct, pid)"
    and "r_rowid r = next_rowid d" "live r" "r_name r = s" "r_account_id r = acct" "r_parent_id r = pid"
  shows "v_lookup parent s (with_row d r) = Some r"
proof -
  have old: "child_of (with_row d r) parent r' = child_of d parent r'" for r'
  proof (cases "parent = ROOT_INODE")
    case False
    then obtain p where "p \<in> set (drive_files d)" "has_inode parent p"
      using assms(2) by (auto simp: parent_owner_def v_by_inode_def dest!: find_SomeD)
    then have "\<not> has_inode parent r" using next_rowid_fresh [of p d] assms(3) by (auto simp: has_inode_def)
    then show ?thesis by (simp add: child_of_def with_row_def)
  qed (simp add: child_of_def)
  have "child_of d parent r"
    using assms(2,6,7) by (auto simp: child_of_def parent_owner_def v_by_inode_def list_ex_iff dest!: find_SomeD split: if_splits)
  then show ?thesis
    using assms(1,4,5) old by (simp add: v_lookup_def find_append with_row_def)
qed

lemma ends_vfs_create:
  assumes "no_faults w" and "3 \<le> left_ops w" and "wf_db (w_db w)" and owner: "parent_owner parent (w_db w) = Some (acct, pid)"
    and p: "p = cache_path g acct file_id" "file_id = ''local-'' @ show_nat ns"
    and new: "\<not> list_ex (\<lambda>r. file_key r = (file_id, acct)) (drive_files (w_db w))"
    and dir: "path_parent p = Some dir" "dir \<in> fs_dirs (w_fs w)" "p \<notin> fs_dirs (w_fs w)"
    and ino: "ino = word_of_int (next_rowid (w_db w))"
    and Q: "\<And>w' now m a. no_faults w' \<Longrightarrow> left_ops w = left_ops w' + 3 \<Longrightarrow> w_db w' = with_row (w_db w) (new_row now file_id acct s pid p (w_db w)) \<Longrightarrow>
      w_fs w' = (w_fs w)\<lparr>fs_files := (fs_files (w_fs w))(p \<mapsto> \<lparr>f_bytes = [], f_mtime = m\<rparr>)\<rparr> \<Longrightarrow> fa_ino a = ino \<Longrightarrow>
      Q (Inr (a, new_handle g \<lparr>oh_ino = ino, oh_flags = flags, oh_local_path = p\<rparr>)) w'"
  shows "ends (vfs_create g parent (Some s) flags ns) w Q"
proof -
  have insert: "v_insert (local_row now file_id acct s (guess_mime_from_name s) pid (Some p) ''modified'') (w_db w)
      = (Inr (next_rowid (w_db w)), with_row (w_db w) (new_row now file_id acct s pid p (w_db w)))" for now
    using new parent_owner_account [OF assms(3) owner] by (simp add: v_insert_def local_row_def new_row_def with_row_def)
  have ends: "ends (insert_local_file file_id acct s (guess_mime_from_name s) pid p) w1 Q'"
    if "no_faults w1" "0 < left_ops w1" "w_db w1 = w_db w"
      and Q': "\<And>w' now. no_faults w' \<Longrightarrow> left_ops w1 = Suc (left_ops w') \<Longrightarrow> w_db w' = with_row (w_db w) (new_row now file_id acct s pid p (w_db w)) \<Longrightarrow>
        w_fs w' = w_fs w1 \<Longrightarrow> Q' (Inr ino) w'" for w1 Q'
    unfolding insert_local_file_def using that(1-3)
    by (auto simp: insert simp flip: ino intro!: ends_db Q')
  show ?thesis
    using assms(1,2) owner dir
    by (auto simp: vfs_create_def with_name_def Let_def ensure_parent_def fs_exists_def fs_create_def parent_ok_def p(1) [symmetric] p(2) [simplified, symmetric]
        intro!: ends_owner_of ends ends_fs Q) (rule refl)+
qed

lemma live_row [simp]: "live (row_from_file i f) = (\<not> d_is_trashed f)"
  by (simp add: live_def row_from_file_def bool_i64_def)

lemma new_row_simps [simp]:
  "r_rowid (new_row now i acct s pid p d) = next_rowid d" "live (new_row now i acct s pid p d)"
  "r_name (new_row now i acct s pid p d) = s" "r_account_id (new_row now i acct s pid p d) = acct"
  "r_parent_id (new_row now i acct s pid p d) = pid" "r_id (new_row now i acct s pid p d) = i"
  "r_local_path (new_row now i acct s pid p d) = Some p"
  by (simp_all add: new_row_def local_row_def) (simp_all add: row_from_file_def local_row_def)

lemma v_by_inode_update:
  assumes "v_by_inode ino d = Some r" and "\<And>r. r_rowid (f r) = r_rowid r \<and> r_is_trashed (f r) = r_is_trashed r"
  shows "v_by_inode ino (v_update ino f d) = Some (f r)"
  using assms find_SomeD [of _ "drive_files d" r]
  by (auto simp: v_by_inode_def v_update_def find_update_where has_inode_def live_def)

lemma v_by_inode_q_insert [simp]: "v_by_inode ino (q_insert t d) = v_by_inode ino d"
  by (simp add: v_by_inode_def q_insert_def)

lemma ends_vfs_lookup:
  assumes "no_faults w" and "0 < left_ops w" and "v_lookup parent s (w_db w) = Some r"
    and "\<And>w' ttl a. no_faults w' \<Longrightarrow> left_ops w = Suc (left_ops w') \<Longrightarrow> w_db w' = w_db w \<Longrightarrow> w_fs w' = w_fs w \<Longrightarrow>
      fa_ino a = row_inode r \<Longrightarrow> Q (Inr (ttl, a)) w'"
  shows "ends (vfs_lookup parent (Some s)) w Q"
  using assms
  by (auto simp: vfs_lookup_def with_name_def lookup_by_parent_and_name_def file_to_attr_def meta_from_row_def intro!: ends_db)

lemma ends_vfs_read_local:
  assumes "no_faults w" and "3 \<le> left_ops w" and "valid_handle g fh ino = Some h" and "0 \<le> off"
    and "v_by_inode ino (w_db w) = Some r" and "r_sync_state r \<noteq> ''cloud_only''" and "r_local_path r = Some p"
    and "fs_files (w_fs w) p = Some f"
    and "\<And>w'. no_faults w' \<Longrightarrow> left_ops w = left_ops w' + 3 \<Longrightarrow> w_db w' = w_db w \<Longrightarrow> w_fs w' = w_fs w \<Longrightarrow>
      Q (Inr (take len (drop (nat off) (f_bytes f)))) w'"
  shows "ends (vfs_read others g ino fh off len) w Q"
  using assms
  by (auto simp: vfs_read_def get_file_details_by_inode_def details_from_row_def details_path_def read_slice_def fs_open_def fs_exists_def
      fs_read_def intro!: ends_db ends_fs)



section \<open>Renaming\<close>

text \<open>
  Renaming moves the cached copy to the new name beside it, over whatever is there, but the database
  keeps the old local path: afterwards the recorded copy does not exist. All cached files of an
  account share one directory, so a file of the same name in another folder loses its copy.
\<close>

theorem vfs_rename_detaches_copy:
  assumes "no_faults w" and "can_run 6 w" and "wf_db (w_db w)"
    and "v_lookup parent s (w_db w) = Some r" and "r_rowid r < 2 ^ 63" and "v_lookup ROOT_INODE s' (w_db w) = None"
    and "r_local_path r = Some p" and "fs_files (w_fs w) p = Some f" and "path_parent p = Some dir" and "new = path_join dir s'"
    and "new \<notin> fs_dirs (w_fs w)" and "parent_ok (w_fs w) new"
  shows "\<exists>w' r'. run_state (vfs_rename parent (Some s) ROOT_INODE (Some s')) w = (Inr (), w') \<and>
    fs_files (w_fs w') = (fs_files (w_fs w))(p := None, new \<mapsto> f) \<and>
    v_by_inode (row_inode r) (w_db w') = Some r' \<and> r_name r' = s' \<and> r_local_path r' = Some p"
proof -
  have row: "r \<in> set (drive_files (w_db w))" "live r" using assms(4) by (auto simp: v_lookup_def dest!: find_SomeD)
  have details: "v_by_inode (row_inode r) (w_db w) = Some r" by (rule v_by_row_inode [OF assms(3) row assms(5)])
  let ?upd = "\<lambda>now r. r\<lparr>r_name := s', r_parent_id := None, r_modified_time := Some now, r_sync_state := ''modified''\<rparr>"
  have renamed: "v_by_inode (row_inode r) (v_update (row_inode r) (?upd now) (w_db w)) = Some (?upd now r)" for now
    using v_by_inode_update [OF details, of "?upd now"] by simp
  have inode: "fm_inode (meta_from_row r) = row_inode r" by (simp add: meta_from_row_def)
  have local: "fd_local_path (details_from_row (?upd now r)) = Some p" for now by (simp add: details_from_row_def assms(7))
  let ?Q = "\<lambda>res w'. res = Inr () \<and> fs_files (w_fs w') = (fs_files (w_fs w))(p := None, new \<mapsto> f) \<and>
    (case v_by_inode (row_inode r) (w_db w') of None \<Rightarrow> False | Some r' \<Rightarrow> r_name r' = s' \<and> r_local_path r' = Some p)"
  have "ends (vfs_rename parent (Some s) ROOT_INODE (Some s')) w ?Q"
    using assms(1,4,6,8,9,11,12) can_run_left [OF assms(2)]
    by (auto simp: vfs_rename_def with_name_def lookup_by_parent_and_name_def new_parent_id_def rename_file_def inode renamed local
        get_file_details_by_inode_def vfs_enqueue_task_def move_cached_def fs_exists_def fs_rename_def assms(7,10)
        intro!: ends_db ends_fs)
  then show ?thesis by (auto simp: ends_run split: option.splits)
qed

section \<open>The root\<close>

text \<open>
  The kernel names the root of a FUSE mount by the node id 1 (\<^verbatim>\<open>FUSE_ROOT_ID\<close>); the file system keeps 0 for
  it. The root of the mount is therefore whatever file happens to have rowid 1, or nothing at all.
\<close>

definition FUSE_ROOT_ID :: inode where "FUSE_ROOT_ID = 1"

theorem vfs_mount_root_is_first_row:
  assumes "no_faults w" and "can_run 1 w"
  shows "fst (run_state (vfs_getattr FUSE_ROOT_ID) w) =
    (case v_by_inode FUSE_ROOT_ID (w_db w) of
       None \<Rightarrow> Inl ENOENT
     | Some r \<Rightarrow> Inr (attr_ttl (file_to_attr (meta_from_row r)), file_to_attr (meta_from_row r)))"
proof -
  have "ends (vfs_getattr FUSE_ROOT_ID) w (\<lambda>res _. res = (case v_by_inode FUSE_ROOT_ID (w_db w) of
       None \<Rightarrow> Inl ENOENT
     | Some r \<Rightarrow> Inr (attr_ttl (file_to_attr (meta_from_row r)), file_to_attr (meta_from_row r))))"
    using assms(1) can_run_left [OF assms(2)]
    by (auto simp: vfs_getattr_def FUSE_ROOT_ID_def ROOT_INODE_def get_file_by_inode_def intro!: ends_db split: option.splits)
  then show ?thesis by (simp add: ends_def split: prod.splits)
qed

end
