(* ===== verification/Vfs_Demand.thy ===== *)
theory Vfs_Demand
  imports Vfs_Effects
begin

text \<open>
  Reading a file that is only on Drive: the file system enqueues a download, the engine serves it while
  the read waits, and the read returns the bytes Drive delivered.
\<close>

text \<open>A database statement that does not fail, with the operation count and what it leaves alone.\<close>

lemma ends_db_env:
  assumes "no_faults w" and "0 < left_ops w"
    and "\<And>w'. no_faults w' \<Longrightarrow> left_ops w = Suc (left_ops w') \<Longrightarrow> w_ops w' = Suc (w_ops w) \<Longrightarrow> w_db w' = snd (f (w_db w)) \<Longrightarrow>
      w_fs w' = w_fs w \<Longrightarrow> w_ext w' = w_ext w \<Longrightarrow> w_clock w' = w_clock w \<Longrightarrow> w_tokens w' = w_tokens w \<Longrightarrow> w_oauth w' = w_oauth w \<Longrightarrow>
      Q (fst (f (w_db w))) w'"
  shows "ends (db_exec f) w Q"
  using assms(1,2) assms(3) [of "tick (w\<lparr>w_db := snd (f (w_db w))\<rparr>)"]
  by (cases "f (w_db w)") (auto simp: ends_def db_exec_def halted_def no_faults_def left_ops_def)

lemma sync_state_files_map:
  "map_option r_sync_state (find (\<lambda>r. file_key r = k) (drive_files d)) = map_option d_sync_state (files_map d k)"
  by (cases k) (auto simp: files_map_def f_get_def file_from_row_def option.map_comp o_def)

definition cached_client :: "token_set \<Rightarrow> string \<Rightarrow> (string \<times> string) option \<Rightarrow> drive_client" where
  "cached_client ts acct oauth = \<lparr>c_token = ts_access_token ts, c_refresher = (case oauth of None \<Rightarrow> None | Some _ \<Rightarrow> Some acct)\<rparr>"

lemma ends_cached_client:
  assumes "w_tokens w acct = Some ts" and "\<not> should_refresh (w_clock w (w_ops w)) ts"
  shows "ends (build_client_for_account sv acct) w Q = Q (Some (cached_client ts acct (w_oauth w))) w"
  using assms by (simp add: build_client_for_account_def get_token_set_def read_oauth_def cached_client_def)

lemma downloaded_mono:
  "downloaded r i p f bs w v \<Longrightarrow> w_db v' = w_db v \<Longrightarrow> w_fs v' = w_fs v \<Longrightarrow> downloaded r i p f bs w v'"
  by (simp add: downloaded_def)

text \<open>The only pending task is a download; the engine serves it and finds the queue empty.\<close>

lemma ends_process_one_download:
  assumes "no_faults w" and "length chunks + 11 \<le> left_ops w"
    and "q_pending (w_db w) = [r]" and "queue_row (q_id r) (w_db w) = Some r"
    and "q_operation r = ''download''" and "q_file_id r = Some i" and "q_local_path r = Some p"
    and "w_tokens w (q_account_id r) = Some ts" and "\<not> should_refresh (w_clock w (Suc (w_ops w))) ts"
    and "files_map (w_db w) (i, q_account_id r) = Some f" and "\<not> is_google_workspace_mime (d_mime_type f)"
    and "path_parent p = Some dir" and "path_parent (tmp_path p) = Some dir" and "dir \<in> fs_dirs (w_fs w)"
    and "p \<notin> fs_dirs (w_fs w)" and "tmp_path p \<notin> fs_dirs (w_fs w)"
    and "fst (sv_files_download sv (cached_client ts (q_account_id r) (w_oauth w)) i (w_ext w)) = Inr (map Inr chunks)"
    and Q: "\<And>w'. no_faults w' \<Longrightarrow> left_ops w = left_ops w' + (length chunks + 11) \<Longrightarrow> downloaded r i p f (concat chunks) w w' \<Longrightarrow> Q () w'"
  shows "ends (process_pending_tasks sv) w Q"
proof -
  have first: "q_next (w_db w) = Some r" using assms(3) by (simp add: q_next_def)
  have rest: "ends (process_tasks (Suc n) sv) v Q"
    if "no_faults v" "left_ops w = left_ops v + (length chunks + 10)" "0 < left_ops v" "downloaded r i p f (concat chunks) w v" for v n
  proof -
    have "q_next (w_db v) = None" using that(4) assms(3) by (simp add: downloaded_def q_next_def)
    then show ?thesis using that
      by (auto simp: next_pending_task_def intro!: ends_db Q elim: downloaded_mono)
  qed
  have download: "ends (run_with_client sv (task_from_row r) (\<lambda>c. download_file sv c (task_from_row r))) v
      (\<lambda>_ v'. no_faults v' \<and> left_ops v = left_ops v' + (length chunks + 9) \<and> downloaded r i p f (concat chunks) w v')"
    if v: "no_faults v" "left_ops w = Suc (left_ops v)" "w_ops v = Suc (w_ops w)" "w_db v = w_db w" "w_fs v = w_fs w" "w_ext v = w_ext w"
      "w_clock v = w_clock w" "w_tokens v = w_tokens w" "w_oauth v = w_oauth w" for v
  proof -
    have same: "downloaded r i p f (concat chunks) v v' = downloaded r i p f (concat chunks) w v'" for v'
      using v by (simp add: downloaded_def)
    have "ends (download_file sv (cached_client ts (q_account_id r) (w_oauth w)) (task_from_row r)) v
        (\<lambda>res v'. res = Inr () \<and> no_faults v' \<and> left_ops v = left_ops v' + (length chunks + 9) \<and>
          w_ext v' = snd (sv_files_download sv (cached_client ts (q_account_id r) (w_oauth w)) i (w_ext v)) \<and>
          downloaded r i p f (concat chunks) v v')"
      by (rule download_ends [where dir = dir]) (use assms v in simp_all)
    then show ?thesis
      using v assms(8,9) by (auto simp: run_with_client_def ends_cached_client same elim!: ends_mono)
  qed
  have "ends (process_tasks (Suc (Suc n)) sv) w Q" for n
    using assms(1,2,5) first
    by (auto simp: next_pending_task_def process_task_def simp del: process_tasks.simps(2) intro!: ends_db_env ends_mono [OF download] rest
        simp: process_tasks.simps(2) [of "Suc n"])
  from this [of 8] show ?thesis by (simp add: process_pending_tasks_def numeral_eq_Suc del: process_tasks.simps)
qed

lemma ends_get_sync_state:
  assumes "no_faults w" and "0 < left_ops w" and "map_option d_sync_state (files_map (w_db w) (i, acct)) = st"
    and "\<And>w'. no_faults w' \<Longrightarrow> left_ops w = Suc (left_ops w') \<Longrightarrow> w_ops w' = Suc (w_ops w) \<Longrightarrow> w_db w' = w_db w \<Longrightarrow>
      w_fs w' = w_fs w \<Longrightarrow> w_ext w' = w_ext w \<Longrightarrow> w_clock w' = w_clock w \<Longrightarrow> w_tokens w' = w_tokens w \<Longrightarrow> w_oauth w' = w_oauth w \<Longrightarrow> Q (Inr st) w'"
  shows "ends (get_sync_state i acct) w Q"
  using assms by (auto simp: get_sync_state_def sync_state_files_map intro!: ends_db_env)

lemma ends_remaining_ops [simp]: "ends remaining_ops w Q = Q (left_ops w) w"
  by (simp add: remaining_ops_def left_ops_def)

text \<open>Waiting: one round finds the file not there, the daemon brings it, the next round sees it.\<close>

lemma ends_wait_for_download:
  assumes "no_faults w" and "2 \<le> left_ops w"
    and "files_map (w_db w) (i, acct) = Some f" and "d_sync_state f = ''cloud_only''"
    and "w_clock w (Suc (w_ops w)) - w_clock w (w_ops w) < timeout_ms"
    and others: "\<And>v Q. no_faults v \<Longrightarrow> left_ops w = Suc (left_ops v) \<Longrightarrow> w_ops v = Suc (w_ops w) \<Longrightarrow> w_db v = w_db w \<Longrightarrow>
      w_fs v = w_fs w \<Longrightarrow> w_ext v = w_ext w \<Longrightarrow> w_clock v = w_clock w \<Longrightarrow> w_tokens v = w_tokens w \<Longrightarrow> w_oauth v = w_oauth w \<Longrightarrow>
      ends others v (\<lambda>_ v'. no_faults v' \<and> left_ops v = left_ops v' + n \<and> 0 < left_ops v' \<and> P v')"
    and P: "\<And>v. P v \<Longrightarrow> map_option d_sync_state (files_map (w_db v) (i, acct)) = Some ''cached''"
    and P_mono: "\<And>v v'. P v \<Longrightarrow> w_db v' = w_db v \<Longrightarrow> w_fs v' = w_fs v \<Longrightarrow> P v'"
    and Q: "\<And>v. no_faults v \<Longrightarrow> left_ops w = left_ops v + (n + 2) \<Longrightarrow> P v \<Longrightarrow> Q (Inr True) v"
  shows "ends (wait_for_download others i acct timeout_ms) w Q"
proof -
  obtain k where k: "left_ops w = Suc k" using assms(2) by (cases "left_ops w") auto
  have last_round: "ends (wait_loop (Suc m) others i acct start timeout_ms) v Q"
    if "no_faults v" "left_ops w = Suc (left_ops v + n)" "0 < left_ops v" "P v" for v m start
    using that by (auto intro!: ends_get_sync_state [OF _ _ P] Q elim: P_mono)
  show ?thesis
    using assms(1-5) k
    by (auto simp: wait_for_download_def simp del: wait_loop.simps(2) simp: wait_loop.simps(2) [of "Suc k"]
        intro!: ends_get_sync_state ends_mono [OF others] last_round)
qed

lemma v_by_inode_file:
  assumes "wf_db d" and "v_by_inode ino d = Some row"
  shows "files_map d (r_id row, r_account_id row) = Some (file_from_row row)"
proof -
  have "row \<in> set (drive_files d)" using assms(2) by (auto simp: v_by_inode_def dest!: find_SomeD)
  then have "find (\<lambda>r. file_key r = (r_id row, r_account_id row)) (drive_files d) = Some row"
    using assms(1) by (intro find_unique [where key = file_key]) (simp_all add: wf_db_def file_key_def)
  then show ?thesis by (simp add: files_map_def f_get_def)
qed

lemma queue_row_insert:
  assumes "wf_db d"
  shows "queue_row (queue_seq d + 1) (q_insert t d) = Some (q_row (queue_seq d + 1) t)"
proof -
  have "find (\<lambda>r. q_id r = queue_seq d + 1) (sync_queue d) = None"
    using assms by (fastforce simp: wf_db_def list_all_iff find_None_iff)
  then show ?thesis by (simp add: queue_row_def q_insert_def find_append q_row_def)
qed


definition demand_world :: "unit world" where
  "demand_world = (sample_world [] 19 ())\<lparr>
     w_db := sample_db\<lparr>drive_files := [sample_row\<lparr>r_sync_state := ''cloud_only'', r_local_path := Some ''/drive/new.bin''\<rparr>], sync_queue := []\<rparr>,
     w_tokens := [''alice'' \<mapsto> \<lparr>ts_access_token = ''tok'', ts_refresh_token = None, ts_expires_at = 10000000\<rparr>]\<rparr>"


text \<open>
  A file the database calls cached but whose copy is gone cannot be read: the read enqueues a download,
  but the wait for it ends at once, because the recorded state is still \<open>cached\<close>, and the open fails.
\<close>

theorem vfs_read_missing_copy:
  assumes "no_faults w" and "can_run 4 w" and "wf_db (w_db w)"
    and "valid_handle g fh ino = Some h" and "v_by_inode ino (w_db w) = Some row" and "r_sync_state row \<in> {''cached'', ''synced'', ''offline''}"
    and "p = details_path g (details_from_row row)" and "path_parent p = Some dir" and "dir \<in> fs_dirs (w_fs w)"
    and "p \<notin> fs_dirs (w_fs w)" and "fs_files (w_fs w) p = None"
  shows "fst (run_state (vfs_read others g ino fh off len) w) = Inl EIO"
proof -
  have df: "files_map (w_db w) (r_id row, r_account_id row) = Some (file_from_row row)" by (rule v_by_inode_file [OF assms(3,5)])
  have st: "d_sync_state (file_from_row row) \<in> {''cached'', ''synced'', ''offline''}" using assms(6) by (simp add: file_from_row_def)
  have d: "fd_file_id (details_from_row row) = r_id row" "fd_account_id (details_from_row row) = r_account_id row"
    by (simp_all add: details_from_row_def)
  have wait: "ends (wait_for_download others (r_id row) (r_account_id row) tmo) u
      (\<lambda>r v. r = Inr True \<and> no_faults v \<and> left_ops u = Suc (left_ops v) \<and> w_fs v = w_fs u)"
    if "no_faults u" "0 < left_ops u" "files_map (w_db u) (r_id row, r_account_id row) = Some (file_from_row row)" for u tmo
    using that st by (auto simp: wait_for_download_def intro!: ends_get_sync_state [where st = "Some (d_sync_state (file_from_row row))"])
  have "ends (vfs_read others g ino fh off len) w (\<lambda>r _. r = Inl EIO)"
    using assms(1,4,5,8-11) can_run_left [OF assms(2)]
    by (auto simp: vfs_read_def get_file_details_by_inode_def assms(7) [symmetric] fetch_on_demand_def ensure_parent_def fs_exists_def d df
        enqueue_download_task_def vfs_enqueue_task_def read_slice_def fs_open_def intro!: ends_db ends_fs ends_mono [OF wait])
  then show ?thesis by (simp add: ends_def split: prod.splits)
qed

end
