(* ===== verification/Ipc_Effects.thy ===== *)
theory Ipc_Effects
  imports Config_Props Ipc_Props Vfs_Demand
begin

text \<open>
  What requests of a client lead to in the other components: the engine that gets the command or the task, and the file
  system that reads the file.
\<close>

section \<open>Switching the mode\<close>

text \<open>Programs that leave the database and the mode as they are.\<close>

definition same_index :: "'x world \<Rightarrow> 'x world \<Rightarrow> bool" where
  "same_index w w' \<longleftrightarrow> w_db w' = w_db w \<and> w_sync_mode w' = w_sync_mode w"

interpretation si: io_preorder same_index
  by unfold_locales (simp_all add: same_index_def)

lemma same_index_fs [io_rel]: "state_io_rel same_index (fs_exec f)"
  by (simp add: state_io_rel_def fs_exec_def same_index_def split: option.split prod.split)

lemma same_index_save: "state_io_rel same_index (save_config tm dd p)"
  unfolding save_config_def config_path_def save_to_def fs_write_def fs_create_def fs_append_def fs_rename_def fs_create_dir_all_def Let_def
  by (intro si.io_bind io_rel si.io_return)

lemma ends_io_rel: "state_io_rel R m \<Longrightarrow> (\<And>x w'. R w w' \<Longrightarrow> Q x w') \<Longrightarrow> ends m w Q"
  by (simp add: state_io_rel_def ends_def split: prod.split) (metis snd_conv)

text \<open>C34: a mode switch requested over the interface migrates nothing. The handler stores the new mode before it sends the command,
  and the engine does nothing when the stored mode is already the requested one: no download is enqueued and no local copy
  is released, in whatever state the engine is and whatever the database holds.\<close>

theorem mode_switch_migrates_nothing:
  assumes "run_state (dispatch env ''system.set_sync_mode'' (Some j)) r = (Inr v, r')"
  shows "\<exists>m. Option.bind (jget ''mode'' j) de_sync_mode = Some m \<and> rt_commands r' = rt_commands r @ [SwitchMode m] \<and>
    w_db (rt_world r') = w_db (rt_world r) \<and> w_sync_mode (rt_world r') = m \<and>
    (\<forall>w st. w_sync_mode w = w_sync_mode (rt_world r') \<longrightarrow> run_state (handle_command st (SwitchMode m)) w = (st, w))"
proof -
  let ?Q = "\<lambda>x s. (\<exists>y. x = Inr y) \<longrightarrow> (\<exists>m. Option.bind (jget ''mode'' j) de_sync_mode = Some m \<and>
    rt_commands s = rt_commands r @ [SwitchMode m] \<and> w_db (rt_world s) = w_db (rt_world r) \<and> w_sync_mode (rt_world s) = m)"
  have "ends (dispatch env ''system.set_sync_mode'' (Some j)) r ?Q"
    by (auto simp: dispatch_def method_table_def handle_set_sync_mode_def required_def ends_send same_index_def
        split: option.split intro!: ends_io_rel [OF same_index_save])
  then have "?Q (Inr v) r'" using assms by (simp add: ends_def)
  then show ?thesis by (auto simp: handle_command_def handle_mode_switch_def read_prefs_def)
qed

theorem mode_switch_migrates_nothing_witness:
  "\<exists>r'. run_state (dispatch sample_env ''system.set_sync_mode'' (Some (jobj [(''mode'', JStr ''mirror'')]))) (sample_router (sample_world [1] 9 ()))
      = (Inr (jobj [(''sync_mode'', JStr ''mirror'')]), r') \<and> w_db (rt_world r') = sample_db \<and>
     run_state (handle_command Idle (SwitchMode Mirror)) (rt_world r') = (Idle, rt_world r')"
proof -
  let ?j = "jobj [(''mode'', JStr (sync_mode_name Mirror))]" and ?r = "sample_router (sample_world [1] 9 ())"
  have "ends (dispatch sample_env ''system.set_sync_mode'' (Some ?j)) ?r (\<lambda>x _. x = Inr (jobj [(''sync_mode'', JStr (sync_mode_name Mirror))]))"
    by (simp add: dispatch_def method_table_def handle_set_sync_mode_def ends_send del: sync_mode_name.simps)
       (auto simp: sample_router_def halted_def sample_world_def intro!: ends_io_rel [OF same_index_save])
  then obtain r' where run: "run_state (dispatch sample_env ''system.set_sync_mode'' (Some ?j)) ?r = (Inr (jobj [(''sync_mode'', JStr ''mirror'')]), r')"
    by (auto simp: ends_run)
  have mirror: "de_sync_mode (JStr ''mirror'') = Some Mirror" using sync_mode_read [of Mirror] by simp
  from mode_switch_migrates_nothing [OF run] show ?thesis
    by (intro exI [of _ r'] conjI) (use run mirror in \<open>auto simp: sample_router_def jget_jobj\<close>)
qed

section \<open>Edits through the file provider\<close>

lemma dispatch_path_methods:
  "dispatch env ''fs.get_sync_state'' params = handle_fs_get_sync_state env params"
  "dispatch env ''fs.set_offline'' params = handle_fs_set_offline env params"
  "dispatch env ''fs.get_share_link'' params = handle_fs_get_share_link env params"
  "dispatch env ''fp.get_item'' params = handle_fp_get_item env params"
  "dispatch env ''fp.list_children'' params = handle_fp_list_children env params"
  "dispatch env ''fp.fetch_contents'' params = handle_fp_fetch_contents env params"
  "dispatch env ''fp.modify_item'' params = handle_fp_modify_item env params"
  "dispatch env ''fp.delete_item'' params = handle_fp_delete_item env params"
  by (simp_all add: dispatch_def method_table_def)

text \<open>Only tasks that never reach Drive were appended.\<close>

definition local_tasks :: "'x world \<Rightarrow> 'x world \<Rightarrow> bool" where
  "local_tasks w w' \<longleftrightarrow> (\<exists>new. sync_queue (w_db w') = sync_queue (w_db w) @ new \<and>
     (\<forall>t \<in> set new. \<not> drive_operation (q_operation t) \<and> (q_operation t = ''delete'' \<longrightarrow> q_file_id t \<noteq> None)))"

lemma local_tasks_same: "sync_queue (w_db w') = sync_queue (w_db w) \<Longrightarrow> local_tasks w w'"
  by (simp add: local_tasks_def)

interpretation lt: router_walk local_tasks "on_worlds local_tasks"
proof unfold_locales
  show trans: "local_tasks w u" if "local_tasks w v" "local_tasks v u" for w v u :: "'x world"
    using that by (fastforce simp: local_tasks_def)
  show "on_worlds local_tasks w u" if "on_worlds local_tasks w v" "on_worlds local_tasks v u" for w v u :: "'x router"
    using that by (auto simp: on_worlds_def intro: trans)
qed (simp_all add: local_tasks_same on_worlds_def)

lemma local_statements [io_rel]:
  "state_io_rel local_tasks (f_update f g)"
  "oper \<in> {''rename'', ''delete''} \<Longrightarrow> state_io_rel local_tasks (fp_enqueue now acct i oper p)"
proof -
  show "state_io_rel local_tasks (f_update f g)"
    by (simp add: state_io_rel_def f_update_def db_exec_def local_tasks_same split: option.split)
  show "oper \<in> {''rename'', ''delete''} \<Longrightarrow> state_io_rel local_tasks (fp_enqueue now acct i oper p)"
    by (auto simp: state_io_rel_def fp_enqueue_def db_exec_def local_tasks_same split: option.split)
       (auto simp: local_tasks_def q_insert_def q_row_def vfs_task_def drive_operation_def)
qed

lemma rename_walk: "state_io_rel (on_worlds local_tasks) (fp_rename now f n k)"
  if "state_io_rel (on_worlds local_tasks) (k ())"
  unfolding fp_rename_def using that by (auto intro!: io_rel split: option.split)

text \<open>What a file-manager extension deletes or renames is never deleted or renamed on Drive. The two requests only append tasks
  (none when they fail early), and the engine processes each of them exactly as with services on which no Drive request works: a
  rename is an operation it does not know, a delete with a file id one it takes for a deletion that came from Drive.\<close>

theorem fp_edits_stay_local:
  fixes r :: "'x router"
  assumes "meth = ''fp.delete_item'' \<or> (meth = ''fp.modify_item'' \<and> param as_str ''local_path'' params = None)"
    and "r' = snd (run_state (dispatch env meth params) r)"
  shows "\<exists>new. sync_queue (w_db (rt_world r')) = sync_queue (w_db (rt_world r)) @ new \<and>
    (\<forall>t \<in> set new. \<forall>sv :: 'x services. process_task sv (task_from_row t) = process_task (offline sv) (task_from_row t))"
proof -
  have modify: "state_io_rel (on_worlds local_tasks) (handle_fp_modify_item env params)" if "param as_str ''local_path'' params = None"
  proof (cases "object_param params")
    case (Some obj)
    then have "params = Some obj" by (cases params) (auto simp: object_param_def split: json.splits)
    with that have "param as_str ''local_path'' (Some obj) = None" by simp
    with Some show ?thesis unfolding handle_fp_modify_item_def fp_rewrite_def
      by (auto intro!: io_rel rename_walk)
  qed (simp add: handle_fp_modify_item_def lt.io_ok)
  have delete: "state_io_rel (on_worlds local_tasks) (handle_fp_delete_item env params)"
    unfolding handle_fp_delete_item_def by (intro io_rel) simp
  have "state_io_rel (on_worlds local_tasks) (dispatch env meth params)"
    using assms(1) modify delete by (elim disjE conjE) (simp_all add: dispatch_path_methods)
  then have "local_tasks (rt_world r) (rt_world r')" using assms(2) by (simp add: state_io_rel_def on_worlds_def)
  then obtain new where "sync_queue (w_db (rt_world r')) = sync_queue (w_db (rt_world r)) @ new"
      and new: "\<forall>t \<in> set new. \<not> drive_operation (q_operation t) \<and> (q_operation t = ''delete'' \<longrightarrow> q_file_id t \<noteq> None)"
    by (auto simp: local_tasks_def)
  moreover have "process_task sv (task_from_row t) = process_task (offline sv) (task_from_row t)" if "t \<in> set new" for t and sv :: "'x services"
    by (rule process_task_offline [symmetric]) (use new that in auto)
  ultimately show ?thesis by blast
qed

theorem fp_edits_stay_local_witness:
  "\<exists>new. sync_queue (w_db (rt_world (snd (run_state (dispatch sample_env ''fp.delete_item'' (Some (jobj [(''path'', JStr ''/drive/a.bin'')])))
      (sample_router (sample_world [1] 9 ())))))) = [upload_row, download_row1] @ new \<and>
     (\<forall>t \<in> set new. process_task (null_services :: unit services) (task_from_row t) = process_task (offline null_services) (task_from_row t))"
  using fp_edits_stay_local [OF _ refl, of "''fp.delete_item''" "Some (jobj [(''path'', JStr ''/drive/a.bin'')])" sample_env "sample_router (sample_world [1] 9 ())"]
  by (auto simp: sample_router_def)

section \<open>Files that are only in the cloud\<close>

text \<open>A file is found by path only through a recorded local path.\<close>

lemma resolve_needs_local_path:
  assumes "no_faults (rt_world r)" and "2 \<le> left_ops (rt_world r)"
    and "\<And>row. row \<in> set (drive_files (w_db (rt_world r))) \<Longrightarrow> r_local_path row = None"
  shows "ends (resolve_file_for_path env p k) r (\<lambda>x _. x = Inl (not_found ''file not found for path''))"
proof -
  have local: "f_get_by_local_path p (w_db (rt_world r)) = None" for p
    using assms(3) by (auto simp: f_get_by_local_path_def find_None_iff)
  have none: "filter (\<lambda>r. (case r_local_path r of None \<Rightarrow> False | Some p \<Rightarrow> sql_like q p) \<and> r_is_trashed r = 0) (drive_files (w_db (rt_world r))) = []" for q
    using assms(3) by (auto simp: filter_empty_conv)
  show ?thesis
    using assms(1,2)
    by (auto simp: resolve_file_for_path_def resolve_path_under_mount_def get_file_by_local_path_def find_file_by_relative_suffix_def
        ends_db_exact local f_by_suffix_def none Let_def)
qed

definition path_methods :: "string set" where
  "path_methods = {''fs.get_sync_state'', ''fs.set_offline'', ''fs.get_share_link'', ''fp.get_item'', ''fp.list_children'', ''fp.fetch_contents'',
     ''fp.modify_item'', ''fp.delete_item''}"

text \<open>While no file has a local copy, as after the first synchronisation in stream mode, every request that names a file by its
  path fails with \<open>not found\<close>, whatever the path below the root: the state of a placeholder cannot be asked for, nor its contents fetched,
  and it cannot be pinned for offline use.\<close>

theorem placeholder_not_found:
  assumes "no_faults (rt_world r)" and "can_run 2 (rt_world r)"
    and "\<And>row. row \<in> set (drive_files (w_db (rt_world r))) \<Longrightarrow> r_local_path row = None"
    and "meth \<in> path_methods" and "p \<noteq> ''/''" and params: "params = jobj [(''path'', JStr p), (''enabled'', JBool b)]"
  shows "fst (run_state (dispatch env meth (Some params)) r) = Inl (not_found ''file not found for path'')"
proof -
  have left: "2 \<le> left_ops (rt_world r)" using can_run_left [OF assms(2)] .
  have read: "param as_str ''path'' (Some params) = Some p" "param as_bool ''enabled'' (Some params) = Some b" "object_param (Some params) = Some params"
    by (simp_all add: params param_def object_param_def jobj_def)
  have "\<exists>k. dispatch env meth (Some params) = resolve_file_for_path env p k"
    using assms(4) unfolding path_methods_def
    by (elim insertE emptyE)
       (simp_all add: dispatch_path_methods handle_fs_get_sync_state_def handle_fs_get_share_link_def handle_fp_list_children_def handle_fp_get_item_def
        handle_fp_fetch_contents_def handle_fp_delete_item_def handle_fp_modify_item_def handle_fs_set_offline_def extract_string_param_def
        read assms(5), blast+)
  then have "ends (dispatch env meth (Some params)) r (\<lambda>x _. x = Inl (not_found ''file not found for path''))"
    using resolve_needs_local_path [OF assms(1) left assms(3)] by auto
  then show ?thesis by (simp add: ends_def split: prod.splits)
qed

theorem placeholder_not_found_witness:
  "fst (run_state (dispatch sample_env ''fs.set_offline'' (Some (jobj [(''path'', JStr ''/drive/a.bin''), (''enabled'', JBool True)])))
     (sample_router ((sample_world [1] 9 ())\<lparr>w_db := sample_db\<lparr>drive_files := [sample_row\<lparr>r_local_path := None\<rparr>]\<rparr>\<rparr>)))
   = Inl (not_found ''file not found for path'')"
  by (rule placeholder_not_found [OF _ _ _ _ _ refl]) (simp_all add: sample_router_def path_methods_def sample_world_def no_faults_def can_run_def)

end
