(* ===== verification/Ipc_Requests.thy ===== *)
theory Ipc_Requests
  imports Config_Props Ipc_Walk
begin

text \<open>What single requests do: queries change nothing, folders are added and removed by the id that was answered, a disconnected
  account is forgotten, and the counts of the drive.\<close>

section \<open>Queries\<close>

text \<open>Nothing but the operation count moves.\<close>

definition counted :: "'x world \<Rightarrow> 'x world \<Rightarrow> bool" where
  "counted w w' \<longleftrightarrow> w_ops w \<le> w_ops w' \<and> w' = w\<lparr>w_ops := w_ops w'\<rparr>"

definition quiet :: "'x router \<Rightarrow> 'x router \<Rightarrow> bool" where
  "quiet r r' \<longleftrightarrow> counted (rt_world r) (rt_world r') \<and> r' = r\<lparr>rt_world := rt_world r'\<rparr>"

lemma counted_trans: "counted w v \<Longrightarrow> counted v u \<Longrightarrow> counted w u"
  unfolding counted_def by (metis le_trans world.surjective world.update_convs(12))

interpretation quiet: router_walk counted quiet
proof unfold_locales
  show "counted w w" for w :: "'x world" by (simp add: counted_def)
  show "counted w u" if "counted w v" "counted v u" for w v u :: "'x world" using counted_trans [OF that] .
  show "quiet r r" for r :: "'x router" by (simp add: quiet_def counted_def)
  show "quiet r t" if "quiet r s" "quiet s t" for r s t :: "'x router"
    using that counted_trans [of "rt_world r" "rt_world s" "rt_world t"] by (cases r; cases s; cases t) (simp add: quiet_def)
  show "counted w (w\<lparr>w_ops := n\<rparr>)" if "w_ops w \<le> n" for w :: "'x world" and n using that by (simp add: counted_def)
  show "quiet r (r\<lparr>rt_world := w\<rparr>)" if "counted (rt_world r) w" for r :: "'x router" and w using that by (simp add: quiet_def)
qed

definition query_methods :: "string set" where
  "query_methods = {''ping'', ''prefs.get'', ''auth.get_accounts'', ''auth.get_locale'', ''auth.get_quota'', ''sync.get_status'',
     ''sync.get_recent_items'', ''sync.get_activity'', ''sync.get_errors'', ''notification.list'', ''folder.list'', ''folder.get_size'',
     ''folder.get_suggested'', ''system.get_drive_stats'', ''system.get_platform'', ''offline.get_stats'', ''fs.get_sync_state'',
     ''fs.get_share_link'', ''fp.get_item'', ''fp.list_children''}"

lemma quiet_handlers:
  "state_io_rel quiet (ok v)" "state_io_rel quiet handle_prefs_get" "state_io_rel quiet handle_auth_get_accounts"
  "state_io_rel quiet (handle_auth_get_locale params)" "state_io_rel quiet handle_auth_get_quota" "state_io_rel quiet handle_sync_get_status"
  "state_io_rel quiet (handle_sync_get_recent_items env params)" "state_io_rel quiet (handle_sync_get_activity env params)"
  "state_io_rel quiet handle_sync_get_errors" "state_io_rel quiet (handle_notification_list env params)"
  "state_io_rel quiet handle_folder_list" "state_io_rel quiet (handle_folder_get_size params)"
  "state_io_rel quiet (handle_folder_get_suggested env)" "state_io_rel quiet handle_system_get_drive_stats"
  "state_io_rel quiet handle_get_platform" "state_io_rel quiet handle_offline_get_stats"
  "state_io_rel quiet (handle_fs_get_sync_state env params)" "state_io_rel quiet (handle_fs_get_share_link env params)"
  "state_io_rel quiet (handle_fp_get_item env params)" "state_io_rel quiet (handle_fp_list_children env params)"
  unfolding handler_defs by (intro io_rel)+

text \<open>C38: a query changes nothing, in every run and whatever its parameters: the router afterwards, with its preferences, its
  database and the queues to the engine, is the one before, but for the count of operations.\<close>

theorem queries_change_nothing:
  assumes "meth \<in> query_methods" and "r' = snd (run_state (dispatch env meth params) r)"
  shows "r' = r\<lparr>rt_world := (rt_world r)\<lparr>w_ops := w_ops (rt_world r')\<rparr>\<rparr>"
proof -
  have "state_io_rel quiet (dispatch env meth params)"
    using assms(1) unfolding query_methods_def
    by (elim insertE emptyE) (simp_all add: dispatch_def method_table_def quiet_handlers)
  then have "quiet r r'" using assms(2) by (simp add: state_io_rel_def)
  then show ?thesis unfolding quiet_def counted_def by metis
qed

theorem queries_change_nothing_witness:
  "w_db (rt_world (snd (run_state (dispatch sample_env ''folder.get_size'' (Some (jobj [(''id'', JStr ''1'')]))) (sample_router (sample_world [1] 9 ())))))
   = sample_db"
  by (subst queries_change_nothing [OF _ refl]) (simp_all add: query_methods_def sample_router_def)

section \<open>Folders\<close>

lemma parse_show_i64: "- (2 ^ 63) \<le> n \<Longrightarrow> n < 2 ^ 63 \<Longrightarrow> parse_i64 (show_i64 n) = Some n"
proof -
  assume n: "- (2 ^ 63) \<le> n" "n < 2 ^ 63"
  show ?thesis
  proof (cases "n < 0")
    case True
    then show ?thesis using n by (simp add: show_i64_def parse_i64_def parse_nat_def)
  next
    case False
    obtain c cs where s: "show_nat (nat n) = c # cs" by (cases "show_nat (nat n)") simp_all
    then have "c \<noteq> CHR ''-''" "c \<noteq> CHR ''+''" using show_nat_clean [of "nat n"] by auto
    moreover have "parse_nat (c # cs) = Some (nat n)"
      using digits_val_show_nat [of "nat n"] by (simp add: parse_nat_def s del: digits_val.simps)
    ultimately show ?thesis using n False by (simp add: show_i64_def parse_i64_def s)
  qed
qed

definition added_folder :: "string \<Rightarrow> string \<Rightarrow> string \<Rightarrow> database \<Rightarrow> sync_folder_row" where
  "added_folder acct p t d = \<lparr>sr_id = folder_seq d + 1, sr_account_id = acct, sr_local_path = p, sr_folder_type = t, sr_is_enabled = 1\<rparr>"

lemma ends_folder_add:
  assumes "params = jobj [(''path'', JStr p), (''type'', JStr t)]"
  shows "ends (dispatch env ''folder.add'' (Some params)) (r :: 'a router) (\<lambda>x s. \<forall>v. x = Inr v \<longrightarrow>
    (\<exists>acct. jget ''id'' v = Some (JStr (show_i64 (folder_seq (w_db (rt_world r)) + 1))) \<and>
      w_db (rt_world s) = (w_db (rt_world r))\<lparr>sync_folders := sync_folders (w_db (rt_world r)) @ [added_folder acct p t (w_db (rt_world r))],
        folder_seq := folder_seq (w_db (rt_world r)) + 1\<rparr>))"
proof -
  have read: "param as_str ''path'' (Some params) = Some p" "param as_str ''type'' (Some params) = Some t" "object_param (Some params) = Some params"
    by (simp_all add: assms param_def object_param_def jobj_def)
  have first: "ends get_first_account_id w (\<lambda>_ w'. w_db w' = w_db w)" for w :: "'a world"
    unfolding get_first_account_id_def by (rule ends_db_full) simp_all
  have add: "ends (add_folder \<lparr>s_id = None, s_account_id = acct, s_local_path = p, s_folder_type = t, s_is_enabled = True\<rparr>) w
      (\<lambda>x w'. \<forall>f. x = Inr f \<longrightarrow> s_id f = Some (folder_seq (w_db w) + 1) \<and>
        w_db w' = (w_db w)\<lparr>sync_folders := sync_folders (w_db w) @ [added_folder acct p t (w_db w)], folder_seq := folder_seq (w_db w) + 1\<rparr>)"
    for acct and w :: "'a world"
    unfolding add_folder_def ends_try
    by (rule ends_db_full) (auto simp: fold_add_def fold_row_def folder_from_row_def added_folder_def bool_i64_def Let_def split: if_splits)
  have dispatch: "dispatch env ''folder.add'' params = handle_folder_add params" for params by (simp add: dispatch_def method_table_def)
  show ?thesis
    by (auto simp: dispatch handle_folder_add_def read required_def signal_reload_def Let_def
        intro!: ends_mono [OF first] ends_mono [OF add] split: sum.split option.split)
qed

lemma ends_folder_remove:
  assumes "- (2 ^ 63) \<le> n" and "n < 2 ^ 63"
  shows "ends (dispatch env ''folder.remove'' (Some (jobj [(''id'', JStr (show_i64 n))]))) r (\<lambda>x s. \<forall>v. x = Inr v \<longrightarrow>
    w_db (rt_world s) = (w_db (rt_world r))\<lparr>sync_folders := filter (\<lambda>f. sr_id f \<noteq> n) (sync_folders (w_db (rt_world r)))\<rparr>)"
proof -
  have dispatch: "dispatch env ''folder.remove'' params = handle_folder_remove params" for params by (simp add: dispatch_def method_table_def)
  show ?thesis
    by (auto simp: dispatch handle_folder_remove_def folder_id_param_def param_def parse_show_i64 [OF assms] delete_folder_def signal_reload_def
        intro!: ends_db_full)
qed

text \<open>A folder added over the interface is recorded, enabled, with the path and type asked for, and the id in the reply removes
  that folder and no other.\<close>

theorem folder_add_then_remove:
  assumes "wf_db (w_db (rt_world r))" and "0 \<le> folder_seq (w_db (rt_world r))" and "folder_seq (w_db (rt_world r)) < 2 ^ 63 - 1"
    and add: "run_state (dispatch env ''folder.add'' (Some (jobj [(''path'', JStr p), (''type'', JStr t)]))) r = (Inr v, r1)"
    and id: "jget ''id'' v = Some x"
    and remove: "run_state (dispatch env ''folder.remove'' (Some (jobj [(''id'', x)]))) r1 = (Inr u, r2)"
  shows "(\<exists>row. sync_folders (w_db (rt_world r1)) = sync_folders (w_db (rt_world r)) @ [row] \<and> sr_local_path row = p \<and>
      sr_folder_type row = t \<and> sr_is_enabled row = 1) \<and>
    w_db (rt_world r2) = (w_db (rt_world r1))\<lparr>sync_folders := sync_folders (w_db (rt_world r))\<rparr>"
proof -
  let ?d = "w_db (rt_world r)" and ?n = "folder_seq (w_db (rt_world r)) + 1"
  obtain acct where a: "jget ''id'' v = Some (JStr (show_i64 ?n))"
      "w_db (rt_world r1) = ?d\<lparr>sync_folders := sync_folders ?d @ [added_folder acct p t ?d], folder_seq := ?n\<rparr>"
    using ends_folder_add [OF refl, of env p t r] add by (auto simp: ends_def)
  have "w_db (rt_world r2) = (w_db (rt_world r1))\<lparr>sync_folders := filter (\<lambda>f. sr_id f \<noteq> ?n) (sync_folders (w_db (rt_world r1)))\<rparr>"
    using ends_folder_remove [of ?n env r1] remove id assms(2,3) a(1) by (simp add: ends_def)
  moreover have "filter (\<lambda>f. sr_id f \<noteq> ?n) (sync_folders ?d) = sync_folders ?d"
    using assms(1) by (auto simp: filter_id_conv wf_db_def list_all_iff)
  ultimately show ?thesis by (simp add: a(2) added_folder_def)
qed

theorem folder_add_then_remove_witness:
  "sync_folders (w_db (rt_world (snd (run_state (dispatch sample_env ''folder.remove'' (Some (jobj [(''id'', JStr ''1'')])))
     (snd (run_state (dispatch sample_env ''folder.add'' (Some (jobj [(''path'', JStr ''/home/pics''), (''type'', JStr ''drive'')])))
       (sample_router (sample_world [1] 9 ())))))))) = []"
proof -
  let ?add = "run_state (dispatch sample_env ''folder.add'' (Some (jobj [(''path'', JStr ''/home/pics''), (''type'', JStr ''drive'')])))
    (sample_router (sample_world [1] 9 ()))"
  let ?remove = "run_state (dispatch sample_env ''folder.remove'' (Some (jobj [(''id'', JStr ''1'')]))) (snd ?add)"
  have one: "show_i64 1 = ''1''" by code_simp
  have number: "parse_i64 ''1'' = Some 1" by code_simp
  have seq: "folder_seq sample_db = 0" by (simp add: sample_db_def empty_db_def)
  have acct: "has_account sample_db (a_id sample_account)" by (simp add: has_account_def)
  have "ends (dispatch sample_env ''folder.add'' (Some (jobj [(''path'', JStr ''/home/pics''), (''type'', JStr ''drive'')])))
      (sample_router (sample_world [1] 9 ())) (\<lambda>x s. (\<exists>v. x = Inr v \<and> jget ''id'' v = Some (JStr ''1'')) \<and>
        ends (dispatch sample_env ''folder.remove'' (Some (jobj [(''id'', JStr ''1'')]))) s (\<lambda>y _. \<exists>u. y = Inr u))"
    by (simp add: dispatch_def method_table_def handle_folder_add_def handle_folder_remove_def folder_id_param_def param_def object_param_def
        jobj_def get_first_account_id_def add_folder_def delete_folder_def signal_reload_def folder_from_row_def
        ends_db_exact fold_add_def fold_row_def seq one number acct Let_def)
  then obtain v u where "?add = (Inr v, snd ?add)" "jget ''id'' v = Some (JStr ''1'')" "?remove = (Inr u, snd ?remove)"
    by (auto simp: ends_def split: prod.splits)
  from folder_add_then_remove [OF _ _ _ this] show ?thesis by (simp add: sample_router_def sample_wf seq)
qed

section \<open>Accounts\<close>

lemma ends_ext_exact:
  assumes "no_faults w" and "0 < left_ops w"
  shows "ends (ext_call f) w Q = Q (fst (f (w_ext w))) (tick (w\<lparr>w_ext := snd (f (w_ext w))\<rparr>))"
  using assms by (cases "f (w_ext w)") (auto simp: ends_def ext_call_def halted_def left_ops_def)

lemma ends_push_exact: "0 < left_ops w \<Longrightarrow> ends (push_send e) w Q = Q () (w\<lparr>w_push := w_push w @ [e]\<rparr>)"
  by (simp add: push_send_def not_halted)

lemma runnable_ext [simp]: "no_faults (w\<lparr>w_ext := x\<rparr>) = no_faults w" "left_ops (w\<lparr>w_ext := x\<rparr>) = left_ops w"
  by (simp_all add: no_faults_def left_ops_def)



section \<open>Counts\<close>

text \<open>The drive statistics are the number of live files and of live folders, except that without a live row the request fails:
  the sums are null there, and the query reads them as integers.\<close>

theorem drive_stats_counts:
  assumes "no_faults (rt_world r)" and "can_run 1 (rt_world r)" and "rows = filter (\<lambda>x. r_is_trashed x = 0) (drive_files (w_db (rt_world r)))"
  shows "fst (run_state (dispatch env ''system.get_drive_stats'' params) r) =
    (if rows = [] then Inl (internal_error ''unexpected null; try decoding as an `Option`'')
     else Inr (jobj [(''file_count'', JInt (int (length (filter (\<lambda>x. r_mime_type x \<noteq> FOLDER_TYPE) rows)))),
       (''folder_count'', JInt (int (length (filter (\<lambda>x. r_mime_type x = FOLDER_TYPE) rows))))]))"
proof -
  have files: "length rows - length (filter (\<lambda>x. r_mime_type x = FOLDER_TYPE) rows) = length (filter (\<lambda>x. r_mime_type x \<noteq> FOLDER_TYPE) rows)"
    using sum_length_filter_compl [of "\<lambda>x. r_mime_type x = FOLDER_TYPE" rows] by simp
  have count: "ends count_files_and_folders (rt_world r) (\<lambda>x _. x = (if rows = [] then Inl ''unexpected null; try decoding as an `Option`''
      else Inr (length (filter (\<lambda>x. r_mime_type x \<noteq> FOLDER_TYPE) rows), length (filter (\<lambda>x. r_mime_type x = FOLDER_TYPE) rows))))"
    using assms(1) can_run_left [OF assms(2)] files
    by (simp add: count_files_and_folders_def ends_db_exact assms(3) [symmetric] Let_def FOLDER_TYPE_def)
  have "ends (dispatch env ''system.get_drive_stats'' params) r (\<lambda>x _. x = (if rows = [] then Inl (internal_error ''unexpected null; try decoding as an `Option`'')
      else Inr (jobj [(''file_count'', JInt (int (length (filter (\<lambda>x. r_mime_type x \<noteq> FOLDER_TYPE) rows)))),
       (''folder_count'', JInt (int (length (filter (\<lambda>x. r_mime_type x = FOLDER_TYPE) rows))))])))"
    by (auto simp: dispatch_def method_table_def handle_system_get_drive_stats_def intro!: ends_mono [OF count] split: sum.split if_splits)
  then show ?thesis by (simp add: ends_def split: prod.splits)
qed

theorem drive_stats_counts_witness:
  "fst (run_state (dispatch sample_env ''system.get_drive_stats'' None) (sample_router (sample_world [1] 9 ())))
   = Inr (jobj [(''file_count'', JInt 1), (''folder_count'', JInt 0)])"
  by (subst drive_stats_counts [OF _ _ refl]) (simp_all add: sample_row_def FOLDER_TYPE_def)

end
