(* ===== verification/Oauth.thy ===== *)
theory Oauth
  imports Api_Client
begin

text \<open>
  The browser login of \<^verbatim>\<open>crates/gdriver-api/src/auth.rs\<close>: PKCE, the authorisation URL, the local server that
  takes the redirect, and the exchange of the code. Randomness, SHA-256, base64, URL building and parsing, UTF-8
  decoding and the listening socket belong to other crates and the system: they are the record \<open>oauth_lib\<close>.
\<close>

record 'h oauth_lib =
  ol_random :: "nat \<Rightarrow> 'h \<Rightarrow> bytes \<times> 'h"
  ol_sha256 :: "bytes \<Rightarrow> bytes"
  ol_base64 :: "bytes \<Rightarrow> string"
  ol_ascii :: "string \<Rightarrow> bytes"
  ol_utf8 :: "bytes \<Rightarrow> string option"
  ol_with_query :: "string \<Rightarrow> (string \<times> string) list \<Rightarrow> string result"
  ol_query_pairs :: "string \<Rightarrow> (string \<times> string) list result"
  ol_bind :: "'h \<Rightarrow> 16 word result \<times> 'h"

section \<open>PKCE and the authorisation URL\<close>

record pkce_challenge =
  pk_verifier :: string
  pk_challenge :: string

definition generate_pkce :: "'h oauth_lib \<Rightarrow> ('h api_state, pkce_challenge) state" where
  "generate_pkce lib = do {
     raw \<leftarrow> net (ol_random lib 64);
     let code_verifier = ol_base64 lib raw;
         digest = ol_sha256 lib (ol_ascii lib code_verifier)
     in State_Monad.return \<lparr>pk_verifier = code_verifier, pk_challenge = ol_base64 lib digest\<rparr>
   }"

text \<open>\<^verbatim>\<open>OAuthConfig\<close>: the client id and the client secret.\<close>

definition oauth_from_env :: "(string \<Rightarrow> string option) \<Rightarrow> (string \<times> string) result" where
  "oauth_from_env var =
     (case var ''GOOGLE_CLIENT_ID'' of
        None \<Rightarrow> Inl ''GOOGLE_CLIENT_ID not set''
      | Some client_id \<Rightarrow> (case var ''GOOGLE_CLIENT_SECRET'' of
          None \<Rightarrow> Inl ''GOOGLE_CLIENT_SECRET not set''
        | Some client_secret \<Rightarrow> Inr (client_id, client_secret)))"

definition AUTH_ENDPOINT :: string where "AUTH_ENDPOINT = ''https://accounts.google.com/o/oauth2/v2/auth''"

definition SCOPES :: "string list" where
  "SCOPES = [''openid'', ''email'', ''profile'', ''https://www.googleapis.com/auth/drive'',
     ''https://www.googleapis.com/auth/photoslibrary'']"

definition auth_query :: "string \<times> string \<Rightarrow> pkce_challenge \<Rightarrow> string \<Rightarrow> string \<Rightarrow> (string \<times> string) list" where
  "auth_query cfg pkce redirect_uri nonce = [(''client_id'', fst cfg), (''redirect_uri'', redirect_uri), (''response_type'', ''code''),
     (''scope'', join_with '' '' SCOPES), (''code_challenge'', pk_challenge pkce), (''code_challenge_method'', ''S256''),
     (''access_type'', ''offline''), (''prompt'', ''consent''), (''state'', nonce)]"

definition build_auth_url :: "'h oauth_lib \<Rightarrow> string \<times> string \<Rightarrow> pkce_challenge \<Rightarrow> string \<Rightarrow> string \<Rightarrow> string result" where
  "build_auth_url lib cfg pkce redirect_uri nonce = ol_with_query lib AUTH_ENDPOINT (auth_query cfg pkce redirect_uri nonce)"

section \<open>The callback server\<close>

record auth_callback =
  cb_code :: string
  cb_state :: string

text \<open>\<^verbatim>\<open>buf.windows(4).any(|w| w == b"\r\n\r\n")\<close>.\<close>

definition HEADER_END :: bytes where "HEADER_END = [13, 10, 13, 10]"

fun has_header_end :: "bytes \<Rightarrow> bool" where
  "has_header_end [] = False"
| "has_header_end (b # bs) \<longleftrightarrow> take 4 (b # bs) = HEADER_END \<or> has_header_end bs"

definition MAX_CALLBACK_REQUEST :: nat where "MAX_CALLBACK_REQUEST = 65536"

text \<open>The reads of the connection: at most 1024 bytes each, none at the end of the input; after the list the input has ended.\<close>

fun read_callback :: "bytes \<Rightarrow> bytes result list \<Rightarrow> bytes result" where
  "read_callback buf [] = Inr buf"
| "read_callback buf (Inl e # rs) = Inl e"
| "read_callback buf (Inr chunk # rs) =
     (if chunk = [] then Inr buf
      else let buf' = buf @ chunk
           in if has_header_end buf' then Inr buf'
              else if MAX_CALLBACK_REQUEST < length buf' then Inl ''OAuth callback request too large''
              else read_callback buf' rs)"

text \<open>The loop over the query pairs: a later pair of the same name wins.\<close>

definition note_pair :: "string \<times> string \<Rightarrow> string option \<times> string \<times> string option \<Rightarrow> string option \<times> string \<times> string option" where
  "note_pair kv acc = (case (kv, acc) of ((k, v), (code, st, err)) \<Rightarrow>
     if k = ''code'' then (Some v, st, err) else if k = ''state'' then (code, v, err)
     else if k = ''error'' then (code, st, Some v) else (code, st, err))"

text \<open>What the browser is sent: the authorised page, the denied page, or nothing.\<close>

datatype browser_page = Authorized | Denied

definition parse_callback :: "'h oauth_lib \<Rightarrow> bytes \<Rightarrow> auth_callback result \<times> browser_page option" where
  "parse_callback lib buf =
     (case ol_utf8 lib buf of
        None \<Rightarrow> (Inl ''callback request is not UTF-8'', None)
      | Some request_text \<Rightarrow> (case first_line request_text of
          None \<Rightarrow> (Inl ''callback request is empty'', None)
        | Some request_line \<Rightarrow> (case split_whitespace request_line of
            _ # path # _ \<Rightarrow> (case ol_query_pairs lib (''http://localhost'' @ path) of
              Inl e \<Rightarrow> (Inl ''failed to parse callback path'', None)
            | Inr pairs \<Rightarrow> (case fold note_pair pairs (None, [], None) of
                (code, st, Some err) \<Rightarrow> (Inl (''Google OAuth denied: '' @ err), Some Denied)
              | (None, st, None) \<Rightarrow> (Inl ''no authorization code in OAuth callback'', None)
              | (Some code, st, None) \<Rightarrow> (Inr \<lparr>cb_code = code, cb_state = st\<rparr>, Some Authorized)))
          | _ \<Rightarrow> (Inl ''malformed callback request line'', None))))"

text \<open>One connection: refused, or accepted with its reads. Errors of the reply are ignored.\<close>

definition handle_callback :: "'h oauth_lib \<Rightarrow> bytes result list result \<Rightarrow> auth_callback result \<times> browser_page option" where
  "handle_callback lib accepted =
     (case accepted of
        Inl e \<Rightarrow> (Inl ''OAuth callback accept failed'', None)
      | Inr reads \<Rightarrow> (case read_callback [] reads of
          Inl e \<Rightarrow> (Inl e, None)
        | Inr buf \<Rightarrow> parse_callback lib buf))"

text \<open>The reply to the browser; the title holds a dash of three UTF-8 bytes.\<close>

definition html_page :: "string \<Rightarrow> string \<Rightarrow> string" where
  "html_page title headline = ''<!DOCTYPE html><html><head><meta charset=\"UTF-8\"><title>gDriver '' @ [CHR 0xE2, CHR 0x80, CHR 0x94]
     @ '' '' @ title @ ''</title></head><body><h1>'' @ headline
     @ ''</h1><p>You can close this window and return to gDriver.</p></body></html>''"

definition CRLF :: string where "CRLF = [CHR 0x0D, CHR 0x0A]"

definition send_html_response :: "browser_page \<Rightarrow> string" where
  "send_html_response page =
     (let body = (case page of Authorized \<Rightarrow> html_page ''Authorized'' ''Authorization successful!''
                  | Denied \<Rightarrow> html_page ''Authorization Failed'' ''Authorization was denied.'')
      in ''HTTP/1.1 200 OK'' @ CRLF @ ''Content-Type: text/html; charset=utf-8'' @ CRLF @ ''Content-Length: '' @ show_nat (length body) @ CRLF
         @ ''Connection: close'' @ CRLF @ CRLF @ body)"

section \<open>The flow\<close>

text \<open>What the token future keeps until the redirect arrives.\<close>

record pending_login =
  pl_config :: "string \<times> string"
  pl_state :: string
  pl_verifier :: string
  pl_redirect :: string

definition redirect_uri_of :: "16 word \<Rightarrow> string" where
  "redirect_uri_of port = ''http://127.0.0.1:'' @ show_nat (unat port) @ ''/callback''"

definition begin_auth_flow :: "'h oauth_lib \<Rightarrow> string \<times> string \<Rightarrow> ('h api_state, (string \<times> pending_login) result) state" where
  "begin_auth_flow lib cfg = do {
     pkce \<leftarrow> generate_pkce lib;
     nonce_bytes \<leftarrow> net (ol_random lib 16);
     let nonce = ol_base64 lib nonce_bytes
     in tryE (net (ol_bind lib)) (\<lambda>port.
          let redirect_uri = redirect_uri_of port
          in State_Monad.return (case build_auth_url lib cfg pkce redirect_uri nonce of
               Inl e \<Rightarrow> Inl e
             | Inr url \<Rightarrow> Inr (url, \<lparr>pl_config = cfg, pl_state = nonce, pl_verifier = pk_verifier pkce, pl_redirect = redirect_uri\<rparr>)))
   }"

definition token_future :: "'h oauth_lib \<Rightarrow> 'h transport \<Rightarrow> pending_login \<Rightarrow> bytes result list result \<Rightarrow> ('h api_state, token_set result) state" where
  "token_future lib tp pn accepted =
     (case fst (handle_callback lib accepted) of
        Inl e \<Rightarrow> State_Monad.return (Inl (''OAuth callback server error: '' @ e))
      | Inr callback \<Rightarrow>
          if cb_state callback \<noteq> pl_state pn
          then State_Monad.return (Inl (''OAuth state mismatch (expected '' @ pl_state pn @ '', got '' @ cb_state callback @ '')''))
          else exchange_code tp (pl_config pn) (cb_code callback) (pl_verifier pn) (pl_redirect pn))"

end
