(* ===== verification/Oauth_Props.thy ===== *)
theory Oauth_Props
  imports Oauth Api_Props
begin

text \<open>
  What the login guarantees: the request of the browser is read whole however it is cut, no code is exchanged for
  a redirect with another state, and a redirect to the announced address ends with the tokens.
\<close>

section \<open>Reading the redirect\<close>

lemma read_callback_whole:
  assumes "\<And>c. c \<in> set chunks \<Longrightarrow> c \<noteq> []" and "buf @ concat chunks = req" and "has_header_end req" and "chunks \<noteq> []"
    and "\<And>n. n < length req \<Longrightarrow> \<not> has_header_end (take n req)" and "length req \<le> MAX_CALLBACK_REQUEST"
  shows "read_callback buf (map Inr chunks @ rest) = Inr req"
  using assms(1,2,4)
proof (induction chunks arbitrary: buf)
  case (Cons c cs)
  show ?case
  proof (cases "cs = []")
    case True
    then show ?thesis using Cons.prems assms(3) by simp
  next
    case False
    then obtain d ds where "cs = d # ds" by (cases cs) auto
    then have shorter: "length (buf @ c) < length req" and pre: "buf @ c = take (length (buf @ c)) req"
      using Cons.prems by auto
    then have "\<not> has_header_end (buf @ c)" using assms(5) [OF shorter] by simp
    moreover have "\<not> MAX_CALLBACK_REQUEST < length (buf @ c)" using shorter assms(6) by simp
    moreover have "read_callback (buf @ c) (map Inr cs @ rest) = Inr req"
      by (rule Cons.IH) (use Cons.prems False in auto)
    ultimately show ?thesis using Cons.prems(1) [of c] by simp
  qed
qed simp

text \<open>C25: a code is exchanged at most once, and only when the redirect carried the state of this login; then the one request goes to the
  token endpoint and holds the code of the redirect with the verifier and the redirect address of this login. Every other
  redirect ends with an error and sends nothing.\<close>

theorem code_exchanged_for_own_state_only:
  assumes "run_state (token_future lib tp pn accepted) s = (res, s')"
  shows "(ap_sent s' = ap_sent s \<and> (\<exists>e. res = Inl e) \<and> s' = s) \<or>
    (\<exists>cb. fst (handle_callback lib accepted) = Inr cb \<and> cb_state cb = pl_state pn \<and>
      ap_sent s' = ap_sent s @ [token_request tp [(''code'', cb_code cb), (''code_verifier'', pl_verifier pn), (''client_id'', fst (pl_config pn)),
        (''client_secret'', snd (pl_config pn)), (''redirect_uri'', pl_redirect pn), (''grant_type'', ''authorization_code'')]])"
proof (cases "fst (handle_callback lib accepted)")
  case (Inl e)
  then show ?thesis using assms by (auto simp: token_future_def)
next
  case (Inr cb)
  then show ?thesis using assms
    by (auto simp: token_future_def exchange_code_def send_def net_def Let_def split: if_splits prod.splits sum.splits)
qed

section \<open>From the browser to the tokens\<close>

lemma note_pairs:
  "fold note_pair kvs (code, st, err) =
    (case map_of (rev kvs) ''code'' of None \<Rightarrow> code | Some v \<Rightarrow> Some v, case map_of (rev kvs) ''state'' of None \<Rightarrow> st | Some v \<Rightarrow> v,
     case map_of (rev kvs) ''error'' of None \<Rightarrow> err | Some v \<Rightarrow> Some v)"
proof (induction kvs arbitrary: code st err)
  case (Cons kv kvs)
  obtain k v where kv: "kv = (k, v)" by (cases kv)
  show ?case using Cons by (auto simp: kv note_pair_def map_add_def split: option.split)
qed simp

lemma request_line_words:
  assumes "t \<noteq> []" and "\<And>c. c \<in> set t \<Longrightarrow> \<not> is_white c"
  shows "first_line (''GET '' @ t @ '' HTTP/1.1'' @ CRLF @ more_lines) = Some (''GET '' @ t @ '' HTTP/1.1'')"
    and "split_whitespace (''GET '' @ t @ '' HTTP/1.1'') = [''GET'', t, ''HTTP/1.1'']"
proof -
  have t: "CHR 0x0A \<notin> set t" "CHR '' '' \<notin> set t" using assms(2) by (auto simp: is_white_def)
  have lf: "\<And>c. c \<in> set t \<Longrightarrow> c \<noteq> CHR 0x0A" using t(1) by auto
  have "takeWhile (\<lambda>c. c \<noteq> CHR 0x0A) (''GET '' @ t @ '' HTTP/1.1'' @ CRLF @ more_lines) = ''GET '' @ t @ '' HTTP/1.1'' @ [CHR 0x0D]"
    using lf by (simp add: CRLF_def takeWhile_append2)
  then show "first_line (''GET '' @ t @ '' HTTP/1.1'' @ CRLF @ more_lines) = Some (''GET '' @ t @ '' HTTP/1.1'')"
    by (simp add: first_line_def CRLF_def butlast_append)
  have "map (\<lambda>c. if is_white c then CHR '' '' else c) t = t" using assms(2) by (simp add: map_idI)
  then show "split_whitespace (''GET '' @ t @ '' HTTP/1.1'') = [''GET'', t, ''HTTP/1.1'']"
    using split_on_app [OF t(2), of "''HTTP/1.1''"] assms(1) by (simp add: split_whitespace_def is_white_def)
qed

definition redirect_text :: "string \<Rightarrow> string \<Rightarrow> string" where
  "redirect_text t header_lines = ''GET '' @ t @ '' HTTP/1.1'' @ CRLF @ header_lines"

lemma parse_redirect:
  assumes "ol_utf8 lib req = Some (redirect_text t header_lines)" and "t \<noteq> []" and "\<And>ch. ch \<in> set t \<Longrightarrow> \<not> is_white ch"
    and "ol_query_pairs lib (''http://localhost'' @ t) = Inr kvs" and "map_of (rev kvs) ''code'' = Some c" and "map_of (rev kvs) ''state'' = Some st"
    and "''error'' \<notin> fst ` set kvs"
  shows "parse_callback lib req = (Inr \<lparr>cb_code = c, cb_state = st\<rparr>, Some Authorized)"
proof -
  have "map_of (rev kvs) ''error'' = None" using assms(7) by (simp add: map_of_eq_None_iff)
  then show ?thesis
    using assms(1,4-6) request_line_words(1) [OF assms(2,3), of header_lines] request_line_words(2) [OF assms(2,3)] by (simp add: parse_callback_def redirect_text_def note_pairs)
qed

text \<open>C26: a login succeeds. The URL the user opens carries a challenge, a state and a redirect address; when the browser is redirected with a
  code and that state, in a request that arrives in any pieces, the token future ends with the tokens of any endpoint that
  gives them for this code to whoever knows a verifier of that challenge and the same redirect address.\<close>

theorem browser_login_succeeds:
  assumes begun: "run_state (begin_auth_flow lib cfg) s0 = (Inr (url, pn), s1)"
    and urls: "\<And>u kvs v. ol_with_query lib u kvs = Inr v \<Longrightarrow> ol_query_pairs lib v = Inr kvs"
    and opened: "ol_query_pairs lib url = Inr q" "map_of q ''state'' = Some st"
    and request: "ol_utf8 lib (concat chunks) = Some (redirect_text t header_lines)" "t \<noteq> []" "\<And>ch. ch \<in> set t \<Longrightarrow> \<not> is_white ch"
    and pairs: "ol_query_pairs lib (''http://localhost'' @ t) = Inr kvs" "map_of (rev kvs) ''code'' = Some c" "map_of (rev kvs) ''state'' = Some st"
      "''error'' \<notin> fst ` set kvs"
    and arrives: "\<And>ch. ch \<in> set chunks \<Longrightarrow> ch \<noteq> []" "has_header_end (concat chunks)"
      "\<And>n. n < length (concat chunks) \<Longrightarrow> \<not> has_header_end (take n (concat chunks))" "length (concat chunks) \<le> MAX_CALLBACK_REQUEST"
    and endpoint: "\<And>v ru h. map_of q ''code_challenge'' = Some (ol_base64 lib (ol_sha256 lib (ol_ascii lib v))) \<Longrightarrow> map_of q ''redirect_uri'' = Some ru \<Longrightarrow>
      fst (tp_send tp (token_request tp [(''code'', c), (''code_verifier'', v), (''client_id'', fst cfg), (''client_secret'', snd cfg),
        (''redirect_uri'', ru), (''grant_type'', ''authorization_code'')]) h) = Inr \<lparr>rs_status = 200, rs_headers = hds, rs_body = [Inr body]\<rparr>"
    and granted: "tp_token_json tp body = Some raw"
  shows "\<exists>now. fst (run_state (token_future lib tp pn (Inr (map Inr chunks @ rest))) s) = Inr (token_set_from now raw)"
proof -
  obtain v port where pn: "pl_config pn = cfg" "pl_state pn = st" "pl_verifier pn = v" "map_of q ''redirect_uri'' = Some (pl_redirect pn)"
      "map_of q ''code_challenge'' = Some (ol_base64 lib (ol_sha256 lib (ol_ascii lib v)))"
    using begun opened urls
    by (auto simp: begin_auth_flow_def generate_pkce_def build_auth_url_def auth_query_def net_def Let_def split: prod.splits sum.splits)
  have "chunks \<noteq> []" using arrives(2) by auto
  then have "read_callback [] (map Inr chunks @ rest) = Inr (concat chunks)"
    by (intro read_callback_whole) (use arrives in auto)
  then have "fst (handle_callback lib (Inr (map Inr chunks @ rest))) = Inr \<lparr>cb_code = c, cb_state = st\<rparr>"
    using parse_redirect [OF request pairs] by (simp add: handle_callback_def)
  moreover obtain h where "tp_send tp (token_request tp [(''code'', c), (''code_verifier'', v), (''client_id'', fst cfg), (''client_secret'', snd cfg),
      (''redirect_uri'', pl_redirect pn), (''grant_type'', ''authorization_code'')]) (ap_net s) = (Inr \<lparr>rs_status = 200, rs_headers = hds, rs_body = [Inr body]\<rparr>, h)"
    using endpoint [OF pn(5,4), of "ap_net s"] by (metis surjective_pairing)
  ultimately show ?thesis
    using granted by (auto simp: token_future_def pn exchange_code_def send_def net_def read_json_def is_success_def)
qed

text \<open>A library and an endpoint with short names for everything; the redirect arrives in two pieces.\<close>

definition sample_pkce :: pkce_challenge where "sample_pkce = \<lparr>pk_verifier = ''A'', pk_challenge = ''A''\<rparr>"

definition sample_query :: "(string \<times> string) list" where
  "sample_query = auth_query (''id'', ''secret'') sample_pkce (redirect_uri_of 80) ''A''"

definition sample_lib :: "'h oauth_lib" where
  "sample_lib = \<lparr>ol_random = (\<lambda>n h. (replicate n 1, h)), ol_sha256 = (\<lambda>bs. bs), ol_base64 = (\<lambda>_. ''A''),
     ol_ascii = map (\<lambda>c. of_nat (of_char c)), ol_utf8 = (\<lambda>bs. Some (map (\<lambda>b. char_of (unat b)) bs)),
     ol_with_query = (\<lambda>_ kvs. if kvs = sample_query then Inr ''url'' else Inl ''unknown''),
     ol_query_pairs = (\<lambda>u. if u = ''url'' then Inr sample_query
       else if u = ''http://localhost/c'' then Inr [(''state'', ''A''), (''code'', ''7'')] else Inl ''unknown''),
     ol_bind = (\<lambda>h. (Inr 80, h))\<rparr>"

definition sample_redirect :: "bytes list" where
  "sample_redirect = [map (\<lambda>c. of_nat (of_char c)) ''GET /c HT'', map (\<lambda>c. of_nat (of_char c)) (''TP/1.1'' @ CRLF @ CRLF)]"

lemma sample_redirect_text: "ol_utf8 sample_lib (concat sample_redirect) = Some (redirect_text ''/c'' CRLF)"
proof -
  have "map (\<lambda>b :: 8 word. char_of (unat b)) (concat sample_redirect) = redirect_text ''/c'' CRLF" by code_simp
  then show ?thesis by (simp add: sample_lib_def)
qed

lemma sample_redirect_ends: "has_header_end (concat sample_redirect)"
  "n < length (concat sample_redirect) \<Longrightarrow> \<not> has_header_end (take n (concat sample_redirect))"
proof -
  show "has_header_end (concat sample_redirect)" by code_simp
  have "list_all (\<lambda>n. \<not> has_header_end (take n (concat sample_redirect))) [0..<length (concat sample_redirect)]" by code_simp
  then show "n < length (concat sample_redirect) \<Longrightarrow> \<not> has_header_end (take n (concat sample_redirect))"
    by (simp add: list_all_iff del: upt_Suc)
qed

lemma sample_callback: "fst (handle_callback (sample_lib :: 'h oauth_lib) (Inr (map Inr sample_redirect))) = Inr \<lparr>cb_code = ''7'', cb_state = ''A''\<rparr>"
proof -
  have "read_callback [] (map Inr sample_redirect @ []) = Inr (concat sample_redirect)"
    by (rule read_callback_whole) (use sample_redirect_ends in \<open>auto simp: sample_redirect_def MAX_CALLBACK_REQUEST_def CRLF_def\<close>)
  moreover have "parse_callback (sample_lib :: 'h oauth_lib) (concat sample_redirect) = (Inr \<lparr>cb_code = ''7'', cb_state = ''A''\<rparr>, Some Authorized)"
    by (rule parse_redirect [OF sample_redirect_text, where kvs = "[(''state'', ''A''), (''code'', ''7'')]"]) (auto simp: sample_lib_def is_white_def)
  ultimately show ?thesis by (simp add: handle_callback_def)
qed

definition granted_tokens :: raw_token_response where
  "granted_tokens = \<lparr>rt_access_token = ''access'', rt_refresh_token = Some ''refresh'', rt_expires_in = 3600, rt_token_type = ''Bearer''\<rparr>"

definition token_transport :: "http_response list transport" where
  "token_transport = script_transport\<lparr>tp_send := (\<lambda>rq h. (Inr \<lparr>rs_status = 200, rs_headers = [], rs_body = [Inr [1]]\<rparr>, h)),
     tp_token_json := (\<lambda>bs. if bs = [1] then Some granted_tokens else None)\<rparr>"

definition sample_login :: pending_login where
  "sample_login = \<lparr>pl_config = (''id'', ''secret''), pl_state = ''A'', pl_verifier = ''A'', pl_redirect = redirect_uri_of 80\<rparr>"

lemma sample_begun: "run_state (begin_auth_flow sample_lib (''id'', ''secret'')) s = (Inr (''url'', sample_login), s)"
  by (simp add: begin_auth_flow_def generate_pkce_def build_auth_url_def net_def Let_def sample_lib_def sample_query_def sample_pkce_def sample_login_def)

theorem browser_login_succeeds_witness:
  "\<exists>now. fst (run_state (token_future sample_lib token_transport sample_login (Inr (map Inr sample_redirect @ []))) \<lparr>ap_net = [], ap_tokens = Map.empty, ap_sent = [], ap_slept = []\<rparr>)
     = Inr (token_set_from now granted_tokens)"
proof (rule browser_login_succeeds [OF sample_begun])
  show "ol_query_pairs sample_lib ''url'' = Inr sample_query" by (simp add: sample_lib_def)
  show "map_of sample_query ''state'' = Some ''A''" by (simp add: sample_query_def auth_query_def)
  show "ol_utf8 sample_lib (concat sample_redirect) = Some (redirect_text ''/c'' CRLF)" by (rule sample_redirect_text)
  show "ol_query_pairs sample_lib (''http://localhost'' @ ''/c'') = Inr [(''state'', ''A''), (''code'', ''7'')]" by (simp add: sample_lib_def)
  show "length (concat sample_redirect) \<le> MAX_CALLBACK_REQUEST" by (simp add: sample_redirect_def CRLF_def MAX_CALLBACK_REQUEST_def)
  show "tp_token_json token_transport [1] = Some granted_tokens" by (simp add: token_transport_def)
qed (use sample_redirect_ends in \<open>auto simp: sample_lib_def token_transport_def is_white_def sample_redirect_def split: if_splits\<close>)

theorem code_exchanged_for_own_state_only_witness:
  "\<exists>e. run_state (token_future sample_lib token_transport (sample_login\<lparr>pl_state := ''B''\<rparr>) (Inr (map Inr sample_redirect)))
     \<lparr>ap_net = [], ap_tokens = Map.empty, ap_sent = [], ap_slept = []\<rparr> = (Inl e, \<lparr>ap_net = [], ap_tokens = Map.empty, ap_sent = [], ap_slept = []\<rparr>)"
proof -
  let ?run = "run_state (token_future sample_lib token_transport (sample_login\<lparr>pl_state := ''B''\<rparr>) (Inr (map Inr sample_redirect)))
     \<lparr>ap_net = [], ap_tokens = Map.empty, ap_sent = [], ap_slept = []\<rparr>"
  have "fst (handle_callback (sample_lib :: http_response list oauth_lib) (Inr (map Inr sample_redirect))) = Inr \<lparr>cb_code = ''7'', cb_state = ''A''\<rparr>"
    by (rule sample_callback)
  then show ?thesis
    using code_exchanged_for_own_state_only [OF surjective_pairing, of sample_lib token_transport "sample_login\<lparr>pl_state := ''B''\<rparr>"
      "Inr (map Inr sample_redirect)" "\<lparr>ap_net = [], ap_tokens = Map.empty, ap_sent = [], ap_slept = []\<rparr>"]
    by (cases ?run) auto
qed

end
