(* ===== verification/Daemon.thy ===== *)
theory Daemon
  imports Ipc_Frames Watcher Oauth
begin

text \<open>
  \<^verbatim>\<open>crates/gdriver-daemon/src/main.rs\<close> and \<^verbatim>\<open>db/mod.rs\<close>: the daemon as a whole. \<open>boot\<close> is what \<^verbatim>\<open>main\<close> does before it
  serves; \<open>daemon_step\<close> runs the engine, the watcher, the accept loop, the client connections, the file system and
  \<^verbatim>\<open>main\<close> itself on the state they share, one handler of one of them at a time, in any order. The sockets, \<^verbatim>\<open>fuser\<close>, \<^verbatim>\<open>notify\<close>, the environment and the
  directories of the user are parameters.
\<close>

record 'x daemon_env =
  de_ipc :: "'x ipc_env"
  de_codec :: text_codec
  de_var :: "string \<Rightarrow> string option"
  de_runtime_dir :: "string option"
  de_temp_dir :: string
  de_bind :: "string \<Rightarrow> unit result"
  de_fuse :: "string \<Rightarrow> unit result"
  de_canonical :: "filesystem \<Rightarrow> string \<Rightarrow> string option"
  de_writes :: "nat \<Rightarrow> nat \<Rightarrow> bool"
  de_fits :: "dirent list \<Rightarrow> dirent \<Rightarrow> bool"
  de_watch_ok :: "string \<Rightarrow> bool"
  de_list_dir :: "filesystem \<Rightarrow> string \<Rightarrow> string list result"
  de_depth :: nat

abbreviation de_services :: "'x daemon_env \<Rightarrow> 'x services" where
  "de_services env \<equiv> ie_services (de_ipc env)"

section \<open>Before serving\<close>

definition db_path :: "'x daemon_env \<Rightarrow> ('x world, string result) state" where
  "db_path env =
     (case ie_data_dir (de_ipc env) of
        None \<Rightarrow> State_Monad.return (Inl ''cannot determine data directory'')
      | Some dd \<Rightarrow> (let dir = path_join dd ''gdriver''
          in tryE (fs_create_dir_all dir) (\<lambda>_. State_Monad.return (Inr (path_join dir ''gdriver.db'')))))"

text \<open>Opening the database and migrating it: the database of the world has the current schema, so both leave it as it is.\<close>

definition create_pool :: "'x daemon_env \<Rightarrow> ('x world, unit result) state" where
  "create_pool env = tryE (db_path env) (\<lambda>_. db_exec (\<lambda>d. (Inr (), d)))"

definition run_migrations :: "('x world, unit result) state" where
  "run_migrations = db_exec (\<lambda>d. (Inr (), d))"

definition load_or_create_prefs :: "'x daemon_env \<Rightarrow> ('x world, preferences result) state" where
  "load_or_create_prefs env =
     (let tm = ie_toml (de_ipc env); dd = ie_data_dir (de_ipc env)
      in tryE (load_config tm dd) (\<lambda>prefs.
         tryE (config_path dd) (\<lambda>p. do {
           there \<leftarrow> fs_query (\<lambda>s. fs_exists s p);
           tryE (if there then State_Monad.return (Inr ()) else save_config tm dd prefs) (\<lambda>_. State_Monad.return (Inr prefs))
         })))"

definition mount_point_of :: "'x daemon_env \<Rightarrow> preferences \<Rightarrow> string" where
  "mount_point_of env prefs = expand_tilde (ie_home_dir (de_ipc env)) (vp_mount_point (pf_vfs prefs))"

definition vfs_cache_dir :: "'x daemon_env \<Rightarrow> string" where
  "vfs_cache_dir env = path_join (case ie_cache_dir (de_ipc env) of None \<Rightarrow> de_temp_dir env | Some d \<Rightarrow> d) ''gdriver''"

text \<open>The mount point of \<^verbatim>\<open>main\<close> has no tilde left unless there is no home directory; then \<^verbatim>\<open>shellexpand\<close> finds none either.\<close>

definition ensure_mount_point :: "'x daemon_env \<Rightarrow> string \<Rightarrow> ('x world, string result) state" where
  "ensure_mount_point env p = do {
     there \<leftarrow> fs_query (\<lambda>s. fs_exists s p);
     tryE (if there then State_Monad.return (Inr ()) else fs_create_dir_all p) (\<lambda>_. do {
       canonical \<leftarrow> fs_query (\<lambda>s. de_canonical env s p);
       State_Monad.return (Inr (case canonical of None \<Rightarrow> p | Some c \<Rightarrow> c))
     })
   }"

definition mount_fuse :: "'x daemon_env \<Rightarrow> string \<Rightarrow> ('x world, gfs result) state" where
  "mount_fuse env mount_point =
     tryE (ensure_mount_point env mount_point) (\<lambda>p.
       State_Monad.return (case de_fuse env p of Inl e \<Rightarrow> Inl e | Inr _ \<Rightarrow> Inr (gfs_new (vfs_cache_dir env))))"

definition unix_socket_path :: "'x daemon_env \<Rightarrow> string" where
  "unix_socket_path env = path_join (case de_runtime_dir env of None \<Rightarrow> de_temp_dir env | Some d \<Rightarrow> d) ''gdriver.sock''"

text \<open>A bound socket leaves its node in the file system, also when the process dies.\<close>

definition open_socket :: "'x daemon_env \<Rightarrow> ('x world, unit result) state" where
  "open_socket env =
     (let path = unix_socket_path env
      in do {
        there \<leftarrow> fs_query (\<lambda>s. fs_exists s path);
        tryE (if there then fs_remove path else State_Monad.return (Inr ())) (\<lambda>_.
          case de_bind env path of Inl e \<Rightarrow> State_Monad.return (Inl e) | Inr _ \<Rightarrow> fs_create path)
      })"

section \<open>The running daemon\<close>

text \<open>A client connection with its place in the broadcast of push messages.\<close>

record 'x link =
  ln_conn :: "'x conn"
  ln_seen :: nat

datatype phase = Serving | Stopping | Stopped

record 'x daemon =
  dm_router :: "'x router"
  dm_links :: "'x link list"
  dm_engine :: "engine option"
  dm_watcher :: "watcher option"
  dm_taken :: nat
  dm_vfs :: "gfs option"
  dm_phase :: phase

abbreviation dm_world :: "'x daemon \<Rightarrow> 'x world" where
  "dm_world d \<equiv> rt_world (dm_router d)"

definition router_new :: "preferences \<Rightarrow> 'x world \<Rightarrow> 'x router" where
  "router_new prefs w = with_prefs prefs \<lparr>rt_world = w, rt_general = pf_general prefs, rt_network = pf_network prefs,
     rt_hotkeys = pf_hotkeys prefs, rt_telemetry = pf_telemetry prefs, rt_commands = [], rt_engine_up = True, rt_reloads = 0\<rparr>"

text \<open>
  A process starts without clients and without cached tokens. The engine and the watcher are spawned and begin when they
  are first polled. The file system is optional; a socket that cannot be opened ends the service at once.
\<close>

definition boot :: "'x daemon_env \<Rightarrow> ('x world, 'x daemon result) state" where
  "boot env =
     tryE (create_pool env) (\<lambda>_.
     tryE run_migrations (\<lambda>_.
     tryE (load_or_create_prefs env) (\<lambda>prefs.
     case oauth_from_env (de_var env) of
       Inl e \<Rightarrow> State_Monad.return (Inl e)
     | Inr oauth \<Rightarrow> do {
         mounted \<leftarrow> mount_fuse env (mount_point_of env prefs);
         listening \<leftarrow> open_socket env;
         w \<leftarrow> State_Monad.get;
         State_Monad.return (Inr \<lparr>dm_router = router_new prefs (w\<lparr>w_push := [], w_tokens := Map.empty, w_oauth := Some oauth\<rparr>),
           dm_links = [], dm_engine = None, dm_watcher = None, dm_taken = 0,
           dm_vfs = (case listening of Inl _ \<Rightarrow> None | Inr _ \<Rightarrow> (case mounted of Inl _ \<Rightarrow> None | Inr g \<Rightarrow> Some g)),
           dm_phase = (case listening of Inl _ \<Rightarrow> Stopping | Inr _ \<Rightarrow> Serving)\<rparr>)
       })))"

section \<open>Steps\<close>

text \<open>
  \<open>EngineBegins\<close>, \<open>Poll\<close>, \<open>TakeCommand\<close>, \<open>TakeTask\<close>, \<open>TasksClosed\<close> and \<open>CommandsClosed\<close> are the branches of the engine,
  \<open>Client i ev\<close> and \<open>Push i\<close> those of connection \<open>i\<close>, \<open>Interrupt\<close> is the signal and \<open>MainReturns\<close> the end of \<^verbatim>\<open>main\<close>.
\<close>

datatype daemon_event =
    EngineBegins | Poll | TakeCommand | TakeTask | TasksClosed | CommandsClosed
  | WatcherBegins | Watch watch_event
  | Accept | Client nat conn_event | Push nat | Login token_set
  | Kernel vfs_request
  | Interrupt | MainReturns

definition in_daemon :: "('x world, 'a) state \<Rightarrow> 'x daemon \<Rightarrow> 'a \<times> 'x daemon" where
  "in_daemon m d = (case run_state (in_world m) (dm_router d) of (x, r) \<Rightarrow> (x, d\<lparr>dm_router := r\<rparr>))"

subsection \<open>The channels\<close>

definition PUSH_CAPACITY :: nat where "PUSH_CAPACITY = 256"
definition TASK_CAPACITY :: nat where "TASK_CAPACITY = 128"

text \<open>Tasks the watcher has sent and the engine has not taken.\<close>

definition queued_tasks :: "'x daemon \<Rightarrow> sync_task list" where
  "queued_tasks d = (case dm_watcher d of None \<Rightarrow> [] | Some wt \<Rightarrow> drop (dm_taken d) (wt_sent wt))"

definition task_channel :: "'x daemon \<Rightarrow> nat \<Rightarrow> channel_state" where
  "task_channel d n =
     (if \<not> rt_engine_up (dm_router d) then Closed
      else if length (queued_tasks d) + n < TASK_CAPACITY + (case dm_watcher d of None \<Rightarrow> 0 | Some wt \<Rightarrow> wt_sends wt) then Room
      else Full)"

text \<open>
  Who holds the router, and with it the sender of commands and the sender of reload signals: \<^verbatim>\<open>main\<close> until it returns,
  the accept loop while it serves, and every open connection.
\<close>

definition router_owners :: "'x daemon \<Rightarrow> nat" where
  "router_owners d = (if dm_phase d = Stopped then 0 else 1) + (if dm_phase d = Serving then 1 else 0) +
     length (filter (\<lambda>l. cn_open (ln_conn l)) (dm_links d))"

subsection \<open>The engine\<close>

definition engine_does :: "'x daemon_env \<Rightarrow> engine_event \<Rightarrow> engine \<Rightarrow> 'x daemon \<Rightarrow> 'x daemon" where
  "engine_does env ev en d =
     (if event_ready en ev
      then (case in_daemon (handle_event (de_services env) en ev) d of (en', d') \<Rightarrow> d'\<lparr>dm_engine := Some en'\<rparr>)
      else d)"

definition engine_branch :: "'x daemon_env \<Rightarrow> daemon_event \<Rightarrow> engine \<Rightarrow> 'x daemon \<Rightarrow> 'x daemon" where
  "engine_branch env ev en d =
     (case ev of
        Poll \<Rightarrow> engine_does env PollTick en d
      | TakeCommand \<Rightarrow> (case rt_commands (dm_router d) of
            [] \<Rightarrow> d
          | c # cs \<Rightarrow> if en_running en then engine_does env (Command c) en (d\<lparr>dm_router := (dm_router d)\<lparr>rt_commands := cs\<rparr>\<rparr>) else d)
      | TakeTask \<Rightarrow> (case queued_tasks d of
            [] \<Rightarrow> d
          | t # _ \<Rightarrow> if event_ready en (WatcherTask t) then engine_does env (WatcherTask t) en (d\<lparr>dm_taken := Suc (dm_taken d)\<rparr>) else d)
      | TasksClosed \<Rightarrow> (case dm_watcher d of
            None \<Rightarrow> d
          | Some wt \<Rightarrow> if \<not> wt_running wt \<and> queued_tasks d = [] then engine_does env WatcherClosed en d else d)
      | CommandsClosed \<Rightarrow>
          if router_owners d = 0 \<and> rt_commands (dm_router d) = []
          then (let d' = engine_does env Shutdown en d in d'\<lparr>dm_router := (dm_router d')\<lparr>rt_engine_up := False\<rparr>\<rparr>)
          else d
      | _ \<Rightarrow> d)"

definition engine_begins :: "'x daemon \<Rightarrow> 'x daemon" where
  "engine_begins d =
     (if dm_engine d = None then (case in_daemon (engine_start True) d of (en, d') \<Rightarrow> d'\<lparr>dm_engine := Some en\<rparr>) else d)"

subsection \<open>The watcher\<close>

definition watcher_begins :: "'x daemon_env \<Rightarrow> 'x daemon \<Rightarrow> 'x daemon" where
  "watcher_begins env d =
     (if dm_watcher d = None
      then (case in_daemon (reload_and_scan (de_watch_ok env) (de_list_dir env) (de_depth env) (task_channel d)
              \<lparr>wt_folders = [], wt_pending = [], wt_sent = [], wt_sends = 0, wt_running = True\<rparr>) d of
              (wt, d') \<Rightarrow> d'\<lparr>dm_watcher := Some wt\<rparr>)
      else d)"

text \<open>A reload needs a signal in its channel; a closed channel answers at once, every time.\<close>

definition watcher_branch :: "'x daemon_env \<Rightarrow> watch_event \<Rightarrow> watcher \<Rightarrow> 'x daemon \<Rightarrow> 'x daemon" where
  "watcher_branch env ev wt d =
     (let n = rt_reloads (dm_router d)
      in if \<not> wt_running wt \<or> ev = Reload \<and> n = 0 \<and> router_owners d \<noteq> 0 then d
         else (case in_daemon (watch_step (de_watch_ok env) (de_list_dir env) (de_depth env) (task_channel d) wt ev)
                 (if ev = Reload then d\<lparr>dm_router := (dm_router d)\<lparr>rt_reloads := n - 1\<rparr>\<rparr> else d) of
                 (wt', d') \<Rightarrow> d'\<lparr>dm_watcher := Some wt'\<rparr>))"

subsection \<open>Connections\<close>

definition link_step :: "'x daemon_env \<Rightarrow> nat \<Rightarrow> conn_event \<Rightarrow> nat \<Rightarrow> 'x daemon \<Rightarrow> 'x daemon" where
  "link_step env i ev seen d =
     (let c = conn_step (de_ipc env) (de_codec env) (de_writes env i) ev ((ln_conn (dm_links d ! i))\<lparr>cn_router := dm_router d\<rparr>)
      in d\<lparr>dm_router := cn_router c, dm_links := (dm_links d)[i := \<lparr>ln_conn = c, ln_seen = seen\<rparr>]\<rparr>)"

definition client_event :: "conn_event \<Rightarrow> bool" where
  "client_event ev \<longleftrightarrow> (case ev of PushReady _ \<Rightarrow> False | _ \<Rightarrow> True)"

definition push_text :: "'x daemon_env \<Rightarrow> push_event \<Rightarrow> string" where
  "push_text env e = tc_print (de_codec env) (en_request (to_notification no_floats e))"

text \<open>A receiver of \<^verbatim>\<open>broadcast\<close>: the next message, or, when it is not kept any more, the number of messages lost.\<close>

definition receive_push :: "'x daemon_env \<Rightarrow> nat \<Rightarrow> 'x daemon \<Rightarrow> 'x daemon" where
  "receive_push env i d =
     (let seen = ln_seen (dm_links d ! i); sent = w_push (dm_world d)
      in if \<not> cn_open (ln_conn (dm_links d ! i)) \<or> length sent \<le> seen then d
         else if seen + PUSH_CAPACITY < length sent
              then link_step env i (PushReady (PushLagged (length sent - PUSH_CAPACITY - seen))) (length sent - PUSH_CAPACITY) d
              else link_step env i (PushReady (PushText (push_text env (sent ! seen)))) (Suc seen) d)"

section \<open>The daemon\<close>

definition serve_event :: "'x daemon_env \<Rightarrow> daemon_event \<Rightarrow> 'x daemon \<Rightarrow> 'x daemon" where
  "serve_event env ev d =
     (case ev of
        EngineBegins \<Rightarrow> engine_begins d
      | WatcherBegins \<Rightarrow> watcher_begins env d
      | Watch wev \<Rightarrow> (case dm_watcher d of None \<Rightarrow> d | Some wt \<Rightarrow> watcher_branch env wev wt d)
      | Accept \<Rightarrow> if dm_phase d = Serving
          then d\<lparr>dm_links := dm_links d @ [\<lparr>ln_conn = conn_new (dm_router d), ln_seen = length (w_push (dm_world d))\<rparr>]\<rparr> else d
      | Client i cev \<Rightarrow> if i < length (dm_links d) \<and> client_event cev then link_step env i cev (ln_seen (dm_links d ! i)) d else d
      | Push i \<Rightarrow> if i < length (dm_links d) then receive_push env i d else d
      | Login ts \<Rightarrow> d\<lparr>dm_router := snd (run_state (complete_oauth_flow (de_ipc env) ts) (dm_router d))\<rparr>
      | Kernel q \<Rightarrow> (case dm_vfs d of
            None \<Rightarrow> d
          | Some g \<Rightarrow> (case in_daemon (vfs_serve (process_pending_tasks (de_services env)) (de_fits env) g q) d of
              ((reply, g'), d') \<Rightarrow> d'\<lparr>dm_vfs := Some g'\<rparr>))
      | Interrupt \<Rightarrow> if dm_phase d = Serving then d\<lparr>dm_phase := Stopping, dm_vfs := None\<rparr> else d
      | MainReturns \<Rightarrow> (case (dm_phase d, dm_engine d, dm_watcher d) of
            (Stopping, Some en, Some wt) \<Rightarrow> if \<not> en_running en \<and> \<not> wt_running wt then d\<lparr>dm_phase := Stopped\<rparr> else d
          | _ \<Rightarrow> d)
      | _ \<Rightarrow> (case dm_engine d of None \<Rightarrow> d | Some en \<Rightarrow> engine_branch env ev en d))"

definition daemon_step :: "'x daemon_env \<Rightarrow> daemon_event \<Rightarrow> 'x daemon \<Rightarrow> 'x daemon" where
  "daemon_step env ev d = (if dm_phase d = Stopped then d else serve_event env ev d)"

definition daemon_run :: "'x daemon_env \<Rightarrow> daemon_event list \<Rightarrow> 'x daemon \<Rightarrow> 'x daemon" where
  "daemon_run env evs d = fold (daemon_step env) evs d"

text \<open>
  A life of the daemon: it may execute operations up to a number, starts, and goes through its events. Then the process
  is gone, and the next life starts from the database, the files and the services as they are.
\<close>

fun daemon_lives :: "'x daemon_env \<Rightarrow> (nat \<times> daemon_event list) list \<Rightarrow> 'x world \<Rightarrow> 'x world" where
  "daemon_lives env [] w = w"
| "daemon_lives env ((limit, evs) # lives) w =
     (case run_state (boot env) (w\<lparr>w_limit := limit\<rparr>) of
        (Inl e, w') \<Rightarrow> daemon_lives env lives w'
      | (Inr d, _) \<Rightarrow> daemon_lives env lives (dm_world (daemon_run env evs d)))"

end
