(* ===== verification/Daemon_Props.thy ===== *)
theory Daemon_Props
  imports Daemon Ipc_Props "HOL-Library.Sublist"
begin

text \<open>
  What holds of the whole daemon, for every interleaving of its parts: integrity, tasks that stay stranded, pushes that
  reach the clients in order, and a shutdown that never ends.
\<close>

section \<open>Tasks of the watcher are fresh\<close>

definition wt_fresh :: "watcher \<Rightarrow> bool" where
  "wt_fresh wt \<longleftrightarrow> list_all fresh_task (wt_sent wt)"

lemma watch_task_fresh: "fresh_task (watch_task now acct oper p)"
  by (simp add: watch_task_def fresh_task_def)

lemma wt_fresh_simps [simp]:
  "wt_fresh (wt\<lparr>wt_folders := fm\<rparr>) = wt_fresh wt" "wt_fresh (wt\<lparr>wt_pending := ps\<rparr>) = wt_fresh wt"
  "wt_fresh (wt\<lparr>wt_running := b\<rparr>) = wt_fresh wt" "wt_fresh (wt\<lparr>wt_sends := n\<rparr>) = wt_fresh wt"
  "wt_fresh (wt\<lparr>wt_sends := n, wt_sent := wt_sent wt @ [t]\<rparr>) \<longleftrightarrow> wt_fresh wt \<and> fresh_task t"
  by (simp_all add: wt_fresh_def)

lemma sends_fresh:
  "wt_fresh wt \<Longrightarrow> fresh_task t \<Longrightarrow> wt_fresh (snd (send_task chan t wt))"
  "wt_fresh wt \<Longrightarrow> fresh_task t \<Longrightarrow> wt_fresh (try_send chan t wt)"
  by (simp_all add: send_task_def try_send_def Let_def)

lemma try_sends_fresh: "wt_fresh wt \<Longrightarrow> list_all fresh_task ts \<Longrightarrow> wt_fresh (fold (try_send chan) ts wt)"
  by (induction ts arbitrary: wt) (simp_all add: sends_fresh)

lemma walk_fresh:
  "(\<And>p. fresh_task (task p)) \<Longrightarrow> wt_fresh wt \<Longrightarrow> wt_fresh (walk_and_enqueue chan ls s task n dir wt)"
  "(\<And>p. fresh_task (task p)) \<Longrightarrow> wt_fresh wt \<Longrightarrow> wt_fresh (walk_entries chan ls s task n paths wt)"
proof (induction chan ls s task n dir wt and chan ls s task n paths wt rule: walk_and_enqueue_walk_entries.induct)
  case (4 chan ls s task n path paths wt)
  note sent = sends_fresh(1) [of wt "task path" chan]
  show ?case
    using 4 sent by (cases "send_task chan (task path) wt") (auto split: bool.split)
qed (auto split: sum.split)

lemma scan_fresh: "wt_fresh wt \<Longrightarrow> wt_fresh (fold (scan_folder chan ls depth s now) folders wt)"
  by (induction folders arbitrary: wt) (auto simp: scan_folder_def watch_task_fresh walk_fresh)

lemma reload_fresh: "wt_fresh wt \<Longrightarrow> wt_fresh (fst (run_state (reload_and_scan watch_ok ls depth chan wt) w))"
  by (simp add: reload_and_scan_def scan_existing_files_def scan_fresh split: prod.split)

lemma flush_fresh: "list_all fresh_task (fst (run_state (flush_entries es fm) w))"
proof (induction es arbitrary: w)
  case (Cons e es)
  have "\<forall>t. fst (run_state (event_to_task (de_path e) (de_event e) fm) w) = Some t \<longrightarrow> fresh_task t"
    by (auto simp: event_to_task_def fs_query_def now_ms_def watch_task_fresh split: if_splits option.splits)
  then show ?case using Cons by (auto split: prod.split option.split) (metis fst_conv)+
qed simp

lemma watch_step_fresh: "wt_fresh wt \<Longrightarrow> wt_fresh (fst (run_state (watch_step watch_ok ls depth chan wt ev) w))"
proof (cases ev)
  case (Tick now)
  then show "wt_fresh wt \<Longrightarrow> ?thesis"
    using flush_fresh [of "filter (expired now) (wt_pending wt)" "wt_folders wt" w]
    by (auto intro!: try_sends_fresh split: prod.split)
qed (simp_all add: reload_fresh)

definition tasks_fresh :: "'x daemon \<Rightarrow> bool" where
  "tasks_fresh d \<longleftrightarrow> (case dm_watcher d of None \<Rightarrow> True | Some wt \<Rightarrow> wt_fresh wt)"

lemma queued_fresh: "tasks_fresh d \<Longrightarrow> queued_tasks d = t # ts \<Longrightarrow> fresh_task t"
  using in_set_dropD [of t "dm_taken d"]
  by (fastforce simp: tasks_fresh_def wt_fresh_def queued_tasks_def list_all_iff split: option.splits)

lemma in_daemon_parts [simp]:
  "dm_watcher (snd (in_daemon m d)) = dm_watcher d" "dm_links (snd (in_daemon m d)) = dm_links d"
  "dm_engine (snd (in_daemon m d)) = dm_engine d" "dm_phase (snd (in_daemon m d)) = dm_phase d"
  "dm_taken (snd (in_daemon m d)) = dm_taken d" "dm_vfs (snd (in_daemon m d)) = dm_vfs d"
  "dm_world (snd (in_daemon m d)) = snd (run_state m (dm_world d))"
  "fst (in_daemon m d) = fst (run_state m (dm_world d))"
  by (simp_all add: in_daemon_def in_world_def split: prod.split)

lemma engine_keeps_parts [simp]:
  "dm_watcher (engine_does env ev en d) = dm_watcher d" "dm_watcher (engine_branch env dev en d) = dm_watcher d"
  by (auto simp: engine_does_def engine_branch_def Let_def case_prod_beta split: daemon_event.split list.split option.split)

lemma link_keeps_parts [simp]:
  "dm_watcher (link_step env i cev n d) = dm_watcher d" "dm_watcher (receive_push env i d) = dm_watcher d"
  by (auto simp: link_step_def receive_push_def Let_def)

lemma daemon_step_fresh: "tasks_fresh d \<Longrightarrow> tasks_fresh (daemon_step env ev d)"
proof -
  have start: "wt_fresh \<lparr>wt_folders = [], wt_pending = [], wt_sent = [], wt_sends = 0, wt_running = True\<rparr>"
    by (simp add: wt_fresh_def)
  show "tasks_fresh d \<Longrightarrow> ?thesis"
    by (cases ev)
      (auto simp: daemon_step_def serve_event_def tasks_fresh_def engine_begins_def watcher_begins_def watcher_branch_def Let_def
        case_prod_beta start intro!: reload_fresh watch_step_fresh split: option.split option.split_asm phase.split)
qed

section \<open>Everything the daemon does\<close>

text \<open>
  The interface of a relation on worlds that every part of the daemon keeps, given that the engine, the JSON-RPC handlers
  and the file system keep it: then every step does, and every run.
\<close>

locale daemon_frame = en: engine_frame R sv + rt: router_frame R + vf: vfs_frame R "process_pending_tasks sv"
  for R :: "'x world \<Rightarrow> 'x world \<Rightarrow> bool" and sv :: "'x services"
begin

lemma R_in_daemon: "state_io_rel R m \<Longrightarrow> R (dm_world d) (dm_world (snd (in_daemon m d)))"
  by (simp add: en.io_run)

lemma io_folders: "state_io_rel R (reload_and_scan watch_ok ls depth chan wt)"
proof -
  have "state_io_rel R (reload_loop watch_ok fs fm)" for fs fm
    by (induction fs arbitrary: fm) (auto intro!: io_rel)
  then show ?thesis
    unfolding reload_and_scan_def reload_folders_def scan_existing_files_def list_enabled_def
    by (intro io_rel) (simp add: en.R_refl)
qed

lemma io_watch: "state_io_rel R (watch_step watch_ok ls depth chan wt ev)"
proof -
  have "state_io_rel R (event_to_task p k fm)" for p k fm
    unfolding event_to_task_def by (intro io_rel)
  then have "state_io_rel R (flush_entries es fm)" for es fm
    by (induction es) (auto intro!: io_rel)
  then show ?thesis by (cases ev) (auto intro!: io_rel io_folders)
qed

lemma R_engine: "event_fresh ev \<Longrightarrow> R (dm_world d) (dm_world (engine_does env ev en d))" if "de_services env = sv"
  using R_in_daemon [OF en.io_handle_event, of ev d en] that
  by (simp add: engine_does_def case_prod_beta en.R_refl)

lemma R_engine_branch:
  assumes "de_services env = sv" and "tasks_fresh d"
  shows "R (dm_world d) (dm_world (engine_branch env ev en d))"
proof -
  have cmd: "R (dm_world d) (dm_world (engine_does env (Command c) en (d\<lparr>dm_router := (dm_router d)\<lparr>rt_commands := cs\<rparr>\<rparr>)))" for c cs
    using R_engine [OF assms(1), of "Command c" "d\<lparr>dm_router := (dm_router d)\<lparr>rt_commands := cs\<rparr>\<rparr>" en] by simp
  have task: "R (dm_world d) (dm_world (engine_does env (WatcherTask t) en (d\<lparr>dm_taken := n\<rparr>)))" if "fresh_task t" for t n
    using R_engine [OF assms(1), of "WatcherTask t" "d\<lparr>dm_taken := n\<rparr>" en] that by simp
  show ?thesis
    by (auto simp: engine_branch_def Let_def en.R_refl R_engine [OF assms(1)] cmd task queued_fresh [OF assms(2)]
        split: daemon_event.split list.split option.split)
qed

lemma R_link: "R (dm_world d) (dm_world (link_step env i cev n d))"
  using rt.R_conn_step [of "(ln_conn (dm_links d ! i))\<lparr>cn_router := dm_router d\<rparr>" "de_ipc env" "de_codec env" "de_writes env i" cev]
  by (simp add: link_step_def Let_def on_worlds_def)

theorem R_step:
  assumes "de_services env = sv" and "tasks_fresh d"
  shows "R (dm_world d) (dm_world (daemon_step env ev d))"
proof -
  have login: "R (dm_world d) (rt_world (snd (run_state (complete_oauth_flow (de_ipc env) ts) (dm_router d))))" for ts
    using rt.rr.io_run [OF rt.io_login] by (simp add: on_worlds_def)
  have watch: "R (dm_world d) (dm_world (watcher_branch env wev wt d))" for wev wt
    using en.io_run [OF io_watch] by (simp add: watcher_branch_def Let_def case_prod_beta en.R_refl del: watch_step.simps)
  have kernel: "R (dm_world d) (snd (run_state (vfs_serve (process_pending_tasks sv) fits g q) (dm_world d)))" for fits g q
    by (rule en.io_run [OF vf.io_serve])
  have start: "R (dm_world d) (snd (run_state (engine_start True) (dm_world d)))"
    by (rule en.io_run) (simp add: engine_start_def en.io_bind en.io_return en.io_status)
  show ?thesis
    using assms
    by (cases ev)
      (auto simp: daemon_step_def serve_event_def engine_begins_def watcher_begins_def receive_push_def Let_def case_prod_beta
        en.R_refl R_engine_branch R_link login watch kernel start en.io_run [OF io_folders] split: option.split phase.split)
qed

lemma R_run:
  "tasks_fresh d \<Longrightarrow> de_services env = sv \<Longrightarrow> R (dm_world d) (dm_world (daemon_run env evs d))"
proof (induction evs arbitrary: d)
  case (Cons ev evs)
  then show ?case
    using Cons.IH [of "daemon_step env ev d"] R_step [of env d ev] daemon_step_fresh [of d env ev]
    by (auto simp: daemon_run_def intro: en.R_trans)
qed (simp add: daemon_run_def en.R_refl)

end

section \<open>Lives of the daemon\<close>

text \<open>Starting changes no table: neither opening and migrating the database nor mounting and listening.\<close>

definition same_db :: "'x world \<Rightarrow> 'x world \<Rightarrow> bool" where
  "same_db w w' \<longleftrightarrow> w_db w' = w_db w"

interpretation sdb: world_frame same_db
  by unfold_locales (simp_all add: same_db_def)

lemma io_mount: "state_io_rel same_db (mount_fuse env p)"
  unfolding mount_fuse_def ensure_mount_point_def by (intro io_rel)

lemma io_prefs: "state_io_rel same_db (load_or_create_prefs env)"
  unfolding load_or_create_prefs_def load_config_def load_from_def save_config_def config_path_def save_to_def fs_write_def Let_def
  by (intro io_rel)

lemma io_boot_steps:
  "state_io_rel same_db (create_pool env)" "state_io_rel same_db run_migrations" "state_io_rel same_db (open_socket env)"
  unfolding create_pool_def db_path_def run_migrations_def open_socket_def Let_def
  by (intro io_rel; simp add: same_db_def)+

lemma io_boot: "state_io_rel same_db (boot env)"
proof -
  have "state_io_rel same_db State_Monad.get" by (simp add: state_io_rel_def State_Monad.get_def same_db_def)
  then show ?thesis unfolding boot_def by (intro io_rel io_boot_steps io_prefs io_mount)
qed

lemma booted:
  assumes "run_state (boot env) w = (Inr d, w')"
  shows "dm_watcher d = None" "w_db (dm_world d) = w_db w'"
  using assms by (auto simp: boot_def router_new_def with_prefs_def State_Monad.get_def split: sum.splits prod.splits)

text \<open>A relation that only looks at the database holds between the worlds before and after any number of lives.\<close>

locale life_frame = daemon_frame R sv for R :: "'x world \<Rightarrow> 'x world \<Rightarrow> bool" and sv :: "'x services" +
  assumes R_db: "same_db w v \<Longrightarrow> R w v"
begin

theorem R_lives: "de_services env = sv \<Longrightarrow> R w (daemon_lives env lives w)"
proof (induction lives arbitrary: w)
  case (Cons life lives)
  obtain limit evs where life: "life = (limit, evs)" by (cases life)
  obtain res w' where run: "run_state (boot env) (w\<lparr>w_limit := limit\<rparr>) = (res, w')"
    by (cases "run_state (boot env) (w\<lparr>w_limit := limit\<rparr>)")
  have boot: "same_db w w'"
    using sdb.io_run [OF io_boot, of "w\<lparr>w_limit := limit\<rparr>" env] by (simp add: run same_db_def)
  show ?case
  proof (cases res)
    case (Inr d)
    have "R w (dm_world d)" using booted [of env "w\<lparr>w_limit := limit\<rparr>" d w'] run boot Inr by (auto simp: same_db_def intro: R_db)
    moreover have "R (dm_world d) (dm_world (daemon_run env evs d))"
      using booted(1) [of env "w\<lparr>w_limit := limit\<rparr>" d w'] run Inr by (intro R_run Cons.prems) (simp_all add: tasks_fresh_def)
    ultimately show ?thesis using Cons by (auto simp: life run Inr intro: en.R_trans)
  qed (use Cons boot in \<open>auto simp: life run intro: en.R_trans R_db\<close>)
qed (simp add: en.R_refl)

end

section \<open>Integrity of the whole daemon\<close>

interpretation vlr: router_frame keeps_valid
  by unfold_locales
     (auto simp: keeps_valid_def valid_queue_def f_mark_trashed_def acc_insert_def acc_delete_def fold_add_def Let_def
       q_insert_def q_row_def fresh_task_def valid_row_def valid_status_def)

interpretation wfl: life_frame keeps_wf "sv :: 'x services"
  by unfold_locales (simp add: keeps_wf_def same_db_def)

interpretation vll: life_frame keeps_valid "sv :: 'x services"
  by unfold_locales (simp add: keeps_valid_def same_db_def)

text \<open>C1: the daemon keeps its database sound. In any number of lives, each with any interleaving of the engine, the
  watcher, the client connections, logins and kernel requests, with any failures, killed at any operation, keys stay unique,
  references valid, and every task keeps a known status and at most three retries.\<close>

theorem daemon_keeps_integrity:
  assumes "wf_db (w_db w)" and "valid_queue (w_db w)"
  shows "wf_db (w_db (daemon_lives env lives w)) \<and> valid_queue (w_db (daemon_lives env lives w))"
  using wfl.R_lives [OF refl, of w env lives] vll.R_lives [OF refl, of w env lives] assms by (simp add: keeps_wf_def keeps_valid_def)

definition sample_daemon_env :: "unit daemon_env" where
  "sample_daemon_env = \<lparr>de_ipc = sample_env, de_codec = sample_codec, de_var = (\<lambda>_. Some ''x''), de_runtime_dir = None,
     de_temp_dir = ''/home'', de_bind = (\<lambda>_. Inr ()), de_fuse = (\<lambda>_. Inr ()), de_canonical = (\<lambda>_ _. None), de_writes = (\<lambda>_ _. True),
     de_fits = (\<lambda>_ _. True), de_watch_ok = (\<lambda>_. True), de_list_dir = (\<lambda>_ _. Inr []), de_depth = 1\<rparr>"

definition sample_lives :: "(nat \<times> daemon_event list) list" where
  "sample_lives = [(9, [EngineBegins, Accept, Poll, Client 0 ReadEof]), (40, [EngineBegins, WatcherBegins, Poll, Kernel (Lookup 0 (Some ''a''))])]"

theorem daemon_keeps_integrity_witness:
  "wf_db (w_db (daemon_lives sample_daemon_env sample_lives (sample_world [1] 9 ())))"
  using daemon_keeps_integrity [of "sample_world [1] 9 ()" sample_daemon_env sample_lives] by (simp add: sample_wf sample_valid)

section \<open>Tasks are never lost, and never resumed\<close>

text \<open>Rows of the queue stay, in order, and stay the tasks they are; what is added comes behind them.\<close>

definition queue_log :: "'x world \<Rightarrow> 'x world \<Rightarrow> bool" where
  "queue_log w w' \<longleftrightarrow> (\<exists>new. map task_identity (sync_queue (w_db w')) = map task_identity (sync_queue (w_db w)) @ new)"

interpretation qle: engine_frame queue_log "sv :: 'x services"
proof unfold_locales
  show "queue_log w (snd (run_state (process_task sv (task_from_row r)) w))" for w :: "'x world" and r
    using own.io_run [OF own.io_process_task [where tid = "q_id r"], of "task_from_row r" w sv]
    by (simp add: only_task_def queue_log_def)
  show "queue_log w w''" if "queue_log w w'" and "queue_log w' w''" for w w' w'' :: "'x world"
    using that by (auto simp: queue_log_def)
qed (simp_all add: queue_log_def f_mark_trashed_def f_reset_stream_def q_insert_def)

interpretation qlr: router_frame queue_log
  by unfold_locales (auto simp: queue_log_def acc_insert_def acc_delete_def fold_add_def Let_def)

interpretation qlv: vfs_frame queue_log "process_pending_tasks (sv :: 'x services)"
  by unfold_locales (simp_all add: queue_log_def qle.io_process_pending q_insert_def)

interpretation qll: life_frame queue_log "sv :: 'x services"
  by unfold_locales (simp add: queue_log_def same_db_def)

text \<open>C2: no task is ever lost: over any number of lives the tasks of the queue stay in their order, each with its account,
  operation, file, path, priority and creation time; new tasks come behind them.\<close>

theorem tasks_never_lost:
  "take (length (sync_queue (w_db w))) (map task_identity (sync_queue (w_db (daemon_lives env lives w)))) =
   map task_identity (sync_queue (w_db w))"
  using qll.R_lives [OF refl, of w env lives] by (auto simp: queue_log_def)

lemmas router_wf = rwf.R_token rwf.R_push rwf.R_prefs rwf.R_new_file rwf.R_account rwf.R_disconnect rwf.R_folder_add
  rwf.R_folder_remove rwf.R_errors rwf.R_notes rwf.R_feedback

interpretation ser: router_frame keeps_settled
  by (unfold_locales; rule keeps_settled_queue_eq; (rule router_wf | rule rwf.R_files, simp | simp add: acc_insert_def acc_delete_def fold_add_def Let_def))

interpretation sev: vfs_frame keeps_settled "process_pending_tasks (sv :: 'x services)"
  by (unfold_locales; (rule se.io_process_pending | rule se.R_insert, assumption |
      rule keeps_settled_queue_eq; simp add: keeps_wf_def wf_db_v_insert wf_db_v_update))

interpretation sel: life_frame keeps_settled "sv :: 'x services"
  by unfold_locales (simp add: keeps_settled_def same_db_def)

text \<open>C4: a task that is in progress when the daemon dies is never run again. A row that is not pending stays exactly as it is
  through any number of restarts, whatever happens in them: nothing puts the tasks of a dead process back to pending.\<close>

theorem interrupted_task_never_resumed:
  assumes "wf_db (w_db w)" and "t \<in> set (sync_queue (w_db w))" and "q_status t = ''in_progress''"
  shows "t \<in> set (sync_queue (w_db (daemon_lives env lives w)))"
  using sel.R_lives [OF refl, of w env lives] assms by (simp add: keeps_settled_def)

theorem interrupted_task_never_resumed_witness:
  "upload_row\<lparr>q_status := ''in_progress''\<rparr> \<in> set (sync_queue (w_db (daemon_lives sample_daemon_env sample_lives
     ((sample_world [1] 9 ())\<lparr>w_db := sample_db\<lparr>sync_queue := [upload_row\<lparr>q_status := ''in_progress''\<rparr>]\<rparr>\<rparr>))))"
proof (rule interrupted_task_never_resumed)
  show "wf_db (w_db ((sample_world [1] 9 ())\<lparr>w_db := sample_db\<lparr>sync_queue := [upload_row\<lparr>q_status := ''in_progress''\<rparr>]\<rparr>\<rparr>))"
    using sample_wf by (simp add: wf_db_def has_account_def)
qed (simp_all add: upload_row_def)

section \<open>Shutting down\<close>

lemma running_stays:
  "en_running en \<Longrightarrow> ev \<noteq> Shutdown \<Longrightarrow> en_running (fst (run_state (handle_event sv en ev) w))"
  by (cases ev) (simp_all split: prod.split)

definition engine_alive :: "'x daemon \<Rightarrow> bool" where
  "engine_alive d \<longleftrightarrow> dm_phase d \<noteq> Stopped \<and> (\<forall>en. dm_engine d = Some en \<longrightarrow> en_running en)"

lemma engine_does_alive:
  "engine_alive d \<Longrightarrow> dm_engine d = Some en \<Longrightarrow> ev \<noteq> Shutdown \<Longrightarrow> engine_alive (engine_does env ev en d)"
  by (auto simp: engine_alive_def engine_does_def case_prod_beta running_stays)

lemma engine_branch_alive:
  assumes "engine_alive d" and "dm_engine d = Some en"
  shows "engine_alive (engine_branch env ev en d)"
proof -
  have "router_owners d \<noteq> 0" using assms(1) by (simp add: router_owners_def engine_alive_def)
  moreover have "engine_alive (d\<lparr>dm_router := r\<rparr>)" "engine_alive (d\<lparr>dm_taken := n\<rparr>)" for r n
    using assms(1) by (simp_all add: engine_alive_def)
  ultimately show ?thesis
    using assms by (auto simp: engine_branch_def engine_does_alive split: daemon_event.split list.split option.split)
qed

lemma other_parts_alive [simp]:
  "engine_alive (d\<lparr>dm_router := r\<rparr>) = engine_alive d" "engine_alive (d\<lparr>dm_links := ls\<rparr>) = engine_alive d"
  "engine_alive (d\<lparr>dm_vfs := g\<rparr>) = engine_alive d" "engine_alive (d\<lparr>dm_watcher := wt\<rparr>) = engine_alive d"
  "engine_alive (snd (in_daemon m d)) = engine_alive d"
  by (simp_all add: engine_alive_def)

lemma watcher_keeps_parts [simp]:
  "dm_phase (watcher_branch env wev wt d) = dm_phase d" "dm_engine (watcher_branch env wev wt d) = dm_engine d"
  "dm_links (watcher_branch env wev wt d) = dm_links d"
  by (simp_all add: watcher_branch_def Let_def case_prod_beta)

lemma daemon_step_alive:
  assumes "engine_alive d"
  shows "engine_alive (daemon_step env ev d)" and "dm_phase d = Stopping \<Longrightarrow> dm_phase (daemon_step env ev d) = Stopping"
proof -
  have phases: "dm_phase (engine_does env e en x) = dm_phase x" "dm_phase (link_step env i c n x) = dm_phase x" for e en x i c n
    by (simp_all add: engine_does_def link_step_def Let_def case_prod_beta)
  have branch: "dm_phase (engine_branch env e en x) = dm_phase x" "dm_phase (receive_push env i x) = dm_phase x" for e en x i
    by (auto simp: engine_branch_def receive_push_def Let_def phases split: daemon_event.split list.split option.split)
  have links: "engine_alive (link_step env i c n d)" "engine_alive (receive_push env i d)" for i c n
    using assms by (auto simp: link_step_def receive_push_def Let_def engine_alive_def)
  show "engine_alive (daemon_step env ev d)"
    using assms
    by (cases ev)
      (auto simp: daemon_step_def serve_event_def engine_begins_def watcher_begins_def case_prod_beta
        engine_branch_alive links engine_start_def split: option.split phase.split, auto simp: engine_alive_def)
  show "dm_phase d = Stopping \<Longrightarrow> dm_phase (daemon_step env ev d) = Stopping"
    using assms
    by (cases ev)
      (auto simp: daemon_step_def serve_event_def engine_begins_def watcher_begins_def case_prod_beta Let_def
        phases branch engine_alive_def split: option.split)
qed

lemma daemon_run_alive:
  "engine_alive d \<Longrightarrow> engine_alive (daemon_run env evs d)"
  "engine_alive d \<Longrightarrow> dm_phase d = Stopping \<Longrightarrow> dm_phase (daemon_run env evs d) = Stopping"
  by (induction evs arbitrary: d) (simp_all add: daemon_run_def daemon_step_alive)

text \<open>C3: an interrupted daemon never exits. After the signal, or when the socket could not be opened, \<^verbatim>\<open>main\<close> waits for the engine to end;
  the engine ends when every sender of commands is gone, and \<^verbatim>\<open>main\<close> itself keeps one until it returns.\<close>

theorem interrupted_daemon_never_exits:
  assumes "run_state (boot env) w = (Inr d, w')"
  shows "dm_phase (daemon_run env (evs @ Interrupt # later) d) = Stopping"
proof -
  have "engine_alive d"
    using assms by (auto simp: boot_def engine_alive_def State_Monad.get_def split: sum.splits prod.splits)
  then have alive: "engine_alive (daemon_run env evs d)" by (rule daemon_run_alive)
  then have "dm_phase (daemon_step env Interrupt (daemon_run env evs d)) = Stopping"
    by (cases "dm_phase (daemon_run env evs d)") (simp_all add: daemon_step_def serve_event_def engine_alive_def)
  moreover have "engine_alive (daemon_step env Interrupt (daemon_run env evs d))" by (rule daemon_step_alive(1) [OF alive])
  ultimately have "dm_phase (daemon_run env later (daemon_step env Interrupt (daemon_run env evs d))) = Stopping"
    by (rule daemon_run_alive(2) [rotated])
  then show ?thesis by (simp add: daemon_run_def)
qed

lemma sample_boots: "\<exists>d w'. run_state (boot sample_daemon_env) (sample_world [1] 40 ()) = (Inr d, w')"
proof -
  have "case fst (run_state (boot sample_daemon_env) (sample_world [1] 40 ())) of Inl _ \<Rightarrow> False | Inr d \<Rightarrow> True" by code_simp
  then show ?thesis by (cases "run_state (boot sample_daemon_env) (sample_world [1] 40 ())") (auto split: sum.splits)
qed

theorem interrupted_daemon_never_exits_witness:
  "\<exists>d w'. run_state (boot sample_daemon_env) (sample_world [1] 40 ()) = (Inr d, w') \<and>
     dm_phase (daemon_run sample_daemon_env ([EngineBegins, WatcherBegins, Accept] @ Interrupt # [CommandsClosed, MainReturns]) d) = Stopping"
proof -
  obtain d w' where boots: "run_state (boot sample_daemon_env) (sample_world [1] 40 ()) = (Inr d, w')" using sample_boots by blast
  show ?thesis using interrupted_daemon_never_exits [OF boots] boots by blast
qed

section \<open>Pushes\<close>

definition push_log :: "'x world \<Rightarrow> 'x world \<Rightarrow> bool" where
  "push_log w w' \<longleftrightarrow> prefix (w_push w) (w_push w')"

interpretation plt: task_frame push_log tid "\<lambda>_. True"
  by unfold_locales (auto simp: push_log_def)

interpretation ple: engine_frame push_log "sv :: 'x services"
proof unfold_locales
  show "push_log w (snd (run_state (process_task sv (task_from_row r)) w))" for w :: "'x world" and r
    by (rule plt.io_run [OF plt.io_process_task [where tid = "q_id r"]]) simp_all
qed (auto simp: push_log_def)

interpretation plr: router_frame push_log
  by unfold_locales (auto simp: push_log_def)

interpretation pld: daemon_frame push_log "sv :: 'x services"
  by unfold_locales (auto simp: push_log_def intro: ple.io_process_pending)

text \<open>The line of a push message, and the messages a client has received since it had received \<open>a\<close>.\<close>

definition push_line :: "'x daemon_env \<Rightarrow> push_event \<Rightarrow> string" where
  "push_line env e = push_text env e @ [NL]"

definition delivered :: "'x daemon_env \<Rightarrow> nat \<Rightarrow> nat \<Rightarrow> nat \<Rightarrow> 'x daemon \<Rightarrow> bool" where
  "delivered env i a n d \<longleftrightarrow> i < length (dm_links d) \<and> n \<le> length (cn_out (ln_conn (dm_links d ! i))) \<and> a \<le> ln_seen (dm_links d ! i) \<and> ln_seen (dm_links d ! i) \<le> length (w_push (dm_world d)) \<and>
     subseq (map (push_line env) (drop a (take (ln_seen (dm_links d ! i)) (w_push (dm_world d))))) (drop n (cn_out (ln_conn (dm_links d ! i))))"

lemma conn_step_out: "prefix (cn_out c) (cn_out (conn_step env tc wr ev c))"
  by (auto simp: conn_step_def poll_read_def read_eof_def push_ready_def serve_line_def write_or_close_def write_out_def Let_def
      split: conn_event.split push_result.split list.split option.split prod.split)

lemma delivered_later:
  assumes "delivered env i a n d" and "push_log (dm_world d) (dm_world d')" and "i < length (dm_links d')"
    and "ln_seen (dm_links d' ! i) = ln_seen (dm_links d ! i)"
    and "prefix (cn_out (ln_conn (dm_links d ! i))) (cn_out (ln_conn (dm_links d' ! i)))"
  shows "delivered env i a n d'"
proof -
  let ?s = "ln_seen (dm_links d ! i)"
  have le: "?s \<le> length (w_push (dm_world d))" using assms(1) by (simp add: delivered_def)
  obtain later where out: "w_push (dm_world d') = w_push (dm_world d) @ later" using assms(2) by (auto simp: push_log_def prefix_def)
  obtain more_out where "cn_out (ln_conn (dm_links d' ! i)) = cn_out (ln_conn (dm_links d ! i)) @ more_out"
    using assms(5) by (auto simp: prefix_def)
  then show ?thesis
    using assms(1,3,4) le by (auto simp: delivered_def out intro: list_emb_append2 subseq_order.trans)
qed

lemma delivered_push:
  assumes d: "delivered env i a n d" and writes: "\<And>k. de_writes env i k"
    and few: "length (w_push (dm_world d)) \<le> a + PUSH_CAPACITY"
  shows "delivered env i a n (receive_push env i d)"
proof (cases "\<not> cn_open (ln_conn (dm_links d ! i)) \<or> length (w_push (dm_world d)) \<le> ln_seen (dm_links d ! i)")
  case False
  let ?l = "dm_links d ! i" and ?sent = "w_push (dm_world d)" and ?d = "receive_push env i d"
  have i: "i < length (dm_links d)" and keeps_up: "\<not> ln_seen ?l + PUSH_CAPACITY < length ?sent" using d few by (auto simp: delivered_def)
  then have step: "?d = link_step env i (PushReady (PushText (push_text env (?sent ! ln_seen ?l)))) (Suc (ln_seen ?l)) d"
    using False by (simp add: receive_push_def Let_def)
  have out: "cn_out (ln_conn (dm_links ?d ! i)) = cn_out (ln_conn ?l) @ [push_line env (?sent ! ln_seen ?l)]"
    and seen: "ln_seen (dm_links ?d ! i) = Suc (ln_seen ?l)" and same: "w_push (dm_world ?d) = ?sent" "length (dm_links ?d) = length (dm_links d)"
    using i False writes
    by (auto simp: step link_step_def Let_def conn_step_def push_ready_def write_or_close_def write_out_def push_line_def)
  have "drop a (take (Suc (ln_seen ?l)) ?sent) = drop a (take (ln_seen ?l) ?sent) @ [?sent ! ln_seen ?l]"
    using d False by (simp add: delivered_def take_Suc_conv_app_nth)
  then show ?thesis
    using d False by (simp add: delivered_def out seen same list_emb_append_mono)
qed (simp add: d receive_push_def)

lemma other_links [simp]:
  "length (dm_links (link_step env j cev m d)) = length (dm_links d)" "length (dm_links (receive_push env j d)) = length (dm_links d)"
  "j \<noteq> i \<Longrightarrow> dm_links (link_step env j cev m d) ! i = dm_links d ! i" "j \<noteq> i \<Longrightarrow> dm_links (receive_push env j d) ! i = dm_links d ! i"
  by (auto simp: link_step_def receive_push_def Let_def)

lemma delivered_step:
  assumes d: "delivered env i a n d" and writes: "\<And>k. de_writes env i k"
    and few: "length (w_push (dm_world d)) \<le> a + PUSH_CAPACITY" and fresh: "tasks_fresh d"
  shows "delivered env i a n (daemon_step env ev d)"
proof -
  have grows: "push_log (dm_world d) (dm_world (daemon_step env ev d))" by (rule pld.R_step [OF refl fresh])
  have i: "i < length (dm_links d)" using d by (simp add: delivered_def)
  have same: "delivered env i a n d'" if "push_log (dm_world d) (dm_world d')" "dm_links d' = dm_links d" for d'
    by (rule delivered_later [OF d that(1)]) (simp_all add: that(2) i)
  have links: "dm_links (engine_branch env e en d) = dm_links d" "dm_links (engine_does env e' en d) = dm_links d" for e e' en
    by (auto simp: engine_branch_def engine_does_def Let_def case_prod_beta split: daemon_event.split list.split option.split)
  show ?thesis
  proof (cases "dm_phase d = Stopped")
    case False
    then have step: "daemon_step env ev d = serve_event env ev d" by (simp add: daemon_step_def)
    have "ev = Push i \<or> (\<exists>cev. ev = Client i cev) \<or> dm_links (serve_event env ev d) ! i = dm_links d ! i \<and>
        length (dm_links d) \<le> length (dm_links (serve_event env ev d))"
    proof (cases ev)
      case (Client j cev)
      then show ?thesis by (cases "j = i") (auto simp: serve_event_def)
    next
      case (Push j)
      then show ?thesis by (cases "j = i") (auto simp: serve_event_def)
    qed (use i in \<open>auto simp: serve_event_def engine_begins_def watcher_begins_def case_prod_beta links nth_append
          split: option.split phase.split\<close>)
    then consider (push) "ev = Push i" | (client) cev where "ev = Client i cev"
      | (other) "dm_links (serve_event env ev d) ! i = dm_links d ! i" "length (dm_links d) \<le> length (dm_links (serve_event env ev d))" by blast
    then show ?thesis
    proof cases
      case push
      then show ?thesis using delivered_push [OF d writes few] i step by (simp add: serve_event_def)
    next
      case (client cev)
      show ?thesis
        using conn_step_out [of "(ln_conn (dm_links d ! i))\<lparr>cn_router := dm_router d\<rparr>"] grows i
        by (intro delivered_later [OF d]) (auto simp: daemon_step_def False client serve_event_def link_step_def Let_def)
    next
      case other
      then show ?thesis using grows i by (intro delivered_later [OF d]) (auto simp: step)
    qed
  qed (simp add: daemon_step_def d)
qed

lemma delivered_run:
  assumes "delivered env i a n d" and "\<And>k. de_writes env i k" and "tasks_fresh d"
    and "length (w_push (dm_world (daemon_run env evs d))) \<le> a + PUSH_CAPACITY"
  shows "delivered env i a n (daemon_run env evs d)"
  using assms
proof (induction evs arbitrary: d)
  case (Cons ev evs)
  have fresh: "tasks_fresh (daemon_step env ev d)" by (rule daemon_step_fresh [OF Cons.prems(3)])
  have "push_log (dm_world d) (dm_world (daemon_run env (ev # evs) d))" by (rule pld.R_run [OF Cons.prems(3) refl])
  then have "length (w_push (dm_world d)) \<le> a + PUSH_CAPACITY"
    using Cons.prems(4) by (auto simp: push_log_def dest: prefix_length_le)
  then have "delivered env i a n (daemon_step env ev d)" by (rule delivered_step [OF Cons.prems(1,2) _ Cons.prems(3)])
  then show ?case using Cons.IH [of "daemon_step env ev d"] Cons.prems fresh by (simp add: daemon_run_def)
qed (simp add: daemon_run_def)



section \<open>Mirrored files and the mount point\<close>

text \<open>Rows that are new have a local path that starts with a tilde.\<close>

definition tilde_rows :: "'x world \<Rightarrow> 'x world \<Rightarrow> bool" where
  "tilde_rows w w' \<longleftrightarrow> (\<forall>t \<in> set (sync_queue (w_db w')). t \<in> set (sync_queue (w_db w)) \<or> (\<exists>p. q_local_path t = Some (CHR ''~'' # p)))"

interpretation til: world_frame tilde_rows
  by unfold_locales (auto simp: tilde_rows_def)

lemma trim_end_Cons: "x \<noteq> c \<Longrightarrow> \<exists>s'. trim_end c (x # s) = x # s'"
  by (auto simp: trim_end_def dropWhile_append intro: exI [of _ "rev ys" for ys])

lemma tilde_mirror_loop: "state_io_rel tilde_rows (mirror_loop now acct (CHR ''~'' # mp) nm folders fs n)"
proof (induction fs arbitrary: n)
  case (Cons f fs)
  have put: "state_io_rel tilde_rows (enqueue (download_task now acct i (under_mount (CHR ''~'' # mp) rel)))" for i rel
    using trim_end_Cons [of "CHR ''~''" "CHR ''/''" mp] unfolding enqueue_def
    by (intro io_rel) (auto simp: tilde_rows_def q_insert_def q_row_def download_task_def under_mount_def)
  have up: "state_io_rel tilde_rows (upsert_file g)" for g
    unfolding upsert_file_def by (intro io_rel) (simp add: tilde_rows_def)
  show ?case using Cons by (auto simp: Let_def intro!: io_rel put up)
qed (simp add: io_rel til.io_return)

lemma tilde_not_under:
  assumes "path_is_abs h"
  shows "\<not> path_starts_with (CHR ''~'' # p) (h @ x)"
  using assms by (cases h) (auto simp: path_starts_with_def path_is_abs_def)


definition cloud_world :: "unit world" where
  "cloud_world = (sample_world [] 9 ())\<lparr>w_db := sample_db\<lparr>drive_files := [sample_row\<lparr>r_local_path := None, r_sync_state := ''cloud_only''\<rparr>]\<rparr>\<rparr>"


end
