(* ===== verification/App_Client.thy ===== *)
theory App_Client
  imports Ipc_Connection "HOL-Library.AList"
begin

text \<open>
  The desktop application's connection to the daemon: \<^verbatim>\<open>src/apps/gdriver-app/src-tauri/src/daemon_client.rs\<close>. One task writes the
  lines of a channel, one reads lines; any number of commands have a call in flight, each waiting on a one-shot channel that
  the map of pending calls keeps under the id of its request.
\<close>

section \<open>The state\<close>

text \<open>
  Calls are numbered in the order they are made. \<open>Answered\<close>: the one-shot channel has delivered a result; \<open>Dropped\<close>: its
  sender is gone; \<open>WriterDead\<close>: the call failed before it waited. \<open>ac_pending\<close> is the map of senders, \<open>ac_queue\<close> the channel
  to the writer, \<open>ac_sent\<close> what has been written, \<open>ac_emitted\<close> the Tauri events, one for each window.
\<close>

datatype call_state = Waiting | Answered "json_rpc_error + json" | Dropped | WriterDead

record app_client =
  ac_next_id :: "64 word"
  ac_pending :: "(int \<times> nat) list"
  ac_calls :: "call_state list"
  ac_queue :: "string list"
  ac_sent :: "string list"
  ac_writer_up :: bool
  ac_reader_up :: bool
  ac_windows :: "string list"
  ac_emitted :: "(string \<times> string \<times> json) list"

definition from_io :: "string list \<Rightarrow> app_client" where
  "from_io windows = \<lparr>ac_next_id = 1, ac_pending = [], ac_calls = [], ac_queue = [], ac_sent = [], ac_writer_up = True,
     ac_reader_up = True, ac_windows = windows, ac_emitted = []\<rparr>"

text \<open>A one-shot channel delivers once; sending to a call that no longer waits does nothing.\<close>

definition settle :: "call_state \<Rightarrow> nat \<Rightarrow> call_state list \<Rightarrow> call_state list" where
  "settle s n cs = (if n < length cs \<and> cs ! n = Waiting then cs[n := s] else cs)"

section \<open>The operations\<close>

text \<open>\<^verbatim>\<open>call\<close> up to its wait. A sender that the map already holds under the id is dropped; when the channel to the writer is
  closed the call fails and its sender stays in the map.\<close>

definition app_call :: "text_codec \<Rightarrow> string \<Rightarrow> json option \<Rightarrow> app_client \<Rightarrow> app_client" where
  "app_call tc meth params c =
     (let i = sint (ac_next_id c);
          n = length (ac_calls c);
          calls = (case map_of (ac_pending c) i of None \<Rightarrow> ac_calls c | Some old \<Rightarrow> settle Dropped old (ac_calls c));
          c' = c\<lparr>ac_next_id := ac_next_id c + 1, ac_pending := AList.update i n (ac_pending c)\<rparr>
      in if ac_writer_up c
         then c'\<lparr>ac_calls := calls @ [Waiting], ac_queue := ac_queue c @ [request_line tc (request_new meth params (IdNum i))]\<rparr>
         else c'\<lparr>ac_calls := calls @ [WriterDead]\<rparr>)"

definition show_int :: "int \<Rightarrow> string" where
  "show_int n = (if n < 0 then ''-'' @ show_nat (nat (- n)) else show_nat (nat n))"

text \<open>What the command sees of its call, once there is something to see.\<close>

definition call_outcome :: "call_state \<Rightarrow> (string + json) option" where
  "call_outcome s =
     (case s of
        Waiting \<Rightarrow> None
      | Answered (Inr v) \<Rightarrow> Some (Inr v)
      | Answered (Inl e) \<Rightarrow> Some (Inl (''RPC error '' @ show_int (je_code e) @ '': '' @ je_message e))
      | Dropped \<Rightarrow> Some (Inl ''request dropped (daemon disconnected)'')
      | WriterDead \<Rightarrow> Some (Inl ''writer task is dead''))"

text \<open>\<^verbatim>\<open>handle_message\<close>.\<close>

definition reply_result :: "json \<Rightarrow> json_rpc_error + json" where
  "reply_result val =
     (case jget ''result'' val of
        Some v \<Rightarrow> Inr v
      | None \<Rightarrow>
          (case jget ''error'' val of
             Some err \<Rightarrow> (case de_error err of Some e \<Rightarrow> Inl e | None \<Rightarrow> Inl (internal_error ''malformed error object''))
           | None \<Rightarrow> Inr JNull))"

definition emit_push :: "json \<Rightarrow> json \<Rightarrow> app_client \<Rightarrow> app_client" where
  "emit_push m val c =
     (let meth = (case as_str m of Some s \<Rightarrow> s | None \<Rightarrow> ''daemon:unknown'');
          params = (case jget ''params'' val of Some p \<Rightarrow> p | None \<Rightarrow> JNull)
      in c\<lparr>ac_emitted := ac_emitted c @ map (\<lambda>w. (w, meth, params)) (ac_windows c)\<rparr>)"

definition handle_message :: "text_codec \<Rightarrow> string \<Rightarrow> app_client \<Rightarrow> app_client" where
  "handle_message tc line c =
     (case tc_parse tc line of
        None \<Rightarrow> c
      | Some val \<Rightarrow>
          (case jget ''method'' val of
             Some m \<Rightarrow> emit_push m val c
           | None \<Rightarrow>
               (case Option.bind (jget ''id'' val) as_i64 of
                  None \<Rightarrow> c
                | Some i \<Rightarrow>
                    (case map_of (ac_pending c) i of
                       None \<Rightarrow> c
                     | Some n \<Rightarrow> c\<lparr>ac_pending := AList.delete i (ac_pending c),
                         ac_calls := settle (Answered (reply_result val)) n (ac_calls c)\<rparr>))))"

text \<open>The reader task: one line, and its end, on an end of input or a read error.\<close>

definition line_read :: "text_codec \<Rightarrow> string \<Rightarrow> app_client \<Rightarrow> app_client" where
  "line_read tc line c = (let trimmed = trim line in if trimmed = [] then c else handle_message tc trimmed c)"

definition disconnected :: "json_rpc_error + json" where
  "disconnected = Inl (internal_error ''daemon disconnected'')"

definition reader_ends :: "app_client \<Rightarrow> app_client" where
  "reader_ends c = c\<lparr>ac_reader_up := False, ac_pending := [],
     ac_calls := fold (\<lambda>(i, n). settle (Answered disconnected) n) (ac_pending c) (ac_calls c)\<rparr>"

text \<open>The writer task takes the next line; a failed write ends it, and the lines left in the channel are lost.\<close>

definition writer_step :: "bool \<Rightarrow> app_client \<Rightarrow> app_client" where
  "writer_step fine c =
     (case ac_queue c of
        [] \<Rightarrow> c
      | l # ls \<Rightarrow> if \<not> ac_writer_up c then c
                  else if fine then c\<lparr>ac_queue := ls, ac_sent := ac_sent c @ [l]\<rparr>
                  else c\<lparr>ac_queue := [], ac_writer_up := False\<rparr>)"

datatype app_event = AppCall string "json option" | Written bool | LineRead string | ReaderEnd

definition app_step :: "text_codec \<Rightarrow> app_event \<Rightarrow> app_client \<Rightarrow> app_client" where
  "app_step tc ev c =
     (case ev of
        AppCall meth params \<Rightarrow> app_call tc meth params c
      | Written fine \<Rightarrow> writer_step fine c
      | LineRead line \<Rightarrow> if ac_reader_up c then line_read tc line c else c
      | ReaderEnd \<Rightarrow> if ac_reader_up c then reader_ends c else c)"

definition app_run :: "text_codec \<Rightarrow> app_event list \<Rightarrow> app_client \<Rightarrow> app_client" where
  "app_run tc evs c = fold (app_step tc) evs c"

section \<open>Connecting\<close>

text \<open>
  \<^verbatim>\<open>connect_or_spawn\<close>: \<open>tries k\<close> is the result of attempt \<open>k\<close>. The result says at which attempt a connection was made, whether
  the daemon was started, and for how many milliseconds the task slept.
\<close>

definition retry_delay :: "nat \<Rightarrow> nat" where
  "retry_delay attempt = (if attempt = 0 then 300 else 200 * 2 ^ min attempt 4)"

fun connect_from :: "(nat \<Rightarrow> bool) \<Rightarrow> nat \<Rightarrow> nat \<Rightarrow> nat option \<times> bool \<times> nat" where
  "connect_from tries attempt 0 = (None, False, 0)"
| "connect_from tries attempt (Suc left) =
     (if tries attempt then (Some attempt, False, 0)
      else case connect_from tries (Suc attempt) left of
             (at, spawned, slept) \<Rightarrow> (at, attempt = 0 \<or> spawned, retry_delay attempt + slept))"

definition connect_or_spawn :: "(nat \<Rightarrow> bool) \<Rightarrow> nat option \<times> bool \<times> nat" where
  "connect_or_spawn tries = connect_from tries 0 6"

text \<open>The task of \<^verbatim>\<open>lib.rs\<close>: the client the commands find is set once, when the connection is made, and never again.\<close>

definition connect_task :: "(nat \<Rightarrow> bool) \<Rightarrow> string list \<Rightarrow> app_client option" where
  "connect_task tries windows = map_option (\<lambda>_. from_io windows) (fst (connect_or_spawn tries))"

text \<open>\<^verbatim>\<open>wait_for_client\<close>: poll number \<open>k\<close> sees the client when \<open>client k\<close>, and the time \<open>now k\<close> in milliseconds.\<close>

fun wait_for_client :: "nat \<Rightarrow> (nat \<Rightarrow> bool) \<Rightarrow> (nat \<Rightarrow> nat) \<Rightarrow> nat \<Rightarrow> nat \<Rightarrow> (string + nat) option" where
  "wait_for_client 0 client now deadline k = None"
| "wait_for_client (Suc fuel) client now deadline k =
     (if client k then Some (Inr k)
      else if deadline \<le> now k then Some (Inl ''timed out waiting for daemon connection'')
      else wait_for_client fuel client now deadline (Suc k))"

text \<open>Where the daemon and its socket are looked for.\<close>

definition daemon_binary_path :: "(string \<Rightarrow> bool) \<Rightarrow> string option \<Rightarrow> string" where
  "daemon_binary_path exists exe_dir =
     (case exe_dir of
        None \<Rightarrow> ''gdriver-daemon''
      | Some dir \<Rightarrow> let candidate = path_join dir ''gdriver-daemon'' in if exists candidate then candidate else ''gdriver-daemon'')"

definition app_socket_path :: "string option \<Rightarrow> string \<Rightarrow> string" where
  "app_socket_path runtime_dir temp_dir =
     path_join (case runtime_dir of Some d \<Rightarrow> d | None \<Rightarrow> temp_dir) ''gdriver.sock''"

end
