(* ===== verification/App_Commands.thy ===== *)
theory App_Commands
  imports App_Client
begin

text \<open>
  The commands the web front end invokes and the tray menu: \<^verbatim>\<open>commands.rs\<close>, \<^verbatim>\<open>tray.rs\<close> and the handler list of \<^verbatim>\<open>lib.rs\<close> under
  \<^verbatim>\<open>src/apps/gdriver-app/src-tauri/src/\<close>. A command is a program over a state the environment chooses: it waits for the
  connection, makes one call, and reads the reply. The platform branches are the ones of Linux.
\<close>

section \<open>The environment\<close>

text \<open>
  \<open>ae_wait\<close> is \<^verbatim>\<open>wait_for_client\<close>, \<open>ae_connected\<close> whether a client is there now, \<open>ae_call\<close> a call with its error already
  rendered, \<open>ae_spawn\<close> starting a program with one argument, \<open>ae_exit\<close> the end of the application.
\<close>

record 's app_env =
  ae_wait :: "('s, unit result) state"
  ae_connected :: "('s, bool) state"
  ae_call :: "string \<Rightarrow> json option \<Rightarrow> ('s, json result) state"
  ae_spawn :: "string \<Rightarrow> string \<Rightarrow> ('s, unit result) state"
  ae_exit :: "('s, unit) state"
  ae_home :: "string option"
  ae_version :: string
  ae_hostname :: "string option"
  ae_serde_error :: "json \<Rightarrow> string"

definition daemon_call :: "'s app_env \<Rightarrow> string \<Rightarrow> json option \<Rightarrow> ('s, json result) state" where
  "daemon_call env meth params = tryE (ae_wait env) (\<lambda>_. ae_call env meth params)"

text \<open>A command without a value; Tauri sends it to the front end as null.\<close>

definition daemon_do :: "'s app_env \<Rightarrow> string \<Rightarrow> json option \<Rightarrow> ('s, unit result) state" where
  "daemon_do env meth params = tryE (daemon_call env meth params) (\<lambda>_. State_Monad.return (Inr ()))"

section \<open>Commands\<close>

definition ping :: "'s app_env \<Rightarrow> ('s, string result) state" where
  "ping env = tryE (daemon_call env ''ping'' None) (\<lambda>val.
     State_Monad.return (case as_str val of Some s \<Rightarrow> Inr s | None \<Rightarrow> Inl (ae_serde_error env val)))"

definition get_sync_status :: "'s app_env \<Rightarrow> ('s, json result) state" where
  "get_sync_status env = daemon_call env ''sync.get_status'' None"

definition pause_sync :: "'s app_env \<Rightarrow> ('s, json result) state" where
  "pause_sync env = daemon_call env ''sync.pause'' None"

definition resume_sync :: "'s app_env \<Rightarrow> ('s, json result) state" where
  "resume_sync env = daemon_call env ''sync.resume'' None"

definition get_recent_sync_items :: "'s app_env \<Rightarrow> 32 word option \<Rightarrow> ('s, json result) state" where
  "get_recent_sync_items env limit =
     daemon_call env ''sync.get_recent_items'' (map_option (\<lambda>l. jobj [(''limit'', JInt (uint l))]) limit)"

definition reveal_in_file_manager :: "'s app_env \<Rightarrow> string \<Rightarrow> ('s, unit result) state" where
  "reveal_in_file_manager env path =
     (let parent = (case path_parent path of Some p \<Rightarrow> p | None \<Rightarrow> path) in ae_spawn env ''xdg-open'' parent)"

definition get_sync_activity :: "'s app_env \<Rightarrow> 32 word option \<Rightarrow> ('s, json result) state" where
  "get_sync_activity env page =
     daemon_call env ''sync.get_activity'' (map_option (\<lambda>p. jobj [(''page'', JInt (uint p))]) page)"

definition get_sync_errors :: "'s app_env \<Rightarrow> ('s, json result) state" where
  "get_sync_errors env = daemon_call env ''sync.get_errors'' None"

definition retry_sync_error :: "'s app_env \<Rightarrow> 64 word \<Rightarrow> ('s, json result) state" where
  "retry_sync_error env error_id = daemon_call env ''sync.retry_error'' (Some (jobj [(''errorId'', JInt (sint error_id))]))"

definition open_url :: "'s app_env \<Rightarrow> string \<Rightarrow> ('s, unit result) state" where
  "open_url env url = ae_spawn env ''xdg-open'' url"

text \<open>The parameters of the list of notifications: an object, left out when it is empty.\<close>

definition get_notifications :: "'s app_env \<Rightarrow> bool option \<Rightarrow> 32 word option \<Rightarrow> ('s, json result) state" where
  "get_notifications env unread_only limit =
     (let params = [];
          params = (case unread_only of Some u \<Rightarrow> obj_insert ''unreadOnly'' (JBool u) params | None \<Rightarrow> params);
          params = (case limit of Some l \<Rightarrow> obj_insert ''limit'' (JInt (uint l)) params | None \<Rightarrow> params)
      in daemon_call env ''notification.list'' (if params = [] then None else Some (JObj params)))"

definition dismiss_notification_cmd :: "'s app_env \<Rightarrow> 64 word \<Rightarrow> ('s, json result) state" where
  "dismiss_notification_cmd env i = daemon_call env ''notification.dismiss'' (Some (jobj [(''id'', JInt (sint i))]))"

definition mark_notification_read :: "'s app_env \<Rightarrow> 64 word \<Rightarrow> ('s, json result) state" where
  "mark_notification_read env i = daemon_call env ''notification.mark_read'' (Some (jobj [(''id'', JInt (sint i))]))"

definition mark_all_notifications_read :: "'s app_env \<Rightarrow> ('s, json result) state" where
  "mark_all_notifications_read env = daemon_call env ''notification.mark_all_read'' None"

definition get_drive_stats :: "'s app_env \<Rightarrow> ('s, json result) state" where
  "get_drive_stats env = daemon_call env ''system.get_drive_stats'' None"

definition get_accounts :: "'s app_env \<Rightarrow> ('s, json result) state" where
  "get_accounts env = daemon_call env ''auth.get_accounts'' None"

definition get_storage_quota :: "'s app_env \<Rightarrow> string \<Rightarrow> ('s, json result) state" where
  "get_storage_quota env account_id = daemon_call env ''auth.get_quota'' (Some (jobj [(''account_id'', JStr account_id)]))"

definition start_oauth_flow :: "'s app_env \<Rightarrow> ('s, string result) state" where
  "start_oauth_flow env = tryE (daemon_call env ''auth.start_flow'' None) (\<lambda>val.
     State_Monad.return (case Option.bind (jget ''auth_url'' val) as_str of
       Some url \<Rightarrow> Inr url | None \<Rightarrow> Inl ''missing auth_url in response''))"

definition disconnect_account :: "'s app_env \<Rightarrow> string \<Rightarrow> ('s, unit result) state" where
  "disconnect_account env account_id = daemon_do env ''auth.disconnect'' (Some (jobj [(''account_id'', JStr account_id)]))"

definition get_preferences :: "'s app_env \<Rightarrow> ('s, json result) state" where
  "get_preferences env = daemon_call env ''prefs.get'' None"

definition save_preferences :: "'s app_env \<Rightarrow> json \<Rightarrow> ('s, unit result) state" where
  "save_preferences env prefs = daemon_do env ''prefs.save'' (Some prefs)"

definition get_sync_folders :: "'s app_env \<Rightarrow> ('s, json result) state" where
  "get_sync_folders env = daemon_call env ''folder.list'' None"

definition add_sync_folder :: "'s app_env \<Rightarrow> string \<Rightarrow> string \<Rightarrow> ('s, json result) state" where
  "add_sync_folder env path folder_type =
     daemon_call env ''folder.add'' (Some (jobj [(''path'', JStr path), (''type'', JStr folder_type)]))"

text \<open>The mount point in the preferences, and the directory it names.\<close>

definition mount_in :: "json \<Rightarrow> string" where
  "mount_in prefs = (case Option.bind (Option.bind (jget ''vfs'' prefs) (jget ''mount_point'')) as_str of
     Some m \<Rightarrow> m | None \<Rightarrow> ''~/GoogleDrive'')"

definition expand_home :: "string option \<Rightarrow> string \<Rightarrow> string" where
  "expand_home home mount =
     (case strip_prefix ''~/'' mount of
        Some rest \<Rightarrow> (case home of Some h \<Rightarrow> h @ ''/'' @ rest | None \<Rightarrow> mount)
      | None \<Rightarrow> mount)"

definition open_drive_folder :: "'s app_env \<Rightarrow> ('s, unit result) state" where
  "open_drive_folder env = tryE (daemon_call env ''prefs.get'' None) (\<lambda>prefs.
     ae_spawn env ''xdg-open'' (expand_home (ae_home env) (mount_in prefs)))"

definition set_sync_mode :: "'s app_env \<Rightarrow> string \<Rightarrow> ('s, json result) state" where
  "set_sync_mode env mode = daemon_call env ''system.set_sync_mode'' (Some (jobj [(''mode'', JStr mode)]))"

definition get_app_version :: "'s app_env \<Rightarrow> string" where
  "get_app_version env = ae_version env"

definition get_hostname :: "'s app_env \<Rightarrow> string" where
  "get_hostname env = (case ae_hostname env of Some h \<Rightarrow> h | None \<Rightarrow> ''Computer'')"

definition get_platform :: string where
  "get_platform = ''Linux''"

definition submit_feedback :: "'s app_env \<Rightarrow> string \<Rightarrow> bool option \<Rightarrow> bool option \<Rightarrow> ('s, unit result) state" where
  "submit_feedback env txt include_logs allow_email =
     (let params = obj_insert ''text'' (JStr txt) [];
          params = (case include_logs of Some il \<Rightarrow> obj_insert ''includeLogs'' (JBool il) params | None \<Rightarrow> params);
          params = (case allow_email of Some ae \<Rightarrow> obj_insert ''allowEmail'' (JBool ae) params | None \<Rightarrow> params)
      in daemon_do env ''system.submit_feedback'' (Some (JObj params)))"

definition get_account_locale :: "'s app_env \<Rightarrow> string option \<Rightarrow> ('s, string result) state" where
  "get_account_locale env account_id = tryE (daemon_call env ''auth.get_locale'' (map_option JStr account_id)) (\<lambda>val.
     State_Monad.return (Inr (case Option.bind (jget ''locale'' val) as_str of Some l \<Rightarrow> l | None \<Rightarrow> ''en'')))"

definition remove_sync_folder :: "'s app_env \<Rightarrow> string \<Rightarrow> ('s, unit result) state" where
  "remove_sync_folder env folder_id = daemon_do env ''folder.remove'' (Some (jobj [(''id'', JStr folder_id)]))"

definition quit_app :: "'s app_env \<Rightarrow> ('s, unit) state" where
  "quit_app env = ae_exit env"

section \<open>What the front end can invoke\<close>

datatype app_command =
    Ping | Get_sync_status | Pause_sync | Resume_sync | Get_recent_sync_items "32 word option" | Get_sync_activity "32 word option"
  | Get_sync_errors | Retry_sync_error "64 word" | Reveal_in_file_manager string | Open_url string
  | Get_notifications "bool option" "32 word option" | Dismiss_notification "64 word" | Mark_notification_read "64 word"
  | Mark_all_notifications_read | Get_drive_stats | Get_accounts | Get_storage_quota string | Start_oauth_flow
  | Disconnect_account string | Get_preferences | Save_preferences json | Get_sync_folders | Add_sync_folder string string
  | Open_drive_folder | Set_sync_mode string | Get_app_version | Get_hostname | Get_platform
  | Submit_feedback string "bool option" "bool option" | Get_account_locale "string option" | Remove_sync_folder string | Quit_app

definition as_json :: "('a \<Rightarrow> json) \<Rightarrow> ('s, 'a result) state \<Rightarrow> ('s, json result) state" where
  "as_json f m = tryE m (\<lambda>x. State_Monad.return (Inr (f x)))"

definition no_value :: "('s, unit result) state \<Rightarrow> ('s, json result) state" where
  "no_value m = as_json (\<lambda>_. JNull) m"

fun invoke :: "'s app_env \<Rightarrow> app_command \<Rightarrow> ('s, json result) state" where
  "invoke env Ping = as_json JStr (ping env)"
| "invoke env Get_sync_status = get_sync_status env"
| "invoke env Pause_sync = pause_sync env"
| "invoke env Resume_sync = resume_sync env"
| "invoke env (Get_recent_sync_items limit) = get_recent_sync_items env limit"
| "invoke env (Get_sync_activity page) = get_sync_activity env page"
| "invoke env Get_sync_errors = get_sync_errors env"
| "invoke env (Retry_sync_error i) = retry_sync_error env i"
| "invoke env (Reveal_in_file_manager path) = no_value (reveal_in_file_manager env path)"
| "invoke env (Open_url url) = no_value (open_url env url)"
| "invoke env (Get_notifications unread_only limit) = get_notifications env unread_only limit"
| "invoke env (Dismiss_notification i) = dismiss_notification_cmd env i"
| "invoke env (Mark_notification_read i) = mark_notification_read env i"
| "invoke env Mark_all_notifications_read = mark_all_notifications_read env"
| "invoke env Get_drive_stats = get_drive_stats env"
| "invoke env Get_accounts = get_accounts env"
| "invoke env (Get_storage_quota acct) = get_storage_quota env acct"
| "invoke env Start_oauth_flow = as_json JStr (start_oauth_flow env)"
| "invoke env (Disconnect_account acct) = no_value (disconnect_account env acct)"
| "invoke env Get_preferences = get_preferences env"
| "invoke env (Save_preferences prefs) = no_value (save_preferences env prefs)"
| "invoke env Get_sync_folders = get_sync_folders env"
| "invoke env (Add_sync_folder path t) = add_sync_folder env path t"
| "invoke env Open_drive_folder = no_value (open_drive_folder env)"
| "invoke env (Set_sync_mode mode) = set_sync_mode env mode"
| "invoke env Get_app_version = State_Monad.return (Inr (JStr (get_app_version env)))"
| "invoke env Get_hostname = State_Monad.return (Inr (JStr (get_hostname env)))"
| "invoke env Get_platform = State_Monad.return (Inr (JStr get_platform))"
| "invoke env (Submit_feedback txt logs email) = no_value (submit_feedback env txt logs email)"
| "invoke env (Get_account_locale acct) = as_json JStr (get_account_locale env acct)"
| "invoke env (Remove_sync_folder i) = no_value (remove_sync_folder env i)"
| "invoke env Quit_app = State_Monad.bind (quit_app env) (\<lambda>_. State_Monad.return (Inr JNull))"

section \<open>The tray\<close>

datatype TrayStatus = TraySyncing | TraySynced | TrayPaused | TrayError | TrayOffline

text \<open>A dash and an ellipsis, in UTF-8.\<close>

definition DASH :: string where "DASH = [CHR 0xE2, CHR 0x80, CHR 0x94]"

definition ELLIPSIS :: string where "ELLIPSIS = [CHR 0xE2, CHR 0x80, CHR 0xA6]"

fun tooltip :: "TrayStatus \<Rightarrow> string" where
  "tooltip TraySyncing = ''gDriver '' @ DASH @ '' Syncing'' @ ELLIPSIS"
| "tooltip TraySynced = ''gDriver '' @ DASH @ '' Up to date''"
| "tooltip TrayPaused = ''gDriver '' @ DASH @ '' Sync paused''"
| "tooltip TrayError = ''gDriver '' @ DASH @ '' Sync error''"
| "tooltip TrayOffline = ''gDriver '' @ DASH @ '' Offline''"

record tray =
  tr_tooltip :: string
  tr_pause_label :: string
  tr_status :: TrayStatus
  tr_last_update :: nat

definition setup_tray :: "nat \<Rightarrow> tray" where
  "setup_tray now = \<lparr>tr_tooltip = tooltip TraySynced, tr_pause_label = ''Pause Sync'', tr_status = TraySynced, tr_last_update = now\<rparr>"

text \<open>The listener of the event \<^verbatim>\<open>sync:status-changed\<close>. The payload is the JSON text of the event; \<open>now\<close> is in milliseconds.\<close>

definition trim_quotes :: "string \<Rightarrow> string" where
  "trim_quotes s = rev (dropWhile (\<lambda>x. x = CHR 0x22) (rev (dropWhile (\<lambda>x. x = CHR 0x22) s)))"

definition TRAY_STATUS_NAMES :: "(string \<times> TrayStatus) list" where
  "TRAY_STATUS_NAMES = [(''syncing'', TraySyncing), (''up-to-date'', TraySynced), (''up_to_date'', TraySynced),
     (''paused'', TrayPaused), (''error'', TrayError), (''offline'', TrayOffline)]"

definition status_changed :: "nat \<Rightarrow> string \<Rightarrow> tray \<Rightarrow> tray" where
  "status_changed now payload tr =
     (case map_of TRAY_STATUS_NAMES (trim_quotes payload) of
        None \<Rightarrow> tr
      | Some new_status \<Rightarrow>
          if now - tr_last_update tr < 100 \<and> new_status \<noteq> TrayPaused \<and> new_status \<noteq> TrayError then tr
          else \<lparr>tr_tooltip = tooltip new_status,
            tr_pause_label = (if new_status = TrayPaused then ''Resume Sync'' else ''Pause Sync''),
            tr_status = new_status, tr_last_update = now\<rparr>)"

text \<open>The menu. \<^verbatim>\<open>toggle_pause_sync\<close> asks whether the sync is paused, sends the opposite, and returns the new label.\<close>

definition toggle_pause_sync :: "'s app_env \<Rightarrow> ('s, string) state" where
  "toggle_pause_sync env = do {
     up \<leftarrow> ae_connected env;
     is_paused \<leftarrow> (if up then do {
         reply \<leftarrow> ae_call env ''sync.get_status'' None;
         let val = (case reply of Inr v \<Rightarrow> v | Inl _ \<Rightarrow> JNull)
         in State_Monad.return (Option.bind (jget ''status'' val) as_str = Some ''paused'')
       } else State_Monad.return False);
     still_up \<leftarrow> ae_connected env;
     _ \<leftarrow> (if still_up then ae_call env (if is_paused then ''sync.resume'' else ''sync.pause'') None
          else State_Monad.return (Inr JNull));
     State_Monad.return (if is_paused then ''Pause Sync'' else ''Resume Sync'')
   }"

definition tray_open_drive :: "'s app_env \<Rightarrow> ('s, unit) state" where
  "tray_open_drive env = do {
     up \<leftarrow> ae_connected env;
     if up then do {
       reply \<leftarrow> ae_call env ''prefs.get'' None;
       (case reply of
          Inl _ \<Rightarrow> State_Monad.return ()
        | Inr prefs \<Rightarrow> State_Monad.bind (ae_spawn env ''xdg-open'' (mount_in prefs)) (\<lambda>_. State_Monad.return ()))
     } else State_Monad.return ()
   }"

datatype tray_menu = Menu_open | Menu_toggle_pause | Menu_open_drive | Menu_preferences | Menu_quit

text \<open>One choice from the menu: the new label of the pause item and whether the window is shown.\<close>

definition menu_event :: "'s app_env \<Rightarrow> tray_menu \<Rightarrow> string \<times> bool \<Rightarrow> ('s, string \<times> bool) state" where
  "menu_event env item st =
     (case item of
        Menu_open \<Rightarrow> State_Monad.return (fst st, True)
      | Menu_toggle_pause \<Rightarrow> State_Monad.bind (toggle_pause_sync env) (\<lambda>label. State_Monad.return (label, snd st))
      | Menu_open_drive \<Rightarrow> State_Monad.bind (tray_open_drive env) (\<lambda>_. State_Monad.return st)
      | Menu_preferences \<Rightarrow> State_Monad.return (fst st, True)
      | Menu_quit \<Rightarrow> State_Monad.bind (ae_exit env) (\<lambda>_. State_Monad.return st))"

end
