(* ===== verification/App_Props.thy ===== *)
theory App_Props
  imports App_Client
begin

text \<open>
  The application's client. Calls in flight are kept apart by the id of their request: a call is answered by the first line
  that carries its id, whatever else is read; several calls over one connection of the daemon each get the result of their own
  handler. A call made after the reader has ended is never answered.
\<close>

section \<open>Ids\<close>

definition call_id :: "nat \<Rightarrow> int" where
  "call_id n = sint (word_of_nat (Suc n) :: 64 word)"

lemma call_id_inj: "call_id m = call_id n \<Longrightarrow> m < 2 ^ 64 - 1 \<Longrightarrow> n < 2 ^ 64 - 1 \<Longrightarrow> m = n"
  by (simp add: call_id_def word_of_nat_eq_iff take_bit_nat_eq_self flip: word_eq_iff_signed del: of_nat_Suc)

lemma call_id_ok: "id_ok (IdNum (call_id n))"
  using sint_greater_eq [of "word_of_nat (Suc n) :: 64 word"] sint_less [of "word_of_nat (Suc n) :: 64 word"]
  by (simp add: id_ok_def i64_ok_def call_id_def)

text \<open>Call number \<open>n\<close> was made under \<open>call_id n\<close>, and the map of pending calls holds nothing else.\<close>

definition ids_ok :: "app_client \<Rightarrow> bool" where
  "ids_ok c \<longleftrightarrow> ac_next_id c = word_of_nat (Suc (length (ac_calls c))) \<and> distinct (map fst (ac_pending c)) \<and>
     (\<forall>(i, n) \<in> set (ac_pending c). n < length (ac_calls c) \<and> i = call_id n)"

lemma settle_simps [simp]:
  "length (settle s n cs) = length cs" "m \<noteq> n \<Longrightarrow> settle s n cs ! m = cs ! m"
  "n < length cs \<Longrightarrow> cs ! n \<noteq> Waiting \<Longrightarrow> settle s m cs ! n = cs ! n"
  "n < length cs \<Longrightarrow> cs ! n = Waiting \<Longrightarrow> settle s n cs ! n = s"
  by (auto simp: settle_def nth_list_update)

lemma settle_all_length [simp]: "length (fold (\<lambda>(i, n). settle s n) ps cs) = length cs"
  by (induction ps arbitrary: cs) (auto split: prod.split)

lemma settle_all_settled: "n < length cs \<Longrightarrow> cs ! n \<noteq> Waiting \<Longrightarrow> fold (\<lambda>(i, n). settle s n) ps cs ! n = cs ! n"
  by (induction ps arbitrary: cs) auto

lemma settle_all_pending:
  "n < length cs \<Longrightarrow> cs ! n = Waiting \<Longrightarrow> s \<noteq> Waiting \<Longrightarrow> fold (\<lambda>(i, n). settle s n) ps cs ! n = (if n \<in> snd ` set ps then s else Waiting)"
proof (induction ps arbitrary: cs)
  case (Cons p ps)
  then show ?case
    by (cases "snd p = n") (force simp: settle_all_settled image_iff split: prod.split)+
qed simp

section \<open>What a line answers\<close>

definition reply_of :: "text_codec \<Rightarrow> string \<Rightarrow> (int \<times> (json_rpc_error + json)) option" where
  "reply_of tc line =
     (if trim line = [] then None
      else Option.bind (tc_parse tc (trim line)) (\<lambda>val.
        if jget ''method'' val \<noteq> None then None
        else map_option (\<lambda>i. (i, reply_result val)) (Option.bind (jget ''id'' val) as_i64)))"

fun answer_in :: "text_codec \<Rightarrow> int \<Rightarrow> app_event list \<Rightarrow> (json_rpc_error + json) option" where
  "answer_in tc i [] = None"
| "answer_in tc i (LineRead l # evs) =
     (case reply_of tc l of None \<Rightarrow> answer_in tc i evs | Some (j, res) \<Rightarrow> if j = i then Some res else answer_in tc i evs)"
| "answer_in tc i (ReaderEnd # evs) = Some disconnected"
| "answer_in tc i (_ # evs) = answer_in tc i evs"

lemma line_read_reply:
  "reply_of tc line = None \<Longrightarrow> ac_calls (line_read tc line c) = ac_calls c \<and> ac_pending (line_read tc line c) = ac_pending c"
  "reply_of tc line = Some (i, res) \<Longrightarrow> line_read tc line c =
     (case map_of (ac_pending c) i of None \<Rightarrow> c
      | Some n \<Rightarrow> c\<lparr>ac_pending := AList.delete i (ac_pending c), ac_calls := settle (Answered res) n (ac_calls c)\<rparr>)"
  by (auto simp: reply_of_def line_read_def handle_message_def emit_push_def Let_def bind_eq_Some_conv
      split: option.splits if_splits)

lemma line_read_frame:
  "ac_next_id (line_read tc line c) = ac_next_id c" "ac_reader_up (line_read tc line c) = ac_reader_up c"
  "ac_writer_up (line_read tc line c) = ac_writer_up c" "length (ac_calls (line_read tc line c)) = length (ac_calls c)"
  "ac_windows (line_read tc line c) = ac_windows c"
  by (simp_all add: line_read_def handle_message_def emit_push_def Let_def split: option.split)

lemma line_read_pending:
  "set (ac_pending (line_read tc line c)) \<subseteq> set (ac_pending c)"
  "distinct (map fst (ac_pending c)) \<Longrightarrow> distinct (map fst (ac_pending (line_read tc line c)))"
proof -
  show "set (ac_pending (line_read tc line c)) \<subseteq> set (ac_pending c)"
    by (cases "reply_of tc line") (auto simp: line_read_reply AList.delete_eq split: option.splits)
  show "distinct (map fst (ac_pending c)) \<Longrightarrow> distinct (map fst (ac_pending (line_read tc line c)))"
    by (cases "reply_of tc line") (auto simp: line_read_reply distinct_delete split: option.splits)
qed

lemma writer_step_frame [simp]:
  "ac_next_id (writer_step b c) = ac_next_id c" "ac_reader_up (writer_step b c) = ac_reader_up c"
  "ac_calls (writer_step b c) = ac_calls c" "ac_pending (writer_step b c) = ac_pending c"
  "ac_windows (writer_step b c) = ac_windows c" "ac_emitted (writer_step b c) = ac_emitted c"
  by (simp_all add: writer_step_def split: list.split)

lemma app_call_frame:
  "ac_next_id (app_call tc meth params c) = ac_next_id c + 1" "ac_reader_up (app_call tc meth params c) = ac_reader_up c"
  "ac_writer_up (app_call tc meth params c) = ac_writer_up c"
  "length (ac_calls (app_call tc meth params c)) = Suc (length (ac_calls c))"
  "ac_pending (app_call tc meth params c) = AList.update (sint (ac_next_id c)) (length (ac_calls c)) (ac_pending c)"
  "ac_windows (app_call tc meth params c) = ac_windows c" "ac_emitted (app_call tc meth params c) = ac_emitted c"
  by (simp_all add: app_call_def Let_def split: option.split)

section \<open>Ids stay apart\<close>

lemma ids_ok_new: "ids_ok (from_io ws)"
  by (simp add: ids_ok_def from_io_def)

lemma ids_ok_pending:
  assumes "ids_ok c" and "map_of (ac_pending c) i = Some n"
  shows "n < length (ac_calls c)" and "i = call_id n"
  using assms by (auto simp: ids_ok_def dest!: map_of_SomeD)

lemma ids_ok_step: "ids_ok c \<Longrightarrow> ids_ok (app_step tc ev c)"
proof (cases ev)
  case (AppCall meth params)
  moreover assume "ids_ok c"
  moreover have "set (AList.update i n ps) \<subseteq> insert (i, n) (set ps)" for i n and ps :: "(int \<times> nat) list"
    by (induction ps) auto
  ultimately show ?thesis
    by (fastforce simp: ids_ok_def app_step_def app_call_frame distinct_update call_id_def ac_simps)
next
  case (LineRead l)
  moreover assume "ids_ok c"
  ultimately show ?thesis
    using line_read_pending(1) [of tc l c] line_read_pending(2) [of c tc l] by (auto simp: ids_ok_def app_step_def line_read_frame)
qed (auto simp: ids_ok_def app_step_def reader_ends_def split_beta)

lemma app_run_simps: "app_run tc [] c = c" "app_run tc (ev # evs) c = app_run tc evs (app_step tc ev c)"
  "app_run tc (as @ bs) c = app_run tc bs (app_run tc as c)"
  by (simp_all add: app_run_def)

lemma ids_ok_run: "ids_ok c \<Longrightarrow> ids_ok (app_run tc evs c)"
  by (induction evs arbitrary: c) (simp_all add: app_run_simps ids_ok_step)

lemma calls_grow_step: "length (ac_calls c) \<le> length (ac_calls (app_step tc ev c))"
  by (cases ev) (simp_all add: app_step_def app_call_frame line_read_frame reader_ends_def split_beta)

lemma calls_grow: "length (ac_calls c) \<le> length (ac_calls (app_run tc evs c))"
  by (induction evs arbitrary: c) (auto simp: app_run_simps intro: order_trans [OF calls_grow_step])

section \<open>The fate of a call\<close>

lemma settled_stays: "n < length (ac_calls c) \<Longrightarrow> ac_calls c ! n \<noteq> Waiting \<Longrightarrow> ac_calls (app_step tc ev c) ! n = ac_calls c ! n"
proof (cases ev)
  case (LineRead l)
  moreover assume "n < length (ac_calls c)" "ac_calls c ! n \<noteq> Waiting"
  ultimately show ?thesis
    by (cases "reply_of tc l") (auto simp: app_step_def line_read_reply split: option.split)
qed (simp_all add: app_step_def app_call_def reader_ends_def settle_all_settled nth_append Let_def split: option.split)

lemma settled_run:
  "n < length (ac_calls c) \<Longrightarrow> ac_calls c ! n \<noteq> Waiting \<Longrightarrow> ac_calls (app_run tc evs c) ! n = ac_calls c ! n"
proof (induction evs arbitrary: c)
  case (Cons ev evs)
  then show ?case
    using Cons.IH [of "app_step tc ev c"] settled_stays [of n c tc ev] calls_grow_step [of c tc ev] by (simp add: app_run_simps)
qed (simp add: app_run_simps)

text \<open>A call that waits, with its sender in the map.\<close>

definition in_flight :: "nat \<Rightarrow> app_client \<Rightarrow> bool" where
  "in_flight n c \<longleftrightarrow> n < length (ac_calls c) \<and> ac_calls c ! n = Waiting \<and> map_of (ac_pending c) (call_id n) = Some n"

lemma in_flight_writer [simp]: "in_flight n (writer_step b c) = in_flight n c"
  by (simp add: in_flight_def)

lemma other_pending:
  assumes "ids_ok c" and "length (ac_calls c) < 2 ^ 64 - 1"
  shows "map_of (ac_pending c) (sint (ac_next_id c)) = None"
proof (rule ccontr)
  assume "map_of (ac_pending c) (sint (ac_next_id c)) \<noteq> None"
  then obtain m where "map_of (ac_pending c) (sint (ac_next_id c)) = Some m" by auto
  with ids_ok_pending [OF assms(1) this] assms call_id_inj [of "length (ac_calls c)" m] show False
    by (simp add: ids_ok_def call_id_def)
qed

lemma flight_call:
  assumes "ids_ok c" and "length (ac_calls c) < 2 ^ 64 - 1" and "in_flight n c"
  shows "in_flight n (app_call tc meth params c)"
proof -
  have "sint (ac_next_id c) \<noteq> call_id n"
    using other_pending [OF assms(1,2)] assms(3) by (auto simp: in_flight_def)
  then show ?thesis
    using assms other_pending [OF assms(1,2)]
    by (simp add: in_flight_def app_call_def Let_def nth_append update_conv' del: of_nat_Suc)
qed

lemma flight_line:
  assumes "ids_ok c" and "length (ac_calls c) < 2 ^ 64" and "in_flight n c"
  shows "case reply_of tc l of
      None \<Rightarrow> in_flight n (line_read tc l c)
    | Some (j, res) \<Rightarrow> if j = call_id n then ac_calls (line_read tc l c) ! n = Answered res else in_flight n (line_read tc l c)"
proof (cases "reply_of tc l")
  case None
  then show ?thesis using assms(3) by (simp add: line_read_reply in_flight_def)
next
  case (Some r)
  obtain j res where r: "r = (j, res)" by fastforce
  show ?thesis
  proof (cases "j = call_id n")
    case True
    then show ?thesis using assms(3) Some r by (simp add: line_read_reply in_flight_def)
  next
    case False
    then have "m \<noteq> n" if "map_of (ac_pending c) j = Some m" for m
      using ids_ok_pending [OF assms(1) that] by auto
    then show ?thesis
      using False assms(3) Some r by (auto simp: line_read_reply in_flight_def delete_conv' split: option.split)
  qed
qed

lemma flight_end:
  assumes "in_flight n c"
  shows "ac_calls (reader_ends c) ! n = Answered disconnected"
proof -
  from assms have "n \<in> snd ` set (ac_pending c)" by (force simp: in_flight_def dest!: map_of_SomeD)
  then show ?thesis using assms by (simp add: reader_ends_def in_flight_def settle_all_pending)
qed

lemma flight_run:
  assumes "ids_ok c" and "ac_reader_up c" and "in_flight n c" and "length (ac_calls (app_run tc evs c)) < 2 ^ 64"
  shows "ac_calls (app_run tc evs c) ! n = (case answer_in tc (call_id n) evs of None \<Rightarrow> Waiting | Some res \<Rightarrow> Answered res)"
  using assms
proof (induction evs arbitrary: c)
  case Nil
  then show ?case by (simp add: app_run_simps in_flight_def)
next
  case (Cons ev evs)
  let ?c = "app_step tc ev c"
  have ok: "ids_ok ?c" and run: "app_run tc (ev # evs) c = app_run tc evs ?c" and len: "length (ac_calls ?c) < 2 ^ 64"
      "length (ac_calls c) < 2 ^ 64" and n: "n < length (ac_calls ?c)"
    using Cons.prems ids_ok_step calls_grow [of ?c tc evs] calls_grow_step [of c tc ev]
    by (auto simp: app_run_simps in_flight_def)
  note IH = Cons.IH [OF ok]
  show ?case
  proof (cases ev)
    case (AppCall meth params)
    with Cons.prems len have "in_flight n ?c" by (simp add: app_step_def app_call_frame flight_call)
    then show ?thesis using IH Cons.prems AppCall run by (simp add: app_step_def app_call_frame)
  next
    case (Written b)
    then have "in_flight n ?c" using Cons.prems by (simp add: app_step_def in_flight_def)
    then show ?thesis using IH Cons.prems Written run by (simp add: app_step_def)
  next
    case (LineRead l)
    then have step: "?c = line_read tc l c" using Cons.prems by (simp add: app_step_def)
    have up: "ac_reader_up ?c" using Cons.prems step by (simp add: line_read_frame)
    show ?thesis
    proof (cases "\<exists>res. reply_of tc l = Some (call_id n, res)")
      case True
      then obtain res where res: "reply_of tc l = Some (call_id n, res)" by blast
      then have "ac_calls ?c ! n = Answered res"
        using flight_line [OF Cons.prems(1) len(2) Cons.prems(3), of tc l] unfolding step by simp
      then show ?thesis using settled_run [OF n, of tc evs] res unfolding run by (simp add: LineRead)
    next
      case False
      then have "in_flight n ?c"
        using flight_line [OF Cons.prems(1) len(2) Cons.prems(3), of tc l] unfolding step by (auto split: option.splits if_splits)
      then have "ac_calls (app_run tc (ev # evs) c) ! n = (case answer_in tc (call_id n) evs of None \<Rightarrow> Waiting | Some res \<Rightarrow> Answered res)"
        using IH [OF up] Cons.prems(4) unfolding run by blast
      then show ?thesis using False by (auto simp: LineRead split: option.split)
    qed
  next
    case ReaderEnd
    then have "ac_calls ?c ! n = Answered disconnected"
      using Cons.prems flight_end by (simp add: app_step_def)
    then show ?thesis using settled_run [OF n, of tc evs] run ReaderEnd by simp
  qed
qed

lemma flight_new:
  assumes "ids_ok c" and "length (ac_calls c) < 2 ^ 64 - 1" and "ac_writer_up c"
  shows "in_flight (length (ac_calls c)) (app_call tc meth params c)"
  using other_pending [OF assms(1,2)] assms
  by (simp add: in_flight_def app_call_def Let_def nth_append update_conv' ids_ok_def call_id_def)

lemma ids_ok_call: "ids_ok c \<Longrightarrow> ids_ok (app_call tc meth params c)"
  using ids_ok_step [of c tc "AppCall meth params"] by (simp add: app_step_def)

lemma flight_unread:
  assumes "ids_ok c" and "\<not> ac_reader_up c" and "in_flight n c" and "length (ac_calls (app_run tc evs c)) < 2 ^ 64"
  shows "in_flight n (app_run tc evs c)"
  using assms
proof (induction evs arbitrary: c)
  case (Cons ev evs)
  have "length (ac_calls (app_step tc ev c)) < 2 ^ 64"
    using Cons.prems(4) calls_grow [of "app_step tc ev c" tc evs] by (simp add: app_run_simps)
  then have "in_flight n (app_step tc ev c) \<and> \<not> ac_reader_up (app_step tc ev c)"
    using Cons.prems by (cases ev) (auto simp: app_step_def app_call_frame flight_call)
  then show ?case
    using Cons.IH [OF ids_ok_step [OF Cons.prems(1)]] Cons.prems(4) by (simp add: app_run_simps)
qed (simp add: app_run_simps)

text \<open>C7: a call of the application is answered by the first line that carries the id of its request, or by the end of the
  connection, whichever comes first, and by nothing else: not by replies to other calls, in whatever order they come, and not by
  pushes. Until then it waits.\<close>

theorem call_answered_by_its_id:
  assumes "c = app_run tc before (from_io ws)" and "ac_reader_up c" and "ac_writer_up c"
    and "c' = app_run tc after (app_call tc meth params c)" and "length (ac_calls c') < 2 ^ 64"
  shows "ac_queue (app_call tc meth params c) = ac_queue c @ [request_line tc (request_new meth params (IdNum (sint (ac_next_id c))))] \<and>
    ac_calls c' ! length (ac_calls c) =
      (case answer_in tc (sint (ac_next_id c)) after of None \<Rightarrow> Waiting | Some res \<Rightarrow> Answered res)"
proof
  have ok: "ids_ok c" by (simp add: assms(1) ids_ok_run ids_ok_new)
  have len: "length (ac_calls c) < 2 ^ 64 - 1"
    using calls_grow [of "app_call tc meth params c" tc after] assms(4,5) by (simp add: app_call_frame)
  from flight_run [OF ids_ok_call [OF ok] _ flight_new [OF ok len assms(3)], where evs = after and tc = tc] assms(2,4,5) ok
  show "ac_calls c' ! length (ac_calls c) =
      (case answer_in tc (sint (ac_next_id c)) after of None \<Rightarrow> Waiting | Some res \<Rightarrow> Answered res)"
    by (simp add: app_call_frame ids_ok_def call_id_def)
qed (use assms(3) in \<open>simp add: app_call_def Let_def\<close>)

text \<open>C10: once the reader has ended, nothing empties the map of pending calls any more. A call made while the writer has not
  yet noticed, because it has had nothing to write, waits for ever, whatever happens afterwards.\<close>

theorem call_after_disconnect_waits:
  assumes "c = app_run tc before (from_io ws)" and "\<not> ac_reader_up c" and "ac_writer_up c"
    and "c' = app_run tc after (app_call tc meth params c)" and "length (ac_calls c') < 2 ^ 64"
  shows "call_outcome (ac_calls c' ! length (ac_calls c)) = None"
proof -
  have ok: "ids_ok c" by (simp add: assms(1) ids_ok_run ids_ok_new)
  have len: "length (ac_calls c) < 2 ^ 64 - 1"
    using calls_grow [of "app_call tc meth params c" tc after] assms(4,5) by (simp add: app_call_frame)
  from flight_unread [OF ids_ok_call [OF ok] _ flight_new [OF ok len assms(3)], where evs = after and tc = tc] assms(2,4,5)
  show ?thesis by (simp add: app_call_frame in_flight_def call_outcome_def)
qed

text \<open>The ping of the samples, first while the connection is up, then after its end.\<close>

theorem call_answered_by_its_id_witness:
  "ac_calls (app_run sample_codec [LineRead (''e'' @ [NL]), LineRead (''r'' @ [NL])]
     (app_call sample_codec ''ping'' None (app_run sample_codec [] (from_io [''main''])))) ! 0 = Answered (Inr (JStr ''pong''))"
proof -
  let ?c = "app_run sample_codec [] (from_io [''main''])"
  let ?evs = "[LineRead (''e'' @ [NL]), LineRead (''r'' @ [NL])]"
  have start: "ac_reader_up ?c" "ac_writer_up ?c" "ac_calls ?c = []" "sint (ac_next_id ?c) = 1"
    by (simp_all add: app_run_def from_io_def)
  have "length (ac_calls (app_run sample_codec ?evs (app_call sample_codec ''ping'' None ?c))) < 2 ^ 64"
    by (simp add: app_run_simps app_step_def line_read_frame app_call_frame) (simp add: from_io_def)
  from conjunct2 [OF call_answered_by_its_id [OF refl start(1,2) refl this]]
  have "ac_calls (app_run sample_codec ?evs (app_call sample_codec ''ping'' None ?c)) ! 0 =
      (case answer_in sample_codec 1 ?evs of None \<Rightarrow> Waiting | Some res \<Rightarrow> Answered res)"
    by (simp add: start)
  moreover have "answer_in sample_codec 1 ?evs = Some (Inr (JStr ''pong''))"
    by (simp add: reply_of_def trim_def is_white_def NL_def login_push_def ping_reply_def response_success_def en_response_def
        en_request_def request_notification_def unless_none_def reply_result_def jopt_def i64_ok_def)
  ultimately show ?thesis by simp
qed

theorem call_after_disconnect_waits_witness:
  "call_outcome (ac_calls (app_run sample_codec [Written True, Written False, AppCall ''ping'' None]
     (app_call sample_codec ''ping'' None (app_run sample_codec [ReaderEnd] (from_io [''main''])))) ! 0) = None"
proof -
  let ?c = "app_run sample_codec [ReaderEnd] (from_io [''main''])"
  have start: "\<not> ac_reader_up ?c" "ac_writer_up ?c" "ac_calls ?c = []"
    by (simp_all add: app_run_def app_step_def reader_ends_def from_io_def)
  have "length (ac_calls (app_run sample_codec [Written True, Written False, AppCall ''ping'' None]
      (app_call sample_codec ''ping'' None ?c))) < 2 ^ 64"
    by (simp add: app_run_simps app_step_def app_call_frame) (simp add: from_io_def reader_ends_def)
  from call_after_disconnect_waits [OF refl start(1,2) refl this] show ?thesis by (simp add: start)
qed

section \<open>Several calls over one connection of the daemon\<close>

fun serve_calls :: "'x ipc_env \<Rightarrow> (string \<times> json option) list \<Rightarrow> 'x router \<Rightarrow> (json_rpc_error + json) list \<times> 'x router" where
  "serve_calls env [] r = ([], r)"
| "serve_calls env ((meth, params) # cs) r =
     (case run_state (dispatch env meth params) r of (res, r') \<Rightarrow>
        (case serve_calls env cs r' of (rest, r'') \<Rightarrow> (res # rest, r'')))"

definition call_all :: "text_codec \<Rightarrow> (string \<times> json option) list \<Rightarrow> app_client \<Rightarrow> app_client" where
  "call_all tc cs c = app_run tc (map (\<lambda>(meth, params). AppCall meth params) cs) c"

definition nth_request :: "(string \<times> json option) list \<Rightarrow> nat \<Rightarrow> json_rpc_request" where
  "nth_request cs n = request_new (fst (cs ! n)) (snd (cs ! n)) (IdNum (call_id n))"

lemma call_all_state:
  assumes "length cs < 2 ^ 64 - 1" and "c = call_all tc cs (from_io ws)"
  shows "ac_queue c = map (\<lambda>n. request_line tc (nth_request cs n)) [0..<length cs] \<and> ac_calls c = replicate (length cs) Waiting \<and>
    (\<forall>n < length cs. in_flight n c) \<and> ac_writer_up c \<and> ac_reader_up c \<and> ac_windows c = ws \<and> ac_emitted c = [] \<and> ids_ok c"
  using assms
proof (induction cs arbitrary: c rule: rev_induct)
  case Nil
  then show ?case by (simp add: call_all_def app_run_simps from_io_def ids_ok_def)
next
  case (snoc x cs)
  obtain meth params where x: "x = (meth, params)" by fastforce
  define d where "d = call_all tc cs (from_io ws)"
  have IH: "ac_queue d = map (\<lambda>n. request_line tc (nth_request cs n)) [0..<length cs]" "ac_calls d = replicate (length cs) Waiting"
      "\<forall>n < length cs. in_flight n d" "ac_writer_up d" "ac_reader_up d" "ac_windows d = ws" "ac_emitted d = []" "ids_ok d"
    using snoc.IH [of d] snoc.prems(1) by (simp_all add: d_def)
  have c: "c = app_call tc meth params d"
    by (simp add: snoc.prems(2) d_def call_all_def app_run_simps app_step_def x)
  have len: "length (ac_calls d) < 2 ^ 64 - 1" using snoc.prems(1) IH(2) by simp
  have "map (\<lambda>n. request_line tc (nth_request (cs @ [x]) n)) [0..<length cs] = ac_queue d"
    unfolding IH(1) by (rule map_cong) (simp_all add: nth_request_def nth_append)
  then have "ac_queue c = map (\<lambda>n. request_line tc (nth_request (cs @ [x]) n)) [0..<length (cs @ [x])]"
    using IH(2,4,8) by (simp add: c app_call_def Let_def nth_request_def x ids_ok_def call_id_def)
  moreover have "ac_calls c = replicate (length (cs @ [x])) Waiting"
    using IH(2,4) other_pending [OF IH(8) len] by (simp add: c app_call_def Let_def replicate_append_same)
  moreover have "in_flight n c" if "n < length (cs @ [x])" for n
    using that IH(2,3) flight_new [OF IH(8) len IH(4)] flight_call [OF IH(8) len] by (auto simp: c less_Suc_eq)
  ultimately show ?case
    using IH by (simp add: c app_call_frame ids_ok_call)
qed

lemma distinct_lines:
  "list_all (\<lambda>l. NL \<notin> set l) ls \<Longrightarrow> list_all (\<lambda>l. NL \<notin> set l) ks \<Longrightarrow>
   concat (map (\<lambda>l. l @ [NL]) ls) = concat (map (\<lambda>l. l @ [NL]) ks) \<Longrightarrow> ls = ks"
proof (induction ls arbitrary: ks)
  case Nil
  then show ?case by (cases ks) simp_all
next
  case (Cons l ls)
  then obtain k ks' where ks: "ks = k # ks'" by (cases ks) auto
  have cut: "takeWhile (\<lambda>x. x \<noteq> NL) (m @ NL # xs) = m" "dropWhile (\<lambda>x. x \<noteq> NL) (m @ NL # xs) = NL # xs" if "NL \<notin> set m" for m xs
    using that by (induction m) auto
  have eq: "l @ NL # concat (map (\<lambda>l. l @ [NL]) ls) = k @ NL # concat (map (\<lambda>l. l @ [NL]) ks')"
    using Cons.prems(3) ks by simp
  have "l = k" and "concat (map (\<lambda>l. l @ [NL]) ls) = concat (map (\<lambda>l. l @ [NL]) ks')"
    using arg_cong [OF eq, of "takeWhile (\<lambda>x. x \<noteq> NL)"] arg_cong [OF eq, of "dropWhile (\<lambda>x. x \<noteq> NL)"] Cons.prems(1,2) ks
    by (simp_all add: cut)
  then show ?case using Cons ks by simp
qed

text \<open>What the lines of the daemon are to the client.\<close>

lemma reply_of_response:
  assumes "readable tc (en_response (response_for (IdNum i) res))" and "i64_ok i" and "\<And>e. res = Inl e \<Longrightarrow> error_ok e"
  shows "reply_of tc (message_line tc (response_for (IdNum i) res)) = Some (i, res)"
proof (cases res)
  case (Inl e)
  then show ?thesis
    using assms error_read [of e]
    by (simp add: reply_of_def readable_def message_line_def response_for_def response_error_def en_response_def jopt_def reply_result_def)
next
  case (Inr v)
  then show ?thesis
    using assms(1,2)
    by (simp add: reply_of_def readable_def message_line_def response_for_def response_success_def en_response_def jopt_def reply_result_def)
qed

lemma notification_parts:
  "jq_method (to_notification fl e) = event_method e" "jq_id (to_notification fl e) = None"
  by (cases e; simp add: request_notification_def)+

lemma reply_of_push: "readable tc (en_request (to_notification fl e)) \<Longrightarrow> reply_of tc (push_line tc fl e) = None"
  by (simp add: reply_of_def readable_def push_line_def en_request_def)

definition event_params :: "float_ops \<Rightarrow> push_event \<Rightarrow> json" where
  "event_params fl e = (case jq_params (to_notification fl e) of Some p \<Rightarrow> p | None \<Rightarrow> JNull)"

lemma push_emitted:
  "readable tc (en_request (to_notification fl e)) \<Longrightarrow>
   ac_emitted (line_read tc (push_line tc fl e) c) = ac_emitted c @ map (\<lambda>w. (w, event_method e, event_params fl e)) (ac_windows c)"
  by (cases "jq_params (to_notification fl e)")
     (simp_all add: line_read_def handle_message_def emit_push_def readable_def push_line_def en_request_def event_params_def
       notification_parts Let_def)

lemma reply_emits_nothing: "reply_of tc l = Some x \<Longrightarrow> ac_emitted (line_read tc l c) = ac_emitted c"
  by (cases x) (simp add: line_read_reply split: option.split)

lemma filter_nothing: "\<forall>b \<in> set bs. f b = None \<Longrightarrow> List.map_filter f bs = []"
  by (induction bs) (simp_all add: map_filter_simps)

lemma filter_everything: "map f xs = map (\<lambda>y. Some (g y)) ys \<Longrightarrow> List.map_filter f xs = map g ys"
  by (induction xs arbitrary: ys) (auto simp: map_filter_simps Cons_eq_map_conv)

lemma map_of_index: "inj_on k {..<m} \<Longrightarrow> n < m \<Longrightarrow> map_of (map (\<lambda>n. (k n, v n)) [0..<m]) (k n) = Some (v n)"
  by (rule map_of_is_SomeI) (auto simp: comp_def distinct_map inj_on_def)

lemma shuffle_filter:
  "xs \<in> shuffles as bs \<Longrightarrow> \<forall>b \<in> set bs. f b = None \<Longrightarrow> List.map_filter f xs = List.map_filter f as"
  by (induction as bs arbitrary: xs rule: shuffles.induct) (auto simp: filter_nothing map_filter_simps Cons_in_shuffles_iff split: option.split)

lemma answer_in_lines: "answer_in tc i (map LineRead ls) = map_of (List.map_filter (reply_of tc) ls) i"
  by (induction ls) (auto simp: map_filter_simps split: option.split)

lemma answer_after_writes: "answer_in tc i (replicate n (Written b) @ evs) = answer_in tc i evs"
  by (induction n) simp_all

lemma emitted_lines:
  assumes "xs \<in> shuffles as (map (push_line tc fl) es)" and "\<forall>a \<in> set as. reply_of tc a \<noteq> None"
    and "\<forall>e \<in> set es. readable tc (en_request (to_notification fl e))" and "ac_reader_up c"
  shows "ac_emitted (app_run tc (map LineRead xs) c) =
    ac_emitted c @ concat (map (\<lambda>e. map (\<lambda>w. (w, event_method e, event_params fl e)) (ac_windows c)) es)"
  using assms
proof (induction xs arbitrary: as es c)
  case Nil
  then show ?case by (simp add: app_run_simps)
next
  case (Cons x xs)
  let ?c = "line_read tc x c"
  have run: "app_run tc (map LineRead (x # xs)) c = app_run tc (map LineRead xs) ?c"
    using Cons.prems(4) by (simp add: app_run_simps app_step_def)
  from Cons.prems(1) consider (reply) as' where "as = x # as'" "xs \<in> shuffles as' (map (push_line tc fl) es)"
    | (push) e es' where "es = e # es'" "x = push_line tc fl e" "xs \<in> shuffles as (map (push_line tc fl) es')"
    by (auto simp: Cons_in_shuffles_iff Cons_eq_map_conv neq_Nil_conv)
  then show ?case
  proof cases
    case reply
    then show ?thesis
      using Cons.IH [of as' es ?c] Cons.prems reply_emits_nothing [of tc x] unfolding run by (auto simp: line_read_frame)
  next
    case push
    then show ?thesis
      using Cons.IH [of as es' ?c] Cons.prems push_emitted [of tc fl e c] unfolding run by (auto simp: line_read_frame)
  qed
qed

lemma app_run_frame:
  assumes "\<forall>ev \<in> set evs. (\<exists>b. ev = Written b) \<or> (\<exists>l. ev = LineRead l)"
  shows "length (ac_calls (app_run tc evs c)) = length (ac_calls c)" and "ac_reader_up (app_run tc evs c) = ac_reader_up c"
    and "ac_windows (app_run tc evs c) = ac_windows c"
  using assms by (induction evs arbitrary: c) (auto simp: app_run_simps app_step_def line_read_frame)

lemma writes_emit_nothing: "ac_emitted (app_run tc (replicate n (Written b)) c) = ac_emitted c"
  by (induction n arbitrary: c) (simp_all add: app_run_simps app_step_def)

lemma serve_requests:
  assumes "\<forall>q \<in> set qs. readable tc (en_request q) \<and> de_request (en_request q) = Some q \<and> jq_id q = Some (rid q)"
  shows "serve_lines env tc (map (\<lambda>q. tc_print tc (en_request q)) qs) r =
    (case serve_calls env (map (\<lambda>q. (jq_method q, jq_params q)) qs) r of
       (ress, r') \<Rightarrow> (map2 (\<lambda>q res. message_line tc (response_for (rid q) res)) qs ress, r'))"
  using assms
proof (induction qs arbitrary: r)
  case (Cons q qs)
  then have "reply_to env tc (tc_print tc (en_request q)) r =
      (case run_state (dispatch env (jq_method q) (jq_params q)) r of (res, r') \<Rightarrow> ([message_line tc (response_for (rid q) res)], r'))"
    by (intro reply_to_request) simp_all
  then show ?case using Cons by (simp split: prod.split)
qed simp

lemma serve_calls_length: "length (fst (serve_calls env cs r)) = length cs"
  by (induction cs arbitrary: r) (auto split: prod.split, metis fst_conv)

lemma serve_calls_errors: "list_all (\<lambda>res. \<forall>e. res = Inl e \<longrightarrow> error_ok e) (fst (serve_calls env cs r))"
proof (induction cs arbitrary: r)
  case (Cons x cs)
  obtain meth params where x: "x = (meth, params)" by fastforce
  obtain res r' where run: "run_state (dispatch env meth params) r = (res, r')" by fastforce
  have "\<forall>e. res = Inl e \<longrightarrow> error_ok e"
    using dispatch_errors_ok [of env meth params] run by (auto simp: errs_in_def) (metis fst_conv sum.simps(5))
  then show ?case using Cons.IH [of r'] run by (auto simp: x split: prod.split)
qed simp



section \<open>Connecting\<close>

text \<open>Six attempts, at most nine and a half seconds of sleep between them; the daemon is started after the first one failed.\<close>

lemma connect_six: "connect_or_spawn tries =
    (if tries 0 then (Some 0, False, 0) else if tries 1 then (Some 1, True, 300) else if tries 2 then (Some 2, True, 700)
     else if tries 3 then (Some 3, True, 1500) else if tries 4 then (Some 4, True, 3100) else if tries 5 then (Some 5, True, 6300)
     else (None, True, 9500))"
  by (simp add: connect_or_spawn_def numeral_eq_Suc retry_delay_def)

lemma connect_task_fresh: "connect_task tries ws = Some c \<Longrightarrow> c = from_io ws"
  by (auto simp: connect_task_def connect_six split: if_splits)

text \<open>A command that waits for the connection gets an answer by its deadline, however long the polls take.\<close>

lemma wait_ends:
  assumes "\<And>k. now k + 100 \<le> now (Suc k)" and "deadline \<le> now k + 100 * fuel"
  shows "wait_for_client (Suc fuel) client now deadline k \<noteq> None"
  using assms(2)
proof (induction fuel arbitrary: k)
  case (Suc fuel)
  then show ?case using assms(1) [of k] Suc.IH [of "Suc k"] by (subst wait_for_client.simps) auto
qed simp

end
