(* ===== verification/App_Command_Props.thy ===== *)
theory App_Command_Props
  imports App_Commands App_Props
begin

text \<open>
  The commands and the tray of the application over the handlers of the daemon: the requests are ones the daemon accepts, and what
  the tray makes of the replies and pushes.
\<close>

section \<open>The application over a daemon\<close>

text \<open>Each call is answered with the result of its handler, as \<open>calls_in_flight_answered\<close> shows of the connection.\<close>

record 'x desktop =
  dt_router :: "'x router"
  dt_replies :: "(json_rpc_error + json) list"
  dt_spawned :: "(string \<times> string) list"
  dt_exited :: bool

definition dispatch_call :: "'x ipc_env \<Rightarrow> string \<Rightarrow> json option \<Rightarrow> ('x desktop, json result) state" where
  "dispatch_call env meth params = State (\<lambda>s.
     case run_state (dispatch env meth params) (dt_router s) of
       (res, r) \<Rightarrow> (the (call_outcome (Answered res)), s\<lparr>dt_router := r, dt_replies := dt_replies s @ [res]\<rparr>))"

definition over_daemon :: "'x ipc_env \<Rightarrow> 'x desktop app_env" where
  "over_daemon env = \<lparr>ae_wait = State_Monad.return (Inr ()), ae_connected = State_Monad.return True, ae_call = dispatch_call env,
     ae_spawn = (\<lambda>prog arg. State (\<lambda>s. (Inr (), s\<lparr>dt_spawned := dt_spawned s @ [(prog, arg)]\<rparr>))),
     ae_exit = State (\<lambda>s. ((), s\<lparr>dt_exited := True\<rparr>)), ae_home = ie_home_dir env, ae_version = ''1'', ae_hostname = None,
     ae_serde_error = ie_serde_error env\<rparr>"

lemma over_daemon_simps [simp]:
  "ae_wait (over_daemon env) = State_Monad.return (Inr ())" "ae_connected (over_daemon env) = State_Monad.return True"
  "ae_call (over_daemon env) = dispatch_call env" "ae_home (over_daemon env) = ie_home_dir env"
  "run_state (ae_spawn (over_daemon env) prog arg) s = (Inr (), s\<lparr>dt_spawned := dt_spawned s @ [(prog, arg)]\<rparr>)"
  "run_state (ae_exit (over_daemon env)) s = ((), s\<lparr>dt_exited := True\<rparr>)"
  by (simp_all add: over_daemon_def)

lemma daemon_call_over [simp]: "daemon_call (over_daemon env) meth params = dispatch_call env meth params"
  by (rule state.expand) (simp add: daemon_call_def fun_eq_iff)

section \<open>The requests\<close>

definition list_params :: "bool option \<Rightarrow> 32 word option \<Rightarrow> json option" where
  "list_params unread_only limit =
     (if unread_only = None \<and> limit = None then None
      else Some (jobj (unless_none ''unreadOnly'' JBool unread_only @ unless_none ''limit'' (\<lambda>l. JInt (uint l)) limit)))"

text \<open>The one request of a command.\<close>

fun request_of :: "app_command \<Rightarrow> (string \<times> json option) option" where
  "request_of Ping = Some (''ping'', None)"
| "request_of Get_sync_status = Some (''sync.get_status'', None)"
| "request_of Pause_sync = Some (''sync.pause'', None)"
| "request_of Resume_sync = Some (''sync.resume'', None)"
| "request_of (Get_recent_sync_items limit) = Some (''sync.get_recent_items'', map_option (\<lambda>l. jobj [(''limit'', JInt (uint l))]) limit)"
| "request_of (Get_sync_activity page) = Some (''sync.get_activity'', map_option (\<lambda>p. jobj [(''page'', JInt (uint p))]) page)"
| "request_of Get_sync_errors = Some (''sync.get_errors'', None)"
| "request_of (Retry_sync_error i) = Some (''sync.retry_error'', Some (jobj [(''errorId'', JInt (sint i))]))"
| "request_of (Get_notifications unread_only limit) = Some (''notification.list'', list_params unread_only limit)"
| "request_of (Dismiss_notification i) = Some (''notification.dismiss'', Some (jobj [(''id'', JInt (sint i))]))"
| "request_of (Mark_notification_read i) = Some (''notification.mark_read'', Some (jobj [(''id'', JInt (sint i))]))"
| "request_of Mark_all_notifications_read = Some (''notification.mark_all_read'', None)"
| "request_of Get_drive_stats = Some (''system.get_drive_stats'', None)"
| "request_of Get_accounts = Some (''auth.get_accounts'', None)"
| "request_of (Get_storage_quota acct) = Some (''auth.get_quota'', Some (jobj [(''account_id'', JStr acct)]))"
| "request_of Start_oauth_flow = Some (''auth.start_flow'', None)"
| "request_of (Disconnect_account acct) = Some (''auth.disconnect'', Some (jobj [(''account_id'', JStr acct)]))"
| "request_of Get_preferences = Some (''prefs.get'', None)"
| "request_of (Save_preferences prefs) = Some (''prefs.save'', Some prefs)"
| "request_of Get_sync_folders = Some (''folder.list'', None)"
| "request_of (Add_sync_folder path t) = Some (''folder.add'', Some (jobj [(''path'', JStr path), (''type'', JStr t)]))"
| "request_of Open_drive_folder = Some (''prefs.get'', None)"
| "request_of (Set_sync_mode mode) = Some (''system.set_sync_mode'', Some (jobj [(''mode'', JStr mode)]))"
| "request_of (Submit_feedback txt logs email) = Some (''system.submit_feedback'', Some (jobj ([(''text'', JStr txt)] @
     unless_none ''includeLogs'' JBool logs @ unless_none ''allowEmail'' JBool email)))"
| "request_of (Get_account_locale acct) = Some (''auth.get_locale'', map_option JStr acct)"
| "request_of (Remove_sync_folder i) = Some (''folder.remove'', Some (jobj [(''id'', JStr i)]))"
| "request_of _ = None"

lemma run_dispatch_call:
  "run_state (dispatch_call env meth params) s =
     (case run_state (dispatch env meth params) (dt_router s) of
       (res, r) \<Rightarrow> (the (call_outcome (Answered res)), s\<lparr>dt_router := r, dt_replies := dt_replies s @ [res]\<rparr>))"
  by (simp add: dispatch_call_def)

lemmas command_defs = ping_def get_sync_status_def pause_sync_def resume_sync_def get_recent_sync_items_def reveal_in_file_manager_def
  get_sync_activity_def get_sync_errors_def retry_sync_error_def open_url_def get_notifications_def dismiss_notification_cmd_def
  mark_notification_read_def mark_all_notifications_read_def get_drive_stats_def get_accounts_def get_storage_quota_def
  start_oauth_flow_def disconnect_account_def get_preferences_def save_preferences_def get_sync_folders_def add_sync_folder_def
  open_drive_folder_def set_sync_mode_def submit_feedback_def get_account_locale_def remove_sync_folder_def quit_app_def
  daemon_do_def as_json_def no_value_def

lemma invoke_request:
  "let s' = snd (run_state (invoke (over_daemon env) cmd) s)
   in case request_of cmd of
        None \<Rightarrow> dt_router s' = dt_router s \<and> dt_replies s' = dt_replies s
      | Some (meth, params) \<Rightarrow> (case run_state (dispatch env meth params) (dt_router s) of
          (res, r) \<Rightarrow> dt_router s' = r \<and> dt_replies s' = dt_replies s @ [res])"
  by (cases cmd)
     (auto simp: command_defs run_dispatch_call list_params_def unless_none_def jobj_def obj_extend_def Let_def
       split: prod.splits sum.splits option.splits)

text \<open>The arguments the daemon reads itself: preferences, a mode and a folder id; the others it takes as they come.\<close>

fun readable_arguments :: "app_command \<Rightarrow> bool" where
  "readable_arguments (Save_preferences prefs) = (de_prefs prefs \<noteq> None)"
| "readable_arguments (Set_sync_mode mode) = (de_sync_mode (JStr mode) \<noteq> None)"
| "readable_arguments (Remove_sync_folder i) = (parse_i64 i \<noteq> None)"
| "readable_arguments _ = True"

lemma param_jobj [simp]:
  "param f k (Some (jobj [(k, v)])) = f v" "k \<noteq> j \<Longrightarrow> param f k (Some (jobj [(k, v), (j, u)])) = f v"
  "k \<noteq> j \<Longrightarrow> param f k (Some (jobj [(j, u), (k, v)])) = f v"
  by (auto simp: param_def jobj_def obj_extend_def)

lemma object_jobj [simp]: "object_param (Some (jobj kvs)) = Some (jobj kvs)"
  by (simp add: object_param_def jobj_def)

lemma required_some [simp]: "required (Some x) e k = k x"
  by (simp add: required_def)

lemma as_i64_sint [simp]: "as_i64 (JInt (sint (i :: 64 word))) = Some (sint i)"
  using sint_greater_eq [of i] sint_less [of i] by (simp add: as_i64_def i64_ok_def)

lemma app_methods:
  "dispatch env ''ping'' params = ok (JStr ''pong'')"
  "dispatch env ''prefs.get'' params = handle_prefs_get"
  "dispatch env ''prefs.save'' params = handle_prefs_save env params"
  "dispatch env ''auth.start_flow'' params = handle_auth_start_flow env"
  "dispatch env ''auth.get_accounts'' params = handle_auth_get_accounts"
  "dispatch env ''auth.disconnect'' params = handle_auth_disconnect env params"
  "dispatch env ''auth.get_locale'' params = handle_auth_get_locale params"
  "dispatch env ''auth.get_quota'' params = handle_auth_get_quota"
  "dispatch env ''sync.get_status'' params = handle_sync_get_status"
  "dispatch env ''sync.pause'' params = handle_sync_pause"
  "dispatch env ''sync.resume'' params = handle_sync_resume"
  "dispatch env ''sync.get_recent_items'' params = handle_sync_get_recent_items env params"
  "dispatch env ''sync.get_activity'' params = handle_sync_get_activity env params"
  "dispatch env ''sync.retry_error'' params = handle_sync_retry_error params"
  "dispatch env ''sync.get_errors'' params = handle_sync_get_errors"
  "dispatch env ''notification.list'' params = handle_notification_list env params"
  "dispatch env ''notification.dismiss'' params = handle_notification_dismiss params"
  "dispatch env ''notification.mark_read'' params = handle_notification_mark_read params"
  "dispatch env ''notification.mark_all_read'' params = handle_notification_mark_all_read"
  "dispatch env ''folder.list'' params = handle_folder_list"
  "dispatch env ''folder.add'' params = handle_folder_add params"
  "dispatch env ''folder.remove'' params = handle_folder_remove params"
  "dispatch env ''system.set_sync_mode'' params = handle_set_sync_mode env params"
  "dispatch env ''system.get_drive_stats'' params = handle_system_get_drive_stats"
  "dispatch env ''system.submit_feedback'' params = handle_submit_feedback params"
  by (simp_all add: dispatch_def method_table_def)

lemma request_accepted:
  assumes "request_of cmd = Some (meth, params)" and "readable_arguments cmd"
  shows "errs_in (\<lambda>e. \<not> refuses e) (dispatch env meth params)"
proof -
  have mode: "jget ''mode'' (jobj [(''mode'', v)]) = Some v" for v by (simp add: jobj_def obj_extend_def)
  note rewrite = app_methods handler_defs param_jobj object_jobj as_i64_sint as_simps required_some
  show ?thesis
  proof (cases cmd)
    case (Save_preferences prefs)
    then obtain p where "de_prefs prefs = Some p" using assms(2) by auto
    with Save_preferences assms(1) show ?thesis
      by (clarsimp simp: app_methods handle_prefs_save_def Let_def; intro late.errs_all)
  next
    case (Set_sync_mode m)
    then obtain v where "de_sync_mode (JStr m) = Some v" using assms(2) by auto
    with Set_sync_mode assms(1) show ?thesis
      by (clarsimp simp: app_methods handle_set_sync_mode_def mode; intro late.errs_all)
  next
    case (Remove_sync_folder i)
    then obtain v where "parse_i64 i = Some v" using assms(2) by auto
    with Remove_sync_folder assms(1) show ?thesis
      by (clarsimp simp: app_methods handle_folder_remove_def folder_id_param_def; intro late.errs_all)
  next
    case (Add_sync_folder p t)
    with assms(1) show ?thesis
      by (clarsimp simp: app_methods handle_folder_add_def Let_def; intro late.errs_all error_kinds)
  qed (insert assms, simp_all only: request_of.simps option.inject prod.inject option.distinct simp_thms,
      (elim conjE, hypsubst, simp only: rewrite, intro late.errs_all error_kinds)+)
qed



text \<open>The consent to be contacted is sent and not kept: the daemon does the same with it, without it, and against it.\<close>

lemma feedback_email_ignored:
  "dt_router (snd (run_state (submit_feedback (over_daemon env) txt logs email) s)) =
   dt_router (snd (run_state (submit_feedback (over_daemon env) txt logs email') s))"
proof -
  have params: "param f ''text'' (Some (jobj ([(''text'', JStr txt)] @ unless_none ''includeLogs'' JBool logs @ unless_none ''allowEmail'' JBool e)))
        = f (JStr txt)"
    "param f ''includeLogs'' (Some (jobj ([(''text'', JStr txt)] @ unless_none ''includeLogs'' JBool logs @ unless_none ''allowEmail'' JBool e)))
        = Option.bind (map_option JBool logs) f" for f :: "json \<Rightarrow> 'b option" and e
    by (cases logs; cases e; simp add: param_def jobj_def obj_extend_def unless_none_def)+
  have "dt_router (snd (run_state (submit_feedback (over_daemon env) txt logs e) s)) =
      snd (run_state (dispatch env ''system.submit_feedback'' (Some (jobj ([(''text'', JStr txt)] @ unless_none ''includeLogs'' JBool logs @
        unless_none ''allowEmail'' JBool e)))) (dt_router s))" for e
    using invoke_request [of env "Submit_feedback txt logs e" s]
    by (auto simp: no_value_def as_json_def Let_def split: prod.splits sum.splits)
  then show ?thesis
    by (simp only: app_methods handle_submit_feedback_def params)
qed

section \<open>The tray\<close>

lemma tray_toggle:
  "run_state (toggle_pause_sync (over_daemon env)) s = (label, s') \<Longrightarrow> label = ''Resume Sync'' \<and>
   rt_world (dt_router s') = rt_world (dt_router s) \<and> rt_engine_up (dt_router s') = rt_engine_up (dt_router s) \<and>
   rt_commands (dt_router s') = rt_commands (dt_router s) @
     (if rt_engine_up (dt_router s) \<and> \<not> halted (rt_world (dt_router s)) then [Pause] else [])"
  by (auto simp: toggle_pause_sync_def run_dispatch_call app_methods handle_sync_get_status_def handle_sync_pause_def and_then_def
      send_command_def in_world_def now_ms_def ok_def fail_def call_outcome_def en_status_payload_def jobj_def obj_extend_def Let_def
      split: prod.splits if_splits)

text \<open>C12: the tray can pause and cannot resume. It decides by the status the daemon answers, which is always up-to-date: however
  often the item is chosen, each choice sends a pause, and the item reads Resume Sync after it.\<close>

theorem tray_only_pauses:
  "fst (run_state (toggle_pause_sync (over_daemon env)) s) = ''Resume Sync'' \<and>
   rt_commands (dt_router (((\<lambda>s. snd (run_state (toggle_pause_sync (over_daemon env)) s)) ^^ n) s)) = rt_commands (dt_router s) @
     replicate (if rt_engine_up (dt_router s) \<and> \<not> halted (rt_world (dt_router s)) then n else 0) Pause"
proof
  let ?t = "\<lambda>s. snd (run_state (toggle_pause_sync (over_daemon env)) s)"
  show "fst (run_state (toggle_pause_sync (over_daemon env)) s) = ''Resume Sync''"
    using tray_toggle [OF prod.collapse [symmetric], of env s] by blast
  have step: "rt_world (dt_router (?t u)) = rt_world (dt_router u)" "rt_engine_up (dt_router (?t u)) = rt_engine_up (dt_router u)"
      "rt_commands (dt_router (?t u)) = rt_commands (dt_router u) @
         (if rt_engine_up (dt_router u) \<and> \<not> halted (rt_world (dt_router u)) then [Pause] else [])" for u
    using tray_toggle [OF prod.collapse [symmetric], of env u] by blast+
  have "rt_world (dt_router ((?t ^^ n) s)) = rt_world (dt_router s) \<and> rt_engine_up (dt_router ((?t ^^ n) s)) = rt_engine_up (dt_router s) \<and>
      rt_commands (dt_router ((?t ^^ n) s)) = rt_commands (dt_router s) @
        replicate (if rt_engine_up (dt_router s) \<and> \<not> halted (rt_world (dt_router s)) then n else 0) Pause"
    by (induction n) (simp_all add: step replicate_append_same)
  then show "rt_commands (dt_router ((?t ^^ n) s)) = rt_commands (dt_router s) @
      replicate (if rt_engine_up (dt_router s) \<and> \<not> halted (rt_world (dt_router s)) then n else 0) Pause" by simp
qed

text \<open>The listener takes the payload for a quoted name. It is the text of an object, so that no status pushed by the daemon ever
  reaches the tray.\<close>

lemma trim_quotes_brace: "trim_quotes (CHR ''{'' # t) \<noteq> [] \<and> hd (trim_quotes (CHR ''{'' # t)) = CHR ''{''"
proof -
  have "dropWhile (\<lambda>x. x = CHR 0x22) (rev t @ [CHR ''{'']) = dropWhile (\<lambda>x. x = CHR 0x22) (rev t) @ [CHR ''{'']"
    by (simp add: dropWhile_append3)
  then show ?thesis by (simp add: trim_quotes_def)
qed

lemma tray_status_never_shown:
  assumes "\<And>m. \<exists>t. tc_print tc (JObj m) = CHR ''{'' # t"
  shows "status_changed now (tc_print tc (event_params fl (SyncStatusChanged p))) tr = tr"
proof -
  obtain m where "event_params fl (SyncStatusChanged p) = JObj m"
    by (auto simp: event_params_def request_notification_def en_status_payload_def jobj_def)
  with assms obtain t where t: "tc_print tc (event_params fl (SyncStatusChanged p)) = CHR ''{'' # t" by metis
  have "map_of TRAY_STATUS_NAMES (trim_quotes (CHR ''{'' # t)) = None"
    using trim_quotes_brace [of t] by (auto simp: TRAY_STATUS_NAMES_def)
  then show ?thesis by (simp add: status_changed_def t)
qed

text \<open>The folder item of the tray and the command of the window open different directories when the mount point is written with a
  tilde: the tray passes it on as it is.\<close>

lemma prefs_mount: "mount_in (en_prefs (prefs_of r)) = w_mount_point (rt_world r)"
  by (simp add: mount_in_def en_prefs_def en_vfs_prefs_def prefs_of_def jobj_def obj_extend_def)

lemma drive_folder_opened:
  "dt_spawned (snd (run_state (tray_open_drive (over_daemon env)) s)) = dt_spawned s @ [(''xdg-open'', w_mount_point (rt_world (dt_router s)))]"
  "dt_spawned (snd (run_state (open_drive_folder (over_daemon env)) s)) =
     dt_spawned s @ [(''xdg-open'', expand_home (ie_home_dir env) (w_mount_point (rt_world (dt_router s))))]"
  by (simp_all add: tray_open_drive_def open_drive_folder_def run_dispatch_call app_methods handle_prefs_get_def config_read_def ok_def
      call_outcome_def prefs_mount)

end
