(* ===== verification/Ipc_Ffi.thy ===== *)
theory Ipc_Ffi
  imports Ipc_Connection
begin

text \<open>
  The C interface of the blocking client, for the extensions of the file managers: the \<^verbatim>\<open>extern "C"\<close> functions of
  \<^verbatim>\<open>crates/gdriver-ipc/src/client.rs\<close>. A string of C is a list of bytes without zero; a function that gives \<^verbatim>\<open>CString::new\<close> a
  text with a zero byte panics, which ends the process at the boundary to C.
\<close>

section \<open>Handles and strings\<close>

text \<open>A handle is a pointer, null or to a client. The path is \<open>None\<close> when its bytes are not UTF-8.\<close>

datatype c_string = CNull | CStr string | CPanic

definition c_string_new :: "string \<Rightarrow> c_string" where
  "c_string_new s = (if CHR 0x00 \<in> set s then CPanic else CStr s)"

definition gdriver_connect :: "string + ipc_client \<Rightarrow> ipc_client option" where
  "gdriver_connect connected = (case connected of Inl _ \<Rightarrow> None | Inr cl \<Rightarrow> Some cl)"

definition gdriver_disconnect :: "ipc_client option \<Rightarrow> ipc_client option" where
  "gdriver_disconnect handle = None"

text \<open>What the three queries share: the checks of the arguments and the call, with the line it sends.\<close>

definition ffi_call :: "text_codec \<Rightarrow> string option \<Rightarrow> string \<Rightarrow> (string \<Rightarrow> json) \<Rightarrow> (json \<Rightarrow> c_string) \<Rightarrow>
    ipc_client option \<Rightarrow> string option \<Rightarrow> c_string \<times> ipc_client option" where
  "ffi_call tc write_error meth params answer handle path =
     (case handle of
        None \<Rightarrow> (CNull, None)
      | Some cl \<Rightarrow>
          (case path of
             None \<Rightarrow> (CNull, Some cl)
           | Some p \<Rightarrow>
               (case client_call tc write_error meth (Some (params p)) cl of
                  (_, Inl _, cl') \<Rightarrow> (CNull, Some cl')
                | (_, Inr val, cl') \<Rightarrow> (answer val, Some cl'))))"

definition gdriver_get_sync_state :: "text_codec \<Rightarrow> string option \<Rightarrow> ipc_client option \<Rightarrow> string option \<Rightarrow> c_string \<times> ipc_client option" where
  "gdriver_get_sync_state tc write_error = ffi_call tc write_error ''fs.get_sync_state'' (\<lambda>p. jobj [(''path'', JStr p)])
     (\<lambda>val. c_string_new (tc_print tc val))"

definition gdriver_set_offline :: "text_codec \<Rightarrow> string option \<Rightarrow> bool \<Rightarrow> ipc_client option \<Rightarrow> string option \<Rightarrow> c_string \<times> ipc_client option" where
  "gdriver_set_offline tc write_error enabled =
     ffi_call tc write_error ''fs.set_offline'' (\<lambda>p. jobj [(''path'', JStr p), (''enabled'', JBool enabled)])
       (\<lambda>val. c_string_new ''ok'')"

definition gdriver_get_share_link :: "text_codec \<Rightarrow> string option \<Rightarrow> ipc_client option \<Rightarrow> string option \<Rightarrow> c_string \<times> ipc_client option" where
  "gdriver_get_share_link tc write_error = ffi_call tc write_error ''fs.get_share_link'' (\<lambda>p. jobj [(''path'', JStr p)])
     (\<lambda>val. c_string_new (case Option.bind (jget ''url'' val) as_str of Some url \<Rightarrow> url | None \<Rightarrow> []))"

section \<open>What the extensions get\<close>

text \<open>A null handle, a path that is not UTF-8, a failed write and an error of the daemon are all answered by null, never by an
  empty string or a panic.\<close>

lemma ffi_call_cases:
  "ffi_call tc write_error meth params answer None path = (CNull, None)"
  "ffi_call tc write_error meth params answer (Some cl) None = (CNull, Some cl)"
  "fst (ffi_call tc (Some e) meth params answer (Some cl) path) = CNull"
  "fst (snd (client_call tc None meth (Some (params p)) cl)) = Inl err \<Longrightarrow>
   fst (ffi_call tc None meth params answer (Some cl) (Some p)) = CNull"
  "fst (snd (client_call tc None meth (Some (params p)) cl)) = Inr val \<Longrightarrow>
   fst (ffi_call tc None meth params answer (Some cl) (Some p)) = answer val"
  by (auto simp: ffi_call_def client_call_def Let_def split: option.split prod.splits sum.splits)

end
