(* ===== verification/Vfs_Mac.thy ===== *)
theory Vfs_Mac
  imports Daemon
begin

text \<open>
  \<^verbatim>\<open>crates/gdriver-vfs/src/macos.rs\<close>: the file system of macOS. Its FUSE-T callbacks are a second copy of the ones of Linux, over the same
  structures and the same queries; they are written out here from their own source, with the steps that both share taken from
  \<open>Vfs_Linux\<close>. The last section says where the copies differ.
\<close>

section \<open>Helpers\<close>

definition mac_root_attr :: "int \<Rightarrow> file_attr" where
  "mac_root_attr now = \<lparr>fa_ino = ROOT_INODE, fa_size = 0, fa_blocks = 0, fa_mtime = now, fa_kind = Directory,
     fa_perm = 493, fa_nlink = 2\<rparr>"

definition mac_file_to_attr :: "file_meta \<Rightarrow> file_attr" where
  "mac_file_to_attr m =
     (let (kind, perm, size, nlink) =
        (if fm_mime_type m = FOLDER_MIME then (Directory, 493, 0, 2) else (RegularFile, 420, word_of_int (fm_size m), 1))
      in \<lparr>fa_ino = fm_inode m, fa_size = size, fa_blocks = div_ceil size 512,
           fa_mtime = uint (word_of_int (fm_modified_time m) :: u64), fa_kind = kind, fa_perm = perm, fa_nlink = nlink\<rparr>)"

definition mac_is_google_workspace_mime :: "string \<Rightarrow> bool" where
  "mac_is_google_workspace_mime m \<longleftrightarrow>
     m = ''application/vnd.google-apps.document'' \<or> m = ''application/vnd.google-apps.spreadsheet'' \<or>
     m = ''application/vnd.google-apps.presentation'' \<or> m = ''application/vnd.google-apps.drawing'' \<or>
     m = ''application/vnd.google-apps.script''"

definition mac_guess_mime_from_name :: "string \<Rightarrow> string" where
  "mac_guess_mime_from_name name =
     (case path_extension name of
        None \<Rightarrow> ''application/octet-stream''
      | Some e \<Rightarrow>
          if e = ''txt'' then ''text/plain'' else if e = ''html'' \<or> e = ''htm'' then ''text/html'' else if e = ''css'' then ''text/css''
          else if e = ''js'' then ''text/javascript'' else if e = ''json'' then ''application/json''
          else if e = ''xml'' then ''application/xml'' else if e = ''pdf'' then ''application/pdf''
          else if e = ''png'' then ''image/png'' else if e = ''jpg'' \<or> e = ''jpeg'' then ''image/jpeg''
          else if e = ''gif'' then ''image/gif'' else if e = ''svg'' then ''image/svg+xml'' else if e = ''mp3'' then ''audio/mpeg''
          else if e = ''mp4'' then ''video/mp4'' else if e = ''zip'' then ''application/zip''
          else if e = ''gz'' \<or> e = ''tar'' then ''application/gzip'' else if e = ''doc'' then ''application/msword''
          else if e = ''docx'' then ''application/vnd.openxmlformats-officedocument.wordprocessingml.document''
          else if e = ''xls'' then ''application/vnd.ms-excel''
          else if e = ''xlsx'' then ''application/vnd.openxmlformats-officedocument.spreadsheetml.sheet''
          else ''application/octet-stream'')"

text \<open>A file is looked up, and its details must be there.\<close>

definition mac_details_path :: "gfs \<Rightarrow> file_details \<Rightarrow> string" where
  "mac_details_path g d = (case fd_local_path d of Some p \<Rightarrow> p | None \<Rightarrow> path_join (path_join (vf_cache_dir g) (fd_account_id d)) (fd_file_id d))"

section \<open>Reading\<close>

definition mac_lookup :: "inode \<Rightarrow> string option \<Rightarrow> ('x world, errno + (nat \<times> file_attr)) state" where
  "mac_lookup parent name = with_name name (\<lambda>s.
     must_find (lookup_by_parent_and_name parent s) (\<lambda>m.
       let attr = mac_file_to_attr m
       in State_Monad.return (Inr (if fa_kind attr = Directory then DIR_TTL else FILE_TTL, attr))))"

definition mac_getattr :: "inode \<Rightarrow> ('x world, errno + (nat \<times> file_attr)) state" where
  "mac_getattr ino =
     (if ino = ROOT_INODE then do {
        now \<leftarrow> now_ms;
        State_Monad.return (Inr (DIR_TTL, mac_root_attr now))
      }
      else must_find (get_file_by_inode ino) (\<lambda>m.
        let attr = mac_file_to_attr m
        in State_Monad.return (Inr (if fa_kind attr = Directory then DIR_TTL else FILE_TTL, attr))))"

text \<open>The loop over the offsets: the entry at \<open>i\<close>, until the buffer is full.\<close>

definition mac_entry :: "inode \<Rightarrow> file_meta list \<Rightarrow> nat \<Rightarrow> dirent" where
  "mac_entry ino children i =
     (if i = 0 then \<lparr>de_ino = ino, de_next = i + 1, de_kind = Directory, de_name = ''.''\<rparr>
      else if i = 1 then \<lparr>de_ino = ROOT_INODE, de_next = i + 1, de_kind = Directory, de_name = ''..''\<rparr>
      else let child = children ! (i - 2)
           in \<lparr>de_ino = fm_inode child, de_next = i + 1,
                de_kind = (if fm_mime_type child = FOLDER_MIME then Directory else RegularFile), de_name = fm_name child\<rparr>)"

fun mac_fill :: "(dirent list \<Rightarrow> dirent \<Rightarrow> bool) \<Rightarrow> inode \<Rightarrow> file_meta list \<Rightarrow> dirent list \<Rightarrow> nat list \<Rightarrow> dirent list" where
  "mac_fill fits ino children taken [] = taken"
| "mac_fill fits ino children taken (i # is) =
     (if fits taken (mac_entry ino children i) then mac_fill fits ino children (taken @ [mac_entry ino children i]) is else taken)"

definition mac_readdir :: "(dirent list \<Rightarrow> dirent \<Rightarrow> bool) \<Rightarrow> inode \<Rightarrow> nat \<Rightarrow> ('x world, errno + dirent list) state" where
  "mac_readdir fits ino offset = or_fail EIO (list_children_by_inode ino) (\<lambda>children.
     let total_entries = 2 + length children
     in State_Monad.return (Inr (mac_fill fits ino children [] [offset..<total_entries])))"

definition mac_open :: "gfs \<Rightarrow> inode \<Rightarrow> int \<Rightarrow> ('x world, errno + (u64 \<times> gfs)) state" where
  "mac_open g ino flags =
     (if ino = ROOT_INODE then State_Monad.return (Inl EISDIR)
      else must_find (get_file_details_by_inode ino) (\<lambda>d.
        if fd_mime_type d = FOLDER_MIME then State_Monad.return (Inl EISDIR)
        else if mac_is_google_workspace_mime (fd_mime_type d) then State_Monad.return (Inl ENOTSUP)
        else let fh = vf_next_fh g
             in State_Monad.return (Inr (fh, g\<lparr>vf_next_fh := fh + 1,
                  vf_open_files := (vf_open_files g)(fh \<mapsto> \<lparr>oh_ino = ino, oh_flags = flags, oh_local_path = mac_details_path g d\<rparr>)\<rparr>))))"

definition mac_read :: "('x world, unit) state \<Rightarrow> gfs \<Rightarrow> inode \<Rightarrow> u64 \<Rightarrow> int \<Rightarrow> nat \<Rightarrow> ('x world, errno + bytes) state" where
  "mac_read others g ino fh offset len =
     (case vf_open_files g fh of
        None \<Rightarrow> State_Monad.return (Inl EBADF)
      | Some h \<Rightarrow>
          if oh_ino h \<noteq> ino then State_Monad.return (Inl EBADF)
          else must_find (get_file_details_by_inode ino) (\<lambda>d.
            let local_path = mac_details_path g d
            in do {
              there \<leftarrow> fs_query (\<lambda>s. fs_exists s local_path);
              ready \<leftarrow> (if fd_sync_state d = ''cloud_only'' \<or> \<not> there
                then or_fail EIO (ensure_parent local_path) (\<lambda>_.
                  or_fail EIO (enqueue_download_task (fd_account_id d) (fd_file_id d) local_path) (\<lambda>_.
                  or_fail EIO (wait_for_download others (fd_file_id d) (fd_account_id d) DOWNLOAD_TIMEOUT_MS) (\<lambda>done.
                    State_Monad.return (if done then Inr () else Inl EIO))))
                else State_Monad.return (Inr ()));
              case ready of
                Inl e \<Rightarrow> State_Monad.return (Inl e)
              | Inr _ \<Rightarrow>
                  or_fail EIO (fs_open local_path) (\<lambda>_.
                    if offset < 0 then State_Monad.return (Inl EIO)
                    else or_fail EIO (fs_read local_path) (\<lambda>bs. State_Monad.return (Inr (take len (drop (nat offset) bs)))))
            }))"

section \<open>Writing\<close>

definition mac_handle :: "gfs \<Rightarrow> u64 \<Rightarrow> inode \<Rightarrow> open_handle option" where
  "mac_handle g fh ino = Option.bind (vf_open_files g fh) (\<lambda>h. if oh_ino h = ino then Some h else None)"

definition mac_create :: "gfs \<Rightarrow> inode \<Rightarrow> string option \<Rightarrow> int \<Rightarrow> nat \<Rightarrow> ('x world, errno + (file_attr \<times> u64 \<times> gfs)) state" where
  "mac_create g parent name flags ns = with_name name (\<lambda>s.
     then_do (owner_of parent) (\<lambda>(acct, parent_file_id).
       let temp_file_id = ''local-'' @ show_nat ns;
           mime_type = mac_guess_mime_from_name s;
           local_path = path_join (path_join (vf_cache_dir g) acct) temp_file_id
       in or_fail EIO (ensure_parent local_path) (\<lambda>_.
          or_fail EIO (insert_local_file temp_file_id acct s mime_type parent_file_id local_path) (\<lambda>ino.
          or_fail EIO (fs_create local_path) (\<lambda>_.
          let fh = vf_next_fh g;
              g' = g\<lparr>vf_next_fh := fh + 1, vf_open_files := (vf_open_files g)(fh \<mapsto> \<lparr>oh_ino = ino, oh_flags = flags, oh_local_path = local_path\<rparr>)\<rparr>
          in do {
            now \<leftarrow> now_ms;
            State_Monad.return (Inr (\<lparr>fa_ino = ino, fa_size = 0, fa_blocks = 0, fa_mtime = now, fa_kind = RegularFile,
              fa_perm = 420, fa_nlink = 1\<rparr>, fh, g'))
          })))))"

definition mac_write :: "gfs \<Rightarrow> inode \<Rightarrow> u64 \<Rightarrow> int \<Rightarrow> bytes \<Rightarrow> ('x world, errno + nat) state" where
  "mac_write g ino fh offset content =
     (case mac_handle g fh ino of
        None \<Rightarrow> State_Monad.return (Inl EBADF)
      | Some h \<Rightarrow>
          or_fail EIO (fs_create (oh_local_path h)) (\<lambda>_.
            if offset < 0 then State_Monad.return (Inl EIO)
            else or_fail EIO (fs_pwrite (oh_local_path h) (nat offset) content) (\<lambda>_. do {
              now \<leftarrow> now_ms;
              _ \<leftarrow> update_file_size_mtime ino (offset + int (length content)) now;
              State_Monad.return (Inr (length content))
            })))"

definition mac_flush :: "gfs \<Rightarrow> inode \<Rightarrow> u64 \<Rightarrow> ('x world, errno + unit) state" where
  "mac_flush g ino fh =
     (case mac_handle g fh ino of
        None \<Rightarrow> State_Monad.return (Inl EBADF)
      | Some h \<Rightarrow> do {
          r \<leftarrow> get_file_details_by_inode ino;
          case r of
            Inr (Some d) \<Rightarrow>
              if fd_sync_state d = ''modified''
              then or_fail EIO (enqueue_upload_task (fd_account_id d) (fd_file_id d) (oh_local_path h)) (\<lambda>_. State_Monad.return (Inr ()))
              else State_Monad.return (Inr ())
          | _ \<Rightarrow> State_Monad.return (Inl EBADF)
        })"

definition mac_fsync :: "gfs \<Rightarrow> inode \<Rightarrow> u64 \<Rightarrow> ('x world, errno + unit) state" where
  "mac_fsync g ino fh =
     (case mac_handle g fh ino of
        None \<Rightarrow> State_Monad.return (Inl EBADF)
      | Some h \<Rightarrow> do {
          r \<leftarrow> get_file_details_by_inode ino;
          case r of
            Inr (Some d) \<Rightarrow>
              if fd_sync_state d = ''modified''
              then or_fail EIO (enqueue_upload_task (fd_account_id d) (fd_file_id d) (oh_local_path h)) (\<lambda>_. State_Monad.return (Inr ()))
              else State_Monad.return (Inr ())
          | _ \<Rightarrow> State_Monad.return (Inl EBADF)
        })"

definition mac_release :: "gfs \<Rightarrow> u64 \<Rightarrow> gfs" where
  "mac_release g fh = g\<lparr>vf_open_files := (vf_open_files g)(fh := None)\<rparr>"

section \<open>Changing the tree\<close>

definition mac_unlink :: "inode \<Rightarrow> string option \<Rightarrow> ('x world, errno + unit) state" where
  "mac_unlink parent name = with_name name (\<lambda>s.
     must_find (lookup_by_parent_and_name parent s) (\<lambda>meta.
       if fm_mime_type meta = FOLDER_MIME then State_Monad.return (Inl EISDIR)
       else do {
         details \<leftarrow> get_file_details_by_inode (fm_inode meta);
         _ \<leftarrow> (case details of
                Inr (Some d) \<Rightarrow> do {
                  _ \<leftarrow> vfs_enqueue_task (fd_account_id d) (fd_file_id d) ''delete'' (fd_local_path d);
                  (case fd_local_path d of None \<Rightarrow> State_Monad.return (Inr ()) | Some p \<Rightarrow> fs_remove p)
                }
              | _ \<Rightarrow> State_Monad.return (Inr ()));
         or_fail EIO (soft_delete_by_inode (fm_inode meta)) (\<lambda>_. State_Monad.return (Inr ()))
       }))"

definition mac_rename :: "inode \<Rightarrow> string option \<Rightarrow> inode \<Rightarrow> string option \<Rightarrow> ('x world, errno + unit) state" where
  "mac_rename parent name newparent newname = with_name name (\<lambda>s. with_name newname (\<lambda>s'.
     must_find (lookup_by_parent_and_name parent s) (\<lambda>meta. do {
       target \<leftarrow> lookup_by_parent_and_name newparent s';
       case target of
         Inr (Some _) \<Rightarrow> State_Monad.return (Inl EEXIST)
       | _ \<Rightarrow>
           then_do (if newparent = ROOT_INODE then State_Monad.return (Inr None)
                    else State_Monad.bind (get_parent_info newparent) (\<lambda>info. State_Monad.return
                      (case info of Inr (Some (_, parent_file_id)) \<Rightarrow> Inr parent_file_id | _ \<Rightarrow> Inl ENOENT)))
             (\<lambda>new_parent_file_id.
           or_fail EIO (rename_file (fm_inode meta) s' new_parent_file_id) (\<lambda>_. do {
             details \<leftarrow> get_file_details_by_inode (fm_inode meta);
             _ \<leftarrow> (case details of
                    Inr (Some d) \<Rightarrow> do {
                      _ \<leftarrow> vfs_enqueue_task (fd_account_id d) (fd_file_id d) ''rename'' (fd_local_path d);
                      (case fd_local_path d of
                         None \<Rightarrow> State_Monad.return (Inr ())
                       | Some old \<Rightarrow> do {
                           there \<leftarrow> fs_query (\<lambda>s. fs_exists s old);
                           if there then (case path_parent old of
                               None \<Rightarrow> State_Monad.return (Inr ())
                             | Some parent_dir \<Rightarrow> fs_rename old (path_join parent_dir s'))
                           else State_Monad.return (Inr ())
                         })
                    }
                  | _ \<Rightarrow> State_Monad.return (Inr ()));
             State_Monad.return (Inr ())
           }))
     })))"

definition mac_mkdir :: "inode \<Rightarrow> string option \<Rightarrow> nat \<Rightarrow> ('x world, errno + (nat \<times> file_attr)) state" where
  "mac_mkdir parent name ns = with_name name (\<lambda>s. do {
     target \<leftarrow> lookup_by_parent_and_name parent s;
     case target of
       Inr (Some _) \<Rightarrow> State_Monad.return (Inl EEXIST)
     | _ \<Rightarrow>
         then_do (owner_of parent) (\<lambda>(acct, parent_file_id).
         or_fail EIO (insert_local_folder (''local-folder-'' @ show_nat ns) acct s parent_file_id) (\<lambda>ino. do {
           dir_mtime \<leftarrow> now_ms;
           State_Monad.return (Inr (DIR_TTL, \<lparr>fa_ino = ino, fa_size = 0, fa_blocks = 0, fa_mtime = dir_mtime, fa_kind = Directory,
             fa_perm = 493, fa_nlink = 2\<rparr>))
         }))
   })"

definition mac_rmdir :: "inode \<Rightarrow> string option \<Rightarrow> ('x world, errno + unit) state" where
  "mac_rmdir parent name = with_name name (\<lambda>s.
     must_find (lookup_by_parent_and_name parent s) (\<lambda>meta.
       if fm_mime_type meta \<noteq> FOLDER_MIME then State_Monad.return (Inl ENOTDIR)
       else or_fail EIO (has_children (fm_inode meta)) (\<lambda>full.
         if full then State_Monad.return (Inl ENOTEMPTY)
         else do {
           details \<leftarrow> get_file_details_by_inode (fm_inode meta);
           _ \<leftarrow> (case details of
                  Inr (Some d) \<Rightarrow> vfs_enqueue_task (fd_account_id d) (fd_file_id d) ''delete'' (fd_local_path d)
                | _ \<Rightarrow> State_Monad.return (Inr 0));
           or_fail EIO (soft_delete_by_inode (fm_inode meta)) (\<lambda>_. State_Monad.return (Inr ()))
         })))"

section \<open>The session and the mount\<close>

fun mac_serve :: "('x world, unit) state \<Rightarrow> (dirent list \<Rightarrow> dirent \<Rightarrow> bool) \<Rightarrow> gfs \<Rightarrow> vfs_request \<Rightarrow> ('x world, vfs_reply \<times> gfs) state" where
  "mac_serve others fits g (Lookup i n) = reply_with g (mac_lookup i n) (\<lambda>(ttl, a). ReEntry ttl a)"
| "mac_serve others fits g (Getattr i) = reply_with g (mac_getattr i) (\<lambda>(ttl, a). ReEntry ttl a)"
| "mac_serve others fits g (Readdir i off) = reply_with g (mac_readdir fits i off) ReDirectory"
| "mac_serve others fits g (Open i flags) = do {
     r \<leftarrow> mac_open g i flags;
     State_Monad.return (case r of Inl e \<Rightarrow> (ReError e, g) | Inr (fh, g') \<Rightarrow> (ReOpened fh, g'))
   }"
| "mac_serve others fits g (Read i fh off len) = reply_with g (mac_read others g i fh off len) ReData"
| "mac_serve others fits g (Create i n flags ns) = do {
     r \<leftarrow> mac_create g i n flags ns;
     State_Monad.return (case r of Inl e \<Rightarrow> (ReError e, g) | Inr (a, fh, g') \<Rightarrow> (ReCreated a fh, g'))
   }"
| "mac_serve others fits g (Write i fh off bs) = reply_with g (mac_write g i fh off bs) ReWritten"
| "mac_serve others fits g (Flush i fh) = reply_with g (mac_flush g i fh) (\<lambda>_. ReOk)"
| "mac_serve others fits g (Fsync i fh) = reply_with g (mac_fsync g i fh) (\<lambda>_. ReOk)"
| "mac_serve others fits g (Unlink i n) = reply_with g (mac_unlink i n) (\<lambda>_. ReOk)"
| "mac_serve others fits g (Rename i n j m) = reply_with g (mac_rename i n j m) (\<lambda>_. ReOk)"
| "mac_serve others fits g (Mkdir i n ns) = reply_with g (mac_mkdir i n ns) (\<lambda>(ttl, a). ReEntry ttl a)"
| "mac_serve others fits g (Rmdir i n) = reply_with g (mac_rmdir i n) (\<lambda>_. ReOk)"
| "mac_serve others fits g (Release fh) = State_Monad.return (ReOk, mac_release g fh)"

fun mac_session :: "('x world, unit) state \<Rightarrow> (dirent list \<Rightarrow> dirent \<Rightarrow> bool) \<Rightarrow> gfs \<Rightarrow> vfs_request list \<Rightarrow> ('x world, vfs_reply list \<times> gfs) state" where
  "mac_session others fits g [] = State_Monad.return ([], g)"
| "mac_session others fits g (q # qs) = do {
     (r, g') \<leftarrow> mac_serve others fits g q;
     (rs, g'') \<leftarrow> mac_session others fits g' qs;
     State_Monad.return (r # rs, g'')
   }"

text \<open>The File Provider backend is not there yet, so that the mount always falls back to FUSE-T, when the build has it. The mount
  point is expanded by the helper itself.\<close>

definition mount_fileprovider :: "gfs result" where
  "mount_fileprovider = Inl (''FileProvider extension not yet available. '' @
     ''Install macFUSE and enable the '' @ [CHR 0x27] @ ''fuse'' @ [CHR 0x27] @ '' feature for FUSE-T fallback.'')"

definition ensure_fuse_mount_point :: "'x daemon_env \<Rightarrow> string \<Rightarrow> ('x world, string result) state" where
  "ensure_fuse_mount_point env p =
     (let resolved = expand_tilde (ie_home_dir (de_ipc env)) p
      in do {
        there \<leftarrow> fs_query (\<lambda>s. fs_exists s resolved);
        tryE (if there then State_Monad.return (Inr ()) else fs_create_dir_all resolved) (\<lambda>_. do {
          canonical \<leftarrow> fs_query (\<lambda>s. de_canonical env s resolved);
          State_Monad.return (Inr (case canonical of Some c \<Rightarrow> c | None \<Rightarrow> resolved))
        })
      })"

definition mount_fuse_t :: "'x daemon_env \<Rightarrow> string \<Rightarrow> ('x world, gfs result) state" where
  "mount_fuse_t env mount_point = do {
     macfuse \<leftarrow> fs_query (\<lambda>s. fs_exists s ''/dev/macfuse'');
     fuse \<leftarrow> fs_query (\<lambda>s. fs_exists s ''/dev/fuse'');
     if \<not> macfuse \<and> \<not> fuse then State_Monad.return (Inl ''FUSE device not found'')
     else tryE (ensure_fuse_mount_point env mount_point) (\<lambda>p.
       State_Monad.return (case de_fuse env p of Inl e \<Rightarrow> Inl e | Inr _ \<Rightarrow> Inr (gfs_new (vfs_cache_dir env))))
   }"

definition mac_mount :: "bool \<Rightarrow> 'x daemon_env \<Rightarrow> string \<Rightarrow> ('x world, gfs result) state" where
  "mac_mount fuse_feature env mount_point =
     (case mount_fileprovider of
        Inr g \<Rightarrow> State_Monad.return (Inr g)
      | Inl _ \<Rightarrow> if fuse_feature then mount_fuse_t env mount_point
                 else State_Monad.return (Inl (''No VFS backend available. Enable the '' @ [CHR 0x27] @ ''fuse'' @ [CHR 0x27] @
                   '' feature for FUSE-T support, or install the FileProvider extension.'')))"

text \<open>Unmounting runs the commands until one succeeds; that none does is only logged. A command is a program name, spaces
  included.\<close>

fun unmount_with :: "(string \<Rightarrow> bool) \<Rightarrow> string list \<Rightarrow> string option" where
  "unmount_with succeeds [] = None"
| "unmount_with succeeds (cmd # cmds) = (if succeeds cmd then Some cmd else unmount_with succeeds cmds)"

definition mac_unmount_fuse :: "(string \<Rightarrow> bool) \<Rightarrow> string option" where
  "mac_unmount_fuse succeeds = unmount_with succeeds [''umount'', ''diskutil unmount'']"

section \<open>The two copies\<close>

lemma mac_helpers:
  "mac_root_attr = root_attr" "mac_file_to_attr = file_to_attr" "mac_is_google_workspace_mime = vfs_is_google_workspace_mime"
  "mac_details_path = details_path" "mac_handle = valid_handle"
  by (auto simp: fun_eq_iff mac_root_attr_def root_attr_def mac_file_to_attr_def file_to_attr_def mac_is_google_workspace_mime_def
      vfs_is_google_workspace_mime_def mac_details_path_def details_path_def cache_path_def mac_handle_def valid_handle_def
      split: option.split bind_split)

lemma mac_guess: "mac_guess_mime_from_name = guess_mime_from_name"
  by (simp add: fun_eq_iff mac_guess_mime_from_name_def guess_mime_from_name_def mime_of_ext_def split: option.split)

text \<open>The loop over the offsets and the list of entries.\<close>

lemma mac_entries: "map (mac_entry ino children) [offset..<2 + length children] = drop offset (dir_entries ino children)"
proof -
  have "dir_entries ino children = map (mac_entry ino children) [0..<2 + length children]"
  proof (rule nth_equalityI)
    fix i assume i: "i < length (dir_entries ino children)"
    then have "map (mac_entry ino children) [0..<2 + length children] ! i = mac_entry ino children i"
      by (simp add: dir_entries_def del: upt_Suc)
    then show "dir_entries ino children ! i = map (mac_entry ino children) [0..<2 + length children] ! i"
      using i by (auto simp: dir_entries_def mac_entry_def nth_Cons nth_enumerate_eq Let_def split: nat.split)
  qed (simp add: dir_entries_def del: upt_Suc)
  then show ?thesis by (simp add: drop_map del: upt_Suc)
qed

lemma mac_fill_entries: "mac_fill fits ino children taken is = fill_reply fits taken (map (mac_entry ino children) is)"
  by (induction "is" arbitrary: taken) simp_all

lemma mac_readdir_linux: "mac_readdir = vfs_readdir"
  by (intro ext) (simp only: mac_readdir_def vfs_readdir_def mac_fill_entries mac_entries Let_def)

lemma mac_reading: "mac_lookup = vfs_lookup" "mac_getattr = vfs_getattr"
  by (simp_all add: fun_eq_iff mac_lookup_def vfs_lookup_def mac_getattr_def vfs_getattr_def mac_helpers attr_ttl_def Let_def)

lemma mac_read_linux: "mac_read = vfs_read"
  unfolding fun_eq_iff mac_read_def vfs_read_def valid_handle_def fetch_on_demand_def read_slice_def mac_helpers Let_def
  by (simp split: option.split)

lemma mac_writing: "mac_write = vfs_write" "mac_flush = vfs_flush" "mac_fsync = vfs_fsync" "mac_release = vfs_release"
  by (simp_all add: fun_eq_iff mac_write_def vfs_write_def mac_flush_def vfs_flush_def mac_fsync_def vfs_fsync_def push_modified_def
      mac_release_def vfs_release_def mac_helpers)

lemma mac_create_linux: "mac_create = vfs_create"
  by (simp add: fun_eq_iff mac_create_def vfs_create_def mac_guess cache_path_def new_handle_def Let_def)

lemma mac_removing: "mac_unlink = vfs_unlink" "mac_rmdir = vfs_rmdir"
  by (simp_all add: fun_eq_iff mac_unlink_def vfs_unlink_def mac_rmdir_def vfs_rmdir_def)

lemma mac_moving: "mac_rename = vfs_rename" "mac_mkdir = vfs_mkdir"
  by (intro ext; unfold mac_rename_def vfs_rename_def mac_mkdir_def vfs_mkdir_def new_parent_id_def move_cached_def; rule refl)+

text \<open>The one difference: what opening a Google document answers.\<close>

definition mac_reply :: "vfs_request \<Rightarrow> vfs_reply \<Rightarrow> vfs_reply" where
  "mac_reply q r = (case (q, r) of (Open _ _, ReError EOPNOTSUPP) \<Rightarrow> ReError ENOTSUP | _ \<Rightarrow> r)"

lemma mac_open_linux:
  "mac_open g ino flags = State_Monad.bind (vfs_open g ino flags) (\<lambda>r. State_Monad.return
     (case r of Inl EOPNOTSUPP \<Rightarrow> Inl ENOTSUP | _ \<Rightarrow> r))"
  by (rule state.expand)
     (auto simp: fun_eq_iff mac_open_def vfs_open_def mac_helpers new_handle_def must_find_def or_fail_def Let_def
       split: prod.split sum.split option.split)

lemma mac_serve_linux:
  "run_state (mac_serve others fits g q) w =
     (case run_state (vfs_serve others fits g q) w of ((r, g'), w') \<Rightarrow> ((mac_reply q r, g'), w'))"
proof (cases q)
  case (Open i flags)
  then show ?thesis
    by (auto simp: mac_open_linux mac_reply_def split: prod.split sum.split errno.split)
qed (simp_all add: mac_reading mac_read_linux mac_readdir_linux mac_writing mac_create_linux mac_removing mac_moving mac_reply_def split: prod.split)

text \<open>C11: the file system of macOS is the one of Linux. Over any sequence of requests the FUSE-T callbacks leave the same database, the
  same files and the same handles, and give the same replies, except that opening a Google document fails with ENOTSUP.\<close>

theorem mac_session_as_linux:
  "run_state (mac_session others fits g qs) w =
     (case run_state (vfs_session others fits g qs) w of ((rs, g'), w') \<Rightarrow> ((map2 mac_reply qs rs, g'), w'))"
  by (induction qs arbitrary: g w) (auto simp: mac_serve_linux split: prod.split)

text \<open>Without the feature, or without a device, no mount on macOS succeeds; with both it mounts what Linux mounts, at the path with
  its tilde expanded.\<close>

lemma mac_mount_cases:
  "run_state (mac_mount False env p) w = (Inl (''No VFS backend available. Enable the '' @ [CHR 0x27] @ ''fuse'' @ [CHR 0x27] @
     '' feature for FUSE-T support, or install the FileProvider extension.''), w)"
  "\<not> fs_exists (w_fs w) ''/dev/macfuse'' \<Longrightarrow> \<not> fs_exists (w_fs w) ''/dev/fuse'' \<Longrightarrow>
   run_state (mac_mount True env p) w = (Inl ''FUSE device not found'', w)"
  "fs_exists (w_fs w) ''/dev/macfuse'' \<or> fs_exists (w_fs w) ''/dev/fuse'' \<Longrightarrow>
   run_state (mac_mount True env p) w = run_state (mount_fuse env (expand_tilde (ie_home_dir (de_ipc env)) p)) w"
  by (auto simp: mac_mount_def mount_fileprovider_def mount_fuse_t_def fs_query_def ensure_fuse_mount_point_def mount_fuse_def
      ensure_mount_point_def Let_def split: prod.split sum.split)

end
