(* ===== verification/Shell_Windows.thy ===== *)
theory Shell_Windows
  imports App_Props
begin

text \<open>
  The Explorer extension, \<^verbatim>\<open>src/extensions/windows-shell/src\<close>: its own client of the daemon (\<^verbatim>\<open>ipc.rs\<close>), the icon overlays
  (\<^verbatim>\<open>overlay.rs\<close>) and the context menu (\<^verbatim>\<open>context_menu.rs\<close>). The pipe, the registration of the classes and the clipboard are Windows'; what the extension asks the daemon
  for, and what it makes of the answers, is modelled.
\<close>

section \<open>The client\<close>

text \<open>What \<^verbatim>\<open>ReadFile\<close> delivers: bytes, none of them at the end of the pipe, or an error. After the list the pipe has ended.\<close>

datatype pipe_read = Chunk string | PipeError string

record shell_client =
  sc_buf :: string
  sc_reads :: "pipe_read list"
  sc_next_id :: "64 word"

type_synonym shell_error = "int \<times> string"

definition shell_client_new :: "string + pipe_read list \<Rightarrow> shell_error + shell_client" where
  "shell_client_new pipe =
     (case pipe of
        Inl e \<Rightarrow> Inl (-1, ''failed to connect to daemon pipe: '' @ e)
      | Inr reads \<Rightarrow> Inr \<lparr>sc_buf = [], sc_reads = reads, sc_next_id = 1\<rparr>)"

fun readline :: "string \<Rightarrow> pipe_read list \<Rightarrow> (shell_error + string) \<times> string \<times> pipe_read list" where
  "readline buf reads =
     (case dropWhile (\<lambda>b. b \<noteq> NL) buf of
        _ # rest \<Rightarrow> (Inr (takeWhile (\<lambda>b. b \<noteq> NL) buf), rest, reads)
      | [] \<Rightarrow>
          (case reads of
             [] \<Rightarrow> (Inl (-1, ''daemon disconnected''), buf, [])
           | PipeError e # rs \<Rightarrow> (Inl (-1, ''failed to read from pipe: '' @ e), buf, rs)
           | Chunk s # rs \<Rightarrow> if s = [] then (Inl (-1, ''daemon disconnected''), buf, rs) else readline (buf @ s) rs))"

declare readline.simps [simp del]

text \<open>Unread bytes get fewer with every line.\<close>

fun unread :: "pipe_read list \<Rightarrow> nat" where
  "unread [] = 0"
| "unread (Chunk s # rs) = length s + unread rs"
| "unread (PipeError e # rs) = unread rs"

lemma readline_consumes: "readline buf reads = (Inr l, buf', reads') \<Longrightarrow> length buf' + unread reads' < length buf + unread reads"
proof (induction buf reads rule: readline.induct)
  case (1 buf reads)
  show ?case
  proof (cases "dropWhile (\<lambda>b. b \<noteq> NL) buf")
    case Nil
    with "1.prems" obtain s rs where "reads = Chunk s # rs" "s \<noteq> []" "readline (buf @ s) rs = (Inr l, buf', reads')"
      by (auto simp: readline.simps [of buf] split: list.splits pipe_read.splits if_splits)
    then show ?thesis using "1.IH" [OF Nil, of "Chunk s" rs s] by auto
  next
    case (Cons x rest)
    then have "length rest < length buf"
      using length_dropWhile_le [of "\<lambda>b. b \<noteq> NL" buf] by simp
    then show ?thesis using "1.prems" Cons by (auto simp: readline.simps [of buf])
  qed
qed

text \<open>The loop of \<^verbatim>\<open>call\<close>. A message is skipped when it has no id at all; an id that is null counts as one.\<close>

definition error_reply :: "json \<Rightarrow> shell_error" where
  "error_reply err =
     ((case Option.bind (jget ''code'' err) as_i64 of Some c \<Rightarrow> sint (word_of_int c :: 32 word) | None \<Rightarrow> -1),
      (case Option.bind (jget ''message'' err) as_str of Some m \<Rightarrow> m | None \<Rightarrow> ''unknown error''))"

function await :: "text_codec \<Rightarrow> string \<Rightarrow> pipe_read list \<Rightarrow> (shell_error + json) \<times> string \<times> pipe_read list" where
  "await tc buf reads =
     (case readline buf reads of
        (Inl e, rest) \<Rightarrow> (Inl e, rest)
      | (Inr line, buf', reads') \<Rightarrow>
          (case tc_parse tc line of
             None \<Rightarrow> (Inl (-1, ''invalid JSON: '' @ tc_error tc line), buf', reads')
           | Some resp \<Rightarrow>
               if jget ''id'' resp = None then await tc buf' reads'
               else (case jget ''error'' resp of
                       Some err \<Rightarrow> (Inl (error_reply err), buf', reads')
                     | None \<Rightarrow> (Inr (case jget ''result'' resp of Some v \<Rightarrow> v | None \<Rightarrow> JNull), buf', reads'))))"
  by pat_completeness auto
termination
  by (relation "measure (\<lambda>(tc, buf, reads). length buf + unread reads)") (auto dest: readline_consumes [OF sym])

declare await.simps [simp del]

definition shell_request :: "string \<Rightarrow> json option \<Rightarrow> 64 word \<Rightarrow> json" where
  "shell_request meth params i =
     (let request = obj_extend [(''jsonrpc'', JStr ''2.0''), (''method'', JStr meth), (''id'', JInt (uint i))] []
      in JObj (case params of Some p \<Rightarrow> obj_insert ''params'' p request | None \<Rightarrow> request))"

definition shell_call :: "text_codec \<Rightarrow> string option \<Rightarrow> string \<Rightarrow> json option \<Rightarrow> shell_client \<Rightarrow>
    string option \<times> (shell_error + json) \<times> shell_client" where
  "shell_call tc write_error meth params sc =
     (let i = sc_next_id sc;
          sc' = sc\<lparr>sc_next_id := i + 1\<rparr>
      in case write_error of
           Some e \<Rightarrow> (None, Inl (-1, ''failed to write to pipe: '' @ e), sc')
         | None \<Rightarrow> (case await tc (sc_buf sc') (sc_reads sc') of
             (res, buf, reads) \<Rightarrow> (Some (tc_print tc (shell_request meth params i) @ [NL]), res, sc'\<lparr>sc_buf := buf, sc_reads := reads\<rparr>)))"

text \<open>Every query opens a connection of its own.\<close>

definition shell_query :: "text_codec \<Rightarrow> string option \<Rightarrow> string + pipe_read list \<Rightarrow> string \<Rightarrow> json \<Rightarrow> shell_error + json" where
  "shell_query tc write_error pipe meth params =
     (case shell_client_new pipe of Inl e \<Rightarrow> Inl e | Inr sc \<Rightarrow> fst (snd (shell_call tc write_error meth (Some params) sc)))"

definition shell_get_sync_state :: "text_codec \<Rightarrow> string option \<Rightarrow> string + pipe_read list \<Rightarrow> string \<Rightarrow> json option" where
  "shell_get_sync_state tc we pipe path =
     (case shell_query tc we pipe ''fs.getSyncState'' (jobj [(''path'', JStr path)]) of Inl _ \<Rightarrow> None | Inr v \<Rightarrow> Some v)"

definition shell_set_offline :: "text_codec \<Rightarrow> string option \<Rightarrow> string + pipe_read list \<Rightarrow> string \<Rightarrow> bool \<Rightarrow> bool" where
  "shell_set_offline tc we pipe path enabled =
     (case shell_query tc we pipe ''fs.setOffline'' (jobj [(''path'', JStr path), (''enabled'', JBool enabled)]) of
        Inl _ \<Rightarrow> False | Inr _ \<Rightarrow> True)"

definition shell_get_share_link :: "text_codec \<Rightarrow> string option \<Rightarrow> string + pipe_read list \<Rightarrow> string \<Rightarrow> string option" where
  "shell_get_share_link tc we pipe path =
     (case shell_query tc we pipe ''fs.getShareLink'' (jobj [(''path'', JStr path)]) of
        Inl _ \<Rightarrow> None | Inr v \<Rightarrow> Option.bind (jget ''url'' v) as_str)"

section \<open>Overlays\<close>

definition should_apply :: "string \<Rightarrow> string \<Rightarrow> bool" where
  "should_apply overlay sync_state =
     (if overlay = ''cloud_only'' then sync_state = ''cloud_only''
      else if overlay = ''syncing'' then sync_state = ''syncing'' \<or> sync_state = ''downloading'' \<or> sync_state = ''uploading''
      else if overlay = ''synced'' then sync_state = ''synced'' \<or> sync_state = ''cached'' \<or> sync_state = ''offline''
      else if overlay = ''error'' then sync_state = ''error''
      else if overlay = ''uploading'' then sync_state = ''uploading''
      else False)"

definition icon_path :: "string \<Rightarrow> string" where
  "icon_path overlay =
     (if overlay = ''cloud_only'' then ''gdriver_overlay_cloud.dll,-101''
      else if overlay = ''syncing'' then ''gdriver_overlay_syncing.dll,-102''
      else if overlay = ''synced'' then ''gdriver_overlay_synced.dll,-103''
      else if overlay = ''error'' then ''gdriver_overlay_error.dll,-104''
      else if overlay = ''uploading'' then ''gdriver_overlay_uploading.dll,-105''
      else [])"

text \<open>\<^verbatim>\<open>IsMemberOf\<close> and \<^verbatim>\<open>GetOverlayInfo\<close>; the buffer takes \<open>cch_max\<close> characters, the closing zero included.\<close>

definition is_member_of :: "string \<Rightarrow> json option \<Rightarrow> bool" where
  "is_member_of overlay answer =
     (case answer of
        None \<Rightarrow> False
      | Some st \<Rightarrow> should_apply overlay (case Option.bind (jget ''state'' st) as_str of Some s \<Rightarrow> s | None \<Rightarrow> ''unknown''))"

definition get_overlay_info :: "string \<Rightarrow> nat \<Rightarrow> string" where
  "get_overlay_info overlay cch_max = take cch_max (icon_path overlay @ [CHR 0x00])"

definition overlay_priority :: "string \<Rightarrow> int option" where
  "overlay_priority = map_of [(''cloud_only'', 2), (''syncing'', 0), (''synced'', 3), (''error'', 1), (''uploading'', 0)]"

section \<open>The context menu\<close>

definition BACKSLASH :: string where "BACKSLASH = [CHR 0x5C]"

definition is_gdriver_path :: "string \<Rightarrow> bool" where
  "is_gdriver_path path =
     (\<exists>prefix \<in> set [''G:'' @ BACKSLASH, ''Google Drive'' @ BACKSLASH, ''GoogleDrive''].
        starts_with (map ascii_lower prefix) (map ascii_lower path))"

fun strip_first :: "string list \<Rightarrow> string \<Rightarrow> string" where
  "strip_first [] path = path"
| "strip_first (prefix # prefixes) path =
     (if starts_with (map ascii_lower prefix) (map ascii_lower path) then drop (length prefix) path else strip_first prefixes path)"

definition relative_path :: "string \<Rightarrow> string" where
  "relative_path file_path = strip_first [''G:'' @ BACKSLASH, ''Google Drive'' @ BACKSLASH] file_path"

text \<open>The menu: entries at consecutive positions, \<open>None\<close> a separator, with the offset of the command.\<close>

definition query_context_menu :: "bool \<Rightarrow> (nat \<times> string) option list" where
  "query_context_menu inside =
     (if \<not> inside then []
      else [None, Some (0, ''Available offline''), Some (1, ''Online only''), None, Some (2, ''Copy Drive link''),
        Some (3, ''View in Drive web''), Some (4, ''Share'')])"

definition VERBS :: "(string \<times> nat) list" where
  "VERBS = [(''available_offline'', 0), (''online_only'', 1), (''copy_link'', 2), (''view_in_drive'', 3), (''share'', 4)]"

definition command_of :: "nat + string \<Rightarrow> nat option" where
  "command_of verb = (case verb of Inl n \<Rightarrow> if n \<le> 4 then Some n else None | Inr s \<Rightarrow> map_of VERBS s)"

datatype shell_action = SetOffline string bool | CopyText string | OpenUrl string

definition invoke_command :: "(string \<Rightarrow> string option) \<Rightarrow> string \<Rightarrow> nat \<Rightarrow> shell_action list" where
  "invoke_command share_link file_path cmd =
     (let relative = relative_path file_path
      in if cmd = 0 then [SetOffline relative True]
         else if cmd = 1 then [SetOffline relative False]
         else if cmd = 2 then (case share_link relative of None \<Rightarrow> [] | Some link \<Rightarrow> [CopyText link])
         else if cmd = 3 then [OpenUrl (''https://drive.google.com/file/d/'' @ relative)]
         else if cmd = 4 then [OpenUrl (''https://drive.google.com/file/d/'' @ relative @ ''/edit?usp=sharing'')]
         else [])"

text \<open>Help text and verb of a command, cut to the buffer, which has room for the closing zero.\<close>

definition HELP_TEXTS :: "(nat \<times> string) list" where
  "HELP_TEXTS = [(0, ''Mark this file for offline access''), (1, ''Remove offline access and free local space''),
     (2, ''Copy Google Drive share link to clipboard''), (3, ''Open this file in Google Drive web''), (4, ''Share this file via Google Drive'')]"

definition get_command_string :: "nat \<Rightarrow> nat \<Rightarrow> nat \<Rightarrow> string option" where
  "get_command_string cmd flags cch_max =
     (case map_of HELP_TEXTS cmd of
        None \<Rightarrow> None
      | Some help \<Rightarrow>
          if flags = 6 then Some (take (cch_max - 1) help @ [CHR 0x00])
          else if flags = 4 then map_option (\<lambda>(verb, _). take (cch_max - 1) verb @ [CHR 0x00]) (find (\<lambda>(_, c). c = cmd) VERBS)
          else None)"

section \<open>Lines\<close>

text \<open>However the bytes are cut, the reader delivers the first line and leaves the rest.\<close>

fun chunks :: "pipe_read list \<Rightarrow> string" where
  "chunks [] = []"
| "chunks (Chunk s # rs) = s @ chunks rs"
| "chunks (PipeError e # rs) = chunks rs"

definition whole_chunks :: "pipe_read list \<Rightarrow> bool" where
  "whole_chunks reads \<longleftrightarrow> list_all (\<lambda>r. case r of Chunk s \<Rightarrow> s \<noteq> [] | PipeError e \<Rightarrow> False) reads"

lemma cut_line:
  "NL \<notin> set l \<Longrightarrow> takeWhile (\<lambda>b. b \<noteq> NL) (l @ NL # xs) = l" "NL \<notin> set l \<Longrightarrow> dropWhile (\<lambda>b. b \<noteq> NL) (l @ NL # xs) = NL # xs"
  by (induction l) auto

lemma readline_chunk:
  "dropWhile (\<lambda>b. b \<noteq> NL) buf = [] \<Longrightarrow> s \<noteq> [] \<Longrightarrow> readline buf (Chunk s # rs) = readline (buf @ s) rs"
  by (subst readline.simps) (simp del: dropWhile_eq_Nil_conv)

lemma readline_line:
  assumes "whole_chunks reads" and "buf @ chunks reads = l @ NL # rest" and "NL \<notin> set l"
  shows "\<exists>buf' reads'. readline buf reads = (Inr l, buf', reads') \<and> whole_chunks reads' \<and> buf' @ chunks reads' = rest"
  using assms
proof (induction buf reads rule: readline.induct)
  case (1 buf reads)
  show ?case
  proof (cases "dropWhile (\<lambda>b. b \<noteq> NL) buf")
    case Nil
    then have "NL \<notin> set buf" by (simp add: dropWhile_eq_Nil_conv) blast
    with "1.prems"(2) have "reads \<noteq> []" by (auto simp: append_eq_append_conv2) 
    with "1.prems"(1) obtain s rs where reads: "reads = Chunk s # rs" "s \<noteq> []" "whole_chunks rs"
      by (cases reads) (auto simp: whole_chunks_def split: pipe_read.splits)
    with "1.IH" [OF Nil reads(1) refl reads(2)] "1.prems" show ?thesis
      by (simp add: readline_chunk [OF Nil])
  next
    case (Cons x rest')
    define m where "m = takeWhile (\<lambda>b. b \<noteq> NL) buf"
    have "x = NL" using Cons hd_dropWhile [of "\<lambda>b. b \<noteq> NL" buf] by auto
    moreover have "NL \<notin> set m" by (auto simp: m_def dest: set_takeWhileD)
    moreover have "buf = m @ x # rest'" using takeWhile_dropWhile_id [of "\<lambda>b. b \<noteq> NL" buf] Cons by (simp add: m_def)
    ultimately have "m = l \<and> rest' @ chunks reads = rest"
      using "1.prems"(2,3) cut_line [of m "rest' @ chunks reads"] cut_line [of l rest] by (metis append.assoc append_Cons list.inject)
    then show ?thesis using Cons "1.prems"(1) by (simp add: readline.simps [of buf] flip: m_def)
  qed
qed

lemma await_lines:
  assumes "whole_chunks reads" and "buf @ chunks reads = concat (map (\<lambda>l. l @ [NL]) (ls @ l # later))" and "list_all (\<lambda>l. NL \<notin> set l) (ls @ [l])"
    and "\<forall>k \<in> set ls. \<exists>v. tc_parse tc k = Some v \<and> jget ''id'' v = None" and "tc_parse tc l = Some resp" and "jget ''id'' resp \<noteq> None"
  shows "fst (await tc buf reads) = (case jget ''error'' resp of Some err \<Rightarrow> Inl (error_reply err)
    | None \<Rightarrow> Inr (case jget ''result'' resp of Some v \<Rightarrow> v | None \<Rightarrow> JNull))"
  using assms
proof (induction ls arbitrary: buf reads)
  case Nil
  then obtain buf' reads' where "readline buf reads = (Inr l, buf', reads')"
    using readline_line [of reads buf l "concat (map (\<lambda>l. l @ [NL]) later)"] by auto
  moreover obtain i where "jget ''id'' resp = Some i" using Nil.prems(6) by auto
  ultimately show ?case using Nil.prems(5) by (simp add: await.simps [of tc buf] split: option.split)
next
  case (Cons k ls)
  then obtain buf' reads' where "readline buf reads = (Inr k, buf', reads')" "whole_chunks reads'"
      "buf' @ chunks reads' = concat (map (\<lambda>l. l @ [NL]) (ls @ l # later))"
    using readline_line [of reads buf k "concat (map (\<lambda>l. l @ [NL]) (ls @ l # later))"] by auto
  then show ?case using Cons by (auto simp: await.simps [of tc buf])
qed

section \<open>The extension and the daemon\<close>

lemma shell_request_text: "shell_request meth (Some p) i = en_request (request_new meth (Some p) (IdNum (uint i)))"
  by (simp add: shell_request_def en_request_def request_new_def jobj_def obj_extend_def unless_none_def)

lemma shell_methods_unknown:
  "meth \<in> {''fs.getSyncState'', ''fs.setOffline'', ''fs.getShareLink''} \<Longrightarrow>
   run_state (dispatch env meth params) r = (Inl (method_not_found meth), r)"
  by (elim insertE emptyE; simp add: dispatch_def method_table_def fail_def)

definition shell_text :: "text_codec \<Rightarrow> string \<Rightarrow> json \<Rightarrow> string" where
  "shell_text tc meth p = tc_print tc (shell_request meth (Some p) 1)"


definition link_params :: json where
  "link_params = jobj [(''path'', JStr ''a.txt'')]"

definition shell_codec :: text_codec where
  "shell_codec = (let q = shell_request ''fs.getShareLink'' (Some link_params) 1;
       m = en_response (response_error (Some (IdNum 1)) (method_not_found ''fs.getShareLink''))
     in \<lparr>tc_print = (\<lambda>j. if j = q then ''s'' else if j = m then ''m'' else ''x''), tc_parse = map_of [(''s'', q), (''m'', m)],
          tc_error = (\<lambda>_. ''bad json'')\<rparr>)"

lemma shell_texts:
  "tc_print shell_codec (shell_request ''fs.getShareLink'' (Some link_params) 1) = ''s''"
  "tc_print shell_codec (en_response (response_error (Some (IdNum 1)) (method_not_found ''fs.getShareLink''))) = ''m''"
  "tc_parse shell_codec ''s'' = Some (shell_request ''fs.getShareLink'' (Some link_params) 1)"
  "tc_parse shell_codec ''m'' = Some (en_response (response_error (Some (IdNum 1)) (method_not_found ''fs.getShareLink'')))"
  by (simp_all add: shell_codec_def Let_def shell_request_def en_response_def response_error_def unless_none_def jobj_def obj_extend_def)


lemma unanswered_query:
  assumes "\<And>meth p. shell_query tc None pipe meth p = Inl e"
  shows "shell_get_sync_state tc None pipe path = None" and "\<not> shell_set_offline tc None pipe path enabled" and "shell_get_share_link tc None pipe path = None"
    and "\<not> is_member_of overlay (shell_get_sync_state tc None pipe path)"
  using assms by (simp_all add: shell_get_sync_state_def shell_set_offline_def shell_get_share_link_def is_member_of_def)

text \<open>The overlays against the states the daemon knows: every state but \<open>Modified\<close> has one, and uploading has two.\<close>

lemma overlays_of_states:
  "filter (\<lambda>overlay. should_apply overlay (sync_state_name st)) [''cloud_only'', ''syncing'', ''synced'', ''error'', ''uploading''] =
     (case st of CloudOnly \<Rightarrow> [''cloud_only''] | Downloading \<Rightarrow> [''syncing''] | Uploading \<Rightarrow> [''syncing'', ''uploading'']
      | Modified \<Rightarrow> [] | FileError \<Rightarrow> [''error''] | _ \<Rightarrow> [''synced''])"
  by (cases st) (simp_all add: should_apply_def)

text \<open>The commands of the menu are exactly the ones its verbs name.\<close>

lemma menu_verbs: "map fst (List.map_filter id (query_context_menu True)) = map snd VERBS"
  by (simp add: query_context_menu_def VERBS_def map_filter_simps)

end
