(* ===== verification/Platform.thy ===== *)
theory Platform
  imports Daemon
begin

text \<open>
  \<^verbatim>\<open>crates/gdriver-daemon/src/platform/\<close>: starting at login and notifications on macOS and Windows. \<^verbatim>\<open>launchctl\<close>, \<^verbatim>\<open>osascript\<close>,
  the registry and the toast interface are the systems'; the files and texts handed to them are modelled.
\<close>

section \<open>Replacing characters\<close>

text \<open>\<^verbatim>\<open>str::replace\<close> of one character.\<close>

definition replace_char :: "char \<Rightarrow> string \<Rightarrow> string \<Rightarrow> string" where
  "replace_char c t s = concat (map (\<lambda>x. if x = c then t else [x]) s)"

lemma replace_simps [simp]:
  "replace_char c t [] = []" "replace_char c t (x # s) = (if x = c then t else [x]) @ replace_char c t s"
  "replace_char c t (a @ b) = replace_char c t a @ replace_char c t b"
  by (simp_all add: replace_char_def)

section \<open>macOS\<close>

definition LABEL :: string where "LABEL = ''com.gdriver.daemon''"

definition PLIST_FILENAME :: string where "PLIST_FILENAME = ''com.gdriver.daemon.plist''"

definition launchd_plist_path :: "string option \<Rightarrow> string result" where
  "launchd_plist_path home =
     (case home of
        None \<Rightarrow> Inl ''cannot determine home directory''
      | Some h \<Rightarrow> Inr (path_join (path_join (path_join h ''Library'') ''LaunchAgents'') PLIST_FILENAME))"

definition QUOTE :: string where "QUOTE = [CHR 0x22]"

definition generate_plist :: "string \<Rightarrow> string" where
  "generate_plist exe = join_with [NL] [
     ''<?xml version='' @ QUOTE @ ''1.0'' @ QUOTE @ '' encoding='' @ QUOTE @ ''UTF-8'' @ QUOTE @ ''?>'',
     ''<!DOCTYPE plist PUBLIC '' @ QUOTE @ ''-//Apple//DTD PLIST 1.0//EN'' @ QUOTE @ '' '' @ QUOTE @
       ''http://www.apple.com/DTDs/PropertyList-1.0.dtd'' @ QUOTE @ ''>'',
     ''<plist version='' @ QUOTE @ ''1.0'' @ QUOTE @ ''>'',
     ''<dict>'',
     ''    <key>Label</key>'',
     ''    <string>'' @ LABEL @ ''</string>'',
     ''    <key>ProgramArguments</key>'',
     ''    <array>'',
     ''        <string>'' @ exe @ ''</string>'',
     ''    </array>'',
     ''    <key>RunAtLoad</key>'',
     ''    <true/>'',
     ''    <key>KeepAlive</key>'',
     ''    <false/>'',
     ''    <key>ProcessType</key>'',
     ''    <string>Interactive</string>'',
     ''    <key>MachServices</key>'',
     ''    <dict>'',
     ''        <key>com.gdriver.daemon.xpc</key>'',
     ''        <true/>'',
     ''    </dict>'',
     ''    <key>StandardOutPath</key>'',
     ''    <string>/tmp/gdriver-daemon.log</string>'',
     ''    <key>StandardErrorPath</key>'',
     ''    <string>/tmp/gdriver-daemon.log</string>'',
     ''</dict>'',
     ''</plist>'']"

text \<open>The result of \<^verbatim>\<open>launchctl\<close> is only logged. \<open>exe\<close> is the path of the running program.\<close>

definition mac_set_launch_on_login :: "string option \<Rightarrow> string result \<Rightarrow> ('x world, unit result) state" where
  "mac_set_launch_on_login home exe =
     tryE (State_Monad.return (launchd_plist_path home)) (\<lambda>plist_path.
     tryE (case path_parent plist_path of None \<Rightarrow> State_Monad.return (Inr ()) | Some parent \<Rightarrow> fs_create_dir_all parent) (\<lambda>_.
     tryE (State_Monad.return exe) (\<lambda>exe_path.
       fs_write plist_path (map of_char (generate_plist exe_path)))))"

definition mac_remove_launch_on_login :: "string option \<Rightarrow> ('x world, unit result) state" where
  "mac_remove_launch_on_login home =
     tryE (State_Monad.return (launchd_plist_path home)) (\<lambda>plist_path. do {
       there \<leftarrow> fs_query (\<lambda>s. fs_exists s plist_path);
       if there then fs_remove plist_path else State_Monad.return (Inr ())
     })"

definition mac_is_launch_on_login_enabled :: "string option \<Rightarrow> ('x world, bool) state" where
  "mac_is_launch_on_login_enabled home =
     (case launchd_plist_path home of Inl _ \<Rightarrow> State_Monad.return False | Inr p \<Rightarrow> fs_query (\<lambda>s. fs_exists s p))"

definition escape_applescript :: "string \<Rightarrow> string" where
  "escape_applescript s = replace_char (CHR 0x22) [CHR 0x5C, CHR 0x22] (replace_char (CHR 0x5C) [CHR 0x5C, CHR 0x5C] s)"

definition notification_script :: "string \<Rightarrow> string \<Rightarrow> string" where
  "notification_script title body = ''display notification '' @ QUOTE @ escape_applescript body @ QUOTE @ '' with title '' @
     QUOTE @ escape_applescript title @ QUOTE"

section \<open>Windows\<close>

text \<open>The Run key of the user: a map from names to commands, absent until it is created.\<close>

definition DAEMON_NAME :: string where "DAEMON_NAME = ''gDriverDaemon''"

type_synonym run_key = "(string \<rightharpoonup> string) option"

definition win_set_launch_on_login :: "string result \<Rightarrow> run_key \<Rightarrow> unit result \<times> run_key" where
  "win_set_launch_on_login exe key =
     (let opened = (case key of None \<Rightarrow> Map.empty | Some m \<Rightarrow> m)
      in case exe of Inl e \<Rightarrow> (Inl e, Some opened) | Inr p \<Rightarrow> (Inr (), Some (opened(DAEMON_NAME \<mapsto> p))))"

definition win_remove_launch_on_login :: "run_key \<Rightarrow> unit result \<times> run_key" where
  "win_remove_launch_on_login key =
     (case key of None \<Rightarrow> (Inl ''Failed to open Run registry key'', None) | Some m \<Rightarrow> (Inr (), Some (m(DAEMON_NAME := None))))"

definition win_is_launch_on_login_enabled :: "run_key \<Rightarrow> bool" where
  "win_is_launch_on_login_enabled key = (case key of None \<Rightarrow> False | Some m \<Rightarrow> m DAEMON_NAME \<noteq> None)"

definition xml_escape :: "string \<Rightarrow> string" where
  "xml_escape s = replace_char (CHR 0x27) ''&apos;'' (replace_char (CHR 0x22) ''&quot;''
     (replace_char (CHR ''>'') ''&gt;'' (replace_char (CHR ''<'') ''&lt;'' (replace_char (CHR ''&'') ''&amp;'' s))))"

section \<open>What the systems read\<close>

text \<open>The value of an AppleScript string whose opening quote has been read, and what follows its closing quote.\<close>

fun read_applescript :: "string \<Rightarrow> (string \<times> string) option" where
  "read_applescript [] = None"
| "read_applescript (c # s) =
     (if c = CHR 0x22 then Some ([], s)
      else if c = CHR 0x5C then (case s of [] \<Rightarrow> None | x # t \<Rightarrow> map_option (\<lambda>(v, r). (x # v, r)) (read_applescript t))
      else map_option (\<lambda>(v, r). (c # v, r)) (read_applescript s))"

lemma applescript_literal: "read_applescript (escape_applescript s @ QUOTE @ rest) = Some (s, rest)"
  by (induction s) (simp_all add: escape_applescript_def QUOTE_def)

text \<open>The text of an XML element: references are replaced, and a bare ampersand or angle bracket is an error.\<close>

definition ENTITIES :: "(string \<times> char) list" where
  "ENTITIES = [(''amp;'', CHR ''&''), (''lt;'', CHR ''<''), (''gt;'', CHR ''>''), (''quot;'', CHR 0x22), (''apos;'', CHR 0x27)]"

fun first_entity :: "(string \<times> char) list \<Rightarrow> string \<Rightarrow> (char \<times> string) option" where
  "first_entity [] s = None"
| "first_entity ((e, c) # es) s = (case strip_prefix e s of Some t \<Rightarrow> Some (c, t) | None \<Rightarrow> first_entity es s)"

lemma first_entity_shorter: "first_entity es s = Some (c, t) \<Longrightarrow> length t \<le> length s"
  by (induction es) (auto simp: strip_prefix_Some_iff split: option.splits)

function xml_text :: "string \<Rightarrow> string option" where
  "xml_text s =
     (case s of
        [] \<Rightarrow> Some []
      | c # cs \<Rightarrow>
          if c = CHR ''&'' then (case first_entity ENTITIES cs of None \<Rightarrow> None | Some (x, t) \<Rightarrow> map_option (\<lambda>r. x # r) (xml_text t))
          else if c = CHR ''<'' \<or> c = CHR ''>'' then None
          else map_option (\<lambda>r. c # r) (xml_text cs))"
  by pat_completeness auto
termination
  by (relation "measure length") (auto dest!: first_entity_shorter simp: less_Suc_eq_le)

declare xml_text.simps [simp del]

lemma xml_round_trip: "xml_text (xml_escape s) = Some s"
  by (induction s) (simp_all add: xml_escape_def xml_text.simps [of "_ # _"] xml_text.simps [of "[]"] ENTITIES_def)

text \<open>No text of a notification can leave the place it is put in. The script for macOS is read as the two string literals it was
  made from, and the element text for Windows as the text it was made from, whatever characters they contain.\<close>

theorem notification_text_contained:
  "(\<exists>rest. notification_script title body = ''display notification '' @ QUOTE @ rest \<and>
     (case read_applescript rest of
        None \<Rightarrow> False
      | Some (v, rest') \<Rightarrow> v = body \<and> (\<exists>rest''. rest' = '' with title '' @ QUOTE @ rest'' \<and> read_applescript rest'' = Some (title, [])))) \<and>
   xml_text (xml_escape body) = Some body"
proof -
  have "read_applescript (escape_applescript body @ QUOTE @ '' with title '' @ QUOTE @ escape_applescript title @ QUOTE)
      = Some (body, '' with title '' @ QUOTE @ escape_applescript title @ QUOTE)" by (rule applescript_literal)
  moreover have "read_applescript (escape_applescript title @ QUOTE) = Some (title, [])"
    using applescript_literal [of title "[]"] by simp
  ultimately show ?thesis
    by (intro conjI exI [of _ "escape_applescript body @ QUOTE @ '' with title '' @ QUOTE @ escape_applescript title @ QUOTE"])
       (simp_all add: notification_script_def xml_round_trip)
qed

text \<open>Registering and unregistering. A name is looked up where it was written.\<close>

lemma win_login_round_trip:
  "win_is_launch_on_login_enabled (snd (win_set_launch_on_login (Inr p) key))"
  "\<not> win_is_launch_on_login_enabled (snd (win_remove_launch_on_login key))"
  by (simp_all add: win_is_launch_on_login_enabled_def win_set_launch_on_login_def win_remove_launch_on_login_def split: option.split)

lemma append_leaves_file: "run_state (fs_append p bs) w = (Inr (), w') \<Longrightarrow> fs_exists (w_fs w') p"
  by (auto simp: fs_append_def fs_exec_def fs_exists_def split: if_splits option.splits prod.splits)

lemma mac_login_registered:
  assumes "run_state (mac_set_launch_on_login home exe) w = (Inr (), w')"
  shows "fst (run_state (mac_is_launch_on_login_enabled home) w')"
proof (cases "launchd_plist_path home")
  case (Inr p)
  with assms show ?thesis
    by (auto simp: mac_set_launch_on_login_def mac_is_launch_on_login_enabled_def fs_write_def fs_query_def
        split: sum.splits option.splits prod.splits dest!: append_leaves_file)
qed (use assms in \<open>simp add: mac_set_launch_on_login_def\<close>)

end
