(* ===== verification/Spec2Isabelle.thy ===== *)
theory Spec2Isabelle
  imports Db_Props Api_Props Conflict_Props Changes_Props Engine_Props Lifecycle_Props Ipc_Effects Ipc_Requests Oauth_Props Daemon_Props
    App_Command_Props Ipc_Ffi Vfs_Mac Shell_Windows Platform
begin

text \<open>
  gdriver is a Google Drive client: a daemon that keeps a local SQLite index of the remote files,
  watches local folders, polls the changes feed of every account, and moves files in both directions
  through a persistent task queue; the same index is mounted as a file system, and clients drive the daemon over
  JSON-RPC: a desktop application, and extensions of the file managers. This development models the synchronisation core, the
  HTTP client it talks to Google with, the FUSE file system, the watcher of local folders, the preferences, the JSON-RPC
  interface, the browser login, the daemon that puts them together, and the clients, and proves what they guarantee, in every run, whatever operation fails and wherever the process stops.

  \<^bold>\<open>Parts of the program and the theories that model them.\<close> Paths are below \<^verbatim>\<open>src/crates\<close>
  unless they name another directory.

  \<^item> \<open>Gdriver_Prelude\<close>: results, the \<^verbatim>\<open>?\<close> operator, loops over lists, the locale \<open>io_preorder\<close> for
    relational reasoning about state-monad programs, and lemmas on rows selected by a predicate.
    \<open>Paths\<close>: what the source uses of \<^verbatim>\<open>std::path::Path\<close>.
  \<^item> \<open>Sync_Core\<close>: the crate \<^verbatim>\<open>gdriver-sync\<close>: engine states, tasks and their order, chunk arithmetic on
    64-bit words, export formats, conflict detection.
  \<^item> \<open>Database\<close>, \<open>Db_Queue\<close>, \<open>Db_Files\<close>, \<open>Db_Tables\<close>: \<^verbatim>\<open>gdriver-daemon/src/db/*.rs\<close> and the schema of the
    migrations. A table is a list of rows; each SQL statement is a function on the database record.
    \<open>wf_db\<close> is the integrity the schema promises: primary keys, AUTOINCREMENT counters, foreign keys.
    The locale \<open>task_queue\<close> states what the engine relies on of the queue and is interpreted on these
    statements.
  \<^item> \<open>World\<close>: the state an operation runs in (database, file system, push channel, token cache, the two
    preferences the engine reads, the state of the services) and the primitive steps on it.
  \<^item> \<open>Services\<close>: the requests of \<^verbatim>\<open>gdriver-api\<close> and the OS keychain, as a record of functions over a
    service state of any type; \<^verbatim>\<open>auth/token_store.rs\<close> and the construction of a client with a fresh token.
  \<^item> \<open>Api_Client\<close>, \<open>Api_Files\<close>: \<^verbatim>\<open>gdriver-api/src\<close>: the authenticated client with its retry and refresh loop, and
    the endpoints of Drive and Photos with their URLs, bodies and headers. The network, the clock and
    the JSON codecs form the record \<open>transport\<close>; \<open>api_services\<close> makes the services of the daemon out of it.
  \<^item> \<open>Uploader\<close>, \<open>Downloader\<close>, \<open>Deleter\<close>, \<open>Conflict\<close>, \<open>Photos\<close>, \<open>Initial\<close>, \<open>Incremental\<close>, \<open>Engine\<close>: the files
    of the same names under \<^verbatim>\<open>gdriver-daemon/src/sync\<close>, one definition per function. The event loop of
    \<^verbatim>\<open>engine.rs\<close> is the step relation \<open>engine_step\<close>, and \<open>run_events\<close> its run on a sequence of events.
  \<^item> \<open>Vfs_Db\<close>, \<open>Vfs_Linux\<close>: \<^verbatim>\<open>gdriver-vfs/src/db.rs\<close> and \<^verbatim>\<open>linux.rs\<close>, one definition per query and per FUSE
    callback; \<open>vfs_session\<close> serves a sequence of kernel requests. It shares the database and the
    file system with the engine, whose work while a read waits is the argument \<open>others\<close>.
  \<^item> \<open>Watcher\<close>: \<^verbatim>\<open>gdriver-daemon/src/watcher/mod.rs\<close>: the watched folders, the first scan, debouncing, the
    translation of events into tasks, and the loop.
  \<^item> \<open>Json\<close>, \<open>Ipc_Types\<close>: JSON values and what the sources use of \<^verbatim>\<open>serde_json\<close>; \<^verbatim>\<open>gdriver-ipc/src/types.rs\<close> and
    \<^verbatim>\<open>methods.rs\<close>: the messages of JSON-RPC, the domain types with their JSON form, the push events.
  \<^item> \<open>Config\<close>: the preferences and \<^verbatim>\<open>gdriver-daemon/src/config/mod.rs\<close>; the TOML codec is a parameter.
  \<^item> \<open>Ipc_Handlers\<close>: \<^verbatim>\<open>gdriver-daemon/src/ipc/handlers.rs\<close> and \<^verbatim>\<open>api/mod.rs\<close>: the router state around the world and one
    definition per method, with \<open>dispatch\<close> and the end of a login. The about request, the start of the login, the
    directories of the user and the reader of JSON text are parameters.
  \<^item> \<open>Ipc_Server\<close>: \<^verbatim>\<open>ipc/server.rs\<close> and \<^verbatim>\<open>gdriver-ipc/src/client.rs\<close>: a connection as a run over what its \<^verbatim>\<open>select!\<close> sees
    (bytes, polls, pushes, the end), and the call of the blocking client.
  \<^item> \<open>Oauth\<close>: the login of \<^verbatim>\<open>gdriver-api/src/auth.rs\<close>: PKCE, the authorisation URL, the server that takes the redirect, the
    check of the state and the exchange of the code. Randomness, SHA-256, base64, URLs and the listening socket are the
    record \<open>oauth_lib\<close>.
  \<^item> \<open>Daemon\<close>: \<^verbatim>\<open>gdriver-daemon/src/main.rs\<close> and \<^verbatim>\<open>db/mod.rs\<close>: \<open>boot\<close> is the start, \<open>daemon\<close> the state of a process (router, connections,
    engine, watcher, mounted file system, phase of \<^verbatim>\<open>main\<close>), \<open>daemon_step\<close> one handler of one of its tasks, with the channels
    between them: commands, reload signals, watcher tasks (128), pushes (256). \<open>daemon_lives\<close> runs one process after another on
    the database and the files they leave.
  \<^item> \<open>App_Client\<close>: the desktop application's connection, \<^verbatim>\<open>src/apps/gdriver-app/src-tauri/src/daemon_client.rs\<close> and the connecting task of
    \<^verbatim>\<open>lib.rs\<close>: the calls in flight with their one-shot channels, the reader and the writer task as steps (\<open>app_step\<close>) in any order.
    \<open>App_Commands\<close>: \<^verbatim>\<open>commands.rs\<close>, one definition per command, with \<open>invoke\<close> for the handler list, and \<^verbatim>\<open>tray.rs\<close>. Waiting for the
    connection, calling, starting programs and leaving are the record \<open>app_env\<close>, which \<open>over_daemon\<close> makes out of the handlers.
  \<^item> \<open>Ipc_Ffi\<close>: the C interface of \<^verbatim>\<open>gdriver-ipc/src/client.rs\<close>. \<open>Shell_Windows\<close>: the Explorer extension,
    \<^verbatim>\<open>src/extensions/windows-shell/src\<close>: its client, the overlays, the context menu.
  \<^item> \<open>Vfs_Mac\<close>: \<^verbatim>\<open>gdriver-vfs/src/macos.rs\<close>: its own copy of every FUSE callback, the choice of the backend and the mount.
    \<open>Platform\<close>: \<^verbatim>\<open>gdriver-daemon/src/platform\<close>: starting at login and the texts of notifications.

  \<^bold>\<open>Failures, crashes and loops.\<close> Database statements and file-system calls are numbered along a run.
  The world says which of them fail (\<open>w_fault\<close>), what the clock reads at each (\<open>w_clock\<close>), and from which
  number on nothing happens any more (\<open>w_limit\<close>). A property for every world is therefore a property of
  every pattern of failures and of every moment at which the daemon is killed. Loops that call a service
  in each round take as fuel the operations left before the limit plus one, which cannot run out
  before the limit does; the walk up the parent folders, which makes a database statement per
  round, takes the same. A loop that would not end is one that reaches every limit, and the properties
  that promise a result state how many operations suffice (\<open>can_run\<close>).

  \<^bold>\<open>What is proved.\<close>

  \<^item> \<open>Frames\<close> and \<open>Frame_Props\<close>: a locale for each layer (steps of one task, of a poll, of the whole
    engine) lifts a preorder on worlds from the primitive statements to every run of the engine. Its
    interpretations give the integrity of the database, the bound on retries, that settled tasks stay as
    they are, that a task touches no other task, and which tables the engine may write.
  \<^item> \<open>Outcomes\<close>: a calculus for the outcome of one operation, for all runs and for runs without faults.
    \<open>Upload_Props\<close>: what a small upload does, that a large upload transfers the file to every server
    that keeps the resumable protocol (\<open>resumable_contract\<close>), and the reply the code loses.
    \<open>Download_Props\<close>: downloads replace their target atomically and deliver the whole body.
    \<open>Conflict_Props\<close>: a conflict never loses the local version.
  \<^item> \<open>Changes_Props\<close>: the page token moves only after a complete poll, the effect of each kind of change,
    the downloads of mirror mode, and the path of a file in the folder tree.
  \<^item> \<open>Engine_Props\<close>: the state machine announces its states, pausing stops it, and three ways in which it
    does less than it means to. \<open>Db_Props\<close>: the queue serves by priority and age, the file table is a map,
    what deleting an account removes. \<open>Sync_Core\<close>: chunk ranges tile a file.
  \<^item> \<open>Api_Props\<close>: requests are bounded, transient errors and expired tokens are survived, query strings can be
    read back, a server that keeps the resumable protocol over HTTP receives the whole file (the contract
    of \<open>Upload_Props\<close> is discharged for \<open>api_services\<close>), and the etags that are never asked for.
  \<^item> \<open>Vfs_Props\<close>: the locale \<open>vfs_frame\<close> lifts the same preorders to sessions of the file system; handles are
    never confused. \<open>Vfs_Effects\<close>: directories are listed completely, a new file can be found, written and
    read back, and how writing, closing, renaming, deleting and the root fall short of a file system.
    \<open>Vfs_Demand\<close>: a read of a cloud-only file, with the engine beside it, returns the bytes of Drive.
  \<^item> \<open>Watcher_Props\<close>: debouncing neither floods nor forgets, the owner of a path is its nearest watched ancestor,
    the first scan misses no file. \<open>Lifecycle_Props\<close>: a watched file that is uploaded and then deleted.
  \<^item> \<open>Ipc_Walk\<close>, \<open>Ipc_Frames\<close>: the locale \<open>router_walk\<close> lifts a relation on worlds along the combinators of the handlers,
    \<open>router_frame\<close> to every method and connection; \<open>Ipc_Props\<close> interprets it for the integrity of the database and
    the growth of the queue. \<open>Ipc_Errors\<close>: the locale \<open>error_class\<close>; a refused request has changed nothing.
    \<open>Ipc_Codec_Props\<close>: what is written as JSON is read back. \<open>Ipc_Connection\<close>: lines are served in order however
    they arrive, a call yields what the handler returned, and how a push or a late reply breaks that.
  \<^item> \<open>Config_Props\<close>: saving the preferences is atomic in every run. \<open>Ipc_Requests\<close>: queries change nothing, folders,
    accounts, counts. \<open>Ipc_Effects\<close>: what requests lead to in the engine: the mode switch that migrates nothing,
    the edits that stay local, the placeholders no path finds.
  \<^item> \<open>Oauth_Props\<close>: a code is exchanged only for the state of its own login, and a login that is answered yields the tokens.
  \<^item> \<open>Daemon_Props\<close>: the locale \<open>daemon_frame\<close> joins the frames of the engine, the router and the file system, \<open>life_frame\<close>
    carries them over restarts. Its interpretations give the integrity of the database, that no task is lost, and that a task
    in progress is never resumed, in every interleaving and over any number of lives; further, that pushes reach the clients
    in order, that an interrupted daemon never exits, and that mirror mode misses the mounted directory.
  \<^item> \<open>App_Props\<close>: a call of the application is answered by its id; any number of calls over one connection of the daemon each
    get the result of their own handler, and every window every push; a call made after the end of the connection waits for
    ever. \<open>App_Command_Props\<close>: the commands make requests the daemon accepts; the tray pauses and never resumes, does not see
    the status and opens the folder with its tilde.
  \<^item> \<open>Shell_Windows\<close>: however its bytes are cut, the extension asks for methods the daemon does not have. \<open>Vfs_Mac\<close>: sessions
    of the two file systems are equal but for one error number. \<open>Platform\<close>: escaped texts are read back as they were.
  \<^item> \<open>Samples\<close>, \<open>Ipc_Samples\<close>: small concrete databases, worlds, routers and codecs on which the properties are
    evaluated.

  \<^bold>\<open>Limits of the model.\<close> A table is scanned in insertion order, which SQLite does not promise where a
  query has no ORDER BY or its keys tie. The text of error messages of the operating system is
  representative. A 401 refresh inside a request belongs to the services here: it does not update the
  token cache. The MD5 comparison after a download only logs and is left out, as are log messages.
  A write through FUSE takes all its bytes at once; the instants of the watcher are those its events
  carry, and the depth of a folder tree bounds the first scan (\<open>scan_enqueues_every_file\<close> asks for a rank
  below it). HashMaps are lists in the order they are iterated, and no statement depends on that order.

  The integers of JSON are those that fit \<^verbatim>\<open>i64\<close> or \<^verbatim>\<open>u64\<close>, and \<^verbatim>\<open>f32\<close> values are their bits. A handler runs to its end
  before the next event of its connection, as it does in the code. In \<open>Daemon\<close> the handlers of different tasks follow each
  other in any order; they are not interleaved inside, except that the engine works while a read of the file system waits.
  The statements that hold for every relation closed under the single database statements (\<open>life_frame\<close>) do not depend on that.
  The first scan of the watcher is sent at once, where the code waits for room in the channel. A login may end at any time;
  that it was begun is not recorded. The schema migrations are taken as done. The platform is Linux.

  A call of the application takes its id, enters the map and sends its line in one step; two tasks that call at once could take
  ids in one order and send in the other, which no statement depends on. The drain of the pending calls, in the order of a
  HashMap, settles each once. A session of the extension or the application ends its input with the list of its reads.

  Not modelled: the WinFsp file system of Windows, whose code does not type-check under the feature that enables it
  (\<^verbatim>\<open>gdriver-vfs/src/windows.rs\<close>: a \<^verbatim>\<open>u64\<close> is added to an \<^verbatim>\<open>i64\<close>, handles without \<^verbatim>\<open>Clone\<close> are cloned), the session of \<^verbatim>\<open>fuser\<close> and the
  \<^verbatim>\<open>fusermount\<close> command, the XPC service of macOS, which acknowledges messages and does nothing with them, the named pipe of
  Windows, the registration of the Explorer extension with COM and its use of the clipboard, Tauri with its plugins and
  windows, and the front end, which is not Rust.
\<close>

end
